(* ===== verification/SDB_Prelude.thy ===== *)
theory SDB_Prelude
  imports Main "HOL-Library.Word" "HOL-Library.Signed_Division"
begin

text \<open>
  Shared vocabulary of the SynchDB development: the result type of code that can
  raise, the part of the C library the sources use on strings and numbers
  (\<^verbatim>\<open>strchr\<close>, \<^verbatim>\<open>strstr\<close>, \<^verbatim>\<open>strcasecmp\<close>, \<^verbatim>\<open>strtok\<close>, \<^verbatim>\<open>snprintf("%d")\<close>,
  \<^verbatim>\<open>atoll\<close>), the record of PostgreSQL routines that are not part of this repository
  and therefore stay parameters, the named theorem collections, and the generic lemmas the
  components share.
\<close>

named_theorems c_simps \<open>evaluation rules of the C library model\<close>
named_theorems conv_defs \<open>definitions of the value converters\<close>
named_theorems shm_defs \<open>definitions of the shared memory accessors\<close>

section \<open>Results\<close>

text \<open>
  \<open>PgError e m\<close> is \<^verbatim>\<open>elog(ERROR, m)\<close>, which unwinds the call stack; \<open>e\<close> is the text
  the code stored with \<^verbatim>\<open>set_shm_connector_errmsg\<close> just before, if it did.
  \<open>Undefined w\<close> is undefined behaviour of the C program (a null pointer or an
  out-of-range access, an over-wide shift): no claim is made about what follows.
\<close>

datatype pg_error =
    PgError "string option" string
  | Undefined string

type_synonym 'a res = "pg_error + 'a"

type_synonym byte = "8 word"

definition rbind :: "'a res \<Rightarrow> ('a \<Rightarrow> 'b res) \<Rightarrow> 'b res" where
  "rbind m f = (case m of Inl e \<Rightarrow> Inl e | Inr x \<Rightarrow> f x)"

lemma rbind_Inr [simp]: "rbind (Inr x) f = f x"
  by (simp add: rbind_def)

lemma rbind_Inl [simp]: "rbind (Inl e) f = Inl e"
  by (simp add: rbind_def)

lemma rbind_eq_Inr [simp]: "rbind m f = Inr y \<longleftrightarrow> (\<exists>x. m = Inr x \<and> f x = Inr y)"
  by (cases m) auto

lemma rbind_assoc: "rbind (rbind m f) g = rbind m (\<lambda>x. rbind (f x) g)"
  by (cases m) simp_all

fun rmap :: "('a \<Rightarrow> 'b res) \<Rightarrow> 'a list \<Rightarrow> 'b list res" where
  "rmap f [] = Inr []"
| "rmap f (x # xs) = rbind (f x) (\<lambda>y. rbind (rmap f xs) (\<lambda>ys. Inr (y # ys)))"

lemma rmap_in_ys: "rmap f xs = Inr ys \<Longrightarrow> y \<in> set ys \<Longrightarrow> \<exists>x \<in> set xs. f x = Inr y"
  by (induction xs arbitrary: ys) auto

lemma rmap_length: "rmap f xs = Inr ys \<Longrightarrow> length ys = length xs"
  by (induction xs arbitrary: ys) auto

lemma rmap_nth: "rmap f xs = Inr ys \<Longrightarrow> i < length xs \<Longrightarrow> f (xs ! i) = Inr (ys ! i)"
  by (induction xs arbitrary: ys i) (auto simp: nth_Cons split: nat.splits)

fun rfold :: "('a \<Rightarrow> 's \<Rightarrow> 's res) \<Rightarrow> 'a list \<Rightarrow> 's \<Rightarrow> 's res" where
  "rfold f [] s = Inr s"
| "rfold f (x # xs) s = rbind (f x s) (rfold f xs)"

fun rexists :: "('a \<Rightarrow> bool res) \<Rightarrow> 'a list \<Rightarrow> bool res" where
  "rexists p [] = Inr False"
| "rexists p (x # xs) = rbind (p x) (\<lambda>b. if b then Inr True else rexists p xs)"

lemma rexists_pure: "(\<And>x. x \<in> set xs \<Longrightarrow> p x = Inr (q x)) \<Longrightarrow> rexists p xs = Inr (list_ex q xs)"
  by (induction xs) auto

lemma rfold_append: "rfold f (xs @ ys) s = rbind (rfold f xs s) (rfold f ys)"
proof (induction xs arbitrary: s)
  case (Cons x xs)
  then show ?case by (cases "f x s") simp_all
qed simp

text \<open>An invariant of every step is an invariant of the loop.\<close>

lemma rfold_invariant:
  assumes "rfold f xs s = Inr s'" and "P s" and "\<And>x s s'. x \<in> set xs \<Longrightarrow> f x s = Inr s' \<Longrightarrow> P s \<Longrightarrow> P s'"
  shows "P s'"
  using assms
proof (induction xs arbitrary: s)
  case (Cons x xs)
  then obtain s1 where "f x s = Inr s1" and "rfold f xs s1 = Inr s'" by auto
  with Cons show ?case by (metis list.set_intros)
qed simp

section \<open>PostgreSQL routines that are parameters\<close>

text \<open>
  A value of the \<^verbatim>\<open>jsonb\<close> data model and the tokens of its iterator. How text becomes such a
  value, how a path is looked up in it and how it is printed are PostgreSQL's routines: they
  are fields of \<open>pg_lib\<close>, with the replacement of a member and the conversion of a
  numeric to 64 bits, together with PostgreSQL's case folding and base64 decoding
  (\<open>None\<close> is the return value -1, after which the output buffer is zero-filled) and the macro
  that reads the fields of an interval from a type modifier (the fields from the coarsest on),
  with the largest length of a type, the two constants PostgreSQL counts a year and a month by, and the execution of a
  \<^verbatim>\<open>SELECT\<close> (the first column of its rows, a null as \<open>None\<close>, no rows when it does not succeed).
\<close>

datatype jsonb = JNull | JBool bool | JNumeric string | JString string
  | JArray "jsonb list" | JObject "(string \<times> jsonb) list"

datatype jsonb_token = WJB_BEGIN_ARRAY | WJB_END_ARRAY | WJB_ELEM jsonb | WJB_VALUE jsonb
  | WJB_BEGIN_OBJECT | WJB_END_OBJECT | WJB_KEY string

datatype interval_field = IF_YEAR | IF_MONTH | IF_DAY | IF_HOUR | IF_MINUTE | IF_SECOND

datatype interval_range = INTERVAL_FULL_RANGE | INTERVAL_FIELDS "interval_field list"

record pg_lib =
  pg_tolower :: "char \<Rightarrow> char"
  pg_toupper :: "char \<Rightarrow> char"
  pg_b64_dec_len :: "nat \<Rightarrow> nat"
  pg_b64_decode :: "string \<Rightarrow> byte list option"
  jsonb_in :: "string \<Rightarrow> jsonb option"
  jsonb_get_element :: "jsonb \<Rightarrow> string list \<Rightarrow> jsonb option"
  JsonbToCString :: "jsonb \<Rightarrow> string"
  JsonbIterator :: "jsonb \<Rightarrow> jsonb_token list"
  jsonb_set :: "jsonb \<Rightarrow> string list \<Rightarrow> jsonb \<Rightarrow> jsonb"
  numeric_int8 :: "string \<Rightarrow> 64 word"
  INTERVAL_RANGE :: "int \<Rightarrow> interval_range"
  SPI_select :: "string \<Rightarrow> string option list res"
  MaxAttrSize :: int
  SECS_PER_YEAR :: int
  DAYS_PER_MONTH :: int

section \<open>Decimal numerals\<close>

definition c_digit :: "nat \<Rightarrow> char" where
  "c_digit d = char_of (48 + d)"

definition digit_val :: "char \<Rightarrow> nat" where
  "digit_val c = of_char c - 48"

definition is_digit :: "char \<Rightarrow> bool" where
  "is_digit c \<longleftrightarrow> 48 \<le> (of_char c :: nat) \<and> (of_char c :: nat) \<le> 57"

lemma digit_val_c_digit [simp]: "d < 10 \<Longrightarrow> digit_val (c_digit d) = d"
  by (simp add: digit_val_def c_digit_def)

lemma is_digit_c_digit [simp]: "d < 10 \<Longrightarrow> is_digit (c_digit d)"
  by (simp add: is_digit_def c_digit_def)

lemma c_digit_eq_0_iff [simp]: "d < 10 \<Longrightarrow> c_digit d = c_digit 0 \<longleftrightarrow> d = 0"
  by (metis digit_val_c_digit zero_less_numeral)

lemma c_digit_0 [simp]: "c_digit 0 = CHR ''0''"
  by code_simp

lemma c_digit_eval [c_simps]:
  "c_digit 1 = CHR ''1''" "c_digit (Suc 0) = CHR ''1''" "c_digit 2 = CHR ''2''"
  "c_digit 3 = CHR ''3''" "c_digit 4 = CHR ''4''" "c_digit 5 = CHR ''5''" "c_digit 6 = CHR ''6''"
  "c_digit 7 = CHR ''7''" "c_digit 8 = CHR ''8''" "c_digit 9 = CHR ''9''"
  by code_simp+

text \<open>\<^verbatim>\<open>%d\<close>, \<^verbatim>\<open>%ld\<close>, \<^verbatim>\<open>%llu\<close>: the decimal numeral of a number, without padding.\<close>

fun show_nat :: "nat \<Rightarrow> string" where
  "show_nat n = (if n < 10 then [c_digit n] else show_nat (n div 10) @ [c_digit (n mod 10)])"

declare show_nat.simps [simp del]

definition show_int :: "int \<Rightarrow> string" where
  "show_int i = (if i < 0 then ''-'' @ show_nat (nat (- i)) else show_nat (nat i))"

text \<open>\<^verbatim>\<open>%0wd\<close>: zero padding to the width \<open>w\<close>, the sign counted.\<close>

definition pad0 :: "nat \<Rightarrow> string \<Rightarrow> string" where
  "pad0 w s = replicate (w - length s) (CHR ''0'') @ s"

definition fmt_0d :: "nat \<Rightarrow> int \<Rightarrow> string" where
  "fmt_0d w i = (if i < 0 then ''-'' @ pad0 (w - 1) (show_nat (nat (- i))) else pad0 w (show_nat (nat i)))"

text \<open>The number a digit string denotes.\<close>

definition nat_of_dec :: "string \<Rightarrow> nat" where
  "nat_of_dec s = foldl (\<lambda>a c. 10 * a + digit_val c) 0 s"

lemma nat_of_dec_Nil [simp]: "nat_of_dec [] = 0"
  by (simp add: nat_of_dec_def)

lemma nat_of_dec_snoc [simp]: "nat_of_dec (s @ [c]) = 10 * nat_of_dec s + digit_val c"
  by (simp add: nat_of_dec_def)

lemma nat_of_dec_append:
  "nat_of_dec (s @ t) = nat_of_dec s * 10 ^ length t + nat_of_dec t"
proof (induction t rule: rev_induct)
  case (snoc c t)
  have "nat_of_dec (s @ t @ [c]) = 10 * nat_of_dec (s @ t) + digit_val c"
    using nat_of_dec_snoc [of "s @ t" c] by simp
  with snoc show ?case by (simp add: algebra_simps)
qed simp

lemma digit_val_CHR_0 [simp]: "digit_val (CHR ''0'') = 0"
  by (simp add: digit_val_def)

lemma nat_of_dec_zeros [simp]: "nat_of_dec (replicate n (CHR ''0'') @ s) = nat_of_dec s"
proof -
  have "nat_of_dec (replicate n (CHR ''0'')) = 0"
    by (induction n) (simp_all add: nat_of_dec_def)
  then show ?thesis by (simp add: nat_of_dec_append)
qed

lemma nat_of_dec_pad0 [simp]: "nat_of_dec (pad0 w s) = nat_of_dec s"
  by (simp add: pad0_def)

lemma nat_of_dec_show_nat [simp]: "nat_of_dec (show_nat n) = n"
proof (induction n rule: show_nat.induct)
  case (1 n)
  then show ?case
    by (subst show_nat.simps) (auto simp: nat_of_dec_def)
qed

lemma show_nat_digits: "c \<in> set (show_nat n) \<Longrightarrow> is_digit c"
proof (induction n rule: show_nat.induct)
  case (1 n)
  then show ?case
    by (subst (asm) (2) show_nat.simps) (auto split: if_splits)
qed

lemma show_nat_nonempty [simp]: "show_nat n \<noteq> []"
  by (subst show_nat.simps) simp

lemma show_nat_inject [simp]: "show_nat m = show_nat n \<longleftrightarrow> m = n"
  by (metis nat_of_dec_show_nat)

lemma show_nat_hd: "0 < n \<Longrightarrow> hd (show_nat n) \<noteq> CHR ''0''"
proof (induction n rule: show_nat.induct)
  case (1 n)
  show ?case
  proof (cases "n < 10")
    case True
    with 1(2) show ?thesis
      by (subst show_nat.simps) (simp flip: c_digit_0)
  next
    case False
    with 1 show ?thesis by (subst show_nat.simps) simp
  qed
qed

lemma length_show_nat_le:
  assumes "n < 10 ^ k" and "0 < k"
  shows "length (show_nat n) \<le> k"
  using assms
proof (induction n arbitrary: k rule: show_nat.induct)
  case (1 n)
  show ?case
  proof (cases "n < 10")
    case True
    with 1(3) show ?thesis by (subst show_nat.simps) simp
  next
    case False
    from 1(3) obtain j where k: "k = Suc j" by (cases k) auto
    with False 1(2) have "j \<noteq> 0" by (intro notI) simp
    with k have j: "k = Suc j" "0 < j" by simp_all
    with False 1(2) have "n div 10 < 10 ^ j"
      by (simp add: less_mult_imp_div_less mult.commute)
    with 1(1) False j have "length (show_nat (n div 10)) \<le> j" by simp
    with False j show ?thesis by (subst show_nat.simps) simp
  qed
qed

section \<open>C strings\<close>

text \<open>
  A C string is the list of its characters before the terminating null; a pointer that may be
  null is an \<^typ>\<open>string option\<close>. \<open>strcaseeq\<close> is \<^verbatim>\<open>!strcasecmp(s, t)\<close>.
\<close>

definition c_tolower :: "char \<Rightarrow> char" where
  "c_tolower c = (if 65 \<le> (of_char c :: nat) \<and> (of_char c :: nat) \<le> 90
                  then char_of ((of_char c :: nat) + 32) else c)"

definition strcaseeq :: "string \<Rightarrow> string \<Rightarrow> bool" where
  "strcaseeq s t \<longleftrightarrow> map c_tolower s = map c_tolower t"

definition isalnum :: "char \<Rightarrow> bool" where
  "isalnum c \<longleftrightarrow> (let n = (of_char c :: nat) in
     48 \<le> n \<and> n \<le> 57 \<or> 65 \<le> n \<and> n \<le> 90 \<or> 97 \<le> n \<and> n \<le> 122)"

definition isspace :: "char \<Rightarrow> bool" where
  "isspace c \<longleftrightarrow> (let n = (of_char c :: nat) in n = 32 \<or> 9 \<le> n \<and> n \<le> 13)"

text \<open>Evaluation on character literals, whose eight bits are explicit.\<close>

lemma c_tolower_Char [c_simps]:
  "c_tolower (Char b0 b1 b2 b3 b4 b5 b6 b7) =
     (if \<not> b7 \<and> b6 \<and> \<not> b5 \<and> (b0 \<or> b1 \<or> b2 \<or> b3 \<or> b4) \<and> \<not> (b4 \<and> b3 \<and> (b2 \<or> b1 \<and> b0))
      then Char b0 b1 b2 b3 b4 True b6 b7 else Char b0 b1 b2 b3 b4 b5 b6 b7)"
  by (cases b0; cases b1; cases b2; cases b3; cases b4; cases b5; cases b6; cases b7;
      simp add: c_tolower_def char_of_def bit_0)

lemma is_digit_Char [c_simps]:
  "is_digit (Char b0 b1 b2 b3 b4 b5 b6 b7) \<longleftrightarrow>
     \<not> b7 \<and> \<not> b6 \<and> b5 \<and> b4 \<and> \<not> (b3 \<and> (b2 \<or> b1))"
  by (cases b0; cases b1; cases b2; cases b3; cases b4; cases b5; cases b6; cases b7;
      simp add: is_digit_def)

text \<open>\<^verbatim>\<open>strstr\<close> and \<^verbatim>\<open>strchr\<close>: the suffix that starts at the first occurrence.\<close>

fun strstr :: "string \<Rightarrow> string \<Rightarrow> string option" where
  "strstr [] needle = (if needle = [] then Some [] else None)"
| "strstr (c # cs) needle =
     (if take (length needle) (c # cs) = needle then Some (c # cs) else strstr cs needle)"

fun strchr :: "string \<Rightarrow> char \<Rightarrow> string option" where
  "strchr [] c = None"
| "strchr (x # xs) c = (if x = c then Some (x # xs) else strchr xs c)"

lemma strchr_None_iff: "strchr s c = None \<longleftrightarrow> c \<notin> set s"
  by (induction s) auto

lemma strchr_SomeD: "strchr s c = Some t \<Longrightarrow> \<exists>u. s = u @ t \<and> c \<notin> set u \<and> (\<exists>v. t = c # v)"
proof (induction s)
  case (Cons x xs)
  then show ?case
    by (cases "x = c") (auto intro: exI [of _ "x # _"] dest: Cons.IH)
qed simp

lemma strchr_length: "strchr s c = Some t \<Longrightarrow> t \<noteq> [] \<and> length t \<le> length s"
  by (auto dest: strchr_SomeD)

lemma strstr_SomeD: "strstr s n = Some t \<Longrightarrow> \<exists>u v. s = u @ t \<and> t = n @ v"
proof (induction s)
  case (Cons x xs)
  show ?case
  proof (cases "take (length n) (x # xs) = n")
    case True
    with Cons.prems have "t = x # xs" by simp
    moreover from True have "x # xs = n @ drop (length n) (x # xs)"
      by (metis append_take_drop_id)
    ultimately show ?thesis by (metis append_Nil)
  next
    case False
    with Cons.prems have "strstr xs n = Some t" by simp
    from Cons.IH [OF this] show ?thesis by (metis append_Cons)
  qed
qed (simp split: if_splits)

text \<open>
  \<^verbatim>\<open>strtok(s, d)\<close> followed by \<^verbatim>\<open>strtok(NULL, d)\<close> until null, for a delimiter set of one
  character: the maximal runs of other characters, in order. The list accumulates the current
  run.
\<close>

fun split_on :: "char \<Rightarrow> string \<Rightarrow> string list" where
  "split_on d [] = [[]]"
| "split_on d (c # cs) =
     (if c = d then [] # split_on d cs
      else case split_on d cs of [] \<Rightarrow> [[c]] | w # ws \<Rightarrow> (c # w) # ws)"

definition strtok_all :: "char \<Rightarrow> string \<Rightarrow> string list" where
  "strtok_all d s = filter (\<lambda>w. w \<noteq> []) (split_on d s)"

definition tok :: "string list \<Rightarrow> nat \<Rightarrow> string option" where
  "tok ws i = (if i < length ws then Some (ws ! i) else None)"

lemma split_on_nonempty [simp]: "split_on d s \<noteq> []"
  by (induction s) (auto split: list.splits)

lemma split_on_no_delim: "d \<notin> set s \<Longrightarrow> split_on d s = [s]"
  by (induction s) auto

lemma split_on_append: "d \<notin> set s \<Longrightarrow> split_on d (s @ d # t) = s # split_on d t"
  by (induction s) auto

lemma split_on_pieces: "w \<in> set (split_on d s) \<Longrightarrow> d \<notin> set w"
proof (induction s arbitrary: w)
  case (Cons c cs)
  then show ?case
    by (cases "split_on d cs") (auto split: if_splits)
qed simp

lemma length_split_on: "length (split_on d s) = Suc (count_list s d)"
proof (induction s)
  case (Cons c cs)
  then show ?case by (cases "split_on d cs") auto
qed simp

text \<open>
  \<^verbatim>\<open>atoll\<close> and \<^verbatim>\<open>strtoull\<close> as glibc computes them (blanks, a sign, digits, saturation) and
  \<^verbatim>\<open>atoi\<close>, which truncates the \<^verbatim>\<open>long\<close> to 32 bits.
\<close>

definition strtol_int :: "string \<Rightarrow> int" where
  "strtol_int s =
     (let s1 = dropWhile isspace s;
          neg = (s1 \<noteq> [] \<and> hd s1 = CHR ''-'');
          s2 = (if s1 \<noteq> [] \<and> (hd s1 = CHR ''-'' \<or> hd s1 = CHR ''+'') then tl s1 else s1);
          v = int (nat_of_dec (takeWhile is_digit s2))
      in if neg then - v else v)"

definition atoll :: "string \<Rightarrow> int" where
  "atoll s = max (- (2 ^ 63)) (min (2 ^ 63 - 1) (strtol_int s))"

definition atoi :: "string \<Rightarrow> int" where
  "atoi s = sint (word_of_int (atoll s) :: 32 word)"

definition strtoull :: "string \<Rightarrow> 64 word" where
  "strtoull s =
     (let s1 = dropWhile isspace s;
          neg = (s1 \<noteq> [] \<and> hd s1 = CHR ''-'');
          s2 = (if s1 \<noteq> [] \<and> (hd s1 = CHR ''-'' \<or> hd s1 = CHR ''+'') then tl s1 else s1);
          v = nat_of_dec (takeWhile is_digit s2)
      in if 2 ^ 64 \<le> v then - 1 else if neg then - word_of_nat v else word_of_nat v)"

lemma takeWhile_is_digit_show_nat: 
  "\<not> is_digit c \<Longrightarrow> takeWhile is_digit (show_nat n @ c # t) = show_nat n"
  by (subst takeWhile_append2) (auto dest: show_nat_digits)

lemma takeWhile_is_digit_show_nat_end [simp]: "takeWhile is_digit (show_nat n) = show_nat n"
  by (rule takeWhile_eq_all_conv [THEN iffD2]) (blast dest: show_nat_digits)

lemma digit_not_blank_or_sign: "is_digit c \<Longrightarrow> \<not> isspace c \<and> c \<noteq> CHR ''-'' \<and> c \<noteq> CHR ''+''"
  by (auto simp: is_digit_def isspace_def)

lemma strtoull_show_nat:
  assumes "n < 2 ^ 64" and "t = [] \<or> \<not> is_digit (hd t)"
  shows "strtoull (show_nat n @ t) = word_of_nat n"
proof -
  obtain d ds where d: "show_nat n = d # ds" using show_nat_nonempty [of n] by (cases "show_nat n") auto
  then have "is_digit d" using show_nat_digits [of d n] by simp
  note d0 = digit_not_blank_or_sign [OF this]
  have tw: "takeWhile is_digit (show_nat n @ t) = show_nat n"
    using assms(2) takeWhile_is_digit_show_nat by (cases t) auto
  have "strtoull (show_nat n @ t) =
      (let v = nat_of_dec (takeWhile is_digit (show_nat n @ t)) in if 2 ^ 64 \<le> v then - 1 else word_of_nat v)"
    unfolding strtoull_def Let_def using d d0 by simp
  then show ?thesis using assms(1) by (simp add: tw)
qed

lemma strstr_skip: "n \<noteq> [] \<Longrightarrow> hd n \<notin> set u \<Longrightarrow> strstr (u @ v) n = strstr v n"
proof (induction u)
  case (Cons x u)
  then have "take (length n) (x # u @ v) \<noteq> n" by (cases n) auto
  then show ?case using Cons by simp
qed simp

text \<open>
  The bounded copies: \<^verbatim>\<open>snprintf(buf, n, "%s", s)\<close> and \<^verbatim>\<open>strlcpy(buf, s, n)\<close> keep
  \<open>n - 1\<close> characters.
\<close>

definition strlcpy :: "nat \<Rightarrow> string \<Rightarrow> string" where
  "strlcpy n s = take (n - 1) s"

lemma strlcpy_id [simp]: "length s < n \<Longrightarrow> strlcpy n s = s"
  by (simp add: strlcpy_def)

lemma length_strlcpy: "0 < n \<Longrightarrow> length (strlcpy n s) < n"
  by (auto simp: strlcpy_def)

section \<open>A concrete instance of the library parameters\<close>

text \<open>
  RFC 4648 base64 decoding and ASCII case folding, with a JSON side that knows no document: the
  instance at which the hypotheses about the parameters are shown to hold.
\<close>

definition b64_val :: "char \<Rightarrow> nat option" where
  "b64_val c = (let n = (of_char c :: nat) in
     if 65 \<le> n \<and> n \<le> 90 then Some (n - 65)
     else if 97 \<le> n \<and> n \<le> 122 then Some (n - 71)
     else if 48 \<le> n \<and> n \<le> 57 then Some (n + 4)
     else if n = 43 then Some 62 else if n = 47 then Some 63 else None)"

fun b64_decode :: "string \<Rightarrow> byte list option" where
  "b64_decode [] = Some []"
| "b64_decode (a # b # c # d # rest) =
     (case (b64_val a, b64_val b) of
        (Some x, Some y) \<Rightarrow>
          (if c = CHR ''='' then
             (if d = CHR ''='' \<and> rest = [] then Some [word_of_nat (4 * x + y div 16)] else None)
           else case b64_val c of None \<Rightarrow> None
             | Some z \<Rightarrow>
               (if d = CHR ''='' then
                  (if rest = [] then Some [word_of_nat (4 * x + y div 16),
                     word_of_nat (16 * (y mod 16) + z div 4)] else None)
                else case b64_val d of None \<Rightarrow> None
                  | Some u \<Rightarrow> map_option (\<lambda>bs. word_of_nat (4 * x + y div 16) #
                      word_of_nat (16 * (y mod 16) + z div 4) # word_of_nat (64 * (z mod 4) + u) # bs)
                      (b64_decode rest)))
      | _ \<Rightarrow> None)"
| "b64_decode _ = None"

definition c_toupper :: "char \<Rightarrow> char" where
  "c_toupper c = (if 97 \<le> (of_char c :: nat) \<and> (of_char c :: nat) \<le> 122
                  then char_of ((of_char c :: nat) - 32) else c)"

definition ascii_lib :: pg_lib where
  "ascii_lib = \<lparr>pg_tolower = c_tolower, pg_toupper = c_toupper,
     pg_b64_dec_len = (\<lambda>n. n * 3 div 4), pg_b64_decode = b64_decode,
     jsonb_in = (\<lambda>_. None), jsonb_get_element = (\<lambda>_ _. None), JsonbToCString = (\<lambda>_. []),
     JsonbIterator = (\<lambda>_. []), jsonb_set = (\<lambda>j _ _. j), numeric_int8 = (\<lambda>s. word_of_int (atoll s)), INTERVAL_RANGE = (\<lambda>_. INTERVAL_FULL_RANGE),
     SPI_select = (\<lambda>_. Inr []), MaxAttrSize = 10485760, SECS_PER_YEAR = 31557600, DAYS_PER_MONTH = 30\<rparr>"

section \<open>Interfaces shared by the components\<close>

text \<open>
  An encoder with a decoder that reads its output back on the values \<open>wf\<close> admits. Every
  printed representation the program relies on being read back by someone (an SQL literal,
  a hex byte string, a decimal numeral, an offset file) is an instance; what clients need of
  it is that the encoding loses nothing.
\<close>

locale codec =
  fixes enc :: "'a \<Rightarrow> 'b" and dec :: "'b \<Rightarrow> 'a option" and wf :: "'a \<Rightarrow> bool"
  assumes dec_enc: "wf x \<Longrightarrow> dec (enc x) = Some x"
begin

lemma enc_inject: "wf x \<Longrightarrow> wf y \<Longrightarrow> enc x = enc y \<longleftrightarrow> x = y"
  by (metis dec_enc option.inject)

lemma enc_inj_on: "inj_on enc {x. wf x}"
  by (auto intro!: inj_onI simp: enc_inject)

lemma dec_covers: "wf x \<Longrightarrow> \<exists>c. dec c = Some x"
  using dec_enc by blast

end

text \<open>
  A table that a list of rules overwrites one after the other: a rule that is about a key sets
  what a lookup of that key returns (\<open>None\<close> when the rule removes it), every other rule leaves
  it. Clients get that the last rule about a key decides.
\<close>

locale rule_table =
  fixes apply_rule :: "'r \<Rightarrow> 's \<Rightarrow> 's res" and lookup :: "'s \<Rightarrow> 'k \<Rightarrow> 'v option"
    and about :: "'r \<Rightarrow> 'k \<Rightarrow> bool" and result :: "'r \<Rightarrow> 'v option"
  assumes lookup_apply: "apply_rule r s = Inr s' \<Longrightarrow>
    lookup s' k = (if about r k then result r else lookup s k)"
begin

lemma last_rule_decides:
  "rfold apply_rule rs s = Inr s' \<Longrightarrow>
   lookup s' k = (case find (\<lambda>r. about r k) (rev rs) of None \<Rightarrow> lookup s k | Some r \<Rightarrow> result r)"
proof (induction rs arbitrary: s' rule: rev_induct)
  case (snoc r rs)
  then obtain t where "rfold apply_rule rs s = Inr t" and "apply_rule r t = Inr s'"
    by (auto simp: rfold_append)
  with snoc.IH show ?case by (simp add: lookup_apply)
qed simp

lemma untouched_key:
  "rfold apply_rule rs s = Inr s' \<Longrightarrow> (\<And>r. r \<in> set rs \<Longrightarrow> \<not> about r k) \<Longrightarrow> lookup s' k = lookup s k"
proof -
  assume "rfold apply_rule rs s = Inr s'" and "\<And>r. r \<in> set rs \<Longrightarrow> \<not> about r k"
  moreover from this(2) have "find (\<lambda>r. about r k) (rev rs) = None" by (simp add: find_None_iff)
  ultimately show "lookup s' k = lookup s k" by (simp add: last_rule_decides)
qed

end

text \<open>
  A transition system with an invariant: the states reachable from the initial ones by the
  step relation.
\<close>

inductive reach :: "('s \<Rightarrow> bool) \<Rightarrow> ('s \<Rightarrow> 's \<Rightarrow> bool) \<Rightarrow> 's \<Rightarrow> bool"
  for init :: "'s \<Rightarrow> bool" and step :: "'s \<Rightarrow> 's \<Rightarrow> bool" where
  reach_init: "init s \<Longrightarrow> reach init step s"
| reach_step: "reach init step s \<Longrightarrow> step s t \<Longrightarrow> reach init step t"

locale invariant_system =
  fixes init :: "'s \<Rightarrow> bool" and step :: "'s \<Rightarrow> 's \<Rightarrow> bool" and inv :: "'s \<Rightarrow> bool"
  assumes inv_init: "init s \<Longrightarrow> inv s"
    and inv_step: "inv s \<Longrightarrow> step s t \<Longrightarrow> inv t"
begin

lemma reach_inv: "reach init step s \<Longrightarrow> inv s"
  by (induction rule: reach.induct) (auto intro: inv_init inv_step)

lemma reach_step_inv: "reach init step s \<Longrightarrow> step s t \<Longrightarrow> inv s \<and> inv t"
  using reach_inv inv_step by blast

end

end
