(* ===== verification/SDB_Types.thy ===== *)
theory SDB_Types
  imports SDB_Prelude
begin

text \<open>
  The data model of \<^verbatim>\<open>src/include/synchdb/synchdb.h\<close>,
  \<^verbatim>\<open>src/include/converter/format_converter.h\<close>,
  \<^verbatim>\<open>src/include/executor/replication_agent.h\<close> and the two event handler headers: enums as
  datatypes, structs as records with the fields in the source's order (a short prefix keeps the
  field names apart), pointers that may be null as options. \<^verbatim>\<open>DbzType\<close> and \<^verbatim>\<open>OlrType\<close> stay
  integers, because the code stores values of both enums in the same \<^verbatim>\<open>int dbztype\<close> field and
  their values overlap.
\<close>

section \<open>Enumerations\<close>

datatype ConnectorType = TYPE_UNDEF | TYPE_MYSQL | TYPE_ORACLE | TYPE_SQLSERVER | TYPE_OLR
  | TYPE_POSTGRES

datatype ConnectorState = STATE_UNDEF | STATE_STOPPED | STATE_INITIALIZING | STATE_PAUSED
  | STATE_SYNCING | STATE_PARSING | STATE_CONVERTING | STATE_EXECUTING | STATE_OFFSET_UPDATE
  | STATE_RESTARTING | STATE_MEMDUMP | STATE_SCHEMA_SYNC_DONE | STATE_RELOAD_OBJMAP
  | STATE_DBZ_LOGLEVEL_UPDATE

datatype ConnectorStage = STAGE_UNDEF | STAGE_INITIAL_SNAPSHOT | STAGE_CHANGE_DATA_CAPTURE
  | STAGE_SCHEMA_SYNC

datatype ConnectorStatistics = STATS_UNDEF | STATS_DDL | STATS_DML | STATS_CREATE | STATS_UPDATE
  | STATS_DELETE | STATS_TX | STATS_BAD_CHANGE_EVENT | STATS_TOTAL_CHANGE_EVENT
  | STATS_BATCH_COMPLETION | STATS_AVERAGE_BATCH_SIZE | STATS_TRUNCATE | STATS_TABLES | STATS_ROWS

datatype ErrorStrategies = STRAT_UNDEF | STRAT_EXIT_ON_ERROR | STRAT_SKIP_ON_ERROR
  | STRAT_RETRY_ON_ERROR

datatype DdlType = DDL_UNDEF | DDL_CREATE_TABLE | DDL_ALTER_TABLE | DDL_DROP_TABLE
  | DDL_TRUNCATE_TABLE

datatype AlterSubType = SUBTYPE_UNDEF | SUBTYPE_ADD_COLUMN | SUBTYPE_DROP_COLUMN
  | SUBTYPE_ALTER_COLUMN | SUBTYPE_ADD_CONSTRAINT | SUBTYPE_DROP_CONSTRAINT

datatype SnapshotEngine = ENGINE_DEBEZIUM | ENGINE_FDW

datatype LetterCasingStrategy = LCS_AS_IS | LCS_NORMALIZE_LOWERCASE | LCS_NORMALIZE_UPPERCASE

datatype TimeRep = TIME_UNDEF | TIME_DATE | TIME_TIME | TIME_ZONEDTIME | TIME_MICROTIME
  | TIME_NANOTIME | TIME_TIMESTAMP | TIME_MICROTIMESTAMP | TIME_NANOTIMESTAMP
  | TIME_ZONEDTIMESTAMP | TIME_MICRODURATION | DATA_VARIABLE_SCALE | DATA_GEOMETRY | DATA_ENUM
  | DATA_UUID | DATA_JSON | DATA_XML | DATA_BITS | DATA_POINT

text \<open>The literal types of the two event sources, as the integers the enums give them.\<close>

definition DBZTYPE_UNDEF :: int where "DBZTYPE_UNDEF = 0"
definition DBZTYPE_FLOAT32 :: int where "DBZTYPE_FLOAT32 = 1"
definition DBZTYPE_FLOAT64 :: int where "DBZTYPE_FLOAT64 = 2"
definition DBZTYPE_FLOAT :: int where "DBZTYPE_FLOAT = 3"
definition DBZTYPE_DOUBLE :: int where "DBZTYPE_DOUBLE = 4"
definition DBZTYPE_BYTES :: int where "DBZTYPE_BYTES = 5"
definition DBZTYPE_INT8 :: int where "DBZTYPE_INT8 = 6"
definition DBZTYPE_INT16 :: int where "DBZTYPE_INT16 = 7"
definition DBZTYPE_INT32 :: int where "DBZTYPE_INT32 = 8"
definition DBZTYPE_INT64 :: int where "DBZTYPE_INT64 = 9"
definition DBZTYPE_STRUCT :: int where "DBZTYPE_STRUCT = 10"
definition DBZTYPE_STRING :: int where "DBZTYPE_STRING = 11"
definition OLRTYPE_UNDEF :: int where "OLRTYPE_UNDEF = 0"
definition OLRTYPE_NUMBER :: int where "OLRTYPE_NUMBER = 1"
definition OLRTYPE_STRING :: int where "OLRTYPE_STRING = 2"

lemmas dbztype_defs = DBZTYPE_UNDEF_def DBZTYPE_FLOAT32_def DBZTYPE_FLOAT64_def DBZTYPE_FLOAT_def
  DBZTYPE_DOUBLE_def DBZTYPE_BYTES_def DBZTYPE_INT8_def DBZTYPE_INT16_def DBZTYPE_INT32_def
  DBZTYPE_INT64_def DBZTYPE_STRUCT_def DBZTYPE_STRING_def OLRTYPE_UNDEF_def OLRTYPE_NUMBER_def
  OLRTYPE_STRING_def

text \<open>
  The type OIDs and type categories the converters switch on; every other one is
  \<open>OtherOid\<close>, \<open>TYPCATEGORY_OTHER\<close>.
\<close>

datatype Oid = BOOLOID | INT8OID | INT2OID | INT4OID | FLOAT8OID | FLOAT4OID | NUMERICOID | MONEYOID
  | BPCHAROID | TEXTOID | VARCHAROID | CSTRINGOID | JSONBOID | UUIDOID | INETOID | CIDROID
  | MACADDROID | MACADDR8OID | INT4RANGEOID | INT8RANGEOID | NUMRANGEOID | DATERANGEOID
  | TSRANGEOID | TSTZRANGEOID | VARBITOID | BITOID | DATEOID | TIMESTAMPTZOID | TIMESTAMPOID
  | TIMETZOID | TIMEOID | BYTEAOID | INTERVALOID | POINTOID | OtherOid nat

datatype typcategory = TYPCATEGORY_BOOLEAN | TYPCATEGORY_NUMERIC | TYPCATEGORY_DATETIME
  | TYPCATEGORY_BITSTRING | TYPCATEGORY_TIMESPAN | TYPCATEGORY_USER | TYPCATEGORY_ENUM
  | TYPCATEGORY_GEOMETRIC | TYPCATEGORY_STRING | TYPCATEGORY_OTHER char

section \<open>DDL and DML events and their PostgreSQL counterparts\<close>

record DBZ_DDL_COLUMN =
  dc_name :: string
  dc_length :: int
  dc_optional :: bool
  dc_position :: int
  dc_typeName :: string
  dc_enumValues :: "string option"
  dc_charsetName :: "string option"
  dc_autoIncremented :: bool
  dc_defaultValueExpression :: "string option"
  dc_scale :: int

record DBZ_DDL =
  dd_id :: string
  dd_type :: DdlType
  dd_subtype :: AlterSubType
  dd_primaryKeyColumnNames :: "string option"
  dd_constraintName :: "string option"
  dd_columns :: "DBZ_DDL_COLUMN list"
  dd_dbz_ts_ms :: "64 word"
  dd_src_ts_ms :: "64 word"

record DBZ_DML_COLUMN_VALUE =
  cv_name :: string
  cv_remoteColumnName :: "string option"
  cv_value :: "string option"
  cv_datatype :: Oid
  cv_position :: int
  cv_scale :: int
  cv_timerep :: TimeRep
  cv_typemod :: int
  cv_ispk :: bool
  cv_dbztype :: int
  cv_typcategory :: typcategory
  cv_typispreferred :: bool
  cv_typname :: string

record DBZ_DML =
  dm_op :: char
  dm_schema :: "string option"
  dm_table :: "string option"
  dm_remoteObjectId :: "string option"
  dm_mappedObjectId :: string
  dm_tableoid :: nat
  dm_natts :: nat
  dm_columnValuesBefore :: "DBZ_DML_COLUMN_VALUE list"
  dm_columnValuesAfter :: "DBZ_DML_COLUMN_VALUE list"
  dm_dbz_ts_ms :: "64 word"
  dm_src_ts_ms :: "64 word"

record PG_DDL_COLUMN =
  pc_attname :: "string option"
  pc_atttype :: "string option"
  pc_position :: int

record PG_DDL =
  pd_ddlquery :: string
  pd_type :: DdlType
  pd_subtype :: AlterSubType
  pd_schema :: string
  pd_tbname :: string
  pd_columns :: "PG_DDL_COLUMN list"

record PG_DML_COLUMN_VALUE =
  pv_value :: string
  pv_datatype :: Oid
  pv_position :: int

record PG_DML =
  pm_dmlquery :: string
  pm_op :: char
  pm_tableoid :: nat
  pm_natts :: nat
  pm_columnValuesBefore :: "PG_DML_COLUMN_VALUE list"
  pm_columnValuesAfter :: "PG_DML_COLUMN_VALUE list"

section \<open>Hash table keys and entries\<close>

record DatatypeHashKey =
  hk_extTypeName :: string
  hk_autoIncremented :: bool

record DatatypeHashEntry =
  he_key :: DatatypeHashKey
  he_pgsqlTypeName :: string
  he_pgsqlTypeLength :: int

record ObjMapHashKey =
  ok_extObjName :: string
  ok_extObjType :: string

record ObjectMap =
  om_objtype :: string
  om_enabled :: bool
  om_srcobj :: string
  om_dstobj :: string
  om_curr_pg_tbname :: string
  om_curr_pg_attname :: string
  om_curr_pg_atttypename :: string

text \<open>The sizes of the fixed buffers (\<^verbatim>\<open>synchdb.h\<close>).\<close>

definition SYNCHDB_CONNINFO_NAME_SIZE :: nat where "SYNCHDB_CONNINFO_NAME_SIZE = 64"
definition SYNCHDB_CONNINFO_DB_NAME_SIZE :: nat where "SYNCHDB_CONNINFO_DB_NAME_SIZE = 64"
definition SYNCHDB_OFFSET_SIZE :: nat where "SYNCHDB_OFFSET_SIZE = 256"
definition SYNCHDB_ERRMSG_SIZE :: nat where "SYNCHDB_ERRMSG_SIZE = 256"
definition SYNCHDB_SNAPSHOT_MODE_SIZE :: nat where "SYNCHDB_SNAPSHOT_MODE_SIZE = 32"
definition SYNCHDB_DATATYPE_NAME_SIZE :: nat where "SYNCHDB_DATATYPE_NAME_SIZE = 64"
definition SYNCHDB_OBJ_NAME_SIZE :: nat where "SYNCHDB_OBJ_NAME_SIZE = 128"
definition SYNCHDB_OBJ_TYPE_SIZE :: nat where "SYNCHDB_OBJ_TYPE_SIZE = 32"
definition SYNCHDB_TRANSFORM_EXPRESSION_SIZE :: nat where "SYNCHDB_TRANSFORM_EXPRESSION_SIZE = 256"

lemmas size_defs = SYNCHDB_CONNINFO_NAME_SIZE_def SYNCHDB_CONNINFO_DB_NAME_SIZE_def
  SYNCHDB_OFFSET_SIZE_def SYNCHDB_ERRMSG_SIZE_def SYNCHDB_SNAPSHOT_MODE_SIZE_def
  SYNCHDB_DATATYPE_NAME_SIZE_def SYNCHDB_OBJ_NAME_SIZE_def SYNCHDB_OBJ_TYPE_SIZE_def
  SYNCHDB_TRANSFORM_EXPRESSION_SIZE_def

text \<open>
  The configuration the converters read: the settings \<^verbatim>\<open>synchdb.letter_casing_strategy\<close> and
  \<^verbatim>\<open>synchdb.dml_use_spi\<close>, whether the build has \<^verbatim>\<open>WITH_OLR\<close>, and what \<^verbatim>\<open>mktime\<close> returns for
  1970-01-01 00:00:00 in the server's time zone.
\<close>

record config =
  synchdb_letter_casing_strategy :: LetterCasingStrategy
  synchdb_dml_use_spi :: bool
  with_olr :: bool
  mktime_1970 :: int

section \<open>Conversions between connector types and their names\<close>

definition connectorTypeToString :: "ConnectorType \<Rightarrow> string" where
  "connectorTypeToString type = (case type of
       TYPE_UNDEF \<Rightarrow> ''UNDEFINED'' | TYPE_MYSQL \<Rightarrow> ''MYSQL'' | TYPE_ORACLE \<Rightarrow> ''ORACLE''
     | TYPE_SQLSERVER \<Rightarrow> ''SQLSERVER'' | TYPE_OLR \<Rightarrow> ''OLR'' | TYPE_POSTGRES \<Rightarrow> ''POSTGRES'')"

definition stringToConnectorType :: "string \<Rightarrow> ConnectorType" where
  "stringToConnectorType s =
     (if strcaseeq s ''mysql'' then TYPE_MYSQL
      else if strcaseeq s ''sqlserver'' then TYPE_SQLSERVER
      else if strcaseeq s ''oracle'' then TYPE_ORACLE
      else if strcaseeq s ''olr'' then TYPE_OLR
      else if strcaseeq s ''postgres'' then TYPE_POSTGRES
      else TYPE_UNDEF)"

definition get_shm_connector_name :: "ConnectorType \<Rightarrow> string" where
  "get_shm_connector_name type = (case type of
       TYPE_MYSQL \<Rightarrow> ''mysql'' | TYPE_ORACLE \<Rightarrow> ''oracle'' | TYPE_SQLSERVER \<Rightarrow> ''sqlserver''
     | TYPE_OLR \<Rightarrow> ''olr'' | TYPE_POSTGRES \<Rightarrow> ''postgres'' | _ \<Rightarrow> ''null'')"

definition fc_get_connector_type :: "string \<Rightarrow> ConnectorType res" where
  "fc_get_connector_type connector =
     (if strcaseeq connector ''mysql'' then Inr TYPE_MYSQL
      else if strcaseeq connector ''oracle'' then Inr TYPE_ORACLE
      else if strcaseeq connector ''sqlserver'' then Inr TYPE_SQLSERVER
      else if strcaseeq connector ''olr'' then Inr TYPE_OLR
      else if strcaseeq connector ''postgres'' \<or> strcaseeq connector ''postgresql''
      then Inr TYPE_POSTGRES
      else Inl (PgError None (''failed to translate connector '' @ connector
        @ '' to a proper internal connector type. Does synchdb support this type yet?'')))"

lemma strcaseeq_refl [simp]: "strcaseeq s s"
  by (simp add: strcaseeq_def)

text \<open>
  Both printed forms of a connector type are read back by both parsers: the type names the
  worker prints are the ones it accepts.
\<close>

lemma connector_type_names_read_back:
  assumes "type \<noteq> TYPE_UNDEF"
  shows "stringToConnectorType (connectorTypeToString type) = type"
    and "fc_get_connector_type (get_shm_connector_name type) = Inr type"
  using assms
  by (cases type; simp add: stringToConnectorType_def connectorTypeToString_def strcaseeq_def
      c_simps fc_get_connector_type_def get_shm_connector_name_def)+

interpretation type_name: codec connectorTypeToString "\<lambda>s. Some (stringToConnectorType s)"
    "\<lambda>t. t \<noteq> TYPE_UNDEF"
  by unfold_locales (simp add: connector_type_names_read_back)

end
