(* ===== verification/Byte_Conv.thy ===== *)
theory Byte_Conv
  imports SDB_Types
begin

text \<open>
  The byte-level converters of \<^verbatim>\<open>src/backend/converter/format_converter.c\<close>: big-endian two's
  complement bytes to integers, to decimal numerals of any length, to scaled numerics, to bit
  strings and to bytea literals. The reference semantics are \<open>uint_be\<close> (the number a byte
  list denotes), \<open>sint_be\<close> (the same, as two's complement), \<open>read_fixed\<close> (a
  fixed-point numeral), \<open>nat_of_bin\<close> and \<open>unhex\<close>; each converter is proved to denote
  the same value.
\<close>

unbundle bit_operations_syntax

section \<open>Reference semantics of byte strings\<close>

definition uint_be :: "byte list \<Rightarrow> nat" where
  "uint_be bs = foldl (\<lambda>a b. 256 * a + unat b) 0 bs"

text \<open>
  \<^verbatim>\<open>bytes[0]\<close> of a buffer that is one zero byte longer than the decoded data, as the callers
  allocate it.
\<close>

definition first_byte :: "byte list \<Rightarrow> byte" where
  "first_byte bs = (case bs of [] \<Rightarrow> 0 | b # _ \<Rightarrow> b)"

definition sint_be :: "byte list \<Rightarrow> int" where
  "sint_be bs = (if 128 \<le> unat (first_byte bs) then int (uint_be bs) - 256 ^ length bs
                 else int (uint_be bs))"

lemma uint_be_Nil [simp]: "uint_be [] = 0"
  by (simp add: uint_be_def)

lemma uint_be_snoc [simp]: "uint_be (bs @ [b]) = 256 * uint_be bs + unat b"
  by (simp add: uint_be_def)

lemma uint_be_Cons: "uint_be (b # bs) = unat b * 256 ^ length bs + uint_be bs"
proof (induction bs rule: rev_induct)
  case (snoc c bs)
  have "uint_be (b # bs @ [c]) = 256 * uint_be (b # bs) + unat c"
    using uint_be_snoc [of "b # bs" c] by simp
  with snoc show ?case by (simp add: algebra_simps)
qed (simp add: uint_be_def)

lemma unat_byte_less [simp]: "unat (b :: byte) < 256"
  using unsigned_less [of b, where 'a = nat] by simp

lemma unat_byte_le [simp]: "unat (b :: byte) \<le> 255"
  using unat_byte_less [of b] by linarith

lemma uint_be_less: "uint_be bs < 256 ^ length bs"
proof (induction bs rule: rev_induct)
  case (snoc b bs)
  then have "uint_be bs + 1 \<le> 256 ^ length bs" by simp
  then have "256 * (uint_be bs + 1) \<le> 256 * 256 ^ length bs" by (rule mult_le_mono2)
  with unat_byte_le [of b] show ?case by (simp del: unat_byte_le)
qed simp

lemma uint_be_eq_0_iff: "uint_be bs = 0 \<longleftrightarrow> list_all (\<lambda>b. b = 0) bs"
  by (induction bs) (auto simp: uint_be_Cons unat_eq_zero)

lemma uint_be_dropWhile [simp]: "uint_be (dropWhile (\<lambda>b. b = 0) bs) = uint_be bs"
  by (induction bs) (auto simp: uint_be_Cons)

lemma msb_byte: "b AND 0x80 \<noteq> 0 \<longleftrightarrow> 128 \<le> unat (b :: byte)"
proof -
  have "b AND 0x80 \<noteq> 0 \<longleftrightarrow> bit b 7"
    using and_exp_eq_0_iff_not_bit [of b 7] by simp
  also have "\<dots> \<longleftrightarrow> bit (unat b) 7" by (simp add: bit_unsigned_iff)
  also have "\<dots> \<longleftrightarrow> odd (unat b div 128)"  by (simp add: bit_iff_odd)
  also have "\<dots> \<longleftrightarrow> 128 \<le> unat b"
  proof -
    have "unat b div 128 = 0 \<or> unat b div 128 = 1" using unat_byte_less [of b] by arith
    then show ?thesis by auto
  qed
  finally show ?thesis .
qed

lemma unat_NOT_byte: "unat (NOT b) = 255 - unat (b :: byte)"
proof -
  have "NOT b = - 1 - b" by (simp add: not_eq_complement)
  then show ?thesis by (simp add: unat_sub unsigned_minus_1_eq_mask mask_eq_exp_minus_1)
qed

lemma sint_be_sign: "sint_be bs < 0 \<longleftrightarrow> first_byte bs AND 0x80 \<noteq> 0"
proof -
  have "int (uint_be bs) < 256 ^ length bs"
    using uint_be_less [of bs] by (metis of_nat_less_iff of_nat_numeral of_nat_power)
  then show ?thesis by (auto simp: sint_be_def msb_byte)
qed

section \<open>Bytes to a 64-bit integer\<close>

text \<open>
  \<^verbatim>\<open>long long\<close> arithmetic as gcc computes it; shifting by 64 or more is undefined.
\<close>

definition derive_value_from_byte :: "byte list \<Rightarrow> 64 word res" where
  "derive_value_from_byte bytes =
     (let value = foldl (\<lambda>v b. push_bit 8 v OR ucast b) 0 bytes
      in if first_byte bytes AND 0x80 \<noteq> 0
         then if 64 \<le> length bytes * 8 then Inl (Undefined ''shift by the width of long long'')
              else Inr (value OR - push_bit (length bytes * 8) 1)
         else Inr value)"

lemma or_ucast_byte: "push_bit 8 v OR ucast (b :: byte) = (push_bit 8 v + ucast b :: 64 word)"
  by (rule sym, rule disjunctive_add_eq_or, rule bit_eqI)
    (auto simp: bit_simps dest: bit_imp_le_length)

lemma or_sign_extend:
  assumes "unat (v :: 64 word) < 2 ^ k" and "k < 64"
  shows "v OR - push_bit k 1 = v - push_bit k 1"
proof -
  have *: "\<not> bit v n" if "k \<le> n" for n
  proof -
    have "unat v < 2 ^ n"
      using assms(1) that by (meson less_le_trans one_le_numeral power_increasing)
    then have "\<not> bit (unat v) n" by (simp add: bit_iff_odd)
    then show ?thesis by (simp add: bit_unsigned_iff)
  qed
  have "v AND - push_bit k 1 = 0"
    by (rule bit_eqI) (use * assms(2) in \<open>auto simp: bit_and_iff bit_minus_exp_iff\<close>)
  from disjunctive_add_eq_or [OF this] show ?thesis by simp
qed

lemma fold_bytes_eq:
  "foldl (\<lambda>v b. push_bit 8 v OR ucast b) 0 bs = (word_of_nat (uint_be bs) :: 64 word)"
proof (induction bs rule: rev_induct)
  case (snoc b bs)
  then have "foldl (\<lambda>v b. push_bit 8 v OR ucast b) 0 (bs @ [b])
      = push_bit 8 (word_of_nat (uint_be bs)) + (ucast b :: 64 word)"
    by (simp add: or_ucast_byte)
  then show ?case by (simp add: push_bit_eq_mult mult.commute)
qed simp

lemma sint_be_bounds:
  assumes "length bs \<le> 7"
  shows "- (2 ^ 63) \<le> sint_be bs" and "sint_be bs < 2 ^ 63"
proof -
  have u: "int (uint_be bs) < 256 ^ length bs"
    using uint_be_less [of bs] by (metis of_nat_less_iff of_nat_numeral of_nat_power)
  have "(256 :: int) ^ length bs \<le> 256 ^ 7"
    using assms by (intro power_increasing) simp_all
  then have l: "(256 :: int) ^ length bs \<le> 72057594037927936" by simp
  have p: "(2 :: int) ^ 63 = 9223372036854775808" by simp
  show "- (2 ^ 63) \<le> sint_be bs"
    using u l unfolding sint_be_def p by (split if_split) linarith
  show "sint_be bs < 2 ^ 63"
    using u l unfolding sint_be_def p by (split if_split) linarith
qed

lemma derive_value_from_byte_eq:
  assumes "length bs \<le> 7"
  shows "derive_value_from_byte bs = Inr (word_of_int (sint_be bs))"
proof -
  let ?v = "word_of_nat (uint_be bs) :: 64 word"
  have lt: "uint_be bs < 2 ^ (length bs * 8)"
    using uint_be_less [of bs] by (simp add: power_mult mult.commute [of _ 8])
  also have "(2 :: nat) ^ (length bs * 8) \<le> 2 ^ 56"
    using assms by (intro power_increasing) simp_all
  finally have "unat ?v = uint_be bs" by (simp add: unsigned_of_nat take_bit_nat_eq_self)
  with lt have "unat ?v < 2 ^ (length bs * 8)" by simp
  with assms have "?v OR - push_bit (length bs * 8) 1 = ?v - push_bit (length bs * 8) 1"
    by (intro or_sign_extend) simp_all
  moreover have "(256 :: 64 word) ^ length bs = 2 ^ (length bs * 8)"
    by (simp add: power_mult mult.commute [of _ 8])
  ultimately show ?thesis
    using assms by (simp add: derive_value_from_byte_def fold_bytes_eq sint_be_def msb_byte)
qed

section \<open>Bytes to a decimal numeral of any length\<close>

text \<open>
  Adding one to the complemented magnitude, least significant byte first: the carry loop of the
  source stops at the first byte that does not overflow.
\<close>

fun mag_incr :: "byte list \<Rightarrow> byte list" where
  "mag_incr [] = []"
| "mag_incr (b # bs) =
     (let v = unat b + 1
      in word_of_nat (v AND 0xFF) # (if v AND 0x100 = 0 then bs else mag_incr bs))"

text \<open>One pass of the long division by ten over the working copy, most significant byte first.\<close>

fun div10_pass :: "nat \<Rightarrow> byte list \<Rightarrow> byte list \<times> nat" where
  "div10_pass remainder [] = ([], remainder)"
| "div10_pass remainder (w # ws) =
     (let acc = remainder * 256 + unat w;
          (q, r) = div10_pass (acc mod 10) ws
      in (word_of_nat (acc div 10) # q, r))"

lemma div10_pass_value:
  assumes "r < 10" and "div10_pass r ws = (q, r')"
  shows "r * 256 ^ length ws + uint_be ws = 10 * uint_be q + r' \<and> r' < 10 \<and> length q = length ws"
  using assms
proof (induction ws arbitrary: r q r')
  case (Cons w ws)
  let ?acc = "r * 256 + unat w"
  obtain q1 where q: "q = word_of_nat (?acc div 10) # q1"
    and rest: "div10_pass (?acc mod 10) ws = (q1, r')"
    using Cons.prems by (auto simp: Let_def split: prod.splits)
  have m: "?acc mod 10 < 10" by simp
  note IH = Cons.IH [OF m rest]
  have "unat w < 256" by simp
  with Cons.prems(1) have "?acc div 10 < 256" by linarith
  then have u: "unat (word_of_nat (?acc div 10) :: byte) = ?acc div 10"
    by (simp add: unsigned_of_nat take_bit_nat_eq_self)
  have "?acc = 10 * (?acc div 10) + ?acc mod 10" by simp
  then have "?acc * 256 ^ length ws =
      10 * (?acc div 10) * 256 ^ length ws + ?acc mod 10 * 256 ^ length ws"
    by (metis add_mult_distrib)
  with IH have "?acc * 256 ^ length ws + uint_be ws = 10 * uint_be q + r'"
    unfolding q uint_be_Cons u by (simp add: algebra_simps)
  with IH show ?case by (simp add: q uint_be_Cons algebra_simps)
qed simp

lemma div10_pass_0:
  assumes "div10_pass 0 ws = (q, r)"
  shows "uint_be q = uint_be ws div 10" and "r = uint_be ws mod 10"
  using div10_pass_value [OF _ assms] by simp_all

text \<open>The digits come least significant first, until the working copy is all zero.\<close>

function dec_digits :: "byte list \<Rightarrow> string" where
  "dec_digits work =
     (if list_all (\<lambda>b. b = 0) work then []
      else c_digit (snd (div10_pass 0 work)) # dec_digits (fst (div10_pass 0 work)))"
  by pat_completeness auto
termination
proof (relation "measure uint_be")
  fix work :: "byte list"
  assume "\<not> list_all (\<lambda>b. b = 0) work"
  then have "0 < uint_be work" by (simp flip: uint_be_eq_0_iff)
  moreover have "uint_be (fst (div10_pass 0 work)) = uint_be work div 10"
    using div10_pass_0(1) by (metis prod.collapse)
  ultimately show "(fst (div10_pass 0 work), work) \<in> measure uint_be" by simp
qed simp

declare dec_digits.simps [simp del]

definition derive_decimal_string_from_byte :: "byte list \<Rightarrow> string" where
  "derive_decimal_string_from_byte bytes =
     (let neg = (first_byte bytes AND 0x80 \<noteq> 0);
          mag = (if neg then rev (mag_incr (rev (map (\<lambda>b. NOT b) bytes))) else bytes);
          mag' = dropWhile (\<lambda>b. b = 0) mag
      in if mag' = [] then ''0''
         else (if neg then ''-'' else []) @ rev (dec_digits mag'))"

lemma dec_digits_value:
  "rev (dec_digits ws) = (if uint_be ws = 0 then [] else show_nat (uint_be ws))"
proof (induction ws rule: dec_digits.induct)
  case (1 ws)
  show ?case
  proof (cases "list_all (\<lambda>b. b = 0) ws")
    case True
    then show ?thesis by (simp add: dec_digits.simps [of ws] uint_be_eq_0_iff)
  next
    case False
    obtain q r where qr: "div10_pass 0 ws = (q, r)" by fastforce
    note v = div10_pass_0 [OF qr]
    have "rev (dec_digits ws) = rev (dec_digits q) @ [c_digit r]"
      using False qr by (simp add: dec_digits.simps [of ws])
    also have "\<dots> = (if uint_be ws < 10 then [] else show_nat (uint_be ws div 10))
        @ [c_digit (uint_be ws mod 10)]"
      using 1 [OF False] qr v by (simp add: div_eq_0_iff)
    also have "\<dots> = show_nat (uint_be ws)"
      by (subst (2) show_nat.simps) simp
    finally show ?thesis using False by (simp add: uint_be_eq_0_iff)
  qed
qed

lemma byte_incr:
  "unat (word_of_nat ((Suc (unat b)) AND 0xFF) :: byte) = Suc (unat (b :: byte)) mod 256"
  "Suc (unat (b :: byte)) AND 0x100 = 0 \<longleftrightarrow> unat b < 255"
proof -
  have "Suc (unat b) AND mask 8 = Suc (unat b) mod 2 ^ 8"
    by (simp only: take_bit_eq_mask [symmetric] take_bit_eq_mod)
  then have "Suc (unat b) AND 0xFF = Suc (unat b) mod 256" by (simp add: mask_eq_exp_minus_1)
  then show "unat (word_of_nat (Suc (unat b) AND 0xFF) :: byte) = Suc (unat b) mod 256"
    by (simp add: unsigned_of_nat take_bit_eq_mod)
  have "Suc (unat b) AND 0x100 = 0 \<longleftrightarrow> \<not> bit (Suc (unat b)) 8"
    using and_exp_eq_0_iff_not_bit [of "Suc (unat b)" 8] by simp
  also have "\<dots> \<longleftrightarrow> unat b < 255"
    using unat_byte_le [of b] by (cases "unat b = 255") (simp_all add: bit_iff_odd del: unat_byte_le)
  finally show "Suc (unat b) AND 0x100 = 0 \<longleftrightarrow> unat b < 255" .
qed

lemma mag_incr_value:
  "uint_be (rev (mag_incr bs)) = Suc (uint_be (rev bs)) mod 256 ^ length bs"
  "length (mag_incr bs) = length bs"
proof (induction bs)
  case (Cons b bs)
  {
    have lt: "uint_be (rev bs) < 256 ^ length bs" using uint_be_less [of "rev bs"] by simp
    case 1
    show ?case
    proof (cases "unat b < 255")
      case True
      with lt show ?thesis by (simp add: byte_incr Let_def algebra_simps)
    next
      case False
      then have b: "unat b = 255" using unat_byte_le [of b] by linarith
      have "(256 + 256 * uint_be (rev bs)) mod (256 * 256 ^ length bs)
          = 256 * (Suc (uint_be (rev bs)) mod 256 ^ length bs)"
        by (metis mult_Suc_right mult_mod_right)
      with Cons(1) b show ?thesis by (simp add: byte_incr(1) byte_incr(2) [of b] Let_def)
    qed
  next
    case 2
    with Cons(2) show ?case by (simp add: Let_def)
  }
qed simp_all

lemma uint_be_complement: "uint_be (map (\<lambda>b. NOT b) bs) = 256 ^ length bs - 1 - uint_be bs"
proof (induction bs rule: rev_induct)
  case (snoc b bs)
  have "uint_be bs < 256 ^ length bs" by (rule uint_be_less)
  moreover have "unat b \<le> 255" by simp
  ultimately show ?case using snoc by (simp add: unat_NOT_byte algebra_simps)
qed simp

lemma derive_decimal_string_from_byte_eq:
  "derive_decimal_string_from_byte bs = show_int (sint_be bs)"
proof (cases "first_byte bs AND 0x80 \<noteq> 0")
  case False
  then have s: "sint_be bs = int (uint_be bs)" by (simp add: sint_be_def flip: msb_byte)
  have "dropWhile (\<lambda>b. b = 0) bs = [] \<longleftrightarrow> uint_be bs = 0"
    by (simp add: uint_be_eq_0_iff list_all_iff)
  then show ?thesis
    using False
    by (simp add: derive_decimal_string_from_byte_def s dec_digits_value show_int_def Let_def
        show_nat.simps [of 0])
next
  case True
  let ?m = "rev (mag_incr (rev (map (\<lambda>b. NOT b) bs)))"
  have s: "sint_be bs = int (uint_be bs) - 256 ^ length bs"
    using True by (simp add: sint_be_def flip: msb_byte)
  have lt: "uint_be bs < 256 ^ length bs" by (rule uint_be_less)
  have pos: "0 < uint_be bs"
    using True by (cases bs) (auto simp: first_byte_def msb_byte uint_be_Cons)
  have "Suc (256 ^ length bs - Suc (uint_be bs)) = 256 ^ length bs - uint_be bs"
    using lt by (rule Suc_diff_Suc)
  then have "uint_be ?m = (256 ^ length bs - uint_be bs) mod 256 ^ length bs"
    by (simp add: mag_incr_value(1) [of "rev (map (\<lambda>b. NOT b) bs)"]
        uint_be_complement flip: rev_map)
  also have "\<dots> = 256 ^ length bs - uint_be bs" using lt pos by simp
  finally have m: "uint_be ?m = 256 ^ length bs - uint_be bs" .
  have n: "nat (- sint_be bs) = uint_be ?m"
    using lt unfolding m s by (simp add: nat_diff_distrib nat_power_eq of_nat_diff)
  have "dropWhile (\<lambda>b. b = 0) ?m \<noteq> []"
  proof
    assume "dropWhile (\<lambda>b. b = 0) ?m = []"
    then have "uint_be ?m = 0" by (metis uint_be_Nil uint_be_dropWhile)
    with m lt show False by simp
  qed
  then show ?thesis
    using True n m lt sint_be_sign [of bs]
    by (simp add: derive_decimal_string_from_byte_def dec_digits_value show_int_def Let_def)
qed

text \<open>
  The digit string is the decimal form of the two's complement value of the bytes, for byte
  arrays of every length, negative values included.
\<close>

theorem derive_decimal_string_is_decimal:
  "derive_decimal_string_from_byte bs = show_int (sint_be bs)"
  by (rule derive_decimal_string_from_byte_eq)

text \<open>
  The digit buffer of \<^verbatim>\<open>len * 3 + 1\<close> bytes that \<^verbatim>\<open>derive_decimal_string_from_byte\<close>
  allocates holds every digit the division loop writes.
\<close>

lemma dec_digits_fit: "length (dec_digits ws) \<le> 3 * length ws"
proof (cases "ws = []")
  case False
  have "uint_be ws < 256 ^ length ws" by (rule uint_be_less)
  also have "(256 :: nat) ^ length ws \<le> (10 ^ 3) ^ length ws" by (rule power_mono) simp_all
  also have "\<dots> = 10 ^ (3 * length ws)" by (simp add: power_mult)
  finally have "length (show_nat (uint_be ws)) \<le> 3 * length ws"
    using False by (intro length_show_nat_le) simp_all
  then show ?thesis
    using dec_digits_value [of ws] by (metis length_rev list.size(3) zero_le)
qed (simp add: dec_digits.simps)

section \<open>Decimal numbers with a scale\<close>

text \<open>
  \<^verbatim>\<open>pg_b64_decode\<close> returning -1 makes the \<^verbatim>\<open>palloc(len)\<close> of
  \<^verbatim>\<open>derive_decimal_string_from_byte\<close> fail. The numeral passes through \<^verbatim>\<open>char buffer[128]\<close>,
  which keeps 127 characters of it, the sign apart.
\<close>

definition scale_numeral :: "bool \<Rightarrow> string \<Rightarrow> int \<Rightarrow> string" where
  "scale_numeral isneg buffer scale =
     (let sign = (if isneg then ''-'' else []); n = int (length buffer)
      in if 0 < scale
         then if scale < n
              then sign @ take (nat (n - scale)) buffer @ ''.'' @ drop (nat (n - scale)) buffer
              else if n = scale then sign @ ''0.'' @ buffer
              else sign @ ''0.'' @ replicate (nat (scale - n)) (CHR ''0'') @ buffer
         else sign @ buffer)"

definition handle_base64_to_numeric_with_scale :: "pg_lib \<Rightarrow> string \<Rightarrow> int \<Rightarrow> string res" where
  "handle_base64_to_numeric_with_scale L inp scale =
     (case pg_b64_decode L inp of
        None \<Rightarrow> Inl (PgError None ''invalid memory alloc request size'')
      | Some bytes \<Rightarrow>
          (let value = derive_decimal_string_from_byte bytes;
               isneg = (value \<noteq> [] \<and> hd value = CHR ''-'');
               buffer = take 127 (if isneg then tl value else value)
           in Inr (scale_numeral isneg buffer scale)))"

text \<open>
  What a numeric literal denotes: an optional sign, digits, optionally a point and more digits,
  read as an integer and the number of digits after the point.
\<close>

definition numeric_parts :: "string \<Rightarrow> (int \<times> nat) option" where
  "numeric_parts s =
     (let neg = (s \<noteq> [] \<and> hd s = CHR ''-''); t = (if neg then tl s else s);
          ip = takeWhile is_digit t; rest = dropWhile is_digit t;
          sg = (\<lambda>n. if neg then - int n else int n)
      in if ip = [] then None
         else case rest of
             [] \<Rightarrow> Some (sg (nat_of_dec ip), 0)
           | c # fp \<Rightarrow> if c = CHR ''.'' \<and> fp \<noteq> [] \<and> list_all is_digit fp
                       then Some (sg (nat_of_dec (ip @ fp)), length fp) else None)"

lemma not_digit_sign_point [simp]: "\<not> is_digit (CHR ''-'')" "\<not> is_digit (CHR ''.'')"
  by (simp_all add: c_simps)

lemma is_digit_CHR_0 [simp]: "is_digit (CHR ''0'')"
  by (simp add: c_simps)

lemma numeric_parts_point:
  assumes "list_all is_digit ip" "ip \<noteq> []" "list_all is_digit fp" "fp \<noteq> []"
  shows "numeric_parts ((if neg then ''-'' else []) @ ip @ CHR ''.'' # fp) =
    Some (if neg then - int (nat_of_dec (ip @ fp)) else int (nat_of_dec (ip @ fp)), length fp)"
proof -
  have "hd (ip @ CHR ''.'' # fp) \<noteq> CHR ''-''"
    using assms(1,2) by (cases ip) auto
  moreover have d: "takeWhile is_digit (ip @ CHR ''.'' # fp) = ip"
    "dropWhile is_digit (ip @ CHR ''.'' # fp) = CHR ''.'' # fp"
    using assms(1) by (simp_all add: list_all_iff takeWhile_append dropWhile_append)
  ultimately show ?thesis
    using assms by (cases neg) (simp_all add: numeric_parts_def Let_def d)
qed

lemma numeric_parts_integer:
  assumes "list_all is_digit ip" "ip \<noteq> []"
  shows "numeric_parts ((if neg then ''-'' else []) @ ip) =
    Some (if neg then - int (nat_of_dec ip) else int (nat_of_dec ip), 0)"
proof -
  have "hd ip \<noteq> CHR ''-''" using assms by (cases ip) auto
  moreover have d: "takeWhile is_digit ip = ip" "dropWhile is_digit ip = []"
    using assms(1) by (simp_all add: list_all_iff)
  ultimately show ?thesis using assms(2) by (cases neg) (simp_all add: numeric_parts_def Let_def d)
qed

lemma scale_numeral_parts:
  assumes "list_all is_digit buf" "buf \<noteq> []"
  shows "numeric_parts (scale_numeral neg buf scale) =
    Some (if neg then - int (nat_of_dec buf) else int (nat_of_dec buf), nat scale)"
proof -
  consider (none) "scale \<le> 0" | (inside) "0 < scale" "scale < int (length buf)"
    | (front) "0 < scale" "scale = int (length buf)" | (zeros) "0 < scale" "int (length buf) < scale"
    by linarith
  then show ?thesis
  proof cases
    case none
    with assms show ?thesis by (simp add: scale_numeral_def numeric_parts_integer)
  next
    case inside
    let ?k = "nat (int (length buf) - scale)"
    have k: "?k < length buf" "0 < ?k" "length buf - ?k = nat scale" using inside by linarith+
    have d: "list_all is_digit (take ?k buf)" "list_all is_digit (drop ?k buf)"
      using assms(1) by (auto simp: list_all_iff dest: in_set_takeD in_set_dropD)
    from inside k(3) show ?thesis
      using numeric_parts_point [OF d(1) _ d(2), of neg] k(1,2) assms(2)
      by (simp add: scale_numeral_def Let_def)
  next
    case front
    with assms show ?thesis
      using numeric_parts_point [of "''0''" buf neg] nat_of_dec_zeros [of 1 buf]
      by (simp add: scale_numeral_def)
  next
    case zeros
    let ?z = "replicate (nat (scale - int (length buf))) (CHR ''0'')"
    have "nat_of_dec (CHR ''0'' # ?z @ buf) = nat_of_dec buf"
      using nat_of_dec_zeros [of "Suc (nat (scale - int (length buf)))" buf] by simp
    with assms zeros show ?thesis
      using numeric_parts_point [of "''0''" "?z @ buf" neg]
      by (simp add: scale_numeral_def list_all_iff)
  qed
qed

lemma show_nat_list_all [simp]: "list_all is_digit (show_nat n)"
  by (auto simp: list_all_iff dest: show_nat_digits)

lemma hd_show_nat_not_sign [simp]: "hd (show_nat n) \<noteq> CHR ''-''"
  using show_nat_digits [OF list.set_sel(1) [OF show_nat_nonempty]] by (metis not_digit_sign_point(1))

lemma handle_base64_to_numeric_with_scale_eq:
  assumes "pg_b64_decode L inp = Some bs"
  shows "handle_base64_to_numeric_with_scale L inp scale =
    Inr (scale_numeral (sint_be bs < 0) (take 127 (show_nat (nat \<bar>sint_be bs\<bar>))) scale)"
  using assms
  by (simp add: handle_base64_to_numeric_with_scale_def derive_decimal_string_from_byte_eq
      show_int_def Let_def)

text \<open>
  C25: a base64 value whose bytes encode an integer of at most 127 digits becomes a well-formed
  numeric literal that denotes exactly that integer divided by ten to the scale, whatever the
  scale (a scale that is not positive leaves the integer as it is).
\<close>

theorem numeric_with_scale_denotes:
  assumes "pg_b64_decode L inp = Some bs" and "\<bar>sint_be bs\<bar> < 10 ^ 127"
  shows "\<exists>out. handle_base64_to_numeric_with_scale L inp scale = Inr out
    \<and> numeric_parts out = Some (sint_be bs, nat scale)"
proof -
  let ?d = "show_nat (nat \<bar>sint_be bs\<bar>)"
  have "nat \<bar>sint_be bs\<bar> < 10 ^ 127" using assms(2) by (simp add: nat_less_iff)
  then have "length ?d \<le> 127" by (rule length_show_nat_le) simp
  then have "take 127 ?d = ?d" by simp
  then show ?thesis
    using scale_numeral_parts [of ?d "sint_be bs < 0" scale]
    by (simp add: handle_base64_to_numeric_with_scale_eq [OF assms(1)])
qed

theorem numeric_with_scale_denotes_witness:
  "\<exists>out. handle_base64_to_numeric_with_scale ascii_lib ''/3s='' 2 = Inr out
    \<and> numeric_parts out = Some (- 133, 2)"
proof -
  have d: "pg_b64_decode ascii_lib ''/3s='' = Some [0xFF, 0x7B]"
    by (simp add: ascii_lib_def b64_val_def Let_def)
  have v: "sint_be [0xFF, 0x7B] = - 133"
    by (simp add: sint_be_def first_byte_def uint_be_def)
  show ?thesis
    using numeric_with_scale_denotes [OF d, of 2] by (simp add: v)
qed

section \<open>Bit strings\<close>

text \<open>
  The in-place swap loop; \<^verbatim>\<open>end = length - 1\<close> is a \<^verbatim>\<open>size_t\<close>, so for an empty array it is the
  largest one and the loop runs out of the array.
\<close>

function swap_loop :: "'a list \<Rightarrow> nat \<Rightarrow> nat \<Rightarrow> 'a list" where
  "swap_loop array start end1 =
     (if start < end1
      then swap_loop (array[start := array ! end1, end1 := array ! start]) (start + 1) (end1 - 1)
      else array)"
  by pat_completeness auto
termination by (relation "measure (\<lambda>(_, s, e). e - s)") auto

declare swap_loop.simps [simp del]

definition reverse_byte_array :: "byte list \<Rightarrow> byte list res" where
  "reverse_byte_array array =
     (if array = [] then Inl (Undefined ''swap beyond the array'')
      else Inr (swap_loop array 0 (length array - 1)))"

definition trim_leading_zeros :: "string \<Rightarrow> string" where
  "trim_leading_zeros str =
     (let rest = dropWhile (\<lambda>c. c = CHR ''0'') str in if rest = [] then ''0'' else rest)"

definition byte_to_binary :: "byte \<Rightarrow> string" where
  "byte_to_binary b = map (\<lambda>i. if b AND push_bit i 1 \<noteq> 0 then CHR ''1'' else CHR ''0'') (rev [0..<8])"

definition bytes_to_binary_string :: "byte list \<Rightarrow> bool \<Rightarrow> string" where
  "bytes_to_binary_string bytes trim =
     (let s = concat (map byte_to_binary bytes) in if trim then trim_leading_zeros s else s)"

text \<open>
  With \<^verbatim>\<open>addquote\<close> the pointer that is returned has already stepped over the opening \<^verbatim>\<open>'b\<close>.
  A decoding failure (length -1) makes the allocation fail, or, where the zero padding makes the
  size positive again, lets the fill run past it; a value wider than the type modifier makes the
  fill length negative.
\<close>

definition handle_base64_to_bit :: "pg_lib \<Rightarrow> string \<Rightarrow> bool \<Rightarrow> int \<Rightarrow> bool \<Rightarrow> string res" where
  "handle_base64_to_bit L inp addquote typemod padzero =
     (case pg_b64_decode L inp of
        None \<Rightarrow> Inl (if padzero then Undefined ''buffer overrun''
                     else PgError None ''invalid memory alloc request size'')
      | Some bytes \<Rightarrow>
          (let extrazeros = (if padzero then typemod - int (length bytes) * 8 else 0)
           in if extrazeros < 0 then Inl (Undefined ''negative fill length'')
              else rbind (reverse_byte_array bytes) (\<lambda>rbytes.
                Inr (replicate (nat extrazeros) (CHR ''0'') @ bytes_to_binary_string rbytes (\<not> padzero)
                     @ (if addquote then [CHR 0x27] else [])))))"

lemma length_swap_loop [simp]: "length (swap_loop xs s e) = length xs"
  by (induction xs s e rule: swap_loop.induct) (subst swap_loop.simps, simp)

lemma nth_swap_loop:
  "e < length xs \<Longrightarrow> i < length xs \<Longrightarrow>
   swap_loop xs s e ! i = (if s \<le> i \<and> i \<le> e then xs ! (s + e - i) else xs ! i)"
proof (induction xs s e rule: swap_loop.induct)
  case (1 xs s e)
  show ?case
  proof (cases "s < e")
    case True
    with 1 show ?thesis
      by (subst swap_loop.simps) (auto simp: nth_list_update intro: arg_cong [of _ _ "(!) xs"])
  next
    case False
    then show ?thesis by (subst swap_loop.simps) (auto intro: arg_cong [of _ _ "(!) xs"])
  qed
qed

lemma reverse_byte_array_eq: "xs \<noteq> [] \<Longrightarrow> reverse_byte_array xs = Inr (rev xs)"
  by (auto simp: reverse_byte_array_def nth_swap_loop rev_nth intro!: nth_equalityI)

text \<open>The number a string of ones and zeros denotes.\<close>

definition nat_of_bin :: "string \<Rightarrow> nat" where
  "nat_of_bin s = foldl (\<lambda>a c. 2 * a + (if c = CHR ''1'' then 1 else 0)) 0 s"

lemma foldl_bin: "foldl (\<lambda>a c. 2 * a + (if c = CHR ''1'' then 1 else 0)) n s
    = n * 2 ^ length s + nat_of_bin s"
proof (induction s rule: rev_induct)
  case (snoc c s)
  then show ?case by (simp add: nat_of_bin_def algebra_simps)
qed (simp add: nat_of_bin_def)

lemma nat_of_bin_append: "nat_of_bin (s @ t) = nat_of_bin s * 2 ^ length t + nat_of_bin t"
  unfolding nat_of_bin_def [of "s @ t"] foldl_append foldl_bin [of "foldl _ 0 s"]
  by (simp flip: nat_of_bin_def)

lemma nat_of_bin_Nil [simp]: "nat_of_bin [] = 0"
  by (simp add: nat_of_bin_def)

lemma nat_of_bin_single: "nat_of_bin [c] = (if c = CHR ''1'' then 1 else 0)"
  by (simp add: nat_of_bin_def)

lemma nat_of_bin_zeros: "list_all (\<lambda>c. c = CHR ''0'') s \<Longrightarrow> nat_of_bin s = 0"
  by (induction s rule: rev_induct) (auto simp: nat_of_bin_def)

lemma nat_of_bin_dropWhile [simp]: "nat_of_bin (dropWhile (\<lambda>c. c = CHR ''0'') s) = nat_of_bin s"
  by (induction s) (auto simp: nat_of_bin_def)

lemma nat_of_bin_trim [simp]: "nat_of_bin (trim_leading_zeros s) = nat_of_bin s"
proof -
  have "nat_of_bin s = 0" if "dropWhile (\<lambda>c. c = CHR ''0'') s = []"
    using that by (intro nat_of_bin_zeros) (simp add: list_all_iff)
  then show ?thesis by (simp add: trim_leading_zeros_def Let_def) (simp add: nat_of_bin_def)
qed

lemma length_byte_to_binary [simp]: "length (byte_to_binary b) = 8"
  by (simp add: byte_to_binary_def)

lemma nat_of_bin_Cons:
  "nat_of_bin (c # s) = (if c = CHR ''1'' then 1 else 0) * 2 ^ length s + nat_of_bin s"
  using nat_of_bin_append [of "[c]" s] by (simp add: nat_of_bin_single)

lemma nat_of_bin_bits:
  "nat_of_bin (map (\<lambda>i. if bit x i then CHR ''1'' else CHR ''0'') (rev [0..<n])) = take_bit n (x :: nat)"
proof (induction n)
  case (Suc n)
  then show ?case
    by (simp add: nat_of_bin_Cons take_bit_Suc_from_most)
qed (simp add: nat_of_bin_def)

lemma nat_of_bin_byte [simp]: "nat_of_bin (byte_to_binary b) = unat b"
proof -
  have "b AND push_bit i 1 \<noteq> 0 \<longleftrightarrow> bit (unat b) i" for i
    using and_exp_eq_0_iff_not_bit [of b i] by (simp add: push_bit_eq_mult bit_unsigned_iff)
  then have "nat_of_bin (byte_to_binary b) = take_bit 8 (unat b)"
    unfolding byte_to_binary_def by (simp only: nat_of_bin_bits)
  then show ?thesis by (simp add: take_bit_nat_eq_self)
qed

lemma nat_of_bin_bytes: "nat_of_bin (concat (map byte_to_binary bs)) = uint_be bs"
proof (induction bs rule: rev_induct)
  case (snoc b bs)
  then show ?case by (simp add: nat_of_bin_append)
qed (simp add: nat_of_bin_def)

lemma length_concat_byte_to_binary [simp]: "length (concat (map byte_to_binary bs)) = 8 * length bs"
  by (induction bs) simp_all

text \<open>
  The padded bit string of a byte array (least significant byte first) has as many bits as
  the column type and denotes the number the bytes encode.
\<close>

theorem base64_to_bit_padded:
  assumes "pg_b64_decode L inp = Some bs" and "bs \<noteq> []" and "int (8 * length bs) \<le> typemod"
  shows "\<exists>out. handle_base64_to_bit L inp False typemod True = Inr out
    \<and> int (length out) = typemod \<and> nat_of_bin out = uint_be (rev bs) \<and> set out \<subseteq> {CHR ''0'', CHR ''1''}"
proof -
  let ?s = "concat (map byte_to_binary (rev bs))"
  let ?z = "replicate (nat (typemod - int (length bs) * 8)) (CHR ''0'')"
  have "handle_base64_to_bit L inp False typemod True = Inr (?z @ ?s)"
    using assms by (simp add: handle_base64_to_bit_def reverse_byte_array_eq
        bytes_to_binary_string_def Let_def)
  moreover have "int (length (?z @ ?s)) = typemod"
    using assms(3) length_concat_byte_to_binary [of "rev bs"] by (simp del: length_concat)
  moreover have "nat_of_bin ?z = 0" by (rule nat_of_bin_zeros) (simp add: list_all_iff)
  then have "nat_of_bin (?z @ ?s) = uint_be (rev bs)"
    by (simp only: nat_of_bin_append nat_of_bin_bytes)
  moreover have "set (?z @ ?s) \<subseteq> {CHR ''0'', CHR ''1''}"
    by (auto simp: byte_to_binary_def split: if_splits)
  ultimately show ?thesis by blast
qed

theorem base64_to_bit_padded_witness:
  "\<exists>out. handle_base64_to_bit ascii_lib ''BQE='' False 24 True = Inr out
    \<and> int (length out) = 24 \<and> nat_of_bin out = uint_be [1, 5] \<and> set out \<subseteq> {CHR ''0'', CHR ''1''}"
proof -
  have d: "pg_b64_decode ascii_lib ''BQE='' = Some [5, 1]"
    by (simp add: ascii_lib_def b64_val_def Let_def)
  show ?thesis using base64_to_bit_padded [OF d, of 24] by simp
qed

section \<open>Byte strings\<close>

definition hex_digit :: "nat \<Rightarrow> char" where
  "hex_digit d = (if d < 10 then c_digit d else char_of (55 + d))"

definition fmt_02X :: "byte \<Rightarrow> string" where
  "fmt_02X b = [hex_digit (unat b div 16), hex_digit (unat b mod 16)]"

definition bytearray_to_escaped_string :: "byte list \<Rightarrow> string" where
  "bytearray_to_escaped_string byte_array =
     [CHR 0x27, CHR 0x5C, CHR ''x''] @ concat (map fmt_02X byte_array) @ [CHR 0x27]"

text \<open>
  Without \<^verbatim>\<open>addquote\<close> the bytes are returned as they are, and every reader takes them for a C
  string, which ends at the first zero byte. A decoding failure copies \<^verbatim>\<open>(size_t) -1\<close> bytes.
\<close>

definition c_string :: "byte list \<Rightarrow> string" where
  "c_string bs = map (\<lambda>b. char_of (unat b)) (takeWhile (\<lambda>b. b \<noteq> 0) bs)"

definition handle_base64_to_byte :: "pg_lib \<Rightarrow> string \<Rightarrow> bool \<Rightarrow> string res" where
  "handle_base64_to_byte L inp addquote =
     (case pg_b64_decode L inp of
        None \<Rightarrow> Inl (Undefined ''copy of (size_t) -1 bytes'')
      | Some bytes \<Rightarrow> Inr (if addquote then bytearray_to_escaped_string bytes else c_string bytes))"

text \<open>The reader of PostgreSQL's hexadecimal \<^verbatim>\<open>bytea\<close> literals.\<close>

definition unhex :: "char \<Rightarrow> nat option" where
  "unhex c = (let n = (of_char c :: nat) in
     if 48 \<le> n \<and> n \<le> 57 then Some (n - 48)
     else if 65 \<le> n \<and> n \<le> 70 then Some (n - 55)
     else if 97 \<le> n \<and> n \<le> 102 then Some (n - 87) else None)"

fun read_hex :: "string \<Rightarrow> byte list option" where
  "read_hex s = (if s = [CHR 0x27] then Some []
     else case s of a # b # r \<Rightarrow>
       (case (unhex a, unhex b, read_hex r) of
          (Some x, Some y, Some bs) \<Rightarrow> Some (word_of_nat (16 * x + y) # bs) | _ \<Rightarrow> None)
     | _ \<Rightarrow> None)"

declare read_hex.simps [simp del]

definition read_bytea_literal :: "string \<Rightarrow> byte list option" where
  "read_bytea_literal s =
     (if take 3 s = [CHR 0x27, CHR 0x5C, CHR ''x''] then read_hex (drop 3 s) else None)"

lemma unhex_hex_digit [simp]: "d < 16 \<Longrightarrow> unhex (hex_digit d) = Some d"
  by (simp add: unhex_def hex_digit_def c_digit_def Let_def)

lemma hex_digit_not_quote: "d < 16 \<Longrightarrow> hex_digit d \<noteq> CHR 0x27"
  using unhex_hex_digit [of d] by (auto simp: unhex_def)

lemma read_hex_concat: "read_hex (concat (map fmt_02X bs) @ [CHR 0x27]) = Some bs"
proof (induction bs)
  case (Cons b bs)
  have "unat b div 16 < 16" using unat_byte_less [of b] by linarith
  moreover have "16 * (unat b div 16) + unat b mod 16 = unat b" by simp
  ultimately show ?case
    using Cons by (subst read_hex.simps) (simp add: fmt_02X_def [of b] hex_digit_not_quote)
qed (subst read_hex.simps, simp)

interpretation bytea_literal: codec bytearray_to_escaped_string read_bytea_literal "\<lambda>_. True"
  by unfold_locales (simp add: read_bytea_literal_def bytearray_to_escaped_string_def read_hex_concat)

text \<open>
  The quoted form of a decoded byte array is a \<^verbatim>\<open>bytea\<close> literal from which exactly the
  decoded bytes are read back, and different byte arrays have different literals.
\<close>

theorem base64_to_byte_roundtrip:
  assumes "pg_b64_decode L inp = Some bs"
  shows "\<exists>out. handle_base64_to_byte L inp True = Inr out \<and> read_bytea_literal out = Some bs
    \<and> (\<forall>inp' bs'. pg_b64_decode L inp' = Some bs' \<longrightarrow>
         handle_base64_to_byte L inp' True = Inr out \<longrightarrow> bs' = bs)"
  using assms
  by (auto simp: handle_base64_to_byte_def bytea_literal.dec_enc bytea_literal.enc_inject)

theorem base64_to_byte_roundtrip_witness:
  "\<exists>out. handle_base64_to_byte ascii_lib ''AP8='' True = Inr out
    \<and> read_bytea_literal out = Some [0x00, 0xFF]"
proof -
  have d: "pg_b64_decode ascii_lib ''AP8='' = Some [0x00, 0xFF]"
    by (simp add: ascii_lib_def b64_val_def Let_def)
  show ?thesis using base64_to_byte_roundtrip [OF d] by blast
qed

text \<open>
  Up to seven bytes \<^verbatim>\<open>derive_value_from_byte\<close> returns the two's complement value of the
  bytes, sign extended to 64 bits.
\<close>

theorem derive_value_signed:
  assumes "length bs \<le> 7"
  shows "\<exists>w. derive_value_from_byte bs = Inr w \<and> sint w = sint_be bs"
  using derive_value_from_byte_eq [OF assms] sint_be_bounds [OF assms]
  by (simp add: signed_of_int signed_take_bit_int_eq_self)

theorem derive_value_signed_witness:
  "\<exists>w. derive_value_from_byte [0xFF, 0x7B] = Inr w \<and> sint w = - 133"
proof -
  have "sint_be [0xFF, 0x7B] = - 133"
    by (simp add: sint_be_def first_byte_def uint_be_def)
  then show ?thesis using derive_value_signed [of "[0xFF, 0x7B]"] by simp
qed

end
