(* ===== verification/Name_Conv.thy ===== *)
theory Name_Conv
  imports SDB_Types
begin

text \<open>
  Names, identifiers and string literals in
  \<^verbatim>\<open>src/backend/converter/format_converter.c\<close>: quoting, id splitting, letter casing, and the
  object mapping rules (\<^verbatim>\<open>fc_load_objmap\<close>) with the lookups that use them. The module's hash
  tables are the fields of the record \<open>conv_state\<close>, finite maps from the key struct to the entry
  (\<open>None\<close> while the table has not been created).
\<close>

section \<open>String helpers\<close>

text \<open>
  \<^verbatim>\<open>remove_precision\<close> cuts every parenthesised part, resuming the search at the place of the cut.
\<close>

function remove_precision :: "string \<Rightarrow> string \<times> bool" where
  "remove_precision str =
     (case strchr str (CHR ''('') of
        None \<Rightarrow> (str, False)
      | Some openParen \<Rightarrow>
          (case strchr openParen (CHR '')'') of
             None \<Rightarrow> (str, False)
           | Some closeParen \<Rightarrow>
               (take (length str - length openParen) str @ fst (remove_precision (tl closeParen)), True)))"
  by pat_completeness auto
termination
proof (relation "measure length")
  fix str x y
  assume "strchr str (CHR ''('') = Some x" and "strchr x (CHR '')'') = Some y"
  then have "y \<noteq> [] \<and> length y \<le> length str" by (meson le_trans strchr_length)
  then show "(tl y, str) \<in> measure length" by (cases y) auto
qed simp

declare remove_precision.simps [simp del]

definition find_exact_string_match :: "string \<Rightarrow> string \<Rightarrow> bool" where
  "find_exact_string_match line wordtofind =
     (case strstr line wordtofind of
        None \<Rightarrow> False
      | Some p \<Rightarrow>
          let before = length line - length p; after = drop (length wordtofind) p
          in (before = 0 \<or> \<not> isalnum (line ! (before - 1))) \<and> (after = [] \<or> \<not> isalnum (hd after)))"

definition remove_double_quotes :: "string \<Rightarrow> string" where
  "remove_double_quotes str = filter (\<lambda>c. c \<noteq> CHR 0x22 \<and> c \<noteq> CHR 0x5C) str"

definition escapeSingleQuote :: "string \<Rightarrow> bool \<Rightarrow> string" where
  "escapeSingleQuote inp addquote =
     (let body = concat (map (\<lambda>c. if c = CHR 0x27 then [CHR 0x27, CHR 0x27] else [c]) inp)
      in if addquote then [CHR 0x27] @ body @ [CHR 0x27] else body)"

definition fc_normalize_name :: "pg_lib \<Rightarrow> LetterCasingStrategy \<Rightarrow> string \<Rightarrow> nat \<Rightarrow> string" where
  "fc_normalize_name L strategy name len = (case strategy of
       LCS_NORMALIZE_LOWERCASE \<Rightarrow> map (pg_tolower L) (take len name) @ drop len name
     | LCS_NORMALIZE_UPPERCASE \<Rightarrow> map (pg_toupper L) (take len name) @ drop len name
     | LCS_AS_IS \<Rightarrow> name)"

text \<open>The result is (database, schema, table); a null pointer is \<open>None\<close>.\<close>

definition splitIdString :: "string \<Rightarrow> bool \<Rightarrow> string option \<times> string option \<times> string option" where
  "splitIdString ident usedb =
     (let dotCount = count_list ident (CHR ''.''); w = strtok_all (CHR ''.'') ident
      in if dotCount = 1 then
           (if usedb then (tok w 0, None, tok w 1) else (None, tok w 0, tok w 1))
         else if dotCount = 2 then (tok w 0, tok w 1, tok w 2)
         else if dotCount = 0 then (None, None, Some ident)
         else (None, None, None))"

text \<open>
  A path with an empty component leaves a null element in the array that
  \<^verbatim>\<open>jsonb_get_element\<close> reads.
\<close>

definition getPathElementString :: "pg_lib \<Rightarrow> jsonb \<Rightarrow> string \<Rightarrow> bool \<Rightarrow> string option res" where
  "getPathElementString L jb path removequotes =
     (let elems = (if CHR ''.'' \<in> set path then strtok_all (CHR ''.'') path else [path]);
          numPaths = count_list path (CHR ''.'') + 1
      in if length elems < numPaths then Inl (Undefined ''null path element'')
         else Inr (map_option (\<lambda>v. let s = JsonbToCString L v
                                   in if removequotes then remove_double_quotes s else s)
                    (jsonb_get_element L jb elems)))"

section \<open>The module state\<close>

record conv_state =
  objectMappingHash :: "(ObjMapHashKey \<rightharpoonup> string) option"
  transformExpressionHash :: "(string \<rightharpoonup> string) option"
  mysqlDatatypeHash :: "(DatatypeHashKey \<rightharpoonup> string \<times> int) option"
  oracleDatatypeHash :: "(DatatypeHashKey \<rightharpoonup> string \<times> int) option"
  sqlserverDatatypeHash :: "(DatatypeHashKey \<rightharpoonup> string \<times> int) option"
  postgresDatatypeHash :: "(DatatypeHashKey \<rightharpoonup> string \<times> int) option"

text \<open>The static pointers before any table has been created.\<close>

definition conv_state0 :: conv_state where
  "conv_state0 = \<lparr>objectMappingHash = None, transformExpressionHash = None,
     mysqlDatatypeHash = None, oracleDatatypeHash = None, sqlserverDatatypeHash = None,
     postgresDatatypeHash = None\<rparr>"

text \<open>
  \<^verbatim>\<open>strncpy(key.extObjName, objid, strlen(objid))\<close> is not bounded by the size of the field.
\<close>

definition transform_object_name :: "conv_state \<Rightarrow> string \<Rightarrow> string \<Rightarrow> string option res" where
  "transform_object_name cs objid objtype =
     (case objectMappingHash cs of
        None \<Rightarrow> Inr None
      | Some h \<Rightarrow>
          if SYNCHDB_OBJ_NAME_SIZE < length objid \<or> SYNCHDB_OBJ_TYPE_SIZE < length objtype
          then Inl (Undefined ''copy beyond the hash key'')
          else Inr (h \<lparr>ok_extObjName = objid, ok_extObjType = objtype\<rparr>))"

definition transform_data_expression :: "conv_state \<Rightarrow> string option \<Rightarrow> string option \<Rightarrow> string option" where
  "transform_data_expression cs remoteObjid colname =
     (case (transformExpressionHash cs, remoteObjid, colname) of
        (Some h, Some r, Some c) \<Rightarrow> h (strlcpy SYNCHDB_OBJ_NAME_SIZE (r @ ''.'' @ c))
      | _ \<Rightarrow> None)"

section \<open>Renaming what is already there\<close>

text \<open>A null \<^verbatim>\<open>%s\<close> argument prints as PostgreSQL's snprintf prints it.\<close>

definition pr_s :: "string option \<Rightarrow> string" where
  "pr_s p = (case p of None \<Rightarrow> ''(null)'' | Some s \<Rightarrow> s)"

definition alter_tbname :: "string \<Rightarrow> string \<Rightarrow> string" where
  "alter_tbname frm to =
     (case (splitIdString frm False, splitIdString to False) of
        ((_, Some schema, Some table), (_, Some schema2, Some table2)) \<Rightarrow>
          ''CREATE SCHEMA IF NOT EXISTS '' @ schema2 @ ''; ALTER TABLE '' @ frm @ '' RENAME TO '' @ table2
          @ ''; ALTER TABLE '' @ schema @ ''.'' @ table2 @ '' SET SCHEMA '' @ schema2 @ '';''
      | ((_, Some schema, Some table), (_, _, table2)) \<Rightarrow>
          ''ALTER TABLE '' @ frm @ '' RENAME TO '' @ pr_s table2 @ '';ALTER TABLE '' @ schema @ ''.''
          @ pr_s table2 @ '' SET SCHEMA public;''
      | (_, (_, Some schema2, Some table2)) \<Rightarrow>
          ''CREATE SCHEMA IF NOT EXISTS '' @ schema2 @ ''; ALTER TABLE '' @ frm @ '' RENAME TO '' @ table2
          @ ''; ALTER TABLE '' @ table2 @ '' SET SCHEMA '' @ schema2 @ '';''
      | (_, (_, _, table2)) \<Rightarrow> ''ALTER TABLE '' @ frm @ '' RENAME TO '' @ pr_s table2 @ '';'')"

definition alter_attname :: "string \<Rightarrow> string \<Rightarrow> string \<Rightarrow> string" where
  "alter_attname tbname frm to =
     ''ALTER TABLE '' @ tbname @ '' RENAME COLUMN '' @ frm @ '' TO '' @ to @ '';''"

definition alter_atttype :: "string \<Rightarrow> string \<Rightarrow> string \<Rightarrow> int \<Rightarrow> string option \<Rightarrow> string" where
  "alter_atttype tbname frm to typesz convertfunc =
     ''ALTER TABLE '' @ tbname @ '' ALTER COLUMN '' @ frm @ '' SET DATA TYPE '' @ to
     @ (if 0 < typesz then ''('' @ show_int typesz @ '')'' else [])
     @ (case convertfunc of None \<Rightarrow> '';'' | Some f \<Rightarrow> '' USING '' @ tbname @ ''::'' @ f @ '';'')"

section \<open>Object mapping rules\<close>

text \<open>
  The data type table a rule of kind \<^verbatim>\<open>datatype\<close> goes to, by connector type.
\<close>

definition rulehash :: "conv_state \<Rightarrow> ConnectorType \<Rightarrow> (DatatypeHashKey \<rightharpoonup> string \<times> int) option res" where
  "rulehash cs connectorType = (case connectorType of
       TYPE_MYSQL \<Rightarrow> Inr (mysqlDatatypeHash cs)
     | TYPE_ORACLE \<Rightarrow> Inr (oracleDatatypeHash cs) | TYPE_OLR \<Rightarrow> Inr (oracleDatatypeHash cs)
     | TYPE_SQLSERVER \<Rightarrow> Inr (sqlserverDatatypeHash cs)
     | TYPE_POSTGRES \<Rightarrow> Inr (postgresDatatypeHash cs)
     | TYPE_UNDEF \<Rightarrow> Inl (PgError (Some ''unsupported connector type'') ''unsupported connector type''))"

definition set_rulehash :: "ConnectorType \<Rightarrow> (DatatypeHashKey \<rightharpoonup> string \<times> int) \<Rightarrow> conv_state \<Rightarrow> conv_state" where
  "set_rulehash connectorType h cs = (case connectorType of
       TYPE_MYSQL \<Rightarrow> cs\<lparr>mysqlDatatypeHash := Some h\<rparr>
     | TYPE_ORACLE \<Rightarrow> cs\<lparr>oracleDatatypeHash := Some h\<rparr> | TYPE_OLR \<Rightarrow> cs\<lparr>oracleDatatypeHash := Some h\<rparr>
     | TYPE_SQLSERVER \<Rightarrow> cs\<lparr>sqlserverDatatypeHash := Some h\<rparr>
     | TYPE_POSTGRES \<Rightarrow> cs\<lparr>postgresDatatypeHash := Some h\<rparr>
     | TYPE_UNDEF \<Rightarrow> cs)"

text \<open>
  One branch of the rule loop each. A branch returns the new tables and the SQL commands it ran
  through \<^verbatim>\<open>ra_executeCommand\<close>, whose result the code ignores.
\<close>

definition table_or_column_key :: "ObjectMap \<Rightarrow> ObjMapHashKey" where
  "table_or_column_key obj = \<lparr>ok_extObjName = strlcpy SYNCHDB_OBJ_NAME_SIZE (om_srcobj obj),
     ok_extObjType = strlcpy SYNCHDB_OBJ_TYPE_SIZE (om_objtype obj)\<rparr>"

definition rename_commands :: "ObjectMap \<Rightarrow> string list" where
  "rename_commands obj =
     (let dst = (if CHR ''.'' \<in> set (om_dstobj obj) then om_dstobj obj
                 else strlcpy SYNCHDB_TRANSFORM_EXPRESSION_SIZE
                   (''public.'' @ strlcpy SYNCHDB_TRANSFORM_EXPRESSION_SIZE (om_dstobj obj)))
      in (if strcaseeq (om_objtype obj) ''table'' \<and> om_curr_pg_tbname obj \<noteq> []
             \<and> \<not> strcaseeq dst (om_curr_pg_tbname obj)
          then [alter_tbname (om_curr_pg_tbname obj) dst] else [])
       @ (if strcaseeq (om_objtype obj) ''column'' \<and> om_curr_pg_attname obj \<noteq> []
             \<and> om_curr_pg_tbname obj \<noteq> [] \<and> \<not> strcaseeq (om_dstobj obj) (om_curr_pg_attname obj)
          then [alter_attname (om_curr_pg_tbname obj) (om_curr_pg_attname obj) (om_dstobj obj)] else []))"

definition load_object_rule :: "ObjectMap \<Rightarrow> conv_state \<Rightarrow> conv_state \<times> string list" where
  "load_object_rule obj cs =
     (let h = (case objectMappingHash cs of None \<Rightarrow> Map.empty | Some h \<Rightarrow> h);
          key = table_or_column_key obj
      in if \<not> om_enabled obj then (cs\<lparr>objectMappingHash := Some (h(key := None))\<rparr>, [])
         else (cs\<lparr>objectMappingHash :=
                 Some (h(key \<mapsto> strlcpy SYNCHDB_OBJ_NAME_SIZE (om_dstobj obj)))\<rparr>, rename_commands obj))"

definition load_transform_rule :: "ObjectMap \<Rightarrow> conv_state \<Rightarrow> conv_state \<times> string list" where
  "load_transform_rule obj cs =
     (let h = (case transformExpressionHash cs of None \<Rightarrow> Map.empty | Some h \<Rightarrow> h);
          key = strlcpy SYNCHDB_OBJ_NAME_SIZE (om_srcobj obj)
      in (cs\<lparr>transformExpressionHash := Some (h(key :=
            (if om_enabled obj then Some (strlcpy SYNCHDB_TRANSFORM_EXPRESSION_SIZE (om_dstobj obj))
             else None)))\<rparr>, []))"

definition datatype_rule_key :: "pg_lib \<Rightarrow> ObjectMap \<Rightarrow> DatatypeHashKey option" where
  "datatype_rule_key L obj =
     (let src = (if CHR ''.'' \<in> set (om_srcobj obj) then om_srcobj obj
                 else map (pg_tolower L) (om_srcobj obj));
          w = strtok_all (CHR ''|'') src
      in map_option (\<lambda>n. \<lparr>hk_extTypeName = strlcpy SYNCHDB_DATATYPE_NAME_SIZE n,
           hk_autoIncremented = (case tok w 1 of Some t \<Rightarrow> strcaseeq t ''true'' | None \<Rightarrow> False)\<rparr>) (tok w 0))"

definition datatype_rule_value :: "ObjectMap \<Rightarrow> (string \<times> int) option" where
  "datatype_rule_value obj =
     (let w = strtok_all (CHR ''|'') (om_dstobj obj)
      in map_option (\<lambda>n. (strlcpy SYNCHDB_DATATYPE_NAME_SIZE n,
           case tok w 1 of Some t \<Rightarrow> atoi t | None \<Rightarrow> - 1)) (tok w 0))"

text \<open>An empty first field makes \<^verbatim>\<open>strtok\<close> return the null pointer that \<^verbatim>\<open>strlcpy\<close> reads.\<close>

definition load_datatype_rule ::
  "pg_lib \<Rightarrow> ConnectorType \<Rightarrow> ObjectMap \<Rightarrow> conv_state \<Rightarrow> (conv_state \<times> string list) res" where
  "load_datatype_rule L connectorType obj cs =
     (if \<not> om_enabled obj then Inr (cs, [])
      else case (datatype_rule_key L obj, datatype_rule_value obj, rulehash cs connectorType) of
        (Some key, Some (ty, len), Inr (Some h)) \<Rightarrow>
          Inr (set_rulehash connectorType (h(key \<mapsto> (ty, len))) cs,
               if om_curr_pg_atttypename obj \<noteq> [] \<and> om_curr_pg_tbname obj \<noteq> []
                  \<and> om_curr_pg_attname obj \<noteq> [] \<and> \<not> strcaseeq (om_curr_pg_atttypename obj) ty
               then [alter_atttype (om_curr_pg_tbname obj) (om_curr_pg_attname obj) ty len None] else [])
      | _ \<Rightarrow> Inl (Undefined ''null data type name''))"

definition load_rule ::
  "pg_lib \<Rightarrow> ConnectorType \<Rightarrow> ObjectMap \<Rightarrow> conv_state \<times> string list \<Rightarrow> (conv_state \<times> string list) res" where
  "load_rule L connectorType obj s =
     (let run = (\<lambda>r. Inr (fst r, snd s @ snd r))
      in if strcaseeq (om_objtype obj) ''table'' \<or> strcaseeq (om_objtype obj) ''column''
         then run (load_object_rule obj (fst s))
         else if strcaseeq (om_objtype obj) ''transform'' then run (load_transform_rule obj (fst s))
         else if strcaseeq (om_objtype obj) ''datatype''
         then rbind (load_datatype_rule L connectorType obj (fst s)) run
         else Inr s)"

text \<open>
  The rule table is read by \<^verbatim>\<open>ra_listObjmaps\<close>: its result is an argument, \<open>None\<close> when it fails
  or finds nothing.
\<close>

definition fc_load_objmap ::
  "pg_lib \<Rightarrow> conv_state \<Rightarrow> ConnectorType \<Rightarrow> ObjectMap list option \<Rightarrow> (conv_state \<times> string list) res" where
  "fc_load_objmap L cs connectorType objs =
     rbind (rulehash cs connectorType) (\<lambda>h.
       case h of None \<Rightarrow> Inl (PgError (Some ''data type hash not initialized'')
                            ''data type hash not initialized'')
       | Some _ \<Rightarrow> (case objs of None \<Rightarrow> Inr (cs, [])
                    | Some os \<Rightarrow> rfold (load_rule L connectorType) os (cs, [])))"

section \<open>String literals\<close>

text \<open>
  The reader of an SQL string literal at the start of a text: the characters up to the closing
  quote, a doubled quote standing for one, and the rest of the text.
\<close>

fun read_body :: "string \<Rightarrow> (string \<times> string) option" where
  "read_body [] = None"
| "read_body (c # cs) =
     (if c = CHR 0x27
      then (case cs of
              d # ds \<Rightarrow> if d = CHR 0x27 then map_option (map_prod ((#) c) (\<lambda>r. r)) (read_body ds)
                        else Some ([], cs)
            | [] \<Rightarrow> Some ([], []))
      else map_option (map_prod ((#) c) (\<lambda>r. r)) (read_body cs))"

definition read_literal :: "string \<Rightarrow> (string \<times> string) option" where
  "read_literal s = (case s of [] \<Rightarrow> None | c # cs \<Rightarrow> if c = CHR 0x27 then read_body cs else None)"

lemma read_body_escaped:
  "(rest = [] \<or> hd rest \<noteq> CHR 0x27) \<Longrightarrow>
   read_body (concat (map (\<lambda>c. if c = CHR 0x27 then [CHR 0x27, CHR 0x27] else [c]) s) @ CHR 0x27 # rest)
     = Some (s, rest)"
  by (induction s) (auto split: list.splits)

lemma read_literal_escaped:
  "(rest = [] \<or> hd rest \<noteq> CHR 0x27) \<Longrightarrow> read_literal (escapeSingleQuote s True @ rest) = Some (s, rest)"
  by (simp add: read_literal_def escapeSingleQuote_def Let_def read_body_escaped)

interpretation sql_literal: codec "\<lambda>s. escapeSingleQuote s True" "\<lambda>t. map_option fst (read_literal t)"
    "\<lambda>_. True"
  by unfold_locales (use read_literal_escaped [of "[]"] in simp)

text \<open>
  C26: in any query text, the literal that \<^verbatim>\<open>escapeSingleQuote\<close> makes of a value is read back as
  exactly that value and the text after it is left alone (when that text does not itself start
  with a quote), so no value can end its literal early; distinct values have distinct literals.
\<close>

theorem escapeSingleQuote_literal:
  assumes "rest = [] \<or> hd rest \<noteq> CHR 0x27"
  shows "read_literal (escapeSingleQuote s True @ rest) = Some (s, rest)
    \<and> (escapeSingleQuote s True = escapeSingleQuote t True \<longrightarrow> s = t)"
  using read_literal_escaped [OF assms] sql_literal.enc_inject by blast

theorem escapeSingleQuote_literal_witness:
  "read_literal (escapeSingleQuote [CHR ''a'', CHR 0x27, CHR ''b''] True @ '', 2)'')
     = Some ([CHR ''a'', CHR 0x27, CHR ''b''], '', 2)'')"
  using escapeSingleQuote_literal [of "'', 2)''" "[CHR ''a'', CHR 0x27, CHR ''b'']" "[]"] by simp

section \<open>Splitting fully qualified names\<close>

lemma count_list_notin [simp]: "x \<notin> set xs \<Longrightarrow> count_list xs x = 0"
  by (induction xs) auto

lemma strtok_all_join2:
  "d \<notin> set a \<Longrightarrow> d \<notin> set b \<Longrightarrow> a \<noteq> [] \<Longrightarrow> b \<noteq> [] \<Longrightarrow> strtok_all d (a @ d # b) = [a, b]"
  by (simp add: strtok_all_def split_on_append split_on_no_delim)

lemma strtok_all_join3:
  "d \<notin> set a \<Longrightarrow> d \<notin> set b \<Longrightarrow> d \<notin> set c \<Longrightarrow> a \<noteq> [] \<Longrightarrow> b \<noteq> [] \<Longrightarrow> c \<noteq> []
   \<Longrightarrow> strtok_all d (a @ d # b @ d # c) = [a, b, c]"
  by (simp add: strtok_all_def split_on_append split_on_no_delim)

definition plain_name :: "string \<Rightarrow> bool" where
  "plain_name s \<longleftrightarrow> s \<noteq> [] \<and> CHR ''.'' \<notin> set s"

text \<open>
  \<^verbatim>\<open>splitIdString\<close> takes a qualified name apart into exactly the parts it was made of:
  \<^verbatim>\<open>table\<close>, \<^verbatim>\<open>x.table\<close> (a database or a schema by the caller's choice) and
  \<^verbatim>\<open>database.schema.table\<close>; a name with more than two dots yields no part at all.
\<close>

theorem splitIdString_parts:
  assumes "plain_name d" and "plain_name s" and "plain_name t"
  shows "splitIdString t usedb = (None, None, Some t)
    \<and> splitIdString (s @ ''.'' @ t) usedb = (if usedb then (Some s, None, Some t) else (None, Some s, Some t))
    \<and> splitIdString (d @ ''.'' @ s @ ''.'' @ t) usedb = (Some d, Some s, Some t)
    \<and> splitIdString (d @ ''.'' @ d @ ''.'' @ s @ ''.'' @ t) usedb = (None, None, None)"
  using assms
  by (simp add: splitIdString_def plain_name_def strtok_all_join2 strtok_all_join3 tok_def)

theorem splitIdString_parts_witness:
  "splitIdString ''inventory.dbo.orders'' True = (Some ''inventory'', Some ''dbo'', Some ''orders'')"
  using splitIdString_parts [of "''inventory''" "''dbo''" "''orders''" True] by (simp add: plain_name_def)

section \<open>Which rule decides a name\<close>

lemma load_rule_object_lookup:
  assumes "load_rule L ct r s = Inr s'"
  shows "(case objectMappingHash (fst s') of None \<Rightarrow> None | Some h \<Rightarrow> h k) =
    (if (strcaseeq (om_objtype r) ''table'' \<or> strcaseeq (om_objtype r) ''column'') \<and> table_or_column_key r = k
     then (if om_enabled r then Some (strlcpy SYNCHDB_OBJ_NAME_SIZE (om_dstobj r)) else None)
     else (case objectMappingHash (fst s) of None \<Rightarrow> None | Some h \<Rightarrow> h k))"
proof (cases "strcaseeq (om_objtype r) ''table'' \<or> strcaseeq (om_objtype r) ''column''")
  case True
  with assms have "fst s' = fst (load_object_rule r (fst s))" by (auto simp: load_rule_def)
  with True show ?thesis by (auto simp: load_object_rule_def Let_def split: option.splits)
next
  case False
  have "objectMappingHash (set_rulehash ct h cs) = objectMappingHash cs" for h cs
    by (cases ct) (simp_all add: set_rulehash_def)
  with False assms have "objectMappingHash (fst s') = objectMappingHash (fst s)"
    by (auto simp: load_rule_def load_transform_rule_def load_datatype_rule_def Let_def
        split: if_splits option.splits prod.splits sum.splits)
  with False show ?thesis by simp
qed

interpretation object_rules: rule_table "load_rule L ct"
    "\<lambda>s k. case objectMappingHash (fst s) of None \<Rightarrow> None | Some h \<Rightarrow> h k"
    "\<lambda>r k. (strcaseeq (om_objtype r) ''table'' \<or> strcaseeq (om_objtype r) ''column'') \<and> table_or_column_key r = k"
    "\<lambda>r. if om_enabled r then Some (strlcpy SYNCHDB_OBJ_NAME_SIZE (om_dstobj r)) else None"
  for L ct
  by unfold_locales (rule load_rule_object_lookup)

lemma load_rule_transform_lookup:
  assumes "load_rule L ct r s = Inr s'"
  shows "(case transformExpressionHash (fst s') of None \<Rightarrow> None | Some h \<Rightarrow> h k) =
    (if strcaseeq (om_objtype r) ''transform'' \<and> strlcpy SYNCHDB_OBJ_NAME_SIZE (om_srcobj r) = k
     then (if om_enabled r then Some (strlcpy SYNCHDB_TRANSFORM_EXPRESSION_SIZE (om_dstobj r)) else None)
     else (case transformExpressionHash (fst s) of None \<Rightarrow> None | Some h \<Rightarrow> h k))"
proof (cases "strcaseeq (om_objtype r) ''transform''")
  case True
  then have "\<not> strcaseeq (om_objtype r) ''table''" "\<not> strcaseeq (om_objtype r) ''column''"
    by (simp_all add: strcaseeq_def c_simps)
  with True assms have "fst s' = fst (load_transform_rule r (fst s))" by (auto simp: load_rule_def)
  with True show ?thesis by (auto simp: load_transform_rule_def Let_def split: option.splits)
next
  case False
  have "transformExpressionHash (set_rulehash ct h cs) = transformExpressionHash cs" for h cs
    by (cases ct) (simp_all add: set_rulehash_def)
  with False assms have "transformExpressionHash (fst s') = transformExpressionHash (fst s)"
    by (auto simp: load_rule_def load_object_rule_def load_datatype_rule_def Let_def
        split: if_splits option.splits prod.splits sum.splits)
  with False show ?thesis by simp
qed

interpretation transform_rules: rule_table "load_rule L ct"
    "\<lambda>s k. case transformExpressionHash (fst s) of None \<Rightarrow> None | Some h \<Rightarrow> h k"
    "\<lambda>r k. strcaseeq (om_objtype r) ''transform'' \<and> strlcpy SYNCHDB_OBJ_NAME_SIZE (om_srcobj r) = k"
    "\<lambda>r. if om_enabled r then Some (strlcpy SYNCHDB_TRANSFORM_EXPRESSION_SIZE (om_dstobj r)) else None"
  for L ct
  by unfold_locales (rule load_rule_transform_lookup)

lemma fc_load_objmap_rfold:
  "fc_load_objmap L cs ct (Some rs) = Inr (cs', cmds) \<Longrightarrow> rfold (load_rule L ct) rs (cs, []) = Inr (cs', cmds)"
  by (auto simp: fc_load_objmap_def split: option.splits)

lemma transform_object_name_eq:
  assumes "length objid \<le> SYNCHDB_OBJ_NAME_SIZE" and "length objtype \<le> SYNCHDB_OBJ_TYPE_SIZE"
  shows "transform_object_name cs objid objtype =
    Inr (case objectMappingHash cs of None \<Rightarrow> None
         | Some h \<Rightarrow> h \<lparr>ok_extObjName = objid, ok_extObjType = objtype\<rparr>)"
  using assms by (auto simp: transform_object_name_def split: option.splits)

text \<open>The rules for a table or column name, among which the last one decides.\<close>

definition names_object :: "ObjectMap \<Rightarrow> string \<Rightarrow> string \<Rightarrow> bool" where
  "names_object r objid objtype \<longleftrightarrow>
     strlcpy SYNCHDB_OBJ_TYPE_SIZE (om_objtype r) = objtype \<and> strlcpy SYNCHDB_OBJ_NAME_SIZE (om_srcobj r) = objid
     \<and> (strcaseeq (om_objtype r) ''table'' \<or> strcaseeq (om_objtype r) ''column'')"

text \<open>
  C27: after the rules of a connector are loaded, the name of a remote object is the one the
  last rule for that object and object type gives, if that rule is enabled; a disabled last rule
  leaves the object without a mapping; an object no rule is about keeps what it had. The object
  type of a rule is compared letter by letter, so a rule stored as \<^verbatim>\<open>TABLE\<close> never applies to the
  lookups, which ask for \<^verbatim>\<open>table\<close>.
\<close>

theorem load_objmap_last_rule:
  assumes "fc_load_objmap L cs ct (Some rs) = Inr (cs', cmds)"
    and "length objid \<le> SYNCHDB_OBJ_NAME_SIZE" and "objtype \<in> {''table'', ''column''}"
  shows "transform_object_name cs' objid objtype =
    (case find (\<lambda>r. names_object r objid objtype) (rev rs) of
       Some r \<Rightarrow> Inr (if om_enabled r then Some (strlcpy SYNCHDB_OBJ_NAME_SIZE (om_dstobj r)) else None)
     | None \<Rightarrow> transform_object_name cs objid objtype)"
proof -
  have t: "length objtype \<le> SYNCHDB_OBJ_TYPE_SIZE" using assms(3) by (auto simp: size_defs)
  have n: "(\<lambda>r. (strcaseeq (om_objtype r) ''table'' \<or> strcaseeq (om_objtype r) ''column'')
      \<and> table_or_column_key r = \<lparr>ok_extObjName = objid, ok_extObjType = objtype\<rparr>)
    = (\<lambda>r. names_object r objid objtype)"
    by (auto simp: names_object_def table_or_column_key_def fun_eq_iff)
  show ?thesis
    using object_rules.last_rule_decides [OF fc_load_objmap_rfold [OF assms(1)],
        of "\<lparr>ok_extObjName = objid, ok_extObjType = objtype\<rparr>"]
    by (simp add: transform_object_name_eq [OF assms(2) t] n split: option.splits)
qed

definition example_rule :: "string \<Rightarrow> bool \<Rightarrow> string \<Rightarrow> ObjectMap" where
  "example_rule ty en dst = \<lparr>om_objtype = ty, om_enabled = en, om_srcobj = ''inv.orders'', om_dstobj = dst,
     om_curr_pg_tbname = [], om_curr_pg_attname = [], om_curr_pg_atttypename = []\<rparr>"

theorem load_objmap_last_rule_witness:
  "\<exists>cs' cmds. fc_load_objmap ascii_lib (conv_state0\<lparr>mysqlDatatypeHash := Some Map.empty\<rparr>) TYPE_MYSQL
      (Some [example_rule ''table'' True ''a'', example_rule ''table'' True ''b'', example_rule ''TABLE'' True ''c''])
      = Inr (cs', cmds)
    \<and> transform_object_name cs' ''inv.orders'' ''table'' = Inr (Some ''b'')"
proof -
  let ?cs = "conv_state0\<lparr>mysqlDatatypeHash := Some Map.empty\<rparr>"
  let ?rs = "[example_rule ''table'' True ''a'', example_rule ''table'' True ''b'', example_rule ''TABLE'' True ''c'']"
  obtain cs' cmds where run: "fc_load_objmap ascii_lib ?cs TYPE_MYSQL (Some ?rs) = Inr (cs', cmds)"
    by (simp add: fc_load_objmap_def rulehash_def load_rule_def example_rule_def strcaseeq_def c_simps)
  have "transform_object_name cs' ''inv.orders'' ''table'' = Inr (Some ''b'')"
    using load_objmap_last_rule [OF run, of "''inv.orders''" "''table''"]
    by (simp add: size_defs names_object_def example_rule_def strcaseeq_def c_simps)
  with run show ?thesis by blast
qed

lemma transform_data_expression_eq:
  "transform_data_expression cs (Some objid) (Some col) =
    (case transformExpressionHash cs of None \<Rightarrow> None
     | Some h \<Rightarrow> h (strlcpy SYNCHDB_OBJ_NAME_SIZE (objid @ ''.'' @ col)))"
  by (simp add: transform_data_expression_def split: option.splits)

text \<open>
  The expression that transforms a column's data is the one of the last \<^verbatim>\<open>transform\<close> rule for
  \<^verbatim>\<open>object.column\<close>, if that rule is enabled, and no expression if it is disabled.
\<close>

theorem load_objmap_last_transform:
  assumes "fc_load_objmap L cs ct (Some rs) = Inr (cs', cmds)"
  shows "transform_data_expression cs' (Some objid) (Some col) =
    (case find (\<lambda>r. strcaseeq (om_objtype r) ''transform'' \<and> strlcpy SYNCHDB_OBJ_NAME_SIZE (om_srcobj r)
                 = strlcpy SYNCHDB_OBJ_NAME_SIZE (objid @ ''.'' @ col)) (rev rs) of
       Some r \<Rightarrow> (if om_enabled r then Some (strlcpy SYNCHDB_TRANSFORM_EXPRESSION_SIZE (om_dstobj r)) else None)
     | None \<Rightarrow> transform_data_expression cs (Some objid) (Some col))"
  using transform_rules.last_rule_decides [OF fc_load_objmap_rfold [OF assms],
      of "strlcpy SYNCHDB_OBJ_NAME_SIZE (objid @ ''.'' @ col)"]
  by (auto simp: transform_data_expression_eq cong: option.case_cong)

theorem load_objmap_last_transform_witness:
  "\<exists>cs' cmds. fc_load_objmap ascii_lib (conv_state0\<lparr>mysqlDatatypeHash := Some Map.empty\<rparr>) TYPE_MYSQL
      (Some [example_rule ''transform'' True ''a'', example_rule ''transform'' False ''b'']) = Inr (cs', cmds)
    \<and> transform_data_expression cs' (Some ''inv'') (Some ''orders'') = None"
proof -
  let ?cs = "conv_state0\<lparr>mysqlDatatypeHash := Some Map.empty\<rparr>"
  let ?rs = "[example_rule ''transform'' True ''a'', example_rule ''transform'' False ''b'']"
  obtain cs' cmds where run: "fc_load_objmap ascii_lib ?cs TYPE_MYSQL (Some ?rs) = Inr (cs', cmds)"
    by (simp add: fc_load_objmap_def rulehash_def load_rule_def example_rule_def strcaseeq_def c_simps)
  have "transform_data_expression cs' (Some ''inv'') (Some ''orders'') = None"
    using load_objmap_last_transform [OF run, of "''inv''" "''orders''"]
    by (simp add: size_defs example_rule_def strcaseeq_def c_simps)
  with run show ?thesis by blast
qed

end
