(* ===== verification/Time_Conv.thy ===== *)
theory Time_Conv
  imports Byte_Conv Name_Conv
begin

text \<open>
  The date, time, timestamp and interval converters of \<^verbatim>\<open>format_converter.c\<close>, with the part of the
  C library they use: \<^verbatim>\<open>gmtime\<close> (the proleptic Gregorian calendar), \<^verbatim>\<open>strftime\<close>, division and
  remainder that truncate towards zero, and \<^verbatim>\<open>long long\<close> values as integers within their bounds.
\<close>

section \<open>C arithmetic\<close>

definition c_div :: "int \<Rightarrow> int \<Rightarrow> int" where
  "c_div a b = (if 0 \<le> a then a div b else - ((- a) div b))"

definition c_mod :: "int \<Rightarrow> int \<Rightarrow> int" where
  "c_mod a b = a - b * c_div a b"

text \<open>The conversion \<^verbatim>\<open>(int) x\<close> of a 64-bit value, as gcc defines it.\<close>

definition c_int :: "int \<Rightarrow> int" where
  "c_int x = sint (word_of_int x :: 32 word)"

lemma c_int_id [simp]: "- (2 ^ 31) \<le> x \<Longrightarrow> x < 2 ^ 31 \<Longrightarrow> c_int x = x"
  by (simp add: c_int_def signed_of_int signed_take_bit_int_eq_self)

lemma c_div_nonneg [simp]: "0 \<le> a \<Longrightarrow> c_div a b = a div b"
  by (simp add: c_div_def)

lemma c_mod_nonneg [simp]: "0 \<le> a \<Longrightarrow> c_mod a b = a mod b"
  by (simp add: c_mod_def minus_mult_div_eq_mod)

section \<open>The calendar\<close>

definition leap_year :: "int \<Rightarrow> bool" where
  "leap_year y \<longleftrightarrow> y mod 4 = 0 \<and> y mod 100 \<noteq> 0 \<or> y mod 400 = 0"

text \<open>Days from 1970-01-01 to the first of January of a year, and the lengths of the months.\<close>

definition leaps_through :: "int \<Rightarrow> int" where
  "leaps_through y = y div 4 - y div 100 + y div 400"

definition days_before_year :: "int \<Rightarrow> int" where
  "days_before_year y = 365 * (y - 1970) + leaps_through (y - 1) - 477"

definition month_lengths :: "int \<Rightarrow> int list" where
  "month_lengths y = [31, if leap_year y then 29 else 28, 31, 30, 31, 30, 31, 31, 30, 31, 30, 31]"

definition valid_date :: "int \<Rightarrow> int \<Rightarrow> int \<Rightarrow> bool" where
  "valid_date y m d \<longleftrightarrow> 1 \<le> m \<and> m \<le> 12 \<and> 1 \<le> d \<and> d \<le> month_lengths y ! nat (m - 1)"

definition days_of_civil :: "int \<Rightarrow> int \<Rightarrow> int \<Rightarrow> int" where
  "days_of_civil y m d = days_before_year y + sum_list (take (nat (m - 1)) (month_lengths y)) + (d - 1)"

text \<open>
  \<^verbatim>\<open>gmtime\<close>: the year from an estimate that is off by at most one, then the month by going
  through the months.
\<close>

definition year_of_day :: "int \<Rightarrow> int" where
  "year_of_day d =
     (let y = 1970 + (400 * d) div 146097
      in if d < days_before_year y then y - 1 else if days_before_year (y + 1) \<le> d then y + 1 else y)"

fun month_of_yday :: "int list \<Rightarrow> int \<Rightarrow> int \<Rightarrow> int \<times> int" where
  "month_of_yday [] m k = (m, k + 1)"
| "month_of_yday (l # ls) m k = (if k < l then (m, k + 1) else month_of_yday ls (m + 1) (k - l))"

record tm =
  tm_year :: int
  tm_mon :: int
  tm_mday :: int
  tm_hour :: int
  tm_min :: int
  tm_sec :: int

definition gmtime_tm :: "int \<Rightarrow> tm" where
  "gmtime_tm t =
     (let d = t div 86400; s = t mod 86400; y = year_of_day d;
          (m, md) = month_of_yday (month_lengths y) 1 (d - days_before_year y)
      in \<lparr>tm_year = y - 1900, tm_mon = m - 1, tm_mday = md,
          tm_hour = s div 3600, tm_min = s mod 3600 div 60, tm_sec = s mod 60\<rparr>)"

text \<open>A year outside the range of \<^verbatim>\<open>int\<close> makes it return the null pointer.\<close>

definition gmtime :: "int \<Rightarrow> tm res" where
  "gmtime t =
     (let r = gmtime_tm t
      in if - (2 ^ 31) \<le> tm_year r \<and> tm_year r < 2 ^ 31 then Inr r else Inl (Undefined ''gmtime returned null''))"

lemma div_pred: "0 < n \<Longrightarrow> y div n = (y - 1) div n + (if n dvd y then 1 else 0 :: int)"
proof -
  assume n: "0 < n"
  have y: "y = n * (y div n) + y mod n" by simp
  show ?thesis
  proof (cases "n dvd y")
    case True
    with y have "y - 1 = n * (y div n - 1) + (n - 1)" by (simp add: algebra_simps)
    from int_div_pos_eq [OF this] n True show ?thesis by simp
  next
    case False
    then have "0 < y mod n" using n by (simp add: dvd_eq_mod_eq_0 order_less_le)
    moreover have "y - 1 = n * (y div n) + (y mod n - 1)" using y by simp
    moreover have "y mod n < n" using n by simp
    ultimately show ?thesis using int_div_pos_eq [of "y - 1" n "y div n" "y mod n - 1"] False by simp
  qed
qed

lemma leap_year_leaps: "leaps_through y - leaps_through (y - 1) = (if leap_year y then 1 else 0)"
proof -
  have "400 dvd y \<Longrightarrow> 100 dvd y" "100 dvd y \<Longrightarrow> 4 dvd y"
    by (erule dvd_trans [rotated], simp)+
  then show ?thesis
    using div_pred [of 4 y] div_pred [of 100 y] div_pred [of 400 y]
    by (simp add: leaps_through_def leap_year_def flip: dvd_eq_mod_eq_0)
qed

lemma days_before_year_Suc:
  "days_before_year (y + 1) = days_before_year y + (if leap_year y then 366 else 365)"
  using leap_year_leaps [of y] by (auto simp: days_before_year_def)

lemma div_mod_obtain:
  fixes x :: int
  assumes "0 < n"
  obtains q r where "x div n = q" "x = n * q + r" "0 \<le> r" "r < n"
  using assms by (metis mult_div_mod_eq pos_mod_bound pos_mod_sign)

lemma days_before_year_bounds:
  "400 * days_before_year y \<le> 146097 * y - 287810290"
  "146097 * y - 287811890 \<le> 400 * days_before_year y"
proof -
  obtain a r where a: "(y - 1) div 4 = a" "y - 1 = 4 * a + r" "0 \<le> r" "r < 4"
    by (rule div_mod_obtain [of 4 "y - 1"]) simp_all
  obtain b s where b: "(y - 1) div 100 = b" "y - 1 = 100 * b + s" "0 \<le> s" "s < 100"
    by (rule div_mod_obtain [of 100 "y - 1"]) simp_all
  obtain c t where c: "(y - 1) div 400 = c" "y - 1 = 400 * c + t" "0 \<le> t" "t < 400"
    by (rule div_mod_obtain [of 400 "y - 1"]) simp_all
  have "days_before_year y = 365 * y - 719050 + (a - b + c) - 477"
    by (simp add: days_before_year_def leaps_through_def a(1) b(1) c(1))
  note all = this a(2-) b(2-) c(2-)
  from all show "400 * days_before_year y \<le> 146097 * y - 287810290" by linarith
  from all show "146097 * y - 287811890 \<le> 400 * days_before_year y" by linarith
qed

lemma year_of_day_bounds:
  "days_before_year (year_of_day d) \<le> d" "d < days_before_year (year_of_day d + 1)"
proof -
  obtain q r where q: "(400 * d) div 146097 = q" and "400 * d = 146097 * q + r" "0 \<le> r" "r < 146097"
    by (rule div_mod_obtain [of 146097 "400 * d"]) simp_all
  note all = this days_before_year_bounds [of "1970 + q - 1", unfolded distrib_left right_diff_distrib]
    days_before_year_bounds [of "1970 + q + 1 + 1", unfolded distrib_left right_diff_distrib]
  from all have "days_before_year (1970 + q - 1) \<le> d" by linarith
  moreover from all have "d < days_before_year (1970 + q + 1 + 1)" by linarith
  ultimately show "days_before_year (year_of_day d) \<le> d" "d < days_before_year (year_of_day d + 1)"
    unfolding year_of_day_def Let_def q by (auto simp: algebra_simps)
qed

lemma month_of_yday_correct:
  assumes "0 \<le> k" and "k < sum_list ls" and "list_all (\<lambda>l. 0 \<le> l) ls" and "month_of_yday ls m k = (m', md)"
  shows "m \<le> m' \<and> m' < m + int (length ls) \<and> 1 \<le> md \<and> md \<le> ls ! nat (m' - m)
    \<and> sum_list (take (nat (m' - m)) ls) + (md - 1) = k"
  using assms
proof (induction ls arbitrary: m k)
  case (Cons l ls)
  show ?case
  proof (cases "k < l")
    case True
    with Cons.prems show ?thesis by auto
  next
    case False
    then have "0 \<le> k - l" "k - l < sum_list ls" "list_all (\<lambda>l. 0 \<le> l) ls"
      and run: "month_of_yday ls (m + 1) (k - l) = (m', md)" using Cons.prems by auto
    note IH = Cons.IH [OF this]
    then have "nat (m' - m) = Suc (nat (m' - (m + 1)))" by linarith
    with IH show ?thesis by auto
  qed
qed simp

lemma sum_month_lengths: "sum_list (month_lengths y) = (if leap_year y then 366 else 365)"
  by (simp add: month_lengths_def)

lemma date_of_day_correct:
  assumes "month_of_yday (month_lengths (year_of_day d)) 1 (d - days_before_year (year_of_day d)) = (m, md)"
  shows "valid_date (year_of_day d) m md \<and> days_of_civil (year_of_day d) m md = d"
proof -
  let ?y = "year_of_day d"
  have "0 \<le> d - days_before_year ?y" "d - days_before_year ?y < sum_list (month_lengths ?y)"
    using year_of_day_bounds [of d] days_before_year_Suc [of ?y] by (auto simp: sum_month_lengths)
  moreover have "list_all (\<lambda>l. 0 \<le> l) (month_lengths ?y)" "length (month_lengths ?y) = 12"
    by (simp_all add: month_lengths_def)
  ultimately show ?thesis
    using month_of_yday_correct [OF _ _ _ assms] by (auto simp: valid_date_def days_of_civil_def)
qed

text \<open>\<^verbatim>\<open>gmtime\<close> yields a date and a time of day that exist and denote the second given.\<close>

lemma gmtime_tm_correct:
  "valid_date (tm_year (gmtime_tm t) + 1900) (tm_mon (gmtime_tm t) + 1) (tm_mday (gmtime_tm t))"
  "days_of_civil (tm_year (gmtime_tm t) + 1900) (tm_mon (gmtime_tm t) + 1) (tm_mday (gmtime_tm t)) = t div 86400"
  "tm_hour (gmtime_tm t) * 3600 + tm_min (gmtime_tm t) * 60 + tm_sec (gmtime_tm t) = t mod 86400"
  "0 \<le> tm_hour (gmtime_tm t)" "tm_hour (gmtime_tm t) < 24" "0 \<le> tm_min (gmtime_tm t)" "tm_min (gmtime_tm t) < 60"
  "0 \<le> tm_sec (gmtime_tm t)" "tm_sec (gmtime_tm t) < 60" "tm_year (gmtime_tm t) = year_of_day (t div 86400) - 1900"
proof -
  obtain m md where mm: "month_of_yday (month_lengths (year_of_day (t div 86400))) 1
      (t div 86400 - days_before_year (year_of_day (t div 86400))) = (m, md)" by fastforce
  note d = date_of_day_correct [OF mm]
  show "valid_date (tm_year (gmtime_tm t) + 1900) (tm_mon (gmtime_tm t) + 1) (tm_mday (gmtime_tm t))"
    and "days_of_civil (tm_year (gmtime_tm t) + 1900) (tm_mon (gmtime_tm t) + 1) (tm_mday (gmtime_tm t)) = t div 86400"
    and "tm_year (gmtime_tm t) = year_of_day (t div 86400) - 1900"
    using d by (simp_all add: gmtime_tm_def Let_def mm)
  define s where "s = t mod 86400"
  have s: "0 \<le> s" "s < 86400" by (simp_all add: s_def)
  have "s mod 60 = s mod 3600 mod 60" by (simp add: mod_mod_cancel)
  then have "s div 3600 * 3600 + s mod 3600 div 60 * 60 + s mod 60 = s"
    using div_mult_mod_eq [of s 3600] div_mult_mod_eq [of "s mod 3600" 60] by linarith
  then show "tm_hour (gmtime_tm t) * 3600 + tm_min (gmtime_tm t) * 60 + tm_sec (gmtime_tm t) = t mod 86400"
    by (simp add: gmtime_tm_def Let_def mm s_def)
  show "0 \<le> tm_hour (gmtime_tm t)" "0 \<le> tm_min (gmtime_tm t)"
    "0 \<le> tm_sec (gmtime_tm t)" "tm_sec (gmtime_tm t) < 60"
    by (simp_all add: gmtime_tm_def Let_def mm pos_imp_zdiv_nonneg_iff)
  have "s div 3600 < 24" using s by (simp add: div_less_iff_less_mult)
  then show "tm_hour (gmtime_tm t) < 24" by (simp add: gmtime_tm_def Let_def mm s_def)
  have "s mod 3600 div 60 < 60" by (simp add: div_less_iff_less_mult)
  then show "tm_min (gmtime_tm t) < 60" by (simp add: gmtime_tm_def Let_def mm s_def)
qed

section \<open>Dates\<close>

definition add_quotes :: "bool \<Rightarrow> string \<Rightarrow> string" where
  "add_quotes addquote s = (if addquote then [CHR 0x27] @ s @ [CHR 0x27] else s)"

definition no_time_rep :: "string \<Rightarrow> pg_error" where
  "no_time_rep ty = PgError (Some (''no time representation available toprocess '' @ ty @ '' value''))
     (''no time representation available to process '' @ ty @ '' value'')"

text \<open>A signed overflow of \<^verbatim>\<open>time_t\<close> is undefined.\<close>

definition long_long :: "int \<Rightarrow> int res" where
  "long_long x = (if - (2 ^ 63) \<le> x \<and> x < 2 ^ 63 then Inr x else Inl (Undefined ''signed overflow''))"

definition strftime_date :: "tm \<Rightarrow> string" where
  "strftime_date t = show_int (tm_year t + 1900) @ ''-'' @ fmt_0d 2 (tm_mon t + 1) @ ''-'' @ fmt_0d 2 (tm_mday t)"

text \<open>\<^verbatim>\<open>strftime\<close> leaves the 11 byte buffer undefined when the date does not fit.\<close>

definition construct_datestr :: "config \<Rightarrow> int \<Rightarrow> bool \<Rightarrow> TimeRep \<Rightarrow> string res" where
  "construct_datestr cfg input addquote timerep =
     rbind (case timerep of
         TIME_DATE \<Rightarrow> Inr input
       | TIME_TIMESTAMP \<Rightarrow> Inr (c_div input 86400000)
       | TIME_MICROTIMESTAMP \<Rightarrow> Inr (c_div input 86400000000)
       | TIME_NANOTIMESTAMP \<Rightarrow> Inr (c_div input 86400000000000)
       | _ \<Rightarrow> Inl (no_time_rep ''DATEOID'')) (\<lambda>dayssinceepoch.
     rbind (long_long (mktime_1970 cfg + dayssinceepoch * 24 * 60 * 60)) (\<lambda>target_time.
     rbind (gmtime target_time) (\<lambda>target_date.
       let datestr = strftime_date target_date
       in if 10 < length datestr then Inl (Undefined ''strftime buffer'')
          else Inr (add_quotes addquote datestr))))"

text \<open>
  The bytes of a base64 value as a \<^verbatim>\<open>long long\<close>; where decoding fails, or there is no byte, the
  zeroed buffer gives 0.
\<close>

definition base64_value :: "pg_lib \<Rightarrow> string \<Rightarrow> int res" where
  "base64_value L inp =
     (case pg_b64_decode L inp of
        None \<Rightarrow> Inr 0
      | Some bytes \<Rightarrow> rbind (derive_value_from_byte bytes) (\<lambda>w. Inr (sint w)))"

definition handle_base64_to_date :: "pg_lib \<Rightarrow> config \<Rightarrow> string \<Rightarrow> bool \<Rightarrow> TimeRep \<Rightarrow> string res" where
  "handle_base64_to_date L cfg inp addquote timerep =
     rbind (base64_value L inp) (\<lambda>input. construct_datestr cfg input addquote timerep)"

definition handle_numeric_to_date :: "config \<Rightarrow> string \<Rightarrow> bool \<Rightarrow> TimeRep \<Rightarrow> string res" where
  "handle_numeric_to_date cfg inp addquote timerep = construct_datestr cfg (atoll inp) addquote timerep"

section \<open>Timestamps\<close>

definition construct_timestampstr :: "int \<Rightarrow> bool \<Rightarrow> TimeRep \<Rightarrow> int \<Rightarrow> string res" where
  "construct_timestampstr input addquote timerep typemod =
     rbind (case timerep of
         TIME_TIMESTAMP \<Rightarrow> Inr (c_div input 1000, c_mod input 1000)
       | TIME_MICROTIMESTAMP \<Rightarrow> Inr (c_div (c_div input 1000) 1000, c_mod input 1000000)
       | TIME_NANOTIMESTAMP \<Rightarrow> Inr (c_div (c_div (c_div input 1000) 1000) 1000, c_mod input 1000000000)
       | _ \<Rightarrow> Inl (no_time_rep ''TIMESTAMPOID'')) (\<lambda>(seconds, remains).
     rbind (gmtime seconds) (\<lambda>t.
       let base = fmt_0d 4 (tm_year t + 1900) @ ''-'' @ fmt_0d 2 (tm_mon t + 1) @ ''-'' @ fmt_0d 2 (tm_mday t) @ '' ''
             @ fmt_0d 2 (tm_hour t) @ '':'' @ fmt_0d 2 (tm_min t) @ '':'' @ fmt_0d 2 (tm_sec t);
           timestamp = take 26 (if 0 < typemod then base @ ''.'' @ fmt_0d 6 remains else base)
       in Inr (add_quotes addquote timestamp)))"

definition handle_base64_to_timestamp :: "pg_lib \<Rightarrow> string \<Rightarrow> bool \<Rightarrow> TimeRep \<Rightarrow> int \<Rightarrow> string res" where
  "handle_base64_to_timestamp L inp addquote timerep typemod =
     rbind (base64_value L inp) (\<lambda>input. construct_timestampstr input addquote timerep typemod)"

definition handle_numeric_to_timestamp :: "string \<Rightarrow> bool \<Rightarrow> TimeRep \<Rightarrow> int \<Rightarrow> string res" where
  "handle_numeric_to_timestamp inp addquote timerep typemod =
     construct_timestampstr (atoll inp) addquote timerep typemod"

text \<open>\<^verbatim>\<open>sscanf\<close> of \<^verbatim>\<open>%lld\<close> or \<^verbatim>\<open>%2d\<close> (a width): the number and the input after it.\<close>

definition scan_int :: "nat option \<Rightarrow> string \<Rightarrow> (int \<times> string) option" where
  "scan_int width s =
     (let s1 = dropWhile isspace s; s2 = (case width of None \<Rightarrow> s1 | Some n \<Rightarrow> take n s1);
          sg = (if s2 \<noteq> [] \<and> (hd s2 = CHR ''-'' \<or> hd s2 = CHR ''+'') then 1 else 0);
          ds = takeWhile is_digit (drop sg s2); v = int (nat_of_dec ds)
      in if ds = [] then None
         else Some (max (- (2 ^ 63)) (min (2 ^ 63 - 1) (if sg = 1 \<and> hd s2 = CHR ''-'' then - v else v)),
                    drop (sg + length ds) s1))"

definition scan_char :: "char \<Rightarrow> string \<Rightarrow> string option" where
  "scan_char c s = (case s of x # r \<Rightarrow> if x = c then Some r else None | [] \<Rightarrow> None)"

text \<open>The OpenLog Replicator form \<^verbatim>\<open>nanoseconds,+hh:mm\<close>: \<open>None\<close> is a null pointer result.\<close>

definition olr_timestamp_parts :: "string \<Rightarrow> (int \<times> string \<times> int) option" where
  "olr_timestamp_parts inp =
     (case scan_int None inp of None \<Rightarrow> None | Some (ns, r1) \<Rightarrow>
     (case scan_char (CHR '','') r1 of None \<Rightarrow> None | Some r2 \<Rightarrow>
       let tz = take 15 (takeWhile (\<lambda>c. \<not> isspace c) (dropWhile isspace r2))
       in case tz of [] \<Rightarrow> None | sign # r3 \<Rightarrow>
         (case scan_int (Some 2) r3 of None \<Rightarrow> None | Some (hh, r4) \<Rightarrow>
         (case scan_char (CHR '':'') r4 of None \<Rightarrow> None | Some r5 \<Rightarrow>
         (case scan_int (Some 2) r5 of None \<Rightarrow> None | Some (mm, _) \<Rightarrow>
            if sign = CHR ''-'' then Some (ns, tz, - (hh * 3600 + mm * 60))
            else if sign = CHR ''+'' then Some (ns, tz, hh * 3600 + mm * 60) else None)))))"

definition handle_string_to_timestamp :: "string \<Rightarrow> bool \<Rightarrow> ConnectorType \<Rightarrow> string option res" where
  "handle_string_to_timestamp inp addquote type =
     (if type = TYPE_OLR then
        (case olr_timestamp_parts inp of
           None \<Rightarrow> Inr None
         | Some (ns, tz, off) \<Rightarrow>
             rbind (gmtime (c_div ns 1000000000 + off)) (\<lambda>t.
               Inr (Some (strftime_date t @ '' '' @ fmt_0d 2 (tm_hour t) @ '':'' @ fmt_0d 2 (tm_min t) @ '':''
                 @ fmt_0d 2 (tm_sec t) @ tz))))
      else
        (let add_tz = (inp \<noteq> [] \<and> last inp = CHR ''Z'');
             out0 = (if addquote then [CHR 0x27] @ inp else inp);
             out1 = (case strchr out0 (CHR ''T'') of None \<Rightarrow> out0
                     | Some t \<Rightarrow> out0[length out0 - length t := CHR '' ''])
         in Inr (Some (if add_tz then butlast out1 @ ''+00:00'' else out1))))"

section \<open>Times of day\<close>

definition construct_timetr :: "int \<Rightarrow> bool \<Rightarrow> TimeRep \<Rightarrow> int \<Rightarrow> string res" where
  "construct_timetr input addquote timerep typemod =
     rbind (case timerep of
         TIME_TIME \<Rightarrow> Inr (c_div input 1000, c_mod input 1000)
       | TIME_MICROTIME \<Rightarrow> Inr (c_div (c_div input 1000) 1000, c_mod input 1000000)
       | TIME_NANOTIME \<Rightarrow> Inr (c_div (c_div (c_div input 1000) 1000) 1000, c_mod input 1000000000)
       | _ \<Rightarrow> Inl (no_time_rep ''TIMEOID'')) (\<lambda>(seconds, remains).
       let base = fmt_0d 2 (c_mod (c_div seconds 3600) 24) @ '':'' @ fmt_0d 2 (c_mod (c_div seconds 60) 60)
             @ '':'' @ fmt_0d 2 (c_mod seconds 60);
           time = take 15 (if 0 < typemod then base @ ''.'' @ fmt_0d 6 remains else base)
       in Inr (add_quotes addquote time))"

definition handle_base64_to_time :: "pg_lib \<Rightarrow> string \<Rightarrow> bool \<Rightarrow> TimeRep \<Rightarrow> int \<Rightarrow> string res" where
  "handle_base64_to_time L inp addquote timerep typemod =
     rbind (base64_value L inp) (\<lambda>input. construct_timetr input addquote timerep typemod)"

definition handle_numeric_to_time :: "string \<Rightarrow> bool \<Rightarrow> TimeRep \<Rightarrow> int \<Rightarrow> string res" where
  "handle_numeric_to_time inp addquote timerep typemod = construct_timetr (atoll inp) addquote timerep typemod"

section \<open>Intervals\<close>

text \<open>
  The text for the fields of the column's type; a combination of fields that PostgreSQL does not
  have is an error. \<open>sec\<close> is the whole number of seconds, \<open>rem\<close> the microseconds left.
\<close>

definition interval_text :: "pg_lib \<Rightarrow> interval_range \<Rightarrow> int \<Rightarrow> int \<Rightarrow> string option" where
  "interval_text L flds sec rem =
     (let days = show_int (c_div (c_int sec) 86400); years = show_int (c_div (c_int sec) (SECS_PER_YEAR L));
          hours24 = c_mod (c_int (c_div sec 3600)) 24; mins60 = c_mod (c_int (c_div sec 60)) 60;
          secs60 = c_mod (c_int (c_mod sec 60)) 60; usec = fmt_0d 6 (c_int rem);
          months12 = show_int (c_mod (c_int (c_div sec (86400 * DAYS_PER_MONTH L))) 12)
      in if flds = INTERVAL_FIELDS [IF_YEAR] then Some (years @ '' years'')
         else if flds = INTERVAL_FIELDS [IF_MONTH]
         then Some (show_int (c_div (c_int sec) (86400 * DAYS_PER_MONTH L)) @ '' months'')
         else if flds = INTERVAL_FIELDS [IF_DAY] then Some (days @ '' days'')
         else if flds = INTERVAL_FIELDS [IF_HOUR] then Some (show_int (c_div (c_int sec) 3600) @ '' hours'')
         else if flds = INTERVAL_FIELDS [IF_MINUTE] then Some (show_int (c_div (c_int sec) 60) @ '' minutes'')
         else if flds = INTERVAL_FIELDS [IF_SECOND] then Some (show_int (c_int sec) @ '' seconds'')
         else if flds = INTERVAL_FIELDS [IF_YEAR, IF_MONTH] then Some (years @ '' years '' @ months12 @ '' months'')
         else if flds = INTERVAL_FIELDS [IF_DAY, IF_HOUR] then Some (days @ '' days '' @ show_int hours24 @ '' hours'')
         else if flds = INTERVAL_FIELDS [IF_DAY, IF_HOUR, IF_MINUTE]
         then Some (days @ '' days '' @ fmt_0d 2 hours24 @ '':'' @ fmt_0d 2 mins60)
         else if flds = INTERVAL_FIELDS [IF_DAY, IF_HOUR, IF_MINUTE, IF_SECOND]
         then Some (days @ '' days '' @ fmt_0d 2 hours24 @ '':'' @ fmt_0d 2 mins60 @ '':'' @ fmt_0d 2 secs60 @ ''.'' @ usec)
         else if flds = INTERVAL_FIELDS [IF_HOUR, IF_MINUTE]
         then Some (fmt_0d 2 (c_div (c_int sec) 3600) @ '':'' @ fmt_0d 2 mins60)
         else if flds = INTERVAL_FIELDS [IF_HOUR, IF_MINUTE, IF_SECOND]
         then Some (fmt_0d 2 (c_int (c_div sec 3600)) @ '':'' @ fmt_0d 2 mins60 @ '':'' @ fmt_0d 2 secs60 @ ''.'' @ usec)
         else if flds = INTERVAL_FIELDS [IF_MINUTE, IF_SECOND]
         then Some (fmt_0d 2 (c_div (c_int sec) 60) @ '':'' @ fmt_0d 2 secs60 @ ''.'' @ usec)
         else if flds = INTERVAL_FULL_RANGE
         then Some (years @ '' years '' @ months12 @ '' months ''
           @ show_int (c_mod (c_int (c_div sec 86400)) (86400 * DAYS_PER_MONTH L)) @ '' days ''
           @ fmt_0d 2 hours24 @ '':'' @ fmt_0d 2 mins60 @ '':'' @ fmt_0d 2 secs60 @ ''.'' @ usec)
         else None)"

definition construct_intervalstr :: "pg_lib \<Rightarrow> int \<Rightarrow> bool \<Rightarrow> TimeRep \<Rightarrow> int \<Rightarrow> string res" where
  "construct_intervalstr L input addquote timerep typemod =
     (if timerep \<noteq> TIME_MICRODURATION
      then Inl (PgError (Some ''no interval representation available toprocess INTERVALOID value'')
                 ''no interval representation available to process INTERVALOID value'')
      else case interval_text L (INTERVAL_RANGE L typemod) (c_div (c_div input 1000) 1000) (c_mod input 1000000) of
             None \<Rightarrow> Inl (PgError (Some ''invalid INTERVAL typmod'') ''invalid INTERVAL typmod'')
           | Some s \<Rightarrow> Inr (if addquote then escapeSingleQuote (take 64 s) addquote else take 64 s))"

text \<open>The buffer has no extra byte here: with no decoded byte the sign is read from outside it.\<close>

definition handle_base64_to_interval :: "pg_lib \<Rightarrow> string \<Rightarrow> bool \<Rightarrow> TimeRep \<Rightarrow> int \<Rightarrow> string res" where
  "handle_base64_to_interval L inp addquote timerep typemod =
     (if pg_b64_dec_len L (length inp) = 0 then Inl (Undefined ''read beyond the buffer'')
      else rbind (base64_value L inp) (\<lambda>input. construct_intervalstr L input addquote timerep typemod))"

definition handle_numeric_to_interval :: "pg_lib \<Rightarrow> string \<Rightarrow> bool \<Rightarrow> TimeRep \<Rightarrow> int \<Rightarrow> string res" where
  "handle_numeric_to_interval L inp addquote timerep typemod =
     construct_intervalstr L (atoll inp) addquote timerep typemod"

section \<open>Reading the texts back\<close>

text \<open>The readers of \<^verbatim>\<open>YYYY-MM-DD\<close> and \<^verbatim>\<open>HH:MM:SS\<close> with an optional six-digit fraction.\<close>

definition digits_at :: "nat \<Rightarrow> nat \<Rightarrow> string \<Rightarrow> nat option" where
  "digits_at i n s = (let t = take n (drop i s) in if length t = n \<and> list_all is_digit t then Some (nat_of_dec t) else None)"

definition read_date :: "string \<Rightarrow> (int \<times> int \<times> int) option" where
  "read_date s =
     (case (digits_at 0 4 s, digits_at 5 2 s, digits_at 8 2 s) of
        (Some y, Some m, Some d) \<Rightarrow>
          if length s = 10 \<and> s ! 4 = CHR ''-'' \<and> s ! 7 = CHR ''-'' then Some (int y, int m, int d) else None
      | _ \<Rightarrow> None)"

text \<open>A time of day in microseconds.\<close>

definition read_time :: "string \<Rightarrow> int option" where
  "read_time s =
     (case (digits_at 0 2 s, digits_at 3 2 s, digits_at 6 2 s) of
        (Some h, Some m, Some x) \<Rightarrow>
          if s ! 2 = CHR '':'' \<and> s ! 5 = CHR '':''
          then (if length s = 8 then Some ((int h * 3600 + int m * 60 + int x) * 1000000)
                else case digits_at 9 6 s of
                  Some f \<Rightarrow> if length s = 15 \<and> s ! 8 = CHR ''.''
                    then Some ((int h * 3600 + int m * 60 + int x) * 1000000 + int f) else None
                | None \<Rightarrow> None)
          else None
      | _ \<Rightarrow> None)"

definition read_timestamp :: "string \<Rightarrow> ((int \<times> int \<times> int) \<times> int) option" where
  "read_timestamp s =
     (case (read_date (take 10 s), read_time (drop 11 s)) of
        (Some d, Some t) \<Rightarrow> if s ! 10 = CHR '' '' then Some (d, t) else None
      | _ \<Rightarrow> None)"

lemma nat_of_dec_less: "list_all is_digit s \<Longrightarrow> nat_of_dec s < 10 ^ length s"
proof (induction s rule: rev_induct)
  case (snoc c s)
  then have "is_digit c" by simp
  then have "digit_val c < 10" unfolding is_digit_def digit_val_def by linarith
  with snoc show ?case by simp
qed simp

lemma length_show_nat_eq:
  assumes "10 ^ k \<le> n" and "n < 10 ^ Suc k"
  shows "length (show_nat n) = Suc k"
proof -
  have "n < 10 ^ length (show_nat n)" using nat_of_dec_less [OF show_nat_list_all, of n] by simp
  with assms(1) have "(10 :: nat) ^ k < 10 ^ length (show_nat n)" by (rule le_less_trans)
  then have "k < length (show_nat n)" by (rule power_less_imp_less_exp [rotated]) simp
  moreover have "length (show_nat n) \<le> Suc k" using assms(2) by (rule length_show_nat_le) simp
  ultimately show ?thesis by simp
qed

lemma fmt_0d_digits:
  assumes "0 \<le> v" and "v < 10 ^ w" and "0 < w"
  shows "length (fmt_0d w v) = w" and "list_all is_digit (fmt_0d w v)" and "int (nat_of_dec (fmt_0d w v)) = v"
proof -
  have "nat v < 10 ^ w" using assms(1,2) by (simp add: nat_less_iff)
  then have "length (show_nat (nat v)) \<le> w" using assms(3) by (rule length_show_nat_le)
  then show "length (fmt_0d w v) = w" using assms(1) by (simp add: fmt_0d_def pad0_def)
  show "list_all is_digit (fmt_0d w v)" "int (nat_of_dec (fmt_0d w v)) = v"
    using assms(1) by (simp_all add: fmt_0d_def pad0_def list_all_iff [of _ "replicate _ _"])
qed

lemma show_int_year: "1000 \<le> y \<Longrightarrow> y < 10000 \<Longrightarrow> show_int y = fmt_0d 4 y"
  using length_show_nat_eq [of 3 "nat y"] by (simp add: show_int_def fmt_0d_def pad0_def)

lemma digits_at_append:
  "length a = i \<Longrightarrow> length b = n \<Longrightarrow> list_all is_digit b \<Longrightarrow> digits_at i n (a @ b @ c) = Some (nat_of_dec b)"
  by (simp add: digits_at_def)

lemma month_length_bounds: "valid_date y m d \<Longrightarrow> 1 \<le> m \<and> m < 100 \<and> 1 \<le> d \<and> d < 100"
proof -
  assume v: "valid_date y m d"
  then have "nat (m - 1) \<in> {..<12}" by (auto simp: valid_date_def)
  then have "month_lengths y ! nat (m - 1) \<le> 31"
    by (auto simp: month_lengths_def lessThan_nat_numeral lessThan_Suc)
  with v show ?thesis by (auto simp: valid_date_def)
qed

lemma read_date_fmt:
  assumes "0 \<le> y" "y < 10000" "valid_date y m d"
  shows "read_date (fmt_0d 4 y @ ''-'' @ fmt_0d 2 m @ ''-'' @ fmt_0d 2 d) = Some (y, m, d)"
    and "length (fmt_0d 4 y @ ''-'' @ fmt_0d 2 m @ ''-'' @ fmt_0d 2 d) = 10"
proof -
  note b = month_length_bounds [OF assms(3)]
  note Y = fmt_0d_digits [of y 4] and M = fmt_0d_digits [of m 2] and D = fmt_0d_digits [of d 2]
  let ?s = "fmt_0d 4 y @ ''-'' @ fmt_0d 2 m @ ''-'' @ fmt_0d 2 d"
  show l: "length ?s = 10" using Y(1) M(1) D(1) assms b by simp
  have "digits_at 0 4 ?s = Some (nat_of_dec (fmt_0d 4 y))"
    using digits_at_append [of "[]" 0 "fmt_0d 4 y" 4] Y assms by simp
  moreover have "digits_at 5 2 ?s = Some (nat_of_dec (fmt_0d 2 m))"
    using digits_at_append [of "fmt_0d 4 y @ ''-''" 5 "fmt_0d 2 m" 2] Y(1) M assms b by simp
  moreover have "digits_at 8 2 ?s = Some (nat_of_dec (fmt_0d 2 d))"
    using digits_at_append [of "fmt_0d 4 y @ ''-'' @ fmt_0d 2 m @ ''-''" 8 "fmt_0d 2 d" 2 "[]"] Y(1) M(1) D assms b by simp
  moreover have "?s ! 4 = CHR ''-''" "?s ! 7 = CHR ''-''"
    using Y(1) M(1) assms b by (simp_all add: nth_append)
  ultimately show "read_date ?s = Some (y, m, d)"
    using l Y(3) M(3) D(3) assms b by (simp add: read_date_def)
qed

lemma days_before_year_mono: "y \<le> z \<Longrightarrow> days_before_year y \<le> days_before_year z"
proof (induction "nat (z - y)" arbitrary: z)
  case (Suc n)
  then have "days_before_year y \<le> days_before_year (z - 1)" by simp
  also have "\<dots> \<le> days_before_year (z - 1 + 1)" using days_before_year_Suc [of "z - 1"] by simp
  finally show ?case by simp
qed simp

lemma year_of_day_between:
  assumes "days_before_year lo \<le> d" and "d < days_before_year hi"
  shows "lo \<le> year_of_day d" and "year_of_day d < hi"
proof -
  show "lo \<le> year_of_day d"
  proof (rule ccontr)
    assume "\<not> lo \<le> year_of_day d"
    then have "days_before_year (year_of_day d + 1) \<le> days_before_year lo" by (intro days_before_year_mono) simp
    with assms(1) year_of_day_bounds(2) [of d] show False by linarith
  qed
  show "year_of_day d < hi"
  proof (rule ccontr)
    assume "\<not> year_of_day d < hi"
    then have "days_before_year hi \<le> days_before_year (year_of_day d)" by (intro days_before_year_mono) simp
    with assms(2) year_of_day_bounds(1) [of d] show False by linarith
  qed
qed

lemma gmtime_year:
  assumes "days_before_year lo \<le> t div 86400" and "t div 86400 < days_before_year hi"
    and "- 2147480000 \<le> lo" and "hi \<le> 2147480000"
  shows "gmtime t = Inr (gmtime_tm t)"
    and "lo \<le> tm_year (gmtime_tm t) + 1900" and "tm_year (gmtime_tm t) + 1900 < hi"
  using year_of_day_between [OF assms(1,2)] assms(3,4)
  by (simp_all add: gmtime_def Let_def gmtime_tm_correct(10))

text \<open>The first days of the years 1000 and 10000, between which a year has four digits.\<close>

lemma days_before_year_1000 [simp]: "days_before_year 1000 = - 354285"
  by (simp add: days_before_year_def leaps_through_def)

lemma days_before_year_10000 [simp]: "days_before_year 10000 = 2932897"
  by (simp add: days_before_year_def leaps_through_def)

text \<open>
  A date given as a number of days since 1970-01-01, with a four-digit year, is printed as a
  calendar date that exists and that is exactly that many days from 1970-01-01 when the local
  time zone is UTC; for another time zone the day is shifted by whole days of the zone's epoch,
  so east of Greenwich (a negative \<^verbatim>\<open>mktime\<close>) it is the day before.
\<close>

theorem datestr_correct:
  assumes "\<bar>mktime_1970 cfg\<bar> < 86400 * 2"
    and "- 354285 \<le> input + mktime_1970 cfg div 86400" and "input + mktime_1970 cfg div 86400 < 2932897"
  shows "\<exists>out y m d. construct_datestr cfg input False TIME_DATE = Inr out
    \<and> read_date out = Some (y, m, d) \<and> valid_date y m d
    \<and> days_of_civil y m d = input + mktime_1970 cfg div 86400"
proof -
  define t where "t = mktime_1970 cfg + input * 24 * 60 * 60"
  have td: "t div 86400 = input + mktime_1970 cfg div 86400"
    using div_mult_self1 [of 86400 "mktime_1970 cfg" input] by (simp add: t_def algebra_simps)
  have "long_long t = Inr t"
    using assms unfolding long_long_def t_def by (simp; linarith)
  moreover have "days_before_year 1000 \<le> t div 86400" "t div 86400 < days_before_year 10000"
    using assms(2,3) by (simp_all add: td)
  note g = gmtime_year [OF this]
  note v = gmtime_tm_correct(1,2) [of t]
  have "strftime_date (gmtime_tm t) = fmt_0d 4 (tm_year (gmtime_tm t) + 1900) @ ''-''
      @ fmt_0d 2 (tm_mon (gmtime_tm t) + 1) @ ''-'' @ fmt_0d 2 (tm_mday (gmtime_tm t))"
    using g(2,3) by (simp add: strftime_date_def show_int_year)
  moreover note read_date_fmt [OF _ _ v(1)]
  ultimately have "construct_datestr cfg input False TIME_DATE = Inr (strftime_date (gmtime_tm t))"
    and "read_date (strftime_date (gmtime_tm t)) =
      Some (tm_year (gmtime_tm t) + 1900, tm_mon (gmtime_tm t) + 1, tm_mday (gmtime_tm t))"
    using g by (simp_all add: construct_datestr_def add_quotes_def t_def Let_def)
  with v show ?thesis unfolding td by blast
qed

theorem datestr_correct_witness:
  "\<exists>out y m d. construct_datestr \<lparr>synchdb_letter_casing_strategy = LCS_AS_IS, synchdb_dml_use_spi = True,
       with_olr = False, mktime_1970 = 0\<rparr> 19782 False TIME_DATE = Inr out
    \<and> read_date out = Some (y, m, d) \<and> valid_date y m d \<and> days_of_civil y m d = 19782"
  using datestr_correct [of "\<lparr>synchdb_letter_casing_strategy = LCS_AS_IS, synchdb_dml_use_spi = True,
       with_olr = False, mktime_1970 = 0\<rparr>" 19782] by simp

definition hms :: "int \<Rightarrow> int \<Rightarrow> int \<Rightarrow> string" where
  "hms h m s = fmt_0d 2 h @ '':'' @ fmt_0d 2 m @ '':'' @ fmt_0d 2 s"

lemma read_time_fmt:
  assumes "0 \<le> h" "h < 24" "0 \<le> m" "m < 60" "0 \<le> s" "s < 60" "0 \<le> f" "f < 1000000"
  shows "read_time (hms h m s) = Some ((h * 3600 + m * 60 + s) * 1000000)"
    and "read_time (hms h m s @ ''.'' @ fmt_0d 6 f) = Some ((h * 3600 + m * 60 + s) * 1000000 + f)"
    and "length (hms h m s) = 8" and "length (fmt_0d 6 f) = 6"
proof -
  note H = fmt_0d_digits [of h 2] and M = fmt_0d_digits [of m 2] and S = fmt_0d_digits [of s 2]
    and F = fmt_0d_digits [of f 6]
  have l: "length (fmt_0d 2 h) = 2" "length (fmt_0d 2 m) = 2" "length (fmt_0d 2 s) = 2" "length (fmt_0d 6 f) = 6"
    using H(1) M(1) S(1) F(1) assms by simp_all
  then show "length (hms h m s) = 8" "length (fmt_0d 6 f) = 6" by (simp_all add: hms_def)
  have d: "digits_at 0 2 (hms h m s @ r) = Some (nat_of_dec (fmt_0d 2 h))"
    "digits_at 3 2 (hms h m s @ r) = Some (nat_of_dec (fmt_0d 2 m))"
    "digits_at 6 2 (hms h m s @ r) = Some (nat_of_dec (fmt_0d 2 s))"
    "(hms h m s @ r) ! 2 = CHR '':''" "(hms h m s @ r) ! 5 = CHR '':''" for r
    using l H(2) M(2) S(2) assms digits_at_append [of "[]" 0 "fmt_0d 2 h" 2]
      digits_at_append [of "fmt_0d 2 h @ '':''" 3 "fmt_0d 2 m" 2]
      digits_at_append [of "fmt_0d 2 h @ '':'' @ fmt_0d 2 m @ '':''" 6 "fmt_0d 2 s" 2]
    by (simp_all add: hms_def nth_append)
  have f: "digits_at 9 6 (hms h m s @ ''.'' @ fmt_0d 6 f) = Some (nat_of_dec (fmt_0d 6 f))"
    "(hms h m s @ ''.'' @ fmt_0d 6 f) ! 8 = CHR ''.''"
    using l F(2) assms digits_at_append [of "hms h m s @ ''.''" 9 "fmt_0d 6 f" 6 "[]"]
    by (simp_all add: hms_def nth_append)
  have n: "int (nat_of_dec (fmt_0d 2 h)) = h" "int (nat_of_dec (fmt_0d 2 m)) = m" "int (nat_of_dec (fmt_0d 2 s)) = s"
    "int (nat_of_dec (fmt_0d 6 f)) = f"
    using H(3) M(3) S(3) F(3) assms by simp_all
  have "length (hms h m s) = 8" using l by (simp add: hms_def)
  then show "read_time (hms h m s) = Some ((h * 3600 + m * 60 + s) * 1000000)"
    using d [of "[]"] n by (simp add: read_time_def)
  have "length (hms h m s @ ''.'' @ fmt_0d 6 f) = 15" using l by (simp add: hms_def)
  then show "read_time (hms h m s @ ''.'' @ fmt_0d 6 f) = Some ((h * 3600 + m * 60 + s) * 1000000 + f)"
    using d [of "''.'' @ fmt_0d 6 f"] f n by (simp only: read_time_def) simp
qed

lemma split_hms:
  fixes t :: int
  shows "(t div 3600 mod 24) * 3600 + (t div 60 mod 60) * 60 + t mod 60 = t mod 86400"
proof -
  have "t mod 86400 = 60 * (t div 60 mod 1440) + t mod 60"
    using zmod_zmult2_eq [of 1440 t 60] by simp
  moreover have "t div 60 mod 1440 = 60 * (t div 3600 mod 24) + t div 60 mod 60"
    using zmod_zmult2_eq [of 24 "t div 60" 60] by (simp add: zdiv_zmult2_eq [symmetric])
  ultimately show ?thesis by simp
qed

text \<open>
  A time of day in microseconds since midnight, for a column with a precision, is printed as
  a time that reads back as exactly that number of microseconds.
\<close>

theorem timestr_micro_correct:
  assumes "0 \<le> input" and "input < 86400000000" and "0 < typemod"
  shows "\<exists>out. construct_timetr input False TIME_MICROTIME typemod = Inr out \<and> read_time out = Some input"
proof -
  define s where "s = input div 1000000"
  have s: "c_div (c_div input 1000) 1000 = s" using assms(1)
    by (simp add: s_def zdiv_zmult2_eq [symmetric] pos_imp_zdiv_nonneg_iff)
  have s0: "0 \<le> s" "s < 86400" using assms(1,2) by (simp_all add: s_def pos_imp_zdiv_nonneg_iff div_less_iff_less_mult)
  let ?h = "s div 3600 mod 24" and ?m = "s div 60 mod 60" and ?f = "input mod 1000000"
  let ?out = "hms ?h ?m (s mod 60) @ ''.'' @ fmt_0d 6 ?f"
  note r = read_time_fmt [of ?h ?m "s mod 60" ?f]
  have len: "length ?out = 15" using r(3,4) by simp
  have "construct_timetr input False TIME_MICROTIME typemod = Inr (take 15 ?out)"
    using assms(1,3) s s0 by (simp add: construct_timetr_def hms_def add_quotes_def Let_def pos_imp_zdiv_nonneg_iff del: take_append)
  moreover have "take 15 ?out = ?out" by (rule take_all) (simp only: len)
  moreover have "read_time ?out = Some ((?h * 3600 + ?m * 60 + s mod 60) * 1000000 + ?f)" using r(2) by simp
  moreover have "?h * 3600 + ?m * 60 + s mod 60 = s" using split_hms [of s] s0 by simp
  moreover have "s * 1000000 + ?f = input" by (simp add: s_def)
  ultimately show ?thesis by (intro exI [of _ ?out]) presburger
qed

theorem timestr_micro_correct_witness:
  "\<exists>out. construct_timetr 45296000007 False TIME_MICROTIME 6 = Inr out \<and> read_time out = Some 45296000007"
  using timestr_micro_correct [of 45296000007 6] by simp

lemma timestamp_text:
  assumes "0 \<le> seconds" and "seconds div 86400 < 2932897" and "0 \<le> f" and "f < 1000000"
  defines "t \<equiv> gmtime_tm seconds"
  defines "out \<equiv> fmt_0d 4 (tm_year t + 1900) @ ''-'' @ fmt_0d 2 (tm_mon t + 1) @ ''-'' @ fmt_0d 2 (tm_mday t) @ '' ''
    @ hms (tm_hour t) (tm_min t) (tm_sec t) @ ''.'' @ fmt_0d 6 f"
  shows "gmtime seconds = Inr t" and "take 26 out = out"
    and "\<exists>y m d us. read_timestamp out = Some ((y, m, d), us) \<and> valid_date y m d
      \<and> days_of_civil y m d * 86400000000 + us = seconds * 1000000 + f"
proof -
  have "days_before_year 1970 \<le> seconds div 86400"
    using assms(1) by (simp add: days_before_year_def leaps_through_def pos_imp_zdiv_nonneg_iff)
  moreover have "seconds div 86400 < days_before_year 10000" using assms(2) by simp
  note g = gmtime_year [OF calculation this]
  show "gmtime seconds = Inr t" using g(1) by (simp add: t_def)
  note c = gmtime_tm_correct [of seconds, folded t_def]
  let ?date = "fmt_0d 4 (tm_year t + 1900) @ ''-'' @ fmt_0d 2 (tm_mon t + 1) @ ''-'' @ fmt_0d 2 (tm_mday t)"
  let ?time = "hms (tm_hour t) (tm_min t) (tm_sec t) @ ''.'' @ fmt_0d 6 f"
  have rd: "read_date ?date = Some (tm_year t + 1900, tm_mon t + 1, tm_mday t)" "length ?date = 10"
    using read_date_fmt [OF _ _ c(1)] g(2,3) by (simp_all add: t_def)
  note rt = read_time_fmt [OF c(4-9) assms(3,4)]
  have o: "out = ?date @ CHR '' '' # ?time" by (simp add: out_def)
  have "length ?time = 15" using rt(3,4) by simp
  then have "length out = 26" using rd(2) unfolding o by (simp only: length_append list.size)
  then show "take 26 out = out" by simp
  have "take 10 out = ?date" "drop 11 out = ?time" "out ! 10 = CHR '' ''"
    using rd(2) unfolding o by (simp_all only: take_append drop_append nth_append take_all order_refl) simp_all
  then have "read_timestamp out = Some ((tm_year t + 1900, tm_mon t + 1, tm_mday t),
      (tm_hour t * 3600 + tm_min t * 60 + tm_sec t) * 1000000 + f)"
    by (simp only: read_timestamp_def rd(1) rt(2) prod.case option.case if_True simp_thms)
  moreover have "days_of_civil (tm_year t + 1900) (tm_mon t + 1) (tm_mday t) * 86400000000
      + ((tm_hour t * 3600 + tm_min t * 60 + tm_sec t) * 1000000 + f) = seconds * 1000000 + f"
    unfolding c(2,3) using div_mult_mod_eq [of seconds 86400] by linarith
  ultimately show "\<exists>y m d us. read_timestamp out = Some ((y, m, d), us) \<and> valid_date y m d
      \<and> days_of_civil y m d * 86400000000 + us = seconds * 1000000 + f"
    using c(1) by blast
qed

text \<open>
  A timestamp in microseconds since 1970-01-01 00:00, for a column with a precision and up to
  the year 9999, is printed as a date and time that exist and that lie exactly that many
  microseconds after 1970-01-01 00:00.
\<close>

theorem timestampstr_micro_correct:
  assumes "0 \<le> input" and "input < 2932897 * 86400000000" and "0 < typemod"
  shows "\<exists>out y m d us. construct_timestampstr input False TIME_MICROTIMESTAMP typemod = Inr out
    \<and> read_timestamp out = Some ((y, m, d), us) \<and> valid_date y m d
    \<and> days_of_civil y m d * 86400000000 + us = input"
proof -
  define s where "s = input div 1000000"
  have s: "c_div (c_div input 1000) 1000 = s" using assms(1)
    by (simp add: s_def zdiv_zmult2_eq [symmetric] pos_imp_zdiv_nonneg_iff)
  have s0: "0 \<le> s" "s div 86400 < 2932897"
    using assms(1,2) by (simp_all add: s_def pos_imp_zdiv_nonneg_iff div_less_iff_less_mult zdiv_zmult2_eq [symmetric])
  have f: "0 \<le> input mod 1000000" "input mod 1000000 < 1000000" by simp_all
  note T = timestamp_text [OF s0 f]
  have "s * 1000000 + input mod 1000000 = input" by (simp add: s_def)
  with T show ?thesis
    using assms(1,3) s by (simp add: construct_timestampstr_def hms_def add_quotes_def Let_def del: take_append)
qed

theorem timestampstr_micro_correct_witness:
  "\<exists>out y m d us. construct_timestampstr 1709164800123456 False TIME_MICROTIMESTAMP 6 = Inr out
    \<and> read_timestamp out = Some ((y, m, d), us) \<and> valid_date y m d
    \<and> days_of_civil y m d * 86400000000 + us = 1709164800123456"
  using timestampstr_micro_correct [of 1709164800123456 6] by simp

text \<open>
  A timestamp in milliseconds is printed with its milliseconds in the place of microseconds:
  the text denotes the whole seconds plus that many microseconds, so half a second becomes half a
  millisecond.
\<close>

theorem timestampstr_milli_misplaced:
  assumes "0 \<le> input" and "input < 2932897 * 86400000" and "0 < typemod"
  shows "\<exists>out y m d us. construct_timestampstr input False TIME_TIMESTAMP typemod = Inr out
    \<and> read_timestamp out = Some ((y, m, d), us) \<and> valid_date y m d
    \<and> days_of_civil y m d * 86400000000 + us = input div 1000 * 1000000 + input mod 1000"
proof -
  have s0: "0 \<le> input div 1000" "input div 1000 div 86400 < 2932897"
    using assms(1,2) by (simp_all add: pos_imp_zdiv_nonneg_iff div_less_iff_less_mult zdiv_zmult2_eq [symmetric])
  have "input mod 1000 < 1000" by simp
  then have f: "0 \<le> input mod 1000" "input mod 1000 < 1000000" by (simp, linarith)
  note T = timestamp_text [OF s0 f]
  with T show ?thesis
    using assms(1,3) by (simp add: construct_timestampstr_def hms_def add_quotes_def Let_def del: take_append)
qed

theorem timestampstr_milli_misplaced_witness:
  "\<exists>out y m d us. construct_timestampstr 1500 False TIME_TIMESTAMP 3 = Inr out
    \<and> read_timestamp out = Some ((y, m, d), us) \<and> valid_date y m d
    \<and> days_of_civil y m d * 86400000000 + us = 1000500"
  using timestampstr_milli_misplaced [of 1500 3] by simp

end
