(* ===== verification/Datatype_Map.thy ===== *)
theory Datatype_Map
  imports Name_Conv
begin

text \<open>
  The data type mapping of \<^verbatim>\<open>format_converter.c\<close>: the default tables of the four source
  databases, the hash tables built from them (\<^verbatim>\<open>init_mysql\<close> and the like,
  \<^verbatim>\<open>fc_initFormatConverter\<close>, \<^verbatim>\<open>fc_deinitFormatConverter\<close>), the lookup of the schema snapshot
  (\<^verbatim>\<open>fc_translate_datatype\<close>) and the one of the DDL path (\<^verbatim>\<open>transformDDLColumns\<close>).
\<close>

section \<open>The default tables\<close>

definition type_entry :: "string \<Rightarrow> bool \<Rightarrow> string \<Rightarrow> int \<Rightarrow> DatatypeHashKey \<times> (string \<times> int)" where
  "type_entry extTypeName autoIncremented pgsqlTypeName pgsqlTypeLength =
     (\<lparr>hk_extTypeName = extTypeName, hk_autoIncremented = autoIncremented\<rparr>,
      (pgsqlTypeName, pgsqlTypeLength))"

definition mysql_defaultTypeMappings :: "(DatatypeHashKey \<times> (string \<times> int)) list" where
  "mysql_defaultTypeMappings =
    [type_entry ''int'' True ''serial'' 0,
     type_entry ''int unsigned'' True ''serial'' 0,
     type_entry ''bigint'' True ''bigserial'' 0,
     type_entry ''bigint unsigned'' True ''bigserial'' 0,
     type_entry ''smallint'' True ''smallserial'' 0,
     type_entry ''smallint unsigned'' True ''smallserial'' 0,
     type_entry ''mediumint'' True ''serial'' 0,
     type_entry ''mediumint unsigned'' True ''serial'' 0,
     type_entry ''tinyint'' True ''smallserial'' 0,
     type_entry ''tinyint unsigned'' True ''smallserial'' 0,
     type_entry ''enum'' False ''text'' 0,
     type_entry ''set'' False ''text'' 0,
     type_entry ''bigint'' False ''bigint'' 0,
     type_entry ''bigint unsigned'' False ''numeric'' (- 1),
     type_entry ''numeric unsigned'' False ''numeric'' (- 1),
     type_entry ''dec'' False ''decimal'' (- 1),
     type_entry ''dec unsigned'' False ''decimal'' (- 1),
     type_entry ''decimal unsigned'' False ''decimal'' (- 1),
     type_entry ''fixed'' False ''decimal'' (- 1),
     type_entry ''fixed unsigned'' False ''decimal'' (- 1),
     type_entry ''bit(1)'' False ''boolean'' 0,
     type_entry ''bit'' False ''bit'' (- 1),
     type_entry ''bool'' False ''boolean'' (- 1),
     type_entry ''double'' False ''double precision'' 0,
     type_entry ''double precision'' False ''double precision'' 0,
     type_entry ''double precision unsigned'' False ''double precision'' 0,
     type_entry ''double unsigned'' False ''double precision'' 0,
     type_entry ''real'' False ''real'' 0,
     type_entry ''real unsigned'' False ''real'' 0,
     type_entry ''float'' False ''real'' 0,
     type_entry ''float unsigned'' False ''real'' 0,
     type_entry ''int'' False ''int'' 0,
     type_entry ''int unsigned'' False ''bigint'' 0,
     type_entry ''integer'' False ''int'' 0,
     type_entry ''integer unsigned'' False ''bigint'' 0,
     type_entry ''mediumint'' False ''int'' 0,
     type_entry ''mediumint unsigned'' False ''int'' 0,
     type_entry ''year'' False ''int'' 0,
     type_entry ''smallint'' False ''smallint'' 0,
     type_entry ''smallint unsigned'' False ''int'' 0,
     type_entry ''tinyint'' False ''smallint'' 0,
     type_entry ''tinyint unsigned'' False ''smallint'' 0,
     type_entry ''datetime'' False ''timestamp'' (- 1),
     type_entry ''timestamp'' False ''timestamptz'' (- 1),
     type_entry ''binary'' False ''bytea'' 0,
     type_entry ''varbinary'' False ''bytea'' 0,
     type_entry ''blob'' False ''bytea'' 0,
     type_entry ''mediumblob'' False ''bytea'' 0,
     type_entry ''longblob'' False ''bytea'' 0,
     type_entry ''tinyblob'' False ''bytea'' 0,
     type_entry ''long varchar'' False ''text'' 0,
     type_entry ''longtext'' False ''text'' 0,
     type_entry ''mediumtext'' False ''text'' 0,
     type_entry ''tinytext'' False ''text'' 0,
     type_entry ''json'' False ''jsonb'' (- 1),
     type_entry ''geometry'' False ''text'' 0,
     type_entry ''geometrycollection'' False ''text'' 0,
     type_entry ''geomcollection'' False ''text'' 0,
     type_entry ''linestring'' False ''text'' 0,
     type_entry ''multilinestring'' False ''text'' 0,
     type_entry ''multipoint'' False ''text'' 0,
     type_entry ''multipolygon'' False ''text'' 0,
     type_entry ''point'' False ''text'' 0,
     type_entry ''polygon'' False ''text'' 0]"

definition oracle_defaultTypeMappings :: "(DatatypeHashKey \<times> (string \<times> int)) list" where
  "oracle_defaultTypeMappings =
    [type_entry ''binary_double'' False ''double precision'' 0,
     type_entry ''binary_float'' False ''real'' 0,
     type_entry ''float'' False ''real'' 0,
     type_entry ''number(0,0)'' False ''numeric'' (- 1),
     type_entry ''number(1,0)'' False ''smallint'' 0,
     type_entry ''number(2,0)'' False ''smallint'' 0,
     type_entry ''number(3,0)'' False ''smallint'' 0,
     type_entry ''number(4,0)'' False ''smallint'' 0,
     type_entry ''number(5,0)'' False ''int'' 0,
     type_entry ''number(6,0)'' False ''int'' 0,
     type_entry ''number(7,0)'' False ''int'' 0,
     type_entry ''number(8,0)'' False ''int'' 0,
     type_entry ''number(9,0)'' False ''int'' 0,
     type_entry ''number(10,0)'' False ''bigint'' 0,
     type_entry ''number(11,0)'' False ''bigint'' 0,
     type_entry ''number(12,0)'' False ''bigint'' 0,
     type_entry ''number(13,0)'' False ''bigint'' 0,
     type_entry ''number(14,0)'' False ''bigint'' 0,
     type_entry ''number(15,0)'' False ''bigint'' 0,
     type_entry ''number(16,0)'' False ''bigint'' 0,
     type_entry ''number(17,0)'' False ''bigint'' 0,
     type_entry ''number(18,0)'' False ''bigint'' 0,
     type_entry ''number(19,0)'' False ''numeric'' (- 1),
     type_entry ''number(20,0)'' False ''numeric'' (- 1),
     type_entry ''number(21,0)'' False ''numeric'' (- 1),
     type_entry ''number(22,0)'' False ''numeric'' (- 1),
     type_entry ''number(23,0)'' False ''numeric'' (- 1),
     type_entry ''number(24,0)'' False ''numeric'' (- 1),
     type_entry ''number(25,0)'' False ''numeric'' (- 1),
     type_entry ''number(26,0)'' False ''numeric'' (- 1),
     type_entry ''number(27,0)'' False ''numeric'' (- 1),
     type_entry ''number(28,0)'' False ''numeric'' (- 1),
     type_entry ''number(29,0)'' False ''numeric'' (- 1),
     type_entry ''number(30,0)'' False ''numeric'' (- 1),
     type_entry ''number(31,0)'' False ''numeric'' (- 1),
     type_entry ''number(32,0)'' False ''numeric'' (- 1),
     type_entry ''number(33,0)'' False ''numeric'' (- 1),
     type_entry ''number(34,0)'' False ''numeric'' (- 1),
     type_entry ''number(35,0)'' False ''numeric'' (- 1),
     type_entry ''number(36,0)'' False ''numeric'' (- 1),
     type_entry ''number(37,0)'' False ''numeric'' (- 1),
     type_entry ''number(38,0)'' False ''numeric'' (- 1),
     type_entry ''number'' False ''numeric'' (- 1),
     type_entry ''numeric'' False ''numeric'' (- 1),
     type_entry ''date'' False ''timestamp'' (- 1),
     type_entry ''long'' False ''text'' (- 1),
     type_entry ''interval day to second'' False ''interval day to second'' (- 1),
     type_entry ''interval year to month'' False ''interval year to month'' 0,
     type_entry ''timestamp'' False ''timestamp'' (- 1),
     type_entry ''timestamp with local time zone'' False ''timestamptz'' (- 1),
     type_entry ''timestamp with time zone'' False ''timestamptz'' (- 1),
     type_entry ''date'' False ''date'' (- 1),
     type_entry ''char'' False ''char'' (- 1),
     type_entry ''nchar'' False ''char'' (- 1),
     type_entry ''nvarchar2'' False ''varchar'' (- 1),
     type_entry ''varchar'' False ''varchar'' (- 1),
     type_entry ''varchar2'' False ''varchar'' (- 1),
     type_entry ''long raw'' False ''bytea'' 0,
     type_entry ''raw'' False ''bytea'' 0,
     type_entry ''decimal'' False ''decimal'' (- 1),
     type_entry ''rowid'' False ''text'' 0,
     type_entry ''urowid'' False ''text'' 0,
     type_entry ''xmltype'' False ''text'' 0,
     type_entry ''bfile'' False ''text'' 0,
     type_entry ''blob'' False ''bytea'' 0,
     type_entry ''clob'' False ''text'' 0,
     type_entry ''nclob'' False ''text'' 0,
     type_entry ''sdo_geometry'' False ''text'' 0,
     type_entry ''sdo_topo_geometry'' False ''text'' 0,
     type_entry ''sdo_georaster'' False ''text'' 0,
     type_entry ''uritype'' False ''text'' 0,
     type_entry ''anytype'' False ''text'' 0,
     type_entry ''anydata'' False ''text'' 0,
     type_entry ''anydataset'' False ''text'' 0]"

definition sqlserver_defaultTypeMappings :: "(DatatypeHashKey \<times> (string \<times> int)) list" where
  "sqlserver_defaultTypeMappings =
    [type_entry ''int identity'' True ''serial'' 0,
     type_entry ''bigint identity'' True ''bigserial'' 0,
     type_entry ''smallint identity'' True ''smallserial'' 0,
     type_entry ''enum'' False ''text'' 0,
     type_entry ''int'' False ''int'' 0,
     type_entry ''bigint'' False ''bigint'' 0,
     type_entry ''smallint'' False ''smallint'' 0,
     type_entry ''tinyint'' False ''smallint'' 0,
     type_entry ''numeric'' False ''numeric'' (- 1),
     type_entry ''decimal'' False ''numeric'' (- 1),
     type_entry ''bit(1)'' False ''bool'' 0,
     type_entry ''bit'' False ''bit'' 0,
     type_entry ''money'' False ''money'' 0,
     type_entry ''smallmoney'' False ''money'' 0,
     type_entry ''real'' False ''real'' 0,
     type_entry ''float'' False ''real'' 0,
     type_entry ''date'' False ''date'' 0,
     type_entry ''time'' False ''time'' 0,
     type_entry ''datetime'' False ''timestamp'' 0,
     type_entry ''datetime2'' False ''timestamp'' 0,
     type_entry ''datetimeoffset'' False ''timestamptz'' 0,
     type_entry ''smalldatetime'' False ''timestamp'' 0,
     type_entry ''char'' False ''char'' (- 1),
     type_entry ''varchar'' False ''varchar'' (- 1),
     type_entry ''text'' False ''text'' 0,
     type_entry ''nchar'' False ''char'' 0,
     type_entry ''nvarchar'' False ''varchar'' (- 1),
     type_entry ''ntext'' False ''text'' 0,
     type_entry ''binary'' False ''bytea'' 0,
     type_entry ''varbinary'' False ''bytea'' 0,
     type_entry ''image'' False ''bytea'' 0,
     type_entry ''uniqueidentifier'' False ''uuid'' 0,
     type_entry ''xml'' False ''xml'' 0,
     type_entry ''json'' False ''jsonb'' (- 1),
     type_entry ''hierarchyid'' False ''text'' 0,
     type_entry ''vector'' False ''text'' 0,
     type_entry ''geometry'' False ''text'' 0,
     type_entry ''geography'' False ''text'' 0]"

definition postgres_defaultTypeMappings :: "(DatatypeHashKey \<times> (string \<times> int)) list" where
  "postgres_defaultTypeMappings =
    [type_entry ''bigint'' False ''bigint'' 0,
     type_entry ''bigserial'' False ''bigserial'' 0,
     type_entry ''bigserial'' True ''bigserial'' 0,
     type_entry ''bit'' False ''bit'' (- 1),
     type_entry ''bit varying'' False ''bit varying'' (- 1),
     type_entry ''bool'' False ''bool'' 0,
     type_entry ''boolean'' False ''boolean'' 0,
     type_entry ''box'' False ''box'' 0,
     type_entry ''bytea'' False ''bytea'' 0,
     type_entry ''char'' False ''char'' (- 1),
     type_entry ''character'' False ''character'' (- 1),
     type_entry ''character varying'' False ''character varying'' (- 1),
     type_entry ''cidr'' False ''cidr'' 0,
     type_entry ''circle'' False ''circle'' 0,
     type_entry ''date'' False ''date'' 0,
     type_entry ''decimal'' False ''decimal'' (- 1),
     type_entry ''double precision'' False ''double precision'' 0,
     type_entry ''float'' False ''float'' 0,
     type_entry ''float4'' False ''float4'' 0,
     type_entry ''float8'' False ''float8'' 0,
     type_entry ''inet'' False ''inet'' 0,
     type_entry ''int'' False ''int'' 0,
     type_entry ''int2'' False ''int2'' 0,
     type_entry ''int4'' False ''int4'' 0,
     type_entry ''int8'' False ''int8'' 0,
     type_entry ''integer'' False ''integer'' 0,
     type_entry ''interval'' False ''interval'' (- 1),
     type_entry ''json'' False ''json'' 0,
     type_entry ''jsonb'' False ''jsonb'' 0,
     type_entry ''line'' False ''line'' 0,
     type_entry ''lseg'' False ''lseg'' 0,
     type_entry ''macaddr'' False ''macaddr'' 0,
     type_entry ''macaddr8'' False ''macaddr8'' 0,
     type_entry ''money'' False ''money'' 0,
     type_entry ''numeric'' False ''numeric'' (- 1),
     type_entry ''path'' False ''path'' 0,
     type_entry ''pg_lsn'' False ''pg_lsn'' 0,
     type_entry ''pg_snapshot'' False ''pg_snapshot'' 0,
     type_entry ''point'' False ''point'' 0,
     type_entry ''polygon'' False ''polygon'' 0,
     type_entry ''real'' False ''real'' 0,
     type_entry ''smallint'' False ''smallint'' 0,
     type_entry ''smallserial'' False ''smallserial'' 0,
     type_entry ''smallserial'' True ''smallserial'' 0,
     type_entry ''serial'' False ''serial'' 0,
     type_entry ''serial'' True ''serial'' 0,
     type_entry ''serial2'' False ''serial2'' 0,
     type_entry ''serial2'' True ''serial2'' 0,
     type_entry ''serial4'' False ''serial4'' 0,
     type_entry ''serial4'' True ''serial4'' 0,
     type_entry ''serial8'' False ''serial8'' 0,
     type_entry ''serial8'' True ''serial8'' 0,
     type_entry ''text'' False ''text'' 0,
     type_entry ''time without time zone'' False ''time without time zone'' (- 1),
     type_entry ''time with time zone'' False ''time with time zone'' (- 1),
     type_entry ''time'' False ''time'' (- 1),
     type_entry ''timetz'' False ''timetz'' (- 1),
     type_entry ''timestamp without time zone'' False ''timestamp without time zone'' (- 1),
     type_entry ''timestamp with time zone'' False ''timestamp with time zone'' (- 1),
     type_entry ''timestamp'' False ''timestamp'' (- 1),
     type_entry ''timestamptz'' False ''timestamptz'' (- 1),
     type_entry ''tsquery'' False ''tsquery'' 0,
     type_entry ''tsvector'' False ''tsvector'' 0,
     type_entry ''txid_snapshot'' False ''txid_snapshot'' 0,
     type_entry ''uuid'' False ''uuid'' 0,
     type_entry ''varbit'' False ''varbit'' (- 1),
     type_entry ''varchar'' False ''varchar'' (- 1),
     type_entry ''xml'' False ''xml'' 0]"

lemmas default_tables = mysql_defaultTypeMappings_def oracle_defaultTypeMappings_def
  sqlserver_defaultTypeMappings_def postgres_defaultTypeMappings_def type_entry_def

section \<open>Building the hash tables\<close>

text \<open>\<^verbatim>\<open>HASH_ENTER\<close> with the entry filled only when it was not found: the first entry of a key stays.\<close>

definition init_datatype_hash :: "(DatatypeHashKey \<times> (string \<times> int)) list \<Rightarrow> DatatypeHashKey \<rightharpoonup> string \<times> int" where
  "init_datatype_hash mappings =
     foldl (\<lambda>h (key, v). case h key of None \<Rightarrow> h(key \<mapsto> v) | Some _ \<Rightarrow> h) Map.empty mappings"

definition init_mysql :: "conv_state \<Rightarrow> conv_state" where
  "init_mysql cs = cs\<lparr>mysqlDatatypeHash := Some (init_datatype_hash mysql_defaultTypeMappings)\<rparr>"

definition init_oracle :: "conv_state \<Rightarrow> conv_state" where
  "init_oracle cs = cs\<lparr>oracleDatatypeHash := Some (init_datatype_hash oracle_defaultTypeMappings)\<rparr>"

definition init_sqlserver :: "conv_state \<Rightarrow> conv_state" where
  "init_sqlserver cs = cs\<lparr>sqlserverDatatypeHash := Some (init_datatype_hash sqlserver_defaultTypeMappings)\<rparr>"

definition init_postgres :: "conv_state \<Rightarrow> conv_state" where
  "init_postgres cs = cs\<lparr>postgresDatatypeHash := Some (init_datatype_hash postgres_defaultTypeMappings)\<rparr>"

definition fc_initFormatConverter :: "ConnectorType \<Rightarrow> conv_state \<Rightarrow> conv_state res" where
  "fc_initFormatConverter connectorType cs = (case connectorType of
       TYPE_MYSQL \<Rightarrow> Inr (init_mysql cs)
     | TYPE_ORACLE \<Rightarrow> Inr (init_oracle cs) | TYPE_OLR \<Rightarrow> Inr (init_oracle cs)
     | TYPE_SQLSERVER \<Rightarrow> Inr (init_sqlserver cs)
     | TYPE_POSTGRES \<Rightarrow> Inr (init_postgres cs)
     | TYPE_UNDEF \<Rightarrow> Inl (PgError (Some ''unsupported connector type'') ''unsupported connector type''))"

text \<open>A destroyed table leaves a dangling pointer, which nothing reads again; the table of PostgreSQL is not destroyed.\<close>

definition fc_deinitFormatConverter :: "ConnectorType \<Rightarrow> conv_state \<Rightarrow> conv_state res" where
  "fc_deinitFormatConverter connectorType cs = (case connectorType of
       TYPE_MYSQL \<Rightarrow> Inr (cs\<lparr>mysqlDatatypeHash := None\<rparr>)
     | TYPE_ORACLE \<Rightarrow> Inr (cs\<lparr>oracleDatatypeHash := None\<rparr>) | TYPE_OLR \<Rightarrow> Inr (cs\<lparr>oracleDatatypeHash := None\<rparr>)
     | TYPE_SQLSERVER \<Rightarrow> Inr (cs\<lparr>sqlserverDatatypeHash := None\<rparr>)
     | TYPE_POSTGRES \<Rightarrow> Inr cs
     | TYPE_UNDEF \<Rightarrow> Inl (PgError (Some ''unsupported connector type'') ''unsupported connector type''))"

section \<open>Type lookup of the schema snapshot\<close>

text \<open>
  The result, when the lookup succeeds, and the length and scale the caller's variables hold
  afterwards.
\<close>

definition fc_translate_datatype ::
  "conv_state \<Rightarrow> ConnectorType \<Rightarrow> string \<Rightarrow> int \<Rightarrow> int \<Rightarrow> (string \<times> int) option \<times> int \<times> int" where
  "fc_translate_datatype cs connectorType ext_datatype ext_length ext_scale =
     (case rulehash cs connectorType of
        Inr (Some thehash) \<Rightarrow>
          (let find_type = (\<lambda>n. thehash \<lparr>hk_extTypeName = strlcpy SYNCHDB_DATATYPE_NAME_SIZE n,
                                         hk_autoIncremented = False\<rparr>)
           in if connectorType \<in> {TYPE_MYSQL, TYPE_SQLSERVER} \<and> ext_length = 1 \<and> strcaseeq ext_datatype ''bit''
              then (find_type (ext_datatype @ ''('' @ show_int ext_length @ '')''), ext_length, ext_scale)
              else if connectorType = TYPE_ORACLE
              then (let (type, removed) = remove_precision ext_datatype;
                        (l, s) = (if strcaseeq type ''interval day to second'' \<and> 0 < ext_scale \<or> removed
                                  then (ext_scale, 0) else (ext_length, ext_scale))
                    in (if s = 0 \<and> strcaseeq type ''number''
                        then find_type (type @ ''('' @ show_int l @ '','' @ show_int s @ '')'')
                        else find_type type, l, s))
              else (find_type ext_datatype, ext_length, ext_scale))
      | _ \<Rightarrow> (None, ext_length, ext_scale))"

section \<open>Columns of the DDL path\<close>

text \<open>
  A column is looked up first by its fully qualified name (a rule for that column alone), then
  by its type. The text appended to the query, the column's PostgreSQL type and the column,
  whose length the mapping may replace.
\<close>

definition lookup_column_type ::
  "(DatatypeHashKey \<rightharpoonup> string \<times> int) \<Rightarrow> string \<Rightarrow> string \<Rightarrow> bool \<Rightarrow> (string \<times> int) option" where
  "lookup_column_type h colNameObjId typekey autoinc =
     (case h \<lparr>hk_extTypeName = strlcpy SYNCHDB_DATATYPE_NAME_SIZE colNameObjId, hk_autoIncremented = autoinc\<rparr> of
        Some e \<Rightarrow> Some e
      | None \<Rightarrow> h \<lparr>hk_extTypeName = strlcpy SYNCHDB_DATATYPE_NAME_SIZE typekey, hk_autoIncremented = autoinc\<rparr>)"

definition emit_column ::
  "bool \<Rightarrow> string \<Rightarrow> (string \<times> int) option \<Rightarrow> DBZ_DDL_COLUMN \<Rightarrow> string \<times> string \<times> DBZ_DDL_COLUMN" where
  "emit_column datatypeonly attname entry col =
     (let ty = (case entry of None \<Rightarrow> dc_typeName col | Some (t, _) \<Rightarrow> t);
          col' = (case entry of Some (_, len) \<Rightarrow> if len \<noteq> - 1 then col\<lparr>dc_length := len\<rparr> else col | None \<Rightarrow> col);
          txt = (if datatypeonly then '' '' @ ty @ '' '' else '' '' @ [CHR 0x22] @ attname @ [CHR 0x22] @ '' '' @ ty @ '' '')
      in (txt, ty, col'))"

definition bit_type_key :: "DBZ_DDL_COLUMN \<Rightarrow> string" where
  "bit_type_key col =
     (if strcaseeq (dc_typeName col) ''bit'' \<and> dc_length col = 1
      then dc_typeName col @ ''('' @ show_int (dc_length col) @ '')'' else dc_typeName col)"

definition transform_mysql_column ::
  "(DatatypeHashKey \<rightharpoonup> string \<times> int) \<Rightarrow> string \<Rightarrow> bool \<Rightarrow> string \<Rightarrow> DBZ_DDL_COLUMN
   \<Rightarrow> string \<times> string \<times> DBZ_DDL_COLUMN" where
  "transform_mysql_column h colNameObjId datatypeonly attname col =
     emit_column datatypeonly attname
       (lookup_column_type h colNameObjId (bit_type_key col) (dc_autoIncremented col)) col"

definition oracle_column :: "DBZ_DDL_COLUMN \<Rightarrow> DBZ_DDL_COLUMN" where
  "oracle_column col =
     (let (type, removed) = remove_precision (dc_typeName col)
      in if strcaseeq type ''interval day to second'' \<and> 0 < dc_scale col \<or> removed
         then col\<lparr>dc_typeName := type, dc_length := dc_scale col, dc_scale := 0\<rparr>
         else col\<lparr>dc_typeName := type\<rparr>)"

definition number_type_key :: "DBZ_DDL_COLUMN \<Rightarrow> string" where
  "number_type_key col =
     (if strcaseeq (dc_typeName col) ''number'' \<and> dc_scale col = 0
      then dc_typeName col @ ''('' @ show_int (dc_length col) @ '','' @ show_int (dc_scale col) @ '')''
      else dc_typeName col)"

definition transform_oracle_column ::
  "(DatatypeHashKey \<rightharpoonup> string \<times> int) \<Rightarrow> string \<Rightarrow> bool \<Rightarrow> string \<Rightarrow> DBZ_DDL_COLUMN
   \<Rightarrow> string \<times> string \<times> DBZ_DDL_COLUMN" where
  "transform_oracle_column h colNameObjId datatypeonly attname col0 =
     (let col = oracle_column col0
      in emit_column datatypeonly attname
           (lookup_column_type h colNameObjId (number_type_key col) (dc_autoIncremented col)) col)"

text \<open>
  SQL Server sends the precision of time types as the scale. The entry is dereferenced even
  where no mapping was found.
\<close>

definition transform_sqlserver_column ::
  "(DatatypeHashKey \<rightharpoonup> string \<times> int) \<Rightarrow> string \<Rightarrow> bool \<Rightarrow> string \<Rightarrow> DBZ_DDL_COLUMN
   \<Rightarrow> (string \<times> string \<times> DBZ_DDL_COLUMN) res" where
  "transform_sqlserver_column h colNameObjId datatypeonly attname col0 =
     (let entry = lookup_column_type h colNameObjId (bit_type_key col0) (dc_autoIncremented col0);
          (txt, ty, col) = emit_column datatypeonly attname entry col0
      in if dc_scale col \<le> 0 then Inr (txt, ty, col)
         else if entry = None then Inl (Undefined ''null data type entry'')
         else if find_exact_string_match ty ''timestamp'' \<or> find_exact_string_match ty ''time''
                 \<or> find_exact_string_match ty ''timestamptz''
         then Inr (txt @ (if 6 < dc_scale col then ''(6) '' else ''('' @ show_int (dc_scale col) @ '') ''), ty, col)
         else Inr (txt, ty, col))"

definition transform_postgres_column ::
  "(DatatypeHashKey \<rightharpoonup> string \<times> int) \<Rightarrow> string \<Rightarrow> bool \<Rightarrow> string \<Rightarrow> DBZ_DDL_COLUMN
   \<Rightarrow> string \<times> string \<times> DBZ_DDL_COLUMN" where
  "transform_postgres_column h colNameObjId datatypeonly attname col =
     emit_column datatypeonly attname
       (lookup_column_type h colNameObjId (dc_typeName col) (dc_autoIncremented col)) col"

text \<open>The name a column gets: a \<^verbatim>\<open>column\<close> rule for it, or its own name in the configured case.\<close>

definition column_attname :: "pg_lib \<Rightarrow> config \<Rightarrow> conv_state \<Rightarrow> string \<Rightarrow> string \<Rightarrow> string res" where
  "column_attname L cfg cs objid name =
     rbind (transform_object_name cs (objid @ ''.'' @ name) ''column'') (\<lambda>mapped.
       Inr (case mapped of Some m \<Rightarrow> m
            | None \<Rightarrow> fc_normalize_name L (synchdb_letter_casing_strategy cfg) name (length name)))"

definition transformDDLColumns ::
  "pg_lib \<Rightarrow> config \<Rightarrow> conv_state \<Rightarrow> string \<Rightarrow> DBZ_DDL_COLUMN \<Rightarrow> ConnectorType \<Rightarrow> bool \<Rightarrow> PG_DDL_COLUMN
   \<Rightarrow> (string \<times> PG_DDL_COLUMN \<times> DBZ_DDL_COLUMN) res" where
  "transformDDLColumns L cfg cs objid col conntype datatypeonly pgcol =
     rbind (column_attname L cfg cs objid (dc_name col)) (\<lambda>attname.
       let colNameObjId = objid @ ''.'' @ dc_name col;
           fill = (\<lambda>(txt, ty, col'). (txt, pgcol\<lparr>pc_attname := Some attname, pc_atttype := Some ty\<rparr>, col'))
       in case rulehash cs conntype of
            Inl _ \<Rightarrow> Inr ('' '' @ [CHR 0x22] @ dc_name col @ [CHR 0x22] @ '' '' @ dc_typeName col @ '' '',
                          pgcol\<lparr>pc_attname := Some attname\<rparr>, col)
          | Inr None \<Rightarrow> Inl (Undefined ''null hash table'')
          | Inr (Some h) \<Rightarrow>
              (if conntype = TYPE_MYSQL then Inr (fill (transform_mysql_column h colNameObjId datatypeonly attname col))
               else if conntype = TYPE_SQLSERVER
               then rbind (transform_sqlserver_column h colNameObjId datatypeonly attname col) (\<lambda>r. Inr (fill r))
               else if conntype = TYPE_POSTGRES
               then Inr (fill (transform_postgres_column h colNameObjId datatypeonly attname col))
               else Inr (fill (transform_oracle_column h colNameObjId datatypeonly attname col))))"

section \<open>Properties of the tables\<close>

lemma init_datatype_hash_step:
  "foldl (\<lambda>h (key, v). case h key of None \<Rightarrow> h(key \<mapsto> v) | Some _ \<Rightarrow> h) m xs k =
   (case m k of None \<Rightarrow> map_of xs k | Some v \<Rightarrow> Some v)"
  by (induction xs arbitrary: m) (auto split: option.splits prod.splits)

lemma init_datatype_hash_eq [simp]: "init_datatype_hash ms = map_of ms"
  by (rule ext) (simp add: init_datatype_hash_def init_datatype_hash_step)

lemmas init_defs = init_mysql_def init_oracle_def init_sqlserver_def init_postgres_def

text \<open>The default table of a connector type.\<close>

definition defaultTypeMappings :: "ConnectorType \<Rightarrow> (DatatypeHashKey \<times> (string \<times> int)) list" where
  "defaultTypeMappings ct = (case ct of
       TYPE_MYSQL \<Rightarrow> mysql_defaultTypeMappings | TYPE_ORACLE \<Rightarrow> oracle_defaultTypeMappings
     | TYPE_OLR \<Rightarrow> oracle_defaultTypeMappings | TYPE_SQLSERVER \<Rightarrow> sqlserver_defaultTypeMappings
     | TYPE_POSTGRES \<Rightarrow> postgres_defaultTypeMappings | TYPE_UNDEF \<Rightarrow> [])"

lemma rulehash_init:
  assumes "fc_initFormatConverter ct cs = Inr cs'"
  shows "rulehash cs' ct = Inr (Some (map_of (defaultTypeMappings ct)))"
  using assms
  by (cases ct) (auto simp: fc_initFormatConverter_def rulehash_def init_defs defaultTypeMappings_def)

text \<open>
  What an integer type of PostgreSQL can hold (\<^verbatim>\<open>numeric\<close> holds every integer).
\<close>

definition type_range :: "string \<Rightarrow> (int \<times> int) option" where
  "type_range ty =
     (if ty \<in> {''smallint'', ''smallserial''} then Some (- 32768, 32767)
      else if ty \<in> {''int'', ''serial''} then Some (- 2147483648, 2147483647)
      else if ty \<in> {''bigint'', ''bigserial''} then Some (- 9223372036854775808, 9223372036854775807)
      else None)"

definition fits_type :: "string \<Rightarrow> int \<Rightarrow> bool" where
  "fits_type ty v \<longleftrightarrow> (case type_range ty of Some (lo, hi) \<Rightarrow> lo \<le> v \<and> v \<le> hi | None \<Rightarrow> ty = ''numeric'')"

definition oracle_number_type :: "nat \<Rightarrow> string" where
  "oracle_number_type p = (if p \<le> 4 then ''smallint'' else if p \<le> 9 then ''int'' else if p \<le> 18 then ''bigint'' else ''numeric'')"

lemma remove_precision_plain: "CHR ''('' \<notin> set s \<Longrightarrow> remove_precision s = (s, False)"
  by (subst remove_precision.simps) (simp flip: strchr_None_iff)

lemma oracle_number_lookup:
  assumes "1 \<le> p" and "p \<le> 38"
  shows "map_option fst (map_of oracle_defaultTypeMappings
    \<lparr>hk_extTypeName = ''number('' @ show_nat p @ '',0)'', hk_autoIncremented = False\<rparr>) = Some (oracle_number_type p)"
proof -
  have "list_all (\<lambda>p. map_option fst (map_of oracle_defaultTypeMappings
    \<lparr>hk_extTypeName = ''number('' @ show_nat p @ '',0)'', hk_autoIncremented = False\<rparr>) = Some (oracle_number_type p)) [1..<39]"
    by code_simp
  with assms show ?thesis by (auto simp: list_all_iff)
qed

lemma oracle_number_type_fits:
  assumes "\<bar>v\<bar> < 10 ^ p"
  shows "fits_type (oracle_number_type p) v"
proof -
  have "(10 :: int) ^ p \<le> 10 ^ 4 \<or> 4 < p" "(10 :: int) ^ p \<le> 10 ^ 9 \<or> 9 < p" "(10 :: int) ^ p \<le> 10 ^ 18 \<or> 18 < p"
    by (meson not_le one_le_numeral power_increasing)+
  with assms show ?thesis
    by (auto simp: oracle_number_type_def fits_type_def type_range_def)
qed

text \<open>
  With the default table, an Oracle \<^verbatim>\<open>NUMBER(p,0)\<close> column of every precision Oracle allows
  gets a PostgreSQL type that can hold every integer of \<open>p\<close> digits.
\<close>

theorem oracle_number_never_overflows:
  assumes "fc_initFormatConverter TYPE_ORACLE cs = Inr cs'" and "1 \<le> p" and "p \<le> 38" and "\<bar>v\<bar> < 10 ^ p"
  shows "\<exists>ty len. fc_translate_datatype cs' TYPE_ORACLE ''number'' (int p) 0 = (Some (ty, len), int p, 0)
    \<and> fits_type ty v"
proof -
  obtain len where "map_of oracle_defaultTypeMappings
      \<lparr>hk_extTypeName = ''number('' @ show_nat p @ '',0)'', hk_autoIncremented = False\<rparr> = Some (oracle_number_type p, len)"
    using oracle_number_lookup [OF assms(2,3)] by auto
  moreover have "length (show_nat p) \<le> 2" using assms(3) by (intro length_show_nat_le) simp_all
  ultimately have "fc_translate_datatype cs' TYPE_ORACLE ''number'' (int p) 0
      = (Some (oracle_number_type p, len), int p, 0)"
    using rulehash_init [OF assms(1)]
    by (simp add: fc_translate_datatype_def defaultTypeMappings_def remove_precision_plain strcaseeq_def
        c_simps show_int_def size_defs Let_def show_nat.simps [of 0])
  with oracle_number_type_fits [OF assms(4)] show ?thesis by blast
qed

theorem oracle_number_never_overflows_witness:
  "\<exists>cs' ty len. fc_initFormatConverter TYPE_ORACLE conv_state0 = Inr cs'
    \<and> fc_translate_datatype cs' TYPE_ORACLE ''number'' 9 0 = (Some (ty, len), 9, 0) \<and> fits_type ty 999999999"
  using oracle_number_never_overflows [of conv_state0 "init_oracle conv_state0" 9 999999999]
  by (simp add: fc_initFormatConverter_def)

section \<open>The two type lookups agree\<close>

lemma transformDDLColumns_type:
  assumes "rulehash cs ct = Inr (Some h)" and "\<not> dc_autoIncremented col"
    and "h \<lparr>hk_extTypeName = strlcpy SYNCHDB_DATATYPE_NAME_SIZE (objid @ ''.'' @ dc_name col), hk_autoIncremented = False\<rparr> = None"
    and "transformDDLColumns L cfg cs objid col ct dt pgcol = Inr (txt, pgcol', col')"
  shows "\<exists>c k e. e = h \<lparr>hk_extTypeName = strlcpy SYNCHDB_DATATYPE_NAME_SIZE k, hk_autoIncremented = False\<rparr>
    \<and> (if ct \<in> {TYPE_ORACLE, TYPE_OLR} then c = oracle_column col \<and> k = number_type_key c
       else c = col \<and> k = (if ct = TYPE_POSTGRES then dc_typeName col else bit_type_key col))
    \<and> pc_atttype pgcol' = Some (case e of None \<Rightarrow> dc_typeName c | Some (t, _) \<Rightarrow> t)
    \<and> col' = (case e of Some (_, len) \<Rightarrow> if len \<noteq> - 1 then c\<lparr>dc_length := len\<rparr> else c | None \<Rightarrow> c)"
proof -
  have a: "dc_autoIncremented (oracle_column col) = False"
    using assms(2) by (simp add: oracle_column_def split: prod.splits)
  have [simp]: "ct \<noteq> TYPE_UNDEF" using assms(1) by (auto simp: rulehash_def)
  show ?thesis
    using assms a
    by (cases ct) (auto simp: transformDDLColumns_def transform_mysql_column_def transform_sqlserver_column_def
        transform_postgres_column_def transform_oracle_column_def emit_column_def lookup_column_type_def Let_def
        split: if_splits)
qed


lemma emit_column_scale: "emit_column dt a e col = (txt, ty, col') \<Longrightarrow> dc_scale col' = dc_scale col"
  by (auto simp: emit_column_def Let_def split: option.splits if_splits)

lemma transformDDLColumns_succeeds:
  assumes "rulehash cs ct = Inr (Some h)" and "objectMappingHash cs = None"
    and "ct \<noteq> TYPE_SQLSERVER \<or> dc_scale col \<le> 0"
  shows "\<exists>txt pgcol' col'. transformDDLColumns L cfg cs objid col ct dt pgcol = Inr (txt, pgcol', col')"
proof (cases "ct = TYPE_SQLSERVER")
  case True
  with assms show ?thesis
    by (auto simp: transformDDLColumns_def column_attname_def transform_object_name_def
        transform_sqlserver_column_def Let_def split: prod.splits dest: emit_column_scale)
next
  case False
  with assms show ?thesis
    by (auto simp: transformDDLColumns_def column_attname_def transform_object_name_def Let_def split: prod.splits)
qed

definition example_column :: "string \<Rightarrow> int \<Rightarrow> int \<Rightarrow> DBZ_DDL_COLUMN" where
  "example_column ty len sc = \<lparr>dc_name = ''c'', dc_length = len, dc_optional = True, dc_position = 1,
     dc_typeName = ty, dc_enumValues = None, dc_charsetName = None, dc_autoIncremented = False,
     dc_defaultValueExpression = None, dc_scale = sc\<rparr>"

definition example_config :: config where
  "example_config = \<lparr>synchdb_letter_casing_strategy = LCS_AS_IS, synchdb_dml_use_spi = True,
     with_olr = False, mktime_1970 = 0\<rparr>"

definition empty_pgcol :: PG_DDL_COLUMN where
  "empty_pgcol = \<lparr>pc_attname = None, pc_atttype = None, pc_position = 0\<rparr>"


section \<open>Ranges of the MySQL integer types\<close>

text \<open>The integer types of MySQL with the least and the greatest value of each.\<close>

definition mysql_integer_types :: "(string \<times> int \<times> int) list" where
  "mysql_integer_types =
     [(''tinyint'', - 128, 127), (''tinyint unsigned'', 0, 255),
      (''smallint'', - 32768, 32767), (''smallint unsigned'', 0, 65535),
      (''mediumint'', - 8388608, 8388607), (''mediumint unsigned'', 0, 16777215),
      (''int'', - 2147483648, 2147483647), (''int unsigned'', 0, 4294967295),
      (''bigint'', - 9223372036854775808, 9223372036854775807),
      (''bigint unsigned'', 0, 18446744073709551615)]"

lemma mysql_lookup:
  "fc_translate_datatype (init_mysql cs) TYPE_MYSQL ty l s =
    (if l = 1 \<and> strcaseeq ty ''bit''
     then (map_of mysql_defaultTypeMappings \<lparr>hk_extTypeName = strlcpy SYNCHDB_DATATYPE_NAME_SIZE (ty @ ''('' @ show_int l @ '')''),
             hk_autoIncremented = False\<rparr>, l, s)
     else (map_of mysql_defaultTypeMappings \<lparr>hk_extTypeName = strlcpy SYNCHDB_DATATYPE_NAME_SIZE ty,
             hk_autoIncremented = False\<rparr>, l, s))"
  by (simp add: fc_translate_datatype_def rulehash_def init_mysql_def Let_def)

lemma fits_type_between: "fits_type ty lo \<Longrightarrow> fits_type ty hi \<Longrightarrow> lo \<le> v \<Longrightarrow> v \<le> hi \<Longrightarrow> fits_type ty v"
  by (auto simp: fits_type_def split: option.splits)

lemma mysql_integer_rows:
  "list_all (\<lambda>(ty, lo, hi). case map_of mysql_defaultTypeMappings \<lparr>hk_extTypeName = ty, hk_autoIncremented = False\<rparr> of
       None \<Rightarrow> False
     | Some (pgty, len) \<Rightarrow> fits_type pgty lo \<and> fits_type pgty hi)
   mysql_integer_types"
  by (simp add: mysql_integer_types_def mysql_defaultTypeMappings_def type_entry_def fits_type_def type_range_def
      map_of_Cons_code del: map_of.simps)

lemma mysql_integer_names:
  "(ty, lo, hi) \<in> set mysql_integer_types \<Longrightarrow> \<not> strcaseeq ty ''bit'' \<and> length ty < 64"
  by (auto simp: mysql_integer_types_def strcaseeq_def c_simps)



text \<open>
  An auto-incremented \<^verbatim>\<open>int unsigned\<close> column of MySQL becomes a \<^verbatim>\<open>serial\<close> column, which
  cannot hold the upper half of the column's range (the same type without auto-increment becomes
  \<^verbatim>\<open>bigint\<close>).
\<close>

theorem mysql_autoincrement_unsigned_is_narrow:
  "map_of mysql_defaultTypeMappings \<lparr>hk_extTypeName = ''int unsigned'', hk_autoIncremented = True\<rparr> = Some (''serial'', 0)
    \<and> \<not> fits_type ''serial'' 4294967295
    \<and> map_of mysql_defaultTypeMappings \<lparr>hk_extTypeName = ''int unsigned'', hk_autoIncremented = False\<rparr> = Some (''bigint'', 0)"
  by (simp add: mysql_defaultTypeMappings_def type_entry_def fits_type_def type_range_def)

end
