(* ===== verification/Value_Conv.thy ===== *)
theory Value_Conv
  imports Time_Conv Datatype_Map
begin

text \<open>
  The conversion of one column value of a change event (\<^verbatim>\<open>processDataByType\<close> in
  \<^verbatim>\<open>format_converter.c\<close>): the dispatch on the PostgreSQL type, on the wire type of the event and
  on the type category, the expansion of structured values, and the user's transform expressions
  (\<^verbatim>\<open>swap_tokens\<close> and \<^verbatim>\<open>ra_transformDataExpression\<close> in \<^verbatim>\<open>replication_agent.c\<close>).
\<close>

section \<open>Transform expressions\<close>

text \<open>
  The buffer holds 255 characters. A substituted text is copied with \<^verbatim>\<open>strlcpy\<close> into what is left,
  one character of which it keeps for the terminator.
\<close>

definition put_text :: "string \<Rightarrow> string \<Rightarrow> string" where
  "put_text out s = out @ take (SYNCHDB_TRANSFORM_EXPRESSION_SIZE - 1 - length out - 1) s"

definition put_char :: "string \<Rightarrow> char \<Rightarrow> string" where
  "put_char out c = (if length out < SYNCHDB_TRANSFORM_EXPRESSION_SIZE - 1 then out @ [c] else out)"

fun swap_loop_tokens :: "string option \<Rightarrow> string option \<Rightarrow> string option \<Rightarrow> string \<Rightarrow> string \<Rightarrow> string" where
  "swap_loop_tokens data wkb srid [] out = out"
| "swap_loop_tokens data wkb srid [c] out = put_char out c"
| "swap_loop_tokens data wkb srid (c # d # sp) out =
     (if c = CHR ''%'' then
        (if d = CHR ''d'' then swap_loop_tokens data wkb srid sp (put_text out (case data of None \<Rightarrow> ''null'' | Some s \<Rightarrow> s))
         else if d = CHR ''w'' then swap_loop_tokens data wkb srid sp (put_text out (case wkb of None \<Rightarrow> ''null'' | Some s \<Rightarrow> s))
         else if d = CHR ''s'' then swap_loop_tokens data wkb srid sp (put_text out (case srid of None \<Rightarrow> ''null'' | Some s \<Rightarrow> s))
         else if d = CHR ''%'' then swap_loop_tokens data wkb srid sp (put_char out d)
         else swap_loop_tokens data wkb srid (d # sp) (put_char out c))
      else swap_loop_tokens data wkb srid (d # sp) (put_char out c))"

definition swap_tokens :: "string \<Rightarrow> string option \<Rightarrow> string option \<Rightarrow> string option \<Rightarrow> string" where
  "swap_tokens expression data wkb srid = swap_loop_tokens data wkb srid expression []"

definition ra_transformDataExpression ::
  "pg_lib \<Rightarrow> string \<Rightarrow> string option \<Rightarrow> string option \<Rightarrow> string \<Rightarrow> string option res" where
  "ra_transformDataExpression L data wkb srid expression =
     rbind (SPI_select L (''SELECT '' @ swap_tokens expression (Some data) wkb srid @ '';'')) (\<lambda>rows.
       case rows of [] \<Rightarrow> Inr None
       | Some v # _ \<Rightarrow> Inr (Some v)
       | None # _ \<Rightarrow> Inl (Undefined ''copy of a null value''))"

section \<open>Structured values\<close>

text \<open>
  The column value after the expansion; an input that is not JSON, and the connector types the
  source leaves as a todo, keep it as it was.
\<close>

definition expand_struct_value ::
  "pg_lib \<Rightarrow> string \<Rightarrow> DBZ_DML_COLUMN_VALUE \<Rightarrow> ConnectorType \<Rightarrow> DBZ_DML_COLUMN_VALUE res" where
  "expand_struct_value L inp colval conntype =
     (if conntype \<notin> {TYPE_ORACLE, TYPE_POSTGRES} then Inr colval
      else if cv_timerep colval = DATA_VARIABLE_SCALE then
        (case jsonb_in L inp of None \<Rightarrow> Inr colval
         | Some jb \<Rightarrow>
             rbind (getPathElementString L jb ''scale'' True) (\<lambda>scale.
             rbind (getPathElementString L jb ''value'' True) (\<lambda>val.
               Inr (colval\<lparr>cv_scale := (case scale of None \<Rightarrow> 0 | Some s \<Rightarrow> atoi s),
                           cv_value := Some (case val of None \<Rightarrow> ''0'' | Some v \<Rightarrow> v)\<rparr>))))
      else if cv_timerep colval = DATA_POINT then
        (case jsonb_in L inp of None \<Rightarrow> Inr colval
         | Some jb \<Rightarrow>
             rbind (getPathElementString L jb ''x'' True) (\<lambda>x.
             rbind (getPathElementString L jb ''y'' True) (\<lambda>y.
               Inr (colval\<lparr>cv_value := Some (''('' @ (case x of None \<Rightarrow> ''0'' | Some v \<Rightarrow> v) @ '',''
                                             @ (case y of None \<Rightarrow> ''0'' | Some v \<Rightarrow> v) @ '')'')\<rparr>))))
      else Inr colval)"

text \<open>\<^verbatim>\<open>colval->value\<close> where it is dereferenced.\<close>

definition value_of :: "DBZ_DML_COLUMN_VALUE \<Rightarrow> string" where
  "value_of colval = (case cv_value colval of None \<Rightarrow> [] | Some v \<Rightarrow> v)"

section \<open>One conversion for each kind of PostgreSQL type\<close>

text \<open>The pass-through converters (\<^verbatim>\<open>handle_string_to_numeric\<close>, \<^verbatim>\<open>handle_string_to_bit\<close>, and so on).\<close>

definition quote_text :: "string \<Rightarrow> bool \<Rightarrow> string" where
  "quote_text inp addquote = (if addquote then escapeSingleQuote inp addquote else inp)"

definition wire_string :: "config \<Rightarrow> int \<Rightarrow> bool" where
  "wire_string cfg t \<longleftrightarrow> t = DBZTYPE_STRING \<or> with_olr cfg \<and> t = OLRTYPE_STRING"

definition wire_olr_number :: "config \<Rightarrow> int \<Rightarrow> bool" where
  "wire_olr_number cfg t \<longleftrightarrow> with_olr cfg \<and> t = OLRTYPE_NUMBER"

text \<open>
  The structure every kind shares: a struct is expanded and its value decoded from base64, bytes
  are decoded from base64, a string and anything else have a converter each.
\<close>

definition by_wire_type ::
  "pg_lib \<Rightarrow> config \<Rightarrow> string \<Rightarrow> DBZ_DML_COLUMN_VALUE \<Rightarrow> ConnectorType
   \<Rightarrow> (DBZ_DML_COLUMN_VALUE \<Rightarrow> string \<Rightarrow> string res) \<Rightarrow> (string \<Rightarrow> string option res) \<Rightarrow> (string \<Rightarrow> string res)
   \<Rightarrow> string option res" where
  "by_wire_type L cfg inp colval type base64 str num =
     (if cv_dbztype colval = DBZTYPE_STRUCT
      then rbind (expand_struct_value L inp colval type) (\<lambda>c. rbind (base64 c (value_of c)) (\<lambda>s. Inr (Some s)))
      else if cv_dbztype colval = DBZTYPE_BYTES then rbind (base64 colval inp) (\<lambda>s. Inr (Some s))
      else if wire_string cfg (cv_dbztype colval) then str inp
      else rbind (num inp) (\<lambda>s. Inr (Some s)))"

definition convert_numeric ::
  "pg_lib \<Rightarrow> config \<Rightarrow> string \<Rightarrow> DBZ_DML_COLUMN_VALUE \<Rightarrow> bool \<Rightarrow> ConnectorType \<Rightarrow> string option res" where
  "convert_numeric L cfg inp colval0 addquote type =
     (let colval = (if cv_datatype colval0 = MONEYOID \<and> type \<noteq> TYPE_POSTGRES then colval0\<lparr>cv_scale := 4\<rparr> else colval0)
      in by_wire_type L cfg inp colval type (\<lambda>c s. handle_base64_to_numeric_with_scale L s (cv_scale c))
           (\<lambda>s. Inr (Some (quote_text s addquote))) (\<lambda>s. Inr s))"

definition convert_bit ::
  "pg_lib \<Rightarrow> config \<Rightarrow> string \<Rightarrow> DBZ_DML_COLUMN_VALUE \<Rightarrow> bool \<Rightarrow> ConnectorType \<Rightarrow> string option res" where
  "convert_bit L cfg inp colval addquote type =
     by_wire_type L cfg inp colval type
       (\<lambda>c s. handle_base64_to_bit L s addquote (cv_typemod c) (type = TYPE_MYSQL))
       (\<lambda>s. Inr (Some (quote_text s addquote))) (\<lambda>s. Inr (quote_text s addquote))"

definition convert_date ::
  "pg_lib \<Rightarrow> config \<Rightarrow> string \<Rightarrow> DBZ_DML_COLUMN_VALUE \<Rightarrow> bool \<Rightarrow> ConnectorType \<Rightarrow> string option res" where
  "convert_date L cfg inp colval addquote type =
     by_wire_type L cfg inp colval type (\<lambda>c s. handle_base64_to_date L cfg s addquote (cv_timerep c))
       (\<lambda>s. Inr (Some (quote_text s addquote)))
       (\<lambda>s. handle_numeric_to_date cfg s addquote
              (if wire_olr_number cfg (cv_dbztype colval) then TIME_NANOTIMESTAMP else cv_timerep colval))"

definition convert_timestamp ::
  "pg_lib \<Rightarrow> config \<Rightarrow> string \<Rightarrow> DBZ_DML_COLUMN_VALUE \<Rightarrow> bool \<Rightarrow> ConnectorType \<Rightarrow> string option res" where
  "convert_timestamp L cfg inp colval addquote type =
     by_wire_type L cfg inp colval type
       (\<lambda>c s. handle_base64_to_timestamp L s addquote (cv_timerep c) (cv_typemod c))
       (\<lambda>s. handle_string_to_timestamp s addquote type)
       (\<lambda>s. handle_numeric_to_timestamp s addquote
              (if wire_olr_number cfg (cv_dbztype colval) then TIME_NANOTIMESTAMP else cv_timerep colval) (cv_typemod colval))"

definition convert_time ::
  "pg_lib \<Rightarrow> config \<Rightarrow> string \<Rightarrow> DBZ_DML_COLUMN_VALUE \<Rightarrow> bool \<Rightarrow> ConnectorType \<Rightarrow> string option res" where
  "convert_time L cfg inp colval addquote type =
     by_wire_type L cfg inp colval type (\<lambda>c s. handle_base64_to_time L s addquote (cv_timerep c) (cv_typemod c))
       (\<lambda>s. Inr (Some (quote_text s addquote)))
       (\<lambda>s. handle_numeric_to_time s addquote
              (if wire_olr_number cfg (cv_dbztype colval) then TIME_NANOTIMESTAMP else cv_timerep colval) (cv_typemod colval))"

definition convert_bytea ::
  "pg_lib \<Rightarrow> config \<Rightarrow> string \<Rightarrow> DBZ_DML_COLUMN_VALUE \<Rightarrow> bool \<Rightarrow> ConnectorType \<Rightarrow> string option res" where
  "convert_bytea L cfg inp colval addquote type =
     by_wire_type L cfg inp colval type (\<lambda>c s. handle_base64_to_byte L s addquote)
       (\<lambda>s. Inr (Some (quote_text s addquote))) (\<lambda>s. Inr (quote_text s addquote))"

definition convert_interval ::
  "pg_lib \<Rightarrow> config \<Rightarrow> string \<Rightarrow> DBZ_DML_COLUMN_VALUE \<Rightarrow> bool \<Rightarrow> ConnectorType \<Rightarrow> string option res" where
  "convert_interval L cfg inp colval addquote type =
     by_wire_type L cfg inp colval type
       (\<lambda>c s. handle_base64_to_interval L s addquote (cv_timerep c) (cv_typemod c))
       (\<lambda>s. Inr (Some (quote_text s addquote)))
       (\<lambda>s. handle_numeric_to_interval L s addquote
              (if wire_olr_number cfg (cv_dbztype colval) then TIME_NANOTIMESTAMP else cv_timerep colval) (cv_typemod colval))"

definition convert_point ::
  "pg_lib \<Rightarrow> config \<Rightarrow> string \<Rightarrow> DBZ_DML_COLUMN_VALUE \<Rightarrow> ConnectorType \<Rightarrow> string option res" where
  "convert_point L cfg inp colval type =
     (if cv_dbztype colval = DBZTYPE_STRUCT
      then rbind (expand_struct_value L inp colval type) (\<lambda>c. Inr (Some (value_of c)))
      else if cv_dbztype colval = DBZTYPE_BYTES then Inl (PgError None '' binary to point not supported'')
      else if cv_dbztype colval = DBZTYPE_STRING then Inr (Some (value_of colval))
      else Inl (PgError None (''cannot convert source type '' @ show_int (cv_dbztype colval) @ '' to POINT type'')))"

section \<open>Types known only by their category\<close>

definition mentions :: "string \<Rightarrow> string \<Rightarrow> bool" where
  "mentions typname word \<longleftrightarrow> strstr typname word \<noteq> None"

definition convert_datetime_category ::
  "pg_lib \<Rightarrow> config \<Rightarrow> string \<Rightarrow> DBZ_DML_COLUMN_VALUE \<Rightarrow> bool \<Rightarrow> ConnectorType \<Rightarrow> string option res" where
  "convert_datetime_category L cfg inp colval addquote type =
     (let ty = cv_typname colval;
          rep = (if wire_olr_number cfg (cv_dbztype colval) then TIME_NANOTIMESTAMP else cv_timerep colval)
      in by_wire_type L cfg inp colval type
           (\<lambda>c s. if mentions ty ''date'' then handle_base64_to_date L cfg s addquote (cv_timerep c)
                  else if mentions ty ''timestamp'' then handle_base64_to_timestamp L s addquote (cv_timerep c) (cv_typemod c)
                  else handle_base64_to_time L s addquote (cv_timerep c) (cv_typemod c))
           (\<lambda>s. if mentions ty ''timestamp'' \<or> mentions ty ''timetz'' then handle_string_to_timestamp s addquote type
                else Inr (Some (quote_text s addquote)))
           (\<lambda>s. if mentions ty ''date'' then handle_numeric_to_date cfg s addquote rep
                else if mentions ty ''timestamp'' then handle_numeric_to_timestamp s addquote rep (cv_typemod colval)
                else handle_numeric_to_time s addquote rep (cv_typemod colval)))"

definition handle_data_by_type_category ::
  "pg_lib \<Rightarrow> config \<Rightarrow> string \<Rightarrow> DBZ_DML_COLUMN_VALUE \<Rightarrow> ConnectorType \<Rightarrow> bool \<Rightarrow> string option res" where
  "handle_data_by_type_category L cfg inp colval conntype addquote =
     (case cv_typcategory colval of
        TYPCATEGORY_BOOLEAN \<Rightarrow>
          by_wire_type L cfg inp colval conntype (\<lambda>c s. handle_base64_to_numeric_with_scale L s (cv_scale c))
            (\<lambda>s. Inr (Some s)) (\<lambda>s. Inr s)
      | TYPCATEGORY_NUMERIC \<Rightarrow>
          by_wire_type L cfg inp colval conntype (\<lambda>c s. handle_base64_to_numeric_with_scale L s (cv_scale c))
            (\<lambda>s. Inr (Some s)) (\<lambda>s. Inr s)
      | TYPCATEGORY_DATETIME \<Rightarrow> convert_datetime_category L cfg inp colval addquote conntype
      | TYPCATEGORY_BITSTRING \<Rightarrow> convert_bit L cfg inp colval addquote conntype
      | TYPCATEGORY_TIMESPAN \<Rightarrow> convert_interval L cfg inp colval addquote conntype
      | _ \<Rightarrow> Inr (Some (quote_text inp addquote)))"

section \<open>The conversion of a value\<close>

definition convert_by_oid ::
  "pg_lib \<Rightarrow> config \<Rightarrow> string \<Rightarrow> DBZ_DML_COLUMN_VALUE \<Rightarrow> bool \<Rightarrow> ConnectorType \<Rightarrow> string option res" where
  "convert_by_oid L cfg inp colval addquote type =
     (let oid = cv_datatype colval
      in if oid \<in> {BOOLOID, INT8OID, INT2OID, INT4OID, FLOAT8OID, FLOAT4OID, NUMERICOID, MONEYOID}
         then convert_numeric L cfg inp colval addquote type
         else if oid \<in> {BPCHAROID, TEXTOID, VARCHAROID, CSTRINGOID, JSONBOID, UUIDOID, INETOID, CIDROID, MACADDROID,
                        MACADDR8OID, INT4RANGEOID, INT8RANGEOID, NUMRANGEOID, DATERANGEOID, TSRANGEOID, TSTZRANGEOID}
         then Inr (Some (quote_text inp addquote))
         else if oid \<in> {VARBITOID, BITOID} then convert_bit L cfg inp colval addquote type
         else if oid = DATEOID then convert_date L cfg inp colval addquote type
         else if oid \<in> {TIMESTAMPTZOID, TIMESTAMPOID, TIMETZOID} then convert_timestamp L cfg inp colval addquote type
         else if oid = TIMEOID then convert_time L cfg inp colval addquote type
         else if oid = BYTEAOID then convert_bytea L cfg inp colval addquote type
         else if oid = INTERVALOID then convert_interval L cfg inp colval addquote type
         else if oid = POINTOID then convert_point L cfg inp colval type
         else handle_data_by_type_category L cfg inp colval type addquote)"

text \<open>
  The user's expression is applied to the converted text; a JSON text with a \<^verbatim>\<open>wkb\<close> member also
  supplies \<^verbatim>\<open>%w\<close> and \<^verbatim>\<open>%s\<close>. An expression without a result keeps the text.
\<close>

definition is_wkb_json :: "string \<Rightarrow> bool" where
  "is_wkb_json s \<longleftrightarrow> s \<noteq> [] \<and> hd s = CHR ''{'' \<and> last s = CHR ''}'' \<and> mentions s ([CHR 0x22] @ ''wkb'' @ [CHR 0x22])"

definition apply_expression :: "pg_lib \<Rightarrow> string \<Rightarrow> string option \<Rightarrow> string option res" where
  "apply_expression L expression out0 =
     (case out0 of None \<Rightarrow> Inl (Undefined ''null data'')
      | Some out \<Rightarrow>
          (let run = (\<lambda>wkb srid. rbind (ra_transformDataExpression L (escapeSingleQuote out False) wkb srid expression)
                 (\<lambda>r. Inr (Some (case r of None \<Rightarrow> out | Some v \<Rightarrow> v))))
           in if is_wkb_json out then
                (case jsonb_in L out of None \<Rightarrow> Inr (Some out)
                 | Some jb \<Rightarrow>
                     rbind (getPathElementString L jb ''wkb'' True) (\<lambda>wkb.
                     rbind (getPathElementString L jb ''srid'' True) (\<lambda>srid.
                       run (Some (case wkb of None \<Rightarrow> ''0'' | Some v \<Rightarrow> v)) (Some (case srid of None \<Rightarrow> ''0'' | Some v \<Rightarrow> v)))))
              else run None None))"

definition processDataByType ::
  "pg_lib \<Rightarrow> config \<Rightarrow> conv_state \<Rightarrow> DBZ_DML_COLUMN_VALUE \<Rightarrow> bool \<Rightarrow> string option \<Rightarrow> ConnectorType \<Rightarrow> string option res" where
  "processDataByType L cfg cs colval addquote remoteObjectId type =
     (case cv_value colval of None \<Rightarrow> Inr None
      | Some inp \<Rightarrow>
          if inp = [] \<or> strcaseeq inp ''NULL'' then Inr None
          else rbind (convert_by_oid L cfg inp colval addquote type) (\<lambda>out.
            case transform_data_expression cs remoteObjectId (cv_remoteColumnName colval) of
              None \<Rightarrow> Inr out
            | Some expression \<Rightarrow> apply_expression L expression out))"

section \<open>Properties of the value conversion\<close>

lemma put_text_le: "length out \<le> 255 \<Longrightarrow> length (put_text out s) \<le> 255"
  by (simp add: put_text_def size_defs)

lemma put_char_le: "length out \<le> 255 \<Longrightarrow> length (put_char out c) \<le> 255"
  by (auto simp: put_char_def size_defs)

text \<open>
  Filling a transform expression never writes more than the 255 characters its stack buffer
  holds, whatever the expression and the substituted data are.
\<close>

theorem swap_tokens_bounded: "length (swap_tokens expression data wkb srid) < SYNCHDB_TRANSFORM_EXPRESSION_SIZE"
proof -
  have "length out \<le> 255 \<Longrightarrow> length (swap_loop_tokens data wkb srid e out) \<le> 255" for e out
    by (induction data wkb srid e out rule: swap_loop_tokens.induct) (auto simp: put_text_le put_char_le)
  from this [of "[]" expression] show ?thesis by (simp add: swap_tokens_def size_defs less_Suc_eq_le)
qed

definition text_oids :: "Oid set" where
  "text_oids = {BPCHAROID, TEXTOID, VARCHAROID, CSTRINGOID, JSONBOID, UUIDOID, INETOID, CIDROID, MACADDROID,
     MACADDR8OID, INT4RANGEOID, INT8RANGEOID, NUMRANGEOID, DATERANGEOID, TSRANGEOID, TSTZRANGEOID}"

lemma convert_text:
  "cv_datatype colval \<in> text_oids \<Longrightarrow> convert_by_oid L cfg inp colval addquote type = Inr (Some (quote_text inp addquote))"
  by (auto simp: text_oids_def convert_by_oid_def Let_def)

text \<open>
  A value of a text-like type without a transform expression reaches a query as an SQL
  literal that denotes exactly that value, and reaches a heap tuple unchanged; the one exception
  is that an empty value and the word \<^verbatim>\<open>null\<close> in any case become SQL null.
\<close>

theorem text_value_preserved:
  assumes "cv_datatype colval \<in> text_oids" and "cv_value colval = Some inp"
    and "transform_data_expression cs remoteObjectId (cv_remoteColumnName colval) = None"
  shows "if inp = [] \<or> strcaseeq inp ''NULL''
    then processDataByType L cfg cs colval q remoteObjectId type = Inr None
    else processDataByType L cfg cs colval False remoteObjectId type = Inr (Some inp)
      \<and> (\<exists>lit. processDataByType L cfg cs colval True remoteObjectId type = Inr (Some lit)
           \<and> read_literal lit = Some (inp, []))"
  using assms convert_text [OF assms(1)] read_literal_escaped [of "[]" inp]
  by (simp add: processDataByType_def quote_text_def)

definition example_value :: "Oid \<Rightarrow> string \<Rightarrow> DBZ_DML_COLUMN_VALUE" where
  "example_value oid v = \<lparr>cv_name = ''c'', cv_remoteColumnName = Some ''c'', cv_value = Some v, cv_datatype = oid,
     cv_position = 1, cv_scale = 0, cv_timerep = TIME_UNDEF, cv_typemod = 0, cv_ispk = False,
     cv_dbztype = DBZTYPE_STRING, cv_typcategory = TYPCATEGORY_STRING, cv_typispreferred = False, cv_typname = ''text''\<rparr>"

theorem text_value_preserved_witness:
  "\<exists>lit. processDataByType ascii_lib example_config conv_state0 (example_value TEXTOID [CHR 0x27]) True (Some ''t'') TYPE_MYSQL
      = Inr (Some lit) \<and> read_literal lit = Some ([CHR 0x27], [])"
  using text_value_preserved [of "example_value TEXTOID [CHR 0x27]" "[CHR 0x27]" conv_state0 "Some ''t''" ascii_lib
      example_config True TYPE_MYSQL]
  by (simp add: example_value_def text_oids_def transform_data_expression_def conv_state0_def strcaseeq_def)

text \<open>
  In a build with OpenLog Replicator support, a \<^verbatim>\<open>number\<close> that arrives for a \<^verbatim>\<open>time\<close> or an
  \<^verbatim>\<open>interval\<close> column always raises an error: it is handed on as nanosecond timestamp, which
  neither converter knows.
\<close>

theorem olr_number_to_time_always_fails:
  assumes "with_olr cfg" and "cv_dbztype colval = OLRTYPE_NUMBER"
  shows "convert_time L cfg inp colval addquote type = Inl (no_time_rep ''TIMEOID'')
    \<and> (\<exists>e. convert_interval L cfg inp colval addquote type = Inl e)"
  using assms
  by (simp add: convert_time_def convert_interval_def by_wire_type_def wire_string_def wire_olr_number_def
      dbztype_defs handle_numeric_to_time_def construct_timetr_def handle_numeric_to_interval_def construct_intervalstr_def)

theorem olr_number_to_time_always_fails_witness:
  "\<exists>e. convert_interval ascii_lib (example_config\<lparr>with_olr := True\<rparr>) ''5''
      ((example_value INTERVALOID ''5'')\<lparr>cv_dbztype := OLRTYPE_NUMBER\<rparr>) True TYPE_OLR = Inl e"
  using olr_number_to_time_always_fails [of "example_config\<lparr>with_olr := True\<rparr>"
      "(example_value INTERVALOID ''5'')\<lparr>cv_dbztype := OLRTYPE_NUMBER\<rparr>" ascii_lib "''5''" True TYPE_OLR] by simp

lemma read_body_no_quote: "CHR 0x27 \<notin> set s \<Longrightarrow> read_body s = None"
  by (induction s) auto

lemma strchr_update_no_quote:
  assumes "CHR 0x27 \<notin> set s"
  shows "CHR 0x27 \<notin> set (s[i := CHR '' ''])"
  using assms set_update_subset_insert [of s i "CHR '' ''"] by auto

text \<open>
  A timestamp that arrives as a string from Debezium and is to be put into a query gets an
  opening quote that is never closed: what is produced is not a string literal.
\<close>

theorem string_timestamp_literal_unclosed:
  assumes "type \<noteq> TYPE_OLR" and "CHR 0x27 \<notin> set inp"
  shows "\<exists>out. handle_string_to_timestamp inp True type = Inr (Some out) \<and> read_literal out = None"
proof -
  let ?o = "CHR 0x27 # inp"
  let ?o1 = "case strchr ?o (CHR ''T'') of None \<Rightarrow> ?o | Some t \<Rightarrow> ?o[length ?o - length t := CHR '' '']"
  let ?out = "if inp \<noteq> [] \<and> last inp = CHR ''Z'' then butlast ?o1 @ ''+00:00'' else ?o1"
  have "\<exists>r. ?o1 = CHR 0x27 # r \<and> CHR 0x27 \<notin> set r \<and> length r = length inp"
  proof (cases "strchr inp (CHR ''T'')")
    case None
    with assms(2) show ?thesis by simp
  next
    case (Some t)
    then have "length t \<le> length inp" by (simp add: strchr_length)
    with Some assms(2) show ?thesis by (simp add: Suc_diff_le strchr_update_no_quote)
  qed
  then obtain r where r: "?o1 = CHR 0x27 # r" "CHR 0x27 \<notin> set r" "length r = length inp" by blast
  have "CHR 0x27 \<notin> set (butlast r @ ''+00:00'')" using r(2) by (auto dest: in_set_butlastD)
  then have "read_literal ?out = None"
    using r by (auto simp: read_literal_def read_body_no_quote)
  moreover have "handle_string_to_timestamp inp True type = Inr (Some ?out)"
    using assms(1) by (simp add: handle_string_to_timestamp_def Let_def)
  ultimately show ?thesis by blast
qed

theorem string_timestamp_literal_unclosed_witness:
  "\<exists>out. handle_string_to_timestamp ''2024-01-02T03:04:05Z'' True TYPE_MYSQL = Inr (Some out) \<and> read_literal out = None"
  using string_timestamp_literal_unclosed [of TYPE_MYSQL "''2024-01-02T03:04:05Z''"] by simp

end
