(* ===== verification/DML_Conv.thy ===== *)
theory DML_Conv
  imports Value_Conv "HOL-Library.Multiset"
begin

text \<open>
  The conversion of a data change event into what is applied to PostgreSQL
  (\<^verbatim>\<open>convert2PGDML\<close> in \<^verbatim>\<open>format_converter.c\<close>): an SQL statement when
  \<^verbatim>\<open>synchdb.dml_use_spi\<close> is on, the column values of the old and the new tuple otherwise, and the
  order in which event columns are put before that (\<^verbatim>\<open>list_sort_cmp\<close>).
\<close>

section \<open>Ordering columns\<close>

definition list_sort_cmp :: "DBZ_DML_COLUMN_VALUE \<Rightarrow> DBZ_DML_COLUMN_VALUE \<Rightarrow> int" where
  "list_sort_cmp a b = (if cv_position a < cv_position b then - 1 else if cv_position b < cv_position a then 1 else 0)"

section \<open>Column values of a heap tuple\<close>

definition to_pg_value :: "DBZ_DML_COLUMN_VALUE \<Rightarrow> string option \<Rightarrow> PG_DML_COLUMN_VALUE" where
  "to_pg_value colval data = \<lparr>pv_value = (case data of None \<Rightarrow> ''NULL'' | Some d \<Rightarrow> d),
     pv_datatype = cv_datatype colval, pv_position = cv_position colval\<rparr>"

definition heap_value ::
  "pg_lib \<Rightarrow> config \<Rightarrow> conv_state \<Rightarrow> string option \<Rightarrow> ConnectorType \<Rightarrow> DBZ_DML_COLUMN_VALUE \<Rightarrow> PG_DML_COLUMN_VALUE res" where
  "heap_value L cfg cs remoteObjectId type colval =
     rbind (processDataByType L cfg cs colval False remoteObjectId type) (\<lambda>data. Inr (to_pg_value colval data))"

text \<open>
  What \<^verbatim>\<open>processDataByType\<close> leaves in the column value it was given: an expanded struct, and the
  scale of a money value.
\<close>

definition uses_wire_type :: "DBZ_DML_COLUMN_VALUE \<Rightarrow> bool" where
  "uses_wire_type colval \<longleftrightarrow> cv_datatype colval \<notin> text_oids \<and>
     (case cv_datatype colval of
        OtherOid n \<Rightarrow> cv_typcategory colval \<in>
          {TYPCATEGORY_BOOLEAN, TYPCATEGORY_NUMERIC, TYPCATEGORY_DATETIME, TYPCATEGORY_BITSTRING, TYPCATEGORY_TIMESPAN}
      | _ \<Rightarrow> True)"

definition processed_colval ::
  "pg_lib \<Rightarrow> ConnectorType \<Rightarrow> DBZ_DML_COLUMN_VALUE \<Rightarrow> DBZ_DML_COLUMN_VALUE res" where
  "processed_colval L type colval0 =
     (case cv_value colval0 of None \<Rightarrow> Inr colval0
      | Some inp \<Rightarrow>
          if inp = [] \<or> strcaseeq inp ''NULL'' then Inr colval0
          else (let colval = (if cv_datatype colval0 = MONEYOID \<and> type \<noteq> TYPE_POSTGRES then colval0\<lparr>cv_scale := 4\<rparr> else colval0)
                in if cv_dbztype colval = DBZTYPE_STRUCT \<and> uses_wire_type colval
                   then expand_struct_value L inp colval type else Inr colval))"

section \<open>The statements\<close>

definition sql_value ::
  "pg_lib \<Rightarrow> config \<Rightarrow> conv_state \<Rightarrow> string option \<Rightarrow> ConnectorType \<Rightarrow> DBZ_DML_COLUMN_VALUE \<Rightarrow> string res" where
  "sql_value L cfg cs remoteObjectId type colval =
     rbind (processDataByType L cfg cs colval True remoteObjectId type)
       (\<lambda>data. Inr (case data of None \<Rightarrow> ''null'' | Some d \<Rightarrow> d))"

definition chop :: "nat \<Rightarrow> string \<Rightarrow> string" where
  "chop n s = take (length s - n) s"

definition insert_query ::
  "pg_lib \<Rightarrow> config \<Rightarrow> conv_state \<Rightarrow> DBZ_DML \<Rightarrow> ConnectorType \<Rightarrow> string option res" where
  "insert_query L cfg cs dml type =
     (if dm_columnValuesAfter dml = [] then Inr None
      else rbind (rmap (sql_value L cfg cs (dm_remoteObjectId dml) type) (dm_columnValuesAfter dml)) (\<lambda>vs.
        Inr (Some (chop 1 (''INSERT INTO '' @ dm_mappedObjectId dml @ ''('' @ concat (map (\<lambda>c. cv_name c @ '','') (dm_columnValuesAfter dml)))
          @ chop 1 ('') VALUES ('' @ concat (map (\<lambda>v. v @ '','') vs)) @ '');''))))"

text \<open>The conditions on the primary key columns, each followed by \<^verbatim>\<open> AND \<close>.\<close>

definition key_conditions ::
  "pg_lib \<Rightarrow> config \<Rightarrow> conv_state \<Rightarrow> DBZ_DML \<Rightarrow> ConnectorType \<Rightarrow> string res" where
  "key_conditions L cfg cs dml type =
     rbind (rmap (\<lambda>c. rbind (sql_value L cfg cs (dm_remoteObjectId dml) type c)
                        (\<lambda>v. Inr (cv_name c @ '' = '' @ v @ '' AND ''))) (filter cv_ispk (dm_columnValuesBefore dml)))
       (\<lambda>xs. Inr (concat xs))"

definition delete_query ::
  "pg_lib \<Rightarrow> config \<Rightarrow> conv_state \<Rightarrow> DBZ_DML \<Rightarrow> ConnectorType \<Rightarrow> string option res" where
  "delete_query L cfg cs dml type =
     rbind (key_conditions L cfg cs dml type) (\<lambda>w.
       if filter cv_ispk (dm_columnValuesBefore dml) = [] then Inr None
       else Inr (Some (chop 5 (''DELETE FROM '' @ dm_mappedObjectId dml @ '' WHERE '' @ w) @ '';'')))"

text \<open>
  The flag \<^verbatim>\<open>atleastone\<close> is not reset before the \<^verbatim>\<open>WHERE\<close> clause, so five characters are cut off
  there whether or not a key column was written.
\<close>

definition update_query ::
  "pg_lib \<Rightarrow> config \<Rightarrow> conv_state \<Rightarrow> DBZ_DML \<Rightarrow> ConnectorType \<Rightarrow> string option res" where
  "update_query L cfg cs dml type =
     rbind (rmap (\<lambda>c. rbind (sql_value L cfg cs (dm_remoteObjectId dml) type c) (\<lambda>v. Inr (cv_name c @ '' = '' @ v @ '','')))
             (dm_columnValuesAfter dml)) (\<lambda>sets.
       if dm_columnValuesAfter dml = [] then Inr None
       else rbind (key_conditions L cfg cs dml type) (\<lambda>w.
         Inr (Some (chop 5 (chop 1 (''UPDATE '' @ dm_mappedObjectId dml @ '' SET '' @ concat sets) @ '' WHERE '' @ w) @ '';''))))"

section \<open>The tuples\<close>

definition heap_update ::
  "pg_lib \<Rightarrow> config \<Rightarrow> conv_state \<Rightarrow> DBZ_DML \<Rightarrow> ConnectorType
   \<Rightarrow> (PG_DML_COLUMN_VALUE list \<times> PG_DML_COLUMN_VALUE list) res" where
  "heap_update L cfg cs dml type =
     (let conv = heap_value L cfg cs (dm_remoteObjectId dml) type;
          after = dm_columnValuesAfter dml; before = dm_columnValuesBefore dml
      in if after \<noteq> [] \<and> before = []
         then rbind (rmap (\<lambda>c. if cv_ispk c then conv c else Inr (to_pg_value c None)) after) (\<lambda>b.
              rbind (rmap (\<lambda>c. if cv_ispk c then processed_colval L type c else Inr c) after) (\<lambda>after'.
              rbind (rmap conv after') (\<lambda>a. Inr (b, a))))
         else rbind (rmap (\<lambda>(ca, cb). rbind (conv ca) (\<lambda>a. rbind (conv cb) (\<lambda>b. Inr (b, a)))) (zip after before))
                (\<lambda>ps. Inr (map fst ps, map snd ps)))"

section \<open>convert2PGDML\<close>

text \<open>\<open>None\<close> is the null pointer: the event is skipped with a warning.\<close>

definition convert2PGDML ::
  "pg_lib \<Rightarrow> config \<Rightarrow> conv_state \<Rightarrow> DBZ_DML \<Rightarrow> ConnectorType \<Rightarrow> PG_DML option res" where
  "convert2PGDML L cfg cs dml type =
     (let pgdml = (\<lambda>q b a. \<lparr>pm_dmlquery = q, pm_op = dm_op dml, pm_tableoid = dm_tableoid dml, pm_natts = dm_natts dml,
                            pm_columnValuesBefore = b, pm_columnValuesAfter = a\<rparr>);
          spi = (\<lambda>q. rbind q (\<lambda>x. Inr (map_option (\<lambda>s. pgdml s [] []) x)));
          conv = heap_value L cfg cs (dm_remoteObjectId dml) type
      in if dm_op dml = CHR ''r'' \<or> dm_op dml = CHR ''c'' then
           (if synchdb_dml_use_spi cfg then spi (insert_query L cfg cs dml type)
            else rbind (rmap conv (dm_columnValuesAfter dml)) (\<lambda>a. Inr (Some (pgdml [] [] a))))
         else if dm_op dml = CHR ''d'' then
           (if synchdb_dml_use_spi cfg then spi (delete_query L cfg cs dml type)
            else rbind (rmap conv (dm_columnValuesBefore dml)) (\<lambda>b. Inr (Some (pgdml [] b []))))
         else if dm_op dml = CHR ''u'' then
           (if synchdb_dml_use_spi cfg then spi (update_query L cfg cs dml type)
            else rbind (heap_update L cfg cs dml type) (\<lambda>(b, a). Inr (Some (pgdml [] b a))))
         else Inl (PgError None (''op '' @ [dm_op dml] @ '' not supported'')))"

section \<open>Properties\<close>

text \<open>A list of texts with a separator between them.\<close>

fun join :: "string \<Rightarrow> string list \<Rightarrow> string" where
  "join sep [] = []"
| "join sep [x] = x"
| "join sep (x # y # zs) = x @ sep @ join sep (y # zs)"

lemma concat_join: "xs \<noteq> [] \<Longrightarrow> concat (map (\<lambda>x. x @ sep) xs) = join sep xs @ sep"
  by (induction sep xs rule: join.induct) auto

lemma chop_append [simp]: "length sep = n \<Longrightarrow> chop n (p @ sep) = p"
  by (simp add: chop_def)

lemma chop_join:
  assumes "xs \<noteq> []" and "length sep = n"
  shows "chop n (p @ concat (map (\<lambda>x. x @ sep) xs)) = p @ join sep xs"
  using concat_join [OF assms(1), of sep] chop_append [OF assms(2), of "p @ join sep xs"] by simp

lemma rmap_compose:
  "rmap (\<lambda>x. rbind (f x) (\<lambda>v. Inr (g x v))) xs = Inr ys \<longleftrightarrow>
   (\<exists>vs. rmap f xs = Inr vs \<and> ys = map2 g xs vs)"
  by (induction xs arbitrary: ys) auto


lemma key_conditions_eq:
  assumes "key_conditions L cfg cs dml type = Inr w"
  shows "\<exists>vs. rmap (sql_value L cfg cs (dm_remoteObjectId dml) type) (filter cv_ispk (dm_columnValuesBefore dml)) = Inr vs
    \<and> w = concat (map (\<lambda>y. y @ '' AND '') (map2 (\<lambda>c v. cv_name c @ '' = '' @ v) (filter cv_ispk (dm_columnValuesBefore dml)) vs))"
  using assms by (auto simp: key_conditions_def rmap_compose comp_def split_def)

text \<open>
  C19: an insert applied through SPI is one statement that names exactly the event's columns, in
  their order, and gives each its own converted value (null for a value that is null); an event
  without columns is skipped.
\<close>

theorem insert_statement:
  assumes "synchdb_dml_use_spi cfg" and "dm_op dml = CHR ''c'' \<or> dm_op dml = CHR ''r''"
    and "convert2PGDML L cfg cs dml type = Inr r"
  shows "if dm_columnValuesAfter dml = [] then r = None
    else \<exists>vs pg. rmap (sql_value L cfg cs (dm_remoteObjectId dml) type) (dm_columnValuesAfter dml) = Inr vs
      \<and> r = Some pg \<and> pm_op pg = dm_op dml \<and> pm_tableoid pg = dm_tableoid dml
      \<and> pm_dmlquery pg = ''INSERT INTO '' @ dm_mappedObjectId dml @ ''('' @ join '','' (map cv_name (dm_columnValuesAfter dml))
          @ '') VALUES ('' @ join '','' vs @ '');''"
proof (cases "dm_columnValuesAfter dml = []")
  case True
  with assms show ?thesis by (auto simp: convert2PGDML_def insert_query_def Let_def)
next
  case False
  then obtain vs pg where vs: "rmap (sql_value L cfg cs (dm_remoteObjectId dml) type) (dm_columnValuesAfter dml) = Inr vs"
    and r: "r = Some pg" "pm_op pg = dm_op dml" "pm_tableoid pg = dm_tableoid dml"
    and q: "pm_dmlquery pg = chop 1 (''INSERT INTO '' @ dm_mappedObjectId dml @ ''('' @ concat (map (\<lambda>c. cv_name c @ '','') (dm_columnValuesAfter dml)))
          @ chop 1 ('') VALUES ('' @ concat (map (\<lambda>v. v @ '','') vs)) @ '');''"
    using assms by (auto simp: convert2PGDML_def insert_query_def Let_def)
  have "vs \<noteq> []" using rmap_length [OF vs] False by auto
  then have "chop 1 ('') VALUES ('' @ concat (map (\<lambda>v. v @ '','') vs)) = '') VALUES ('' @ join '','' vs"
    by (rule chop_join) simp
  moreover have "chop 1 ((''INSERT INTO '' @ dm_mappedObjectId dml @ ''('') @ concat (map (\<lambda>v. v @ '','') (map cv_name (dm_columnValuesAfter dml))))
      = (''INSERT INTO '' @ dm_mappedObjectId dml @ ''('') @ join '','' (map cv_name (dm_columnValuesAfter dml))"
    using False by (intro chop_join) simp_all
  ultimately have "pm_dmlquery pg = ''INSERT INTO '' @ dm_mappedObjectId dml @ ''('' @ join '','' (map cv_name (dm_columnValuesAfter dml))
          @ '') VALUES ('' @ join '','' vs @ '');''"
    using q by (simp add: comp_def)
  with False vs r show ?thesis by simp
qed

definition example_dml :: "char \<Rightarrow> DBZ_DML_COLUMN_VALUE list \<Rightarrow> DBZ_DML_COLUMN_VALUE list \<Rightarrow> DBZ_DML" where
  "example_dml oper before after = \<lparr>dm_op = oper, dm_schema = None, dm_table = Some ''t'', dm_remoteObjectId = Some ''db.t'',
     dm_mappedObjectId = ''public.t'', dm_tableoid = 7, dm_natts = 1, dm_columnValuesBefore = before,
     dm_columnValuesAfter = after, dm_dbz_ts_ms = 0, dm_src_ts_ms = 0\<rparr>"

lemma example_sql_value:
  "sql_value ascii_lib example_config conv_state0 r TYPE_MYSQL (example_value TEXTOID ''x'') = Inr [CHR 0x27, CHR ''x'', CHR 0x27]"
  by (simp add: sql_value_def processDataByType_def example_value_def convert_by_oid_def quote_text_def escapeSingleQuote_def
      transform_data_expression_def conv_state0_def strcaseeq_def c_simps)

theorem insert_statement_witness:
  "\<exists>pg. convert2PGDML ascii_lib example_config conv_state0 (example_dml CHR ''c'' [] [example_value TEXTOID ''x'']) TYPE_MYSQL
      = Inr (Some pg) \<and> pm_dmlquery pg = ''INSERT INTO public.t(c) VALUES ('' @ [CHR 0x27, CHR ''x'', CHR 0x27] @ '');''"
proof -
  let ?dml = "example_dml CHR ''c'' [] [example_value TEXTOID ''x'']"
  have spi: "synchdb_dml_use_spi example_config" by (simp add: example_config_def)
  obtain r where run: "convert2PGDML ascii_lib example_config conv_state0 ?dml TYPE_MYSQL = Inr r"
    by (simp add: convert2PGDML_def insert_query_def example_dml_def example_sql_value spi Let_def)
  have "dm_op ?dml = CHR ''c'' \<or> dm_op ?dml = CHR ''r''" by (simp add: example_dml_def)
  from insert_statement [OF spi this run] run show ?thesis
    by (auto simp: example_dml_def example_sql_value) (simp add: example_value_def)
qed

text \<open>
  C20: a delete applied through SPI restricts the statement to the row whose primary key columns
  all have the event's values; without a primary key column no statement is made.
\<close>

theorem delete_statement:
  assumes "synchdb_dml_use_spi cfg" and "dm_op dml = CHR ''d''" and "convert2PGDML L cfg cs dml type = Inr r"
  shows "if filter cv_ispk (dm_columnValuesBefore dml) = [] then r = None
    else \<exists>vs pg. rmap (sql_value L cfg cs (dm_remoteObjectId dml) type) (filter cv_ispk (dm_columnValuesBefore dml)) = Inr vs
      \<and> r = Some pg \<and> pm_op pg = dm_op dml \<and> pm_tableoid pg = dm_tableoid dml
      \<and> pm_dmlquery pg = ''DELETE FROM '' @ dm_mappedObjectId dml @ '' WHERE ''
          @ join '' AND '' (map2 (\<lambda>c v. cv_name c @ '' = '' @ v) (filter cv_ispk (dm_columnValuesBefore dml)) vs) @ '';''"
proof (cases "filter cv_ispk (dm_columnValuesBefore dml) = []")
  case True
  with assms show ?thesis by (auto simp: convert2PGDML_def delete_query_def Let_def split: if_splits)
next
  case False
  then obtain w pg where w: "key_conditions L cfg cs dml type = Inr w"
    and r: "r = Some pg" "pm_op pg = dm_op dml" "pm_tableoid pg = dm_tableoid dml"
    and q: "pm_dmlquery pg = chop 5 (''DELETE FROM '' @ dm_mappedObjectId dml @ '' WHERE '' @ w) @ '';''"
    using assms by (auto simp: convert2PGDML_def delete_query_def Let_def split: if_splits)
  from key_conditions_eq [OF w] obtain vs where
    vs: "rmap (sql_value L cfg cs (dm_remoteObjectId dml) type) (filter cv_ispk (dm_columnValuesBefore dml)) = Inr vs"
    and w': "w = concat (map (\<lambda>y. y @ '' AND '') (map2 (\<lambda>c v. cv_name c @ '' = '' @ v) (filter cv_ispk (dm_columnValuesBefore dml)) vs))"
    by blast
  let ?conds = "map2 (\<lambda>c v. cv_name c @ '' = '' @ v) (filter cv_ispk (dm_columnValuesBefore dml)) vs"
  have "length vs = length (filter cv_ispk (dm_columnValuesBefore dml))" using rmap_length [OF vs] by simp
  with False have "?conds \<noteq> []" by (cases vs; cases "filter cv_ispk (dm_columnValuesBefore dml)") simp_all
  then have "chop 5 ((''DELETE FROM '' @ dm_mappedObjectId dml @ '' WHERE '') @ w) = (''DELETE FROM '' @ dm_mappedObjectId dml @ '' WHERE '') @ join '' AND '' ?conds"
    unfolding w' by (rule chop_join) simp
  with q False vs r show ?thesis by (simp only: if_False append_assoc) blast
qed

theorem delete_statement_witness:
  "convert2PGDML ascii_lib example_config conv_state0 (example_dml CHR ''d'' [example_value TEXTOID ''x''] []) TYPE_MYSQL
     = Inr None"
proof -
  let ?dml = "example_dml CHR ''d'' [example_value TEXTOID ''x''] []"
  have spi: "synchdb_dml_use_spi example_config" by (simp add: example_config_def)
  have npk: "filter cv_ispk (dm_columnValuesBefore ?dml) = []" by (simp add: example_dml_def example_value_def)
  have d: "dm_op ?dml = CHR ''d''" by (simp add: example_dml_def)
  obtain r where run: "convert2PGDML ascii_lib example_config conv_state0 ?dml TYPE_MYSQL = Inr r"
    using npk spi d by (simp add: convert2PGDML_def delete_query_def key_conditions_def Let_def)
  from delete_statement [OF spi d run] npk run show ?thesis by simp
qed

text \<open>
  C21: an update applied through SPI sets every column of the event to its converted value and
  restricts the statement to the row whose primary key columns have the old values. Without a
  primary key column, though, the statement is not skipped: it ends in a cut-off \<^verbatim>\<open>WHERE\<close>.
\<close>

theorem update_statement:
  assumes "synchdb_dml_use_spi cfg" and "dm_op dml = CHR ''u''" and "dm_columnValuesAfter dml \<noteq> []"
    and "convert2PGDML L cfg cs dml type = Inr r"
  shows "\<exists>vs ks pg. rmap (sql_value L cfg cs (dm_remoteObjectId dml) type) (dm_columnValuesAfter dml) = Inr vs
    \<and> rmap (sql_value L cfg cs (dm_remoteObjectId dml) type) (filter cv_ispk (dm_columnValuesBefore dml)) = Inr ks
    \<and> r = Some pg
    \<and> pm_dmlquery pg = ''UPDATE '' @ dm_mappedObjectId dml @ '' SET '' @ join '','' (map2 (\<lambda>c v. cv_name c @ '' = '' @ v) (dm_columnValuesAfter dml) vs)
        @ (if filter cv_ispk (dm_columnValuesBefore dml) = [] then '' W''
           else '' WHERE '' @ join '' AND '' (map2 (\<lambda>c v. cv_name c @ '' = '' @ v) (filter cv_ispk (dm_columnValuesBefore dml)) ks)) @ '';''"
proof -
  let ?pk = "filter cv_ispk (dm_columnValuesBefore dml)" and ?eq = "\<lambda>c v. cv_name c @ '' = '' @ v"
  obtain sets w pg where s: "rmap (\<lambda>c. rbind (sql_value L cfg cs (dm_remoteObjectId dml) type c) (\<lambda>v. Inr (cv_name c @ '' = '' @ v @ '',''))) (dm_columnValuesAfter dml) = Inr sets"
    and w: "key_conditions L cfg cs dml type = Inr w" and r: "r = Some pg"
    and q: "pm_dmlquery pg = chop 5 (chop 1 (''UPDATE '' @ dm_mappedObjectId dml @ '' SET '' @ concat sets) @ '' WHERE '' @ w) @ '';''"
    using assms by (auto simp: convert2PGDML_def update_query_def Let_def split: if_splits)
  from s obtain vs where vs: "rmap (sql_value L cfg cs (dm_remoteObjectId dml) type) (dm_columnValuesAfter dml) = Inr vs"
    and sets: "concat sets = concat (map (\<lambda>y. y @ '','') (map2 ?eq (dm_columnValuesAfter dml) vs))"
    by (auto simp: rmap_compose comp_def split_def)
  from key_conditions_eq [OF w] obtain ks where
    ks: "rmap (sql_value L cfg cs (dm_remoteObjectId dml) type) ?pk = Inr ks"
    and w': "w = concat (map (\<lambda>y. y @ '' AND '') (map2 ?eq ?pk ks))" by blast
  have "map2 ?eq (dm_columnValuesAfter dml) vs \<noteq> []"
    using rmap_length [OF vs] assms(3) by (cases vs; cases "dm_columnValuesAfter dml") simp_all
  from chop_join [OF this, where p = "''UPDATE '' @ dm_mappedObjectId dml @ '' SET ''" and sep = "'',''" and n = 1]
  have 1: "chop 1 (''UPDATE '' @ dm_mappedObjectId dml @ '' SET '' @ concat sets)
      = ''UPDATE '' @ dm_mappedObjectId dml @ '' SET '' @ join '','' (map2 ?eq (dm_columnValuesAfter dml) vs)"
    unfolding sets by simp
  have 2: "chop 5 (p @ '' WHERE '' @ w) = p @ (if ?pk = [] then '' W'' else '' WHERE '' @ join '' AND '' (map2 ?eq ?pk ks))" for p
  proof (cases "?pk = []")
    case True
    then have "w = []" using w' by simp
    with True show ?thesis using chop_append [of "''HERE ''" 5 "p @ '' W''"] by simp
  next
    case False
    then have "map2 ?eq ?pk ks \<noteq> []" using rmap_length [OF ks] by (cases ks; cases ?pk) simp_all
    from chop_join [OF this, where p = "p @ '' WHERE ''" and sep = "'' AND ''" and n = 5] False show ?thesis
      unfolding w' by simp
  qed
  from q have "pm_dmlquery pg = ''UPDATE '' @ dm_mappedObjectId dml @ '' SET '' @ join '','' (map2 ?eq (dm_columnValuesAfter dml) vs)
        @ (if ?pk = [] then '' W'' else '' WHERE '' @ join '' AND '' (map2 ?eq ?pk ks)) @ '';''"
    unfolding 1 2 by (simp only: append_assoc)
  with vs ks r show ?thesis by blast
qed

theorem update_statement_witness:
  "\<exists>pg. convert2PGDML ascii_lib example_config conv_state0
      (example_dml CHR ''u'' [example_value TEXTOID ''x''] [example_value TEXTOID ''x'']) TYPE_MYSQL = Inr (Some pg)
    \<and> pm_dmlquery pg = ''UPDATE public.t SET c = '' @ [CHR 0x27, CHR ''x'', CHR 0x27] @ '' W;''"
proof -
  let ?dml = "example_dml CHR ''u'' [example_value TEXTOID ''x''] [example_value TEXTOID ''x'']"
  have spi: "synchdb_dml_use_spi example_config" by (simp add: example_config_def)
  have pk: "\<not> cv_ispk (example_value TEXTOID ''x'')" and nm: "cv_name (example_value TEXTOID ''x'') = ''c''"
    by (simp_all add: example_value_def)
  have u: "dm_op ?dml = CHR ''u''" "dm_columnValuesAfter ?dml \<noteq> []" by (simp_all add: example_dml_def)
  obtain r where run: "convert2PGDML ascii_lib example_config conv_state0 ?dml TYPE_MYSQL = Inr r"
    by (simp add: convert2PGDML_def update_query_def key_conditions_def example_dml_def example_sql_value spi pk Let_def)
  from update_statement [OF spi u run] run show ?thesis
    by (auto simp: example_dml_def example_sql_value pk nm)
qed

lemma heap_value_fields:
  "heap_value L cfg cs r type c = Inr v \<Longrightarrow> pv_datatype v = cv_datatype c \<and> pv_position v = cv_position c"
  by (auto simp: heap_value_def to_pg_value_def)

lemma rmap_map_fields:
  assumes "rmap f xs = Inr ys" and "\<And>x y. f x = Inr y \<Longrightarrow> g y = h x"
  shows "map g ys = map h xs"
  using assms(1) by (induction xs arbitrary: ys) (auto dest: assms(2))

lemma rmap_heap_positions:
  "rmap (heap_value L cfg cs r type) xs = Inr ys \<Longrightarrow> map pv_position ys = map cv_position xs"
  by (erule rmap_map_fields) (auto dest: heap_value_fields)

text \<open>
  Applied to the heap, an insert yields for every column of the event its converted value (or
  the word NULL), at the event's attribute position and with its type, and nothing else; a delete
  does the same with the old row.
\<close>

theorem heap_insert_delete_columns:
  assumes "\<not> synchdb_dml_use_spi cfg" and "convert2PGDML L cfg cs dml type = Inr (Some pg)"
  shows "(dm_op dml = CHR ''c'' \<longrightarrow> pm_columnValuesBefore pg = []
      \<and> rmap (heap_value L cfg cs (dm_remoteObjectId dml) type) (dm_columnValuesAfter dml) = Inr (pm_columnValuesAfter pg)
      \<and> map pv_position (pm_columnValuesAfter pg) = map cv_position (dm_columnValuesAfter dml))
    \<and> (dm_op dml = CHR ''d'' \<longrightarrow> pm_columnValuesAfter pg = []
      \<and> rmap (heap_value L cfg cs (dm_remoteObjectId dml) type) (dm_columnValuesBefore dml) = Inr (pm_columnValuesBefore pg)
      \<and> map pv_position (pm_columnValuesBefore pg) = map cv_position (dm_columnValuesBefore dml))"
  using assms by (auto simp: convert2PGDML_def Let_def) (erule rmap_heap_positions)+

definition heap_config :: config where
  "heap_config = example_config\<lparr>synchdb_dml_use_spi := False\<rparr>"

lemma example_heap_value:
  "heap_value ascii_lib heap_config conv_state0 r TYPE_MYSQL (example_value TEXTOID ''x'')
     = Inr \<lparr>pv_value = ''x'', pv_datatype = TEXTOID, pv_position = 1\<rparr>"
  by (simp add: heap_value_def to_pg_value_def processDataByType_def example_value_def convert_by_oid_def quote_text_def
      transform_data_expression_def conv_state0_def strcaseeq_def c_simps)

theorem heap_insert_delete_columns_witness:
  "\<exists>pg. convert2PGDML ascii_lib heap_config conv_state0 (example_dml CHR ''c'' [] [example_value TEXTOID ''x'']) TYPE_MYSQL
      = Inr (Some pg) \<and> map pv_position (pm_columnValuesAfter pg) = [1]"
proof -
  let ?dml = "example_dml CHR ''c'' [] [example_value TEXTOID ''x'']"
  have spi: "\<not> synchdb_dml_use_spi heap_config" by (simp add: heap_config_def)
  obtain pg where run: "convert2PGDML ascii_lib heap_config conv_state0 ?dml TYPE_MYSQL = Inr (Some pg)"
    by (simp add: convert2PGDML_def example_dml_def example_heap_value spi Let_def)
  from heap_insert_delete_columns [OF spi run] run show ?thesis
    by (auto simp: example_dml_def) (simp add: example_value_def)
qed

lemma expand_struct_position:
  "expand_struct_value L inp c type = Inr c' \<Longrightarrow> cv_position c' = cv_position c"
  by (auto simp: expand_struct_value_def split: if_splits option.splits)

lemma processed_colval_position: "processed_colval L type c = Inr c' \<Longrightarrow> cv_position c' = cv_position c"
  by (auto simp: processed_colval_def Let_def dest!: expand_struct_position split: option.splits if_splits)

text \<open>
  Applied to the heap, an update yields an old and a new tuple of equally many columns at the
  same positions, when the event's old and new rows have the same columns or there is no old row;
  in the latter case the old tuple has the primary key values and NULL everywhere else.
\<close>

theorem heap_update_columns:
  assumes "\<not> synchdb_dml_use_spi cfg" and "dm_op dml = CHR ''u''" and "convert2PGDML L cfg cs dml type = Inr (Some pg)"
    and "dm_columnValuesBefore dml = [] \<or> map cv_position (dm_columnValuesBefore dml) = map cv_position (dm_columnValuesAfter dml)"
  shows "map pv_position (pm_columnValuesAfter pg) = map cv_position (dm_columnValuesAfter dml)
    \<and> map pv_position (pm_columnValuesBefore pg) = map cv_position (dm_columnValuesAfter dml)
    \<and> (dm_columnValuesBefore dml = [] \<longrightarrow>
        (\<forall>i < length (dm_columnValuesAfter dml). \<not> cv_ispk (dm_columnValuesAfter dml ! i) \<longrightarrow>
          pv_value (pm_columnValuesBefore pg ! i) = ''NULL''))"
proof -
  let ?a = "dm_columnValuesAfter dml" and ?b = "dm_columnValuesBefore dml"
  let ?conv = "heap_value L cfg cs (dm_remoteObjectId dml) type"
  have u: "heap_update L cfg cs dml type = Inr (pm_columnValuesBefore pg, pm_columnValuesAfter pg)"
    using assms(1-3) by (auto simp: convert2PGDML_def Let_def)
  show ?thesis
  proof (cases "?a \<noteq> [] \<and> ?b = []")
    case True
    then obtain a' where b: "rmap (\<lambda>c. if cv_ispk c then ?conv c else Inr (to_pg_value c None)) ?a = Inr (pm_columnValuesBefore pg)"
      and a': "rmap (\<lambda>c. if cv_ispk c then processed_colval L type c else Inr c) ?a = Inr a'"
      and a: "rmap ?conv a' = Inr (pm_columnValuesAfter pg)"
      using u by (auto simp: heap_update_def Let_def)
    have "map cv_position a' = map cv_position ?a"
      using a' by (rule rmap_map_fields) (auto dest: processed_colval_position split: if_splits)
    moreover have "map pv_position (pm_columnValuesBefore pg) = map cv_position ?a"
      using b by (rule rmap_map_fields) (auto dest: heap_value_fields simp: to_pg_value_def split: if_splits)
    moreover have "pv_value (pm_columnValuesBefore pg ! i) = ''NULL''" if "i < length ?a" "\<not> cv_ispk (?a ! i)" for i
    proof -
      have "pm_columnValuesBefore pg ! i = to_pg_value (?a ! i) None" using rmap_nth [OF b that(1)] that(2) by simp
      then show ?thesis by (simp add: to_pg_value_def)
    qed
    ultimately show ?thesis using rmap_heap_positions [OF a] by auto
  next
    case False
    then have l: "length ?a = length ?b" using assms(4) by (metis length_map)
    from False u obtain ps where ps: "rmap (\<lambda>(ca, cb). rbind (?conv ca) (\<lambda>a. rbind (?conv cb) (\<lambda>b. Inr (b, a)))) (zip ?a ?b) = Inr ps"
      and eq: "pm_columnValuesBefore pg = map fst ps" "pm_columnValuesAfter pg = map snd ps"
      by (auto simp: heap_update_def Let_def)
    have "map (\<lambda>p. pv_position (fst p)) ps = map (\<lambda>p. cv_position (snd p)) (zip ?a ?b)"
      and "map (\<lambda>p. pv_position (snd p)) ps = map (\<lambda>p. cv_position (fst p)) (zip ?a ?b)"
      using ps by (rule rmap_map_fields; auto dest: heap_value_fields)+
    moreover have "map (\<lambda>p. cv_position (snd p)) (zip ?a ?b) = map cv_position (map snd (zip ?a ?b))"
      "map (\<lambda>p. cv_position (fst p)) (zip ?a ?b) = map cv_position (map fst (zip ?a ?b))" by simp_all
    ultimately show ?thesis using eq l assms(4) False by (auto simp: comp_def)
  qed
qed

theorem heap_update_columns_witness:
  "\<exists>pg. convert2PGDML ascii_lib heap_config conv_state0 (example_dml CHR ''u'' [] [example_value TEXTOID ''x'']) TYPE_MYSQL
      = Inr (Some pg) \<and> map pv_position (pm_columnValuesBefore pg) = [1] \<and> pv_value (pm_columnValuesBefore pg ! 0) = ''NULL''"
proof -
  let ?dml = "example_dml CHR ''u'' [] [example_value TEXTOID ''x'']"
  have spi: "\<not> synchdb_dml_use_spi heap_config" by (simp add: heap_config_def)
  have c: "\<not> cv_ispk (example_value TEXTOID ''x'')" "cv_position (example_value TEXTOID ''x'') = 1"
    by (simp_all add: example_value_def)
  obtain pg where run: "convert2PGDML ascii_lib heap_config conv_state0 ?dml TYPE_MYSQL = Inr (Some pg)"
    by (simp add: convert2PGDML_def heap_update_def example_dml_def example_heap_value spi c Let_def)
  from heap_update_columns [OF spi _ run] run c show ?thesis by (auto simp: example_dml_def)
qed

end
