(* ===== verification/DDL_Conv.thy ===== *)
theory DDL_Conv
  imports DML_Conv
begin

text \<open>
  The conversion of a schema change event into PostgreSQL DDL (\<^verbatim>\<open>convert2PGDDL\<close> in
  \<^verbatim>\<open>format_converter.c\<close>, with \<^verbatim>\<open>populate_primary_keys\<close> and \<^verbatim>\<open>composeAlterColumnClauses\<close>), and the
  bookkeeping statement for the attribute table (\<^verbatim>\<open>updateSynchdbAttribute\<close>). Query buffers are
  strings that the code appends to and cuts the last character from. Error messages carry only
  their fixed part where the code quotes an identifier in them.
\<close>

section \<open>The catalog\<close>

text \<open>
  What the code asks PostgreSQL's catalog: whether a schema exists, and the attributes and the
  primary key of a table, dropped attributes included.
\<close>

record rel_attr =
  att_name :: string
  attisdropped :: bool
  att_in_pk :: bool

record rel_desc =
  rd_attrs :: "rel_attr list"
  rd_has_pkey :: bool

record catalog =
  namespace_exists :: "string \<Rightarrow> bool"
  relation :: "string \<Rightarrow> string \<Rightarrow> rel_desc option"

definition count_active_columns :: "rel_attr list \<Rightarrow> nat" where
  "count_active_columns attrs = length (filter (\<lambda>a. \<not> attisdropped a) attrs)"

section \<open>Tables\<close>

definition dquote :: "string \<Rightarrow> string" where
  "dquote s = [CHR 0x22] @ s @ [CHR 0x22]"

text \<open>A table without a schema is written unqualified and belongs to \<^verbatim>\<open>public\<close>.\<close>

definition qualified_name :: "string option \<Rightarrow> string \<Rightarrow> string" where
  "qualified_name schema table = (case schema of None \<Rightarrow> dquote table | Some s \<Rightarrow> dquote s @ ''.'' @ dquote table)"

definition schema_name :: "string option \<Rightarrow> string" where
  "schema_name schema = (case schema of None \<Rightarrow> ''public'' | Some s \<Rightarrow> s)"

definition invalid_transformed_id :: pg_error where
  "invalid_transformed_id = PgError (Some ''transformed object ID is invalid'') ''transformed object ID is invalid''"

definition malformed_id :: pg_error where
  "malformed_id = PgError (Some ''malformed id field in dbz change event'') ''malformed id field in dbz change event''"

definition resolve_table :: "pg_lib \<Rightarrow> config \<Rightarrow> conv_state \<Rightarrow> string \<Rightarrow> (string option \<times> string) res" where
  "resolve_table L cfg cs objid =
     rbind (transform_object_name cs objid ''table'') (\<lambda>mapped.
       case mapped of
         Some m \<Rightarrow> (case splitIdString m False of
                      (_, schema, Some table) \<Rightarrow> Inr (schema, table)
                    | _ \<Rightarrow> Inl invalid_transformed_id)
       | None \<Rightarrow> (case splitIdString (fc_normalize_name L (synchdb_letter_casing_strategy cfg) objid (length objid)) True of
                    (Some db, _, Some table) \<Rightarrow> Inr (Some db, table)
                  | _ \<Rightarrow> Inl malformed_id))"

text \<open>
  \<^verbatim>\<open>TRUNCATE\<close> splits the id first: the normalisation that follows then ends at the first
  separator and reaches the database name only.
\<close>

definition resolve_truncated_table :: "pg_lib \<Rightarrow> config \<Rightarrow> conv_state \<Rightarrow> string \<Rightarrow> (string option \<times> string) res" where
  "resolve_truncated_table L cfg cs objid =
     rbind (transform_object_name cs objid ''table'') (\<lambda>mapped.
       case mapped of
         Some m \<Rightarrow> (case splitIdString m False of
                      (_, schema, Some table) \<Rightarrow> Inr (schema, table)
                    | _ \<Rightarrow> Inl invalid_transformed_id)
       | None \<Rightarrow> (case splitIdString objid True of
                    (Some db, _, Some table) \<Rightarrow>
                      Inr (Some (fc_normalize_name L (synchdb_letter_casing_strategy cfg) db (length db)), table)
                  | _ \<Rightarrow> Inl malformed_id))"

section \<open>Primary keys\<close>

definition pk_opening :: "bool \<Rightarrow> bool \<Rightarrow> string" where
  "pk_opening alter isinline =
     (if alter then (if isinline then '', ADD PRIMARY KEY('' else ''PRIMARY KEY('') else '', PRIMARY KEY('')"

text \<open>The name of a key column: a column rule's name is put into the configured case as well.\<close>

definition pk_column_name :: "pg_lib \<Rightarrow> config \<Rightarrow> conv_state \<Rightarrow> string \<Rightarrow> string \<Rightarrow> string res" where
  "pk_column_name L cfg cs objid name =
     rbind (transform_object_name cs (objid @ ''.'' @ name) ''column'') (\<lambda>mapped.
       let value = (case mapped of Some m \<Rightarrow> m | None \<Rightarrow> name)
       in Inr (fc_normalize_name L (synchdb_letter_casing_strategy cfg) value (length value)))"

definition pk_token ::
  "pg_lib \<Rightarrow> config \<Rightarrow> conv_state \<Rightarrow> string \<Rightarrow> bool \<Rightarrow> bool \<Rightarrow> jsonb_token \<Rightarrow> string \<times> bool \<Rightarrow> (string \<times> bool) res" where
  "pk_token L cfg cs objid alter isinline t s =
     (let (strinfo, isfirst) = s;
          element = (\<lambda>v. case v of
              JString name \<Rightarrow> rbind (pk_column_name L cfg cs objid name) (\<lambda>value.
                Inr (strinfo @ (if isfirst then pk_opening alter isinline else []) @ dquote value @ '','', False))
            | _ \<Rightarrow> Inl (PgError None ''Unknown or unexpected value type while parsing primaryKeyColumnNames''))
      in case t of
           WJB_BEGIN_ARRAY \<Rightarrow> Inr s
         | WJB_END_ARRAY \<Rightarrow> Inr (if isfirst then s else (chop 1 strinfo @ '')'', isfirst))
         | WJB_VALUE v \<Rightarrow> element v
         | WJB_ELEM v \<Rightarrow> element v
         | _ \<Rightarrow> Inl (PgError None ''Unknown or unexpected token while parsing primaryKeyColumnNames''))"

definition populate_primary_keys ::
  "pg_lib \<Rightarrow> config \<Rightarrow> conv_state \<Rightarrow> string \<Rightarrow> string \<Rightarrow> string option \<Rightarrow> bool \<Rightarrow> bool \<Rightarrow> string res" where
  "populate_primary_keys L cfg cs strinfo objid jsonin alter isinline =
     (case jsonin of None \<Rightarrow> Inr strinfo
      | Some j \<Rightarrow>
          (case jsonb_in L j of None \<Rightarrow> Inr strinfo
           | Some jb \<Rightarrow> rbind (rfold (pk_token L cfg cs objid alter isinline) (JsonbIterator L jb) (strinfo, True))
                         (\<lambda>r. Inr (fst r))))"

section \<open>Column clauses\<close>

definition length_text :: "pg_lib \<Rightarrow> DBZ_DDL_COLUMN \<Rightarrow> string" where
  "length_text L col =
     (if 0 < dc_length col \<and> 0 < dc_scale col
      then ''('' @ show_int (dc_length col) @ '', '' @ show_int (dc_scale col) @ '') ''
      else if 0 < dc_length col \<and> dc_scale col = 0
      then ''('' @ show_int (min (dc_length col) (MaxAttrSize L)) @ '') '' else [])"

definition column_options :: "pg_lib \<Rightarrow> string \<Rightarrow> DBZ_DDL_COLUMN \<Rightarrow> string" where
  "column_options L checkname col =
     length_text L col
     @ (if mentions (dc_typeName col) ''unsigned'' then ''CHECK ('' @ checkname @ '' >= 0) '' else [])
     @ (if \<not> dc_optional col then ''NOT NULL '' else [])
     @ (if (case dc_defaultValueExpression col of None \<Rightarrow> False | Some e \<Rightarrow> e \<noteq> []) \<and> \<not> dc_autoIncremented col
        then ''DEFAULT NULL '' else [])"

definition new_pgcol :: PG_DDL_COLUMN where
  "new_pgcol = \<lparr>pc_attname = None, pc_atttype = None, pc_position = 0\<rparr>"

text \<open>One column of a \<^verbatim>\<open>CREATE TABLE\<close>: its constraint names the source column as it came.\<close>

definition create_column ::
  "pg_lib \<Rightarrow> config \<Rightarrow> conv_state \<Rightarrow> string \<Rightarrow> ConnectorType \<Rightarrow> DBZ_DDL_COLUMN
   \<Rightarrow> string \<times> PG_DDL_COLUMN list \<Rightarrow> (string \<times> PG_DDL_COLUMN list) res" where
  "create_column L cfg cs objid type col s =
     rbind (transformDDLColumns L cfg cs objid col type False new_pgcol) (\<lambda>(txt, pgcol, col').
       Inr (fst s @ txt @ column_options L (dc_name col') col' @ '','',
            snd s @ [pgcol\<lparr>pc_position := int (length (snd s)) + 1\<rparr>]))"

text \<open>One column of an \<^verbatim>\<open>ALTER TABLE ... ADD COLUMN\<close>.\<close>

definition add_column_text ::
  "pg_lib \<Rightarrow> config \<Rightarrow> conv_state \<Rightarrow> string \<Rightarrow> ConnectorType \<Rightarrow> DBZ_DDL_COLUMN \<Rightarrow> (string \<times> PG_DDL_COLUMN) res" where
  "add_column_text L cfg cs objid type col =
     rbind (transformDDLColumns L cfg cs objid col type False new_pgcol) (\<lambda>(txt, pgcol, col').
       Inr (''ADD COLUMN IF NOT EXISTS '' @ txt
            @ column_options L (case pc_attname pgcol of None \<Rightarrow> ''(null)'' | Some a \<Rightarrow> a) col' @ '','', pgcol))"

section \<open>ALTER TABLE from Debezium\<close>

text \<open>
  Debezium sends the whole new column list. More columns than the table has means added columns:
  the ones whose name the table does not have. A column that is already there leaves an empty
  entry, so that both column lists stay of one length.
\<close>

definition has_attribute :: "rel_attr list \<Rightarrow> string \<Rightarrow> bool" where
  "has_attribute attrs name \<longleftrightarrow> list_ex (\<lambda>a. \<not> mentions (att_name a) ''pg.dropped'' \<and> att_name a = name) attrs"

definition alter_add_column ::
  "pg_lib \<Rightarrow> config \<Rightarrow> conv_state \<Rightarrow> string \<Rightarrow> ConnectorType \<Rightarrow> rel_attr list \<Rightarrow> DBZ_DDL_COLUMN
   \<Rightarrow> string \<times> PG_DDL_COLUMN list \<times> nat \<Rightarrow> (string \<times> PG_DDL_COLUMN list \<times> nat) res" where
  "alter_add_column L cfg cs objid type attrs col s =
     (let (strinfo, pgcols, newcol) = s
      in rbind (column_attname L cfg cs objid (dc_name col)) (\<lambda>name.
           if has_attribute attrs name then Inr (strinfo, pgcols @ [new_pgcol], newcol)
           else rbind (add_column_text L cfg cs objid type col) (\<lambda>(txt, pgcol).
             Inr (strinfo @ txt, pgcols @ [pgcol\<lparr>pc_position := int (length attrs + 1 + newcol)\<rparr>], newcol + 1))))"

definition alter_add_columns ::
  "pg_lib \<Rightarrow> config \<Rightarrow> conv_state \<Rightarrow> DBZ_DDL \<Rightarrow> ConnectorType \<Rightarrow> rel_desc \<Rightarrow> string
   \<Rightarrow> (string \<times> PG_DDL_COLUMN list) option res" where
  "alter_add_columns L cfg cs ddl type rel strinfo =
     rbind (rfold (alter_add_column L cfg cs (dd_id ddl) type (rd_attrs rel)) (dd_columns ddl) (strinfo, [], 0))
       (\<lambda>(txt, pgcols, newcol).
         if newcol = 0 then Inr None
         else rbind (if rd_has_pkey rel then Inr (chop 1 txt)
                     else populate_primary_keys L cfg cs (chop 1 txt) (dd_id ddl) (dd_primaryKeyColumnNames ddl) True True)
                (\<lambda>q. Inr (Some (q, pgcols))))"

text \<open>Fewer columns mean dropped ones: the attributes no column of the event has the name of.\<close>

definition alter_drop_column ::
  "pg_lib \<Rightarrow> config \<Rightarrow> conv_state \<Rightarrow> string \<Rightarrow> DBZ_DDL_COLUMN list \<Rightarrow> nat \<times> rel_attr
   \<Rightarrow> string \<times> PG_DDL_COLUMN list \<Rightarrow> (string \<times> PG_DDL_COLUMN list) res" where
  "alter_drop_column L cfg cs objid cols na s =
     (let (attnum, attr) = na
      in if mentions (att_name attr) ''pg.dropped'' then Inr s
         else rbind (rexists (\<lambda>c. rbind (column_attname L cfg cs objid (dc_name c)) (\<lambda>n. Inr (n = att_name attr))) cols)
           (\<lambda>found. if found then Inr s
              else Inr (fst s @ ''DROP COLUMN IF EXISTS '' @ dquote (att_name attr) @ '','',
                        snd s @ [new_pgcol\<lparr>pc_attname := Some (att_name attr), pc_position := int attnum\<rparr>])))"

definition alter_drop_columns ::
  "pg_lib \<Rightarrow> config \<Rightarrow> conv_state \<Rightarrow> DBZ_DDL \<Rightarrow> rel_desc \<Rightarrow> string \<Rightarrow> (string \<times> PG_DDL_COLUMN list) option res" where
  "alter_drop_columns L cfg cs ddl rel strinfo =
     rbind (rfold (alter_drop_column L cfg cs (dd_id ddl) (dd_columns ddl))
              (zip [1..<length (rd_attrs rel) + 1] (rd_attrs rel)) (strinfo, []))
       (\<lambda>(txt, pgcols). if pgcols = [] then Inr None else Inr (Some (chop 1 txt, pgcols)))"

text \<open>
  Otherwise every column is altered that the table has and that is not part of its primary key.
  The clause of one column, and the composition; where no clause was written, the code stores a
  terminator in front of its buffer.
\<close>

definition alter_clause ::
  "pg_lib \<Rightarrow> config \<Rightarrow> conv_state \<Rightarrow> string \<Rightarrow> ConnectorType \<Rightarrow> string \<Rightarrow> DBZ_DDL_COLUMN
   \<Rightarrow> PG_DDL_COLUMN \<Rightarrow> (string \<times> PG_DDL_COLUMN \<times> DBZ_DDL_COLUMN) res" where
  "alter_clause L cfg cs objid type name col pgcol =
     rbind (transformDDLColumns L cfg cs objid col type True pgcol) (\<lambda>(txt, pgcol', col').
       Inr (''ALTER COLUMN '' @ dquote name @ '' SET DATA TYPE'' @ txt @ length_text L col' @ '', ''
            @ (if dc_defaultValueExpression col' \<noteq> None then ''ALTER COLUMN '' @ dquote name @ '' SET DEFAULT NULL''
               else ''ALTER COLUMN '' @ dquote name @ '' DROP DEFAULT'') @ '', ''
            @ (if \<not> dc_optional col' then ''ALTER COLUMN '' @ dquote name @ '' SET NOT NULL''
               else ''ALTER COLUMN '' @ dquote name @ '' DROP NOT NULL'') @ '','', pgcol', col'))"

definition compose_attr ::
  "pg_lib \<Rightarrow> config \<Rightarrow> conv_state \<Rightarrow> string \<Rightarrow> ConnectorType \<Rightarrow> string \<Rightarrow> nat \<times> rel_attr
   \<Rightarrow> string \<times> PG_DDL_COLUMN \<times> DBZ_DDL_COLUMN \<Rightarrow> (string \<times> PG_DDL_COLUMN \<times> DBZ_DDL_COLUMN) res" where
  "compose_attr L cfg cs objid type name na s =
     (let (attnum, attr) = na; (strinfo, pgcol, col) = s
      in if attisdropped attr \<or> att_name attr \<noteq> name \<or> att_in_pk attr then Inr s
         else rbind (alter_clause L cfg cs objid type name col pgcol) (\<lambda>(txt, pgcol', col').
           Inr (strinfo @ txt, pgcol'\<lparr>pc_position := int attnum\<rparr>, col')))"

definition compose_column ::
  "pg_lib \<Rightarrow> config \<Rightarrow> conv_state \<Rightarrow> string \<Rightarrow> ConnectorType \<Rightarrow> rel_attr list \<Rightarrow> DBZ_DDL_COLUMN
   \<Rightarrow> string \<times> PG_DDL_COLUMN list \<Rightarrow> (string \<times> PG_DDL_COLUMN list) res" where
  "compose_column L cfg cs objid type attrs col s =
     rbind (column_attname L cfg cs objid (dc_name col)) (\<lambda>name.
     rbind (rfold (compose_attr L cfg cs objid type name) (zip [1..<length attrs + 1] attrs) (fst s, new_pgcol, col))
       (\<lambda>(txt, pgcol, _). Inr (txt, snd s @ [pgcol])))"

definition composeAlterColumnClauses ::
  "pg_lib \<Rightarrow> config \<Rightarrow> conv_state \<Rightarrow> string \<Rightarrow> ConnectorType \<Rightarrow> DBZ_DDL_COLUMN list \<Rightarrow> rel_attr list
   \<Rightarrow> (string \<times> PG_DDL_COLUMN list) res" where
  "composeAlterColumnClauses L cfg cs objid type cols attrs =
     rbind (rfold (compose_column L cfg cs objid type attrs) cols ([], [])) (\<lambda>(txt, pgcols).
       if txt = [] then Inl (Undefined ''write before the buffer'') else Inr (chop 1 txt, pgcols))"

definition alter_alter_columns ::
  "pg_lib \<Rightarrow> config \<Rightarrow> conv_state \<Rightarrow> DBZ_DDL \<Rightarrow> ConnectorType \<Rightarrow> rel_desc \<Rightarrow> string
   \<Rightarrow> (string \<times> PG_DDL_COLUMN list) option res" where
  "alter_alter_columns L cfg cs ddl type rel strinfo =
     rbind (composeAlterColumnClauses L cfg cs (dd_id ddl) type (dd_columns ddl) (rd_attrs rel)) (\<lambda>(clauses, pgcols).
     rbind (if rd_has_pkey rel then Inr (strinfo @ clauses)
            else populate_primary_keys L cfg cs (strinfo @ clauses) (dd_id ddl) (dd_primaryKeyColumnNames ddl) True True)
       (\<lambda>q. Inr (Some (q, pgcols))))"

section \<open>ALTER TABLE from OpenLog Replicator\<close>

text \<open>OpenLog Replicator says what was altered; only the listed columns are touched.\<close>

definition attribute_number :: "rel_attr list \<Rightarrow> string \<Rightarrow> nat" where
  "attribute_number attrs name =
     length (takeWhile (\<lambda>a. mentions (att_name a) ''pg.dropped'' \<or> att_name a \<noteq> name) attrs) + 1"

definition olr_add_column ::
  "pg_lib \<Rightarrow> config \<Rightarrow> conv_state \<Rightarrow> string \<Rightarrow> rel_attr list \<Rightarrow> DBZ_DDL_COLUMN
   \<Rightarrow> string \<times> PG_DDL_COLUMN list \<Rightarrow> (string \<times> PG_DDL_COLUMN list) res" where
  "olr_add_column L cfg cs objid attrs col s =
     rbind (add_column_text L cfg cs objid TYPE_OLR col) (\<lambda>(txt, pgcol).
       Inr (fst s @ txt, snd s @ [pgcol\<lparr>pc_position := int (length attrs + length (snd s) + 1)\<rparr>]))"

definition olr_drop_column ::
  "pg_lib \<Rightarrow> config \<Rightarrow> conv_state \<Rightarrow> string \<Rightarrow> rel_attr list \<Rightarrow> DBZ_DDL_COLUMN
   \<Rightarrow> string \<times> PG_DDL_COLUMN list \<Rightarrow> (string \<times> PG_DDL_COLUMN list) res" where
  "olr_drop_column L cfg cs objid attrs col s =
     rbind (column_attname L cfg cs objid (dc_name col)) (\<lambda>name.
       Inr (fst s @ ''DROP COLUMN IF EXISTS '' @ dquote name @ '','',
            snd s @ [new_pgcol\<lparr>pc_attname := Some name, pc_position := int (attribute_number attrs name)\<rparr>]))"

text \<open>The primary key clause is appended for every altered column, after its comma.\<close>

definition olr_alter_column ::
  "pg_lib \<Rightarrow> config \<Rightarrow> conv_state \<Rightarrow> DBZ_DDL \<Rightarrow> rel_desc \<Rightarrow> DBZ_DDL_COLUMN
   \<Rightarrow> string \<times> PG_DDL_COLUMN list \<Rightarrow> (string \<times> PG_DDL_COLUMN list) res" where
  "olr_alter_column L cfg cs ddl rel col s =
     rbind (column_attname L cfg cs (dd_id ddl) (dc_name col)) (\<lambda>name.
     rbind (alter_clause L cfg cs (dd_id ddl) TYPE_OLR name col new_pgcol) (\<lambda>(txt, pgcol, _).
     rbind (if rd_has_pkey rel then Inr (fst s @ txt)
            else populate_primary_keys L cfg cs (fst s @ txt) (dd_id ddl) (dd_primaryKeyColumnNames ddl) True True) (\<lambda>q.
       Inr (q, snd s @ [pgcol\<lparr>pc_position := int (attribute_number (rd_attrs rel) name)\<rparr>]))))"

definition alter_olr ::
  "pg_lib \<Rightarrow> config \<Rightarrow> conv_state \<Rightarrow> DBZ_DDL \<Rightarrow> rel_desc \<Rightarrow> string \<Rightarrow> (string \<times> PG_DDL_COLUMN list) option res" where
  "alter_olr L cfg cs ddl rel strinfo =
     (case dd_subtype ddl of
        SUBTYPE_ADD_COLUMN \<Rightarrow>
          if dd_columns ddl = [] then Inr None
          else rbind (rfold (olr_add_column L cfg cs (dd_id ddl) (rd_attrs rel)) (dd_columns ddl) (strinfo, [])) (\<lambda>(txt, pgcols).
               rbind (if rd_has_pkey rel then Inr (chop 1 txt)
                      else populate_primary_keys L cfg cs (chop 1 txt) (dd_id ddl) (dd_primaryKeyColumnNames ddl) True True)
                 (\<lambda>q. Inr (Some (q, pgcols))))
      | SUBTYPE_DROP_COLUMN \<Rightarrow>
          if dd_columns ddl = [] then Inr None
          else rbind (rfold (olr_drop_column L cfg cs (dd_id ddl) (rd_attrs rel)) (dd_columns ddl) (strinfo, []))
                 (\<lambda>(txt, pgcols). Inr (Some (chop 1 txt, pgcols)))
      | SUBTYPE_ALTER_COLUMN \<Rightarrow>
          if dd_columns ddl = [] then Inr None
          else rbind (rfold (olr_alter_column L cfg cs ddl rel) (dd_columns ddl) (strinfo, []))
                 (\<lambda>(txt, pgcols). Inr (Some (chop 1 txt, pgcols)))
      | SUBTYPE_ADD_CONSTRAINT \<Rightarrow>
          if rd_has_pkey rel then Inr None
          else rbind (populate_primary_keys L cfg cs (strinfo @ ''ADD CONSTRAINT '' @ dquote (pr_s (dd_constraintName ddl)) @ '' '')
                        (dd_id ddl) (dd_primaryKeyColumnNames ddl) True False)
                 (\<lambda>q. Inr (Some (q, [])))
      | SUBTYPE_DROP_CONSTRAINT \<Rightarrow>
          (case dd_constraintName ddl of None \<Rightarrow> Inr None
           | Some n \<Rightarrow> Inr (Some (strinfo @ ''DROP CONSTRAINT '' @ dquote n @ '' '', [])))
      | SUBTYPE_UNDEF \<Rightarrow> Inr None)"

section \<open>convert2PGDDL\<close>

text \<open>
  The result, \<open>None\<close> for the null pointer of a skipped event, and the key of the data cache entry
  that is dropped.
\<close>

definition cache_key :: "string option \<Rightarrow> string \<Rightarrow> string \<times> string" where
  "cache_key schema table =
     (strlcpy SYNCHDB_CONNINFO_DB_NAME_SIZE (schema_name schema), strlcpy SYNCHDB_CONNINFO_DB_NAME_SIZE table)"

definition convert_create_table ::
  "pg_lib \<Rightarrow> config \<Rightarrow> conv_state \<Rightarrow> DBZ_DDL \<Rightarrow> ConnectorType \<Rightarrow> PG_DDL res" where
  "convert_create_table L cfg cs ddl type =
     rbind (resolve_table L cfg cs (dd_id ddl)) (\<lambda>(schema, table).
       let opening = (case schema of None \<Rightarrow> [] | Some s \<Rightarrow> ''CREATE SCHEMA IF NOT EXISTS '' @ dquote s @ ''; '')
             @ ''CREATE TABLE IF NOT EXISTS '' @ qualified_name schema table @ '' (''
       in rbind (rfold (create_column L cfg cs (dd_id ddl) type) (dd_columns ddl) (opening, [])) (\<lambda>(txt, pgcols).
          rbind (populate_primary_keys L cfg cs (chop 1 txt) (dd_id ddl) (dd_primaryKeyColumnNames ddl) False True) (\<lambda>q.
            Inr \<lparr>pd_ddlquery = q @ '');'', pd_type = DDL_CREATE_TABLE, pd_subtype = SUBTYPE_UNDEF,
                 pd_schema = schema_name schema, pd_tbname = table, pd_columns = pgcols\<rparr>)))"

definition convert_drop_table ::
  "pg_lib \<Rightarrow> config \<Rightarrow> conv_state \<Rightarrow> DBZ_DDL \<Rightarrow> (PG_DDL \<times> (string \<times> string)) res" where
  "convert_drop_table L cfg cs ddl =
     rbind (resolve_table L cfg cs (dd_id ddl)) (\<lambda>(schema, table).
       Inr (\<lparr>pd_ddlquery = ''DROP TABLE IF EXISTS '' @ qualified_name schema table @ '';'', pd_type = DDL_DROP_TABLE,
             pd_subtype = SUBTYPE_UNDEF, pd_schema = schema_name schema, pd_tbname = table, pd_columns = []\<rparr>,
            cache_key schema table))"

definition convert_alter_table ::
  "pg_lib \<Rightarrow> config \<Rightarrow> conv_state \<Rightarrow> catalog \<Rightarrow> DBZ_DDL \<Rightarrow> ConnectorType \<Rightarrow> (PG_DDL option \<times> (string \<times> string)) res" where
  "convert_alter_table L cfg cs cat ddl type =
     rbind (resolve_table L cfg cs (dd_id ddl)) (\<lambda>(schema, table).
       let strinfo = ''ALTER TABLE '' @ qualified_name schema table @ '' '';
           pgddl = (\<lambda>sub r. map_option (\<lambda>(q, pgcols). \<lparr>pd_ddlquery = q, pd_type = DDL_ALTER_TABLE, pd_subtype = sub,
                      pd_schema = schema_name schema, pd_tbname = table, pd_columns = pgcols\<rparr>) r);
           result = (\<lambda>sub m. rbind m (\<lambda>r. Inr (pgddl sub r, cache_key schema table)))
       in if \<not> namespace_exists cat (schema_name schema) then Inl (PgError None ''schema does not exist'')
          else case relation cat (schema_name schema) table of
            None \<Rightarrow> Inl (PgError (Some ''no valid OID found for table'') ''no valid OID found for table'')
          | Some rel \<Rightarrow>
              if type = TYPE_OLR then
                (if with_olr cfg then result (dd_subtype ddl) (alter_olr L cfg cs ddl rel strinfo)
                 else Inl (PgError (Some ''OLR connector is not enabled in this synchdb build'')
                             ''OLR connector is not enabled in this synchdb build''))
              else if count_active_columns (rd_attrs rel) < length (dd_columns ddl)
              then result SUBTYPE_ADD_COLUMN (alter_add_columns L cfg cs ddl type rel strinfo)
              else if length (dd_columns ddl) < count_active_columns (rd_attrs rel)
              then result SUBTYPE_DROP_COLUMN (alter_drop_columns L cfg cs ddl rel strinfo)
              else result SUBTYPE_ALTER_COLUMN (alter_alter_columns L cfg cs ddl type rel strinfo))"

definition convert_truncate_table :: "pg_lib \<Rightarrow> config \<Rightarrow> conv_state \<Rightarrow> DBZ_DDL \<Rightarrow> PG_DDL res" where
  "convert_truncate_table L cfg cs ddl =
     rbind (resolve_truncated_table L cfg cs (dd_id ddl)) (\<lambda>(schema, table).
       Inr \<lparr>pd_ddlquery = ''TRUNCATE TABLE '' @ qualified_name schema table @ '';'', pd_type = DDL_TRUNCATE_TABLE,
            pd_subtype = SUBTYPE_UNDEF, pd_schema = schema_name schema, pd_tbname = table, pd_columns = []\<rparr>)"

definition convert2PGDDL ::
  "pg_lib \<Rightarrow> config \<Rightarrow> conv_state \<Rightarrow> catalog \<Rightarrow> DBZ_DDL \<Rightarrow> ConnectorType
   \<Rightarrow> (PG_DDL option \<times> (string \<times> string) option) res" where
  "convert2PGDDL L cfg cs cat ddl type = (case dd_type ddl of
       DDL_CREATE_TABLE \<Rightarrow> rbind (convert_create_table L cfg cs ddl type) (\<lambda>p. Inr (Some p, None))
     | DDL_DROP_TABLE \<Rightarrow> rbind (convert_drop_table L cfg cs ddl) (\<lambda>(p, k). Inr (Some p, Some k))
     | DDL_ALTER_TABLE \<Rightarrow> rbind (convert_alter_table L cfg cs cat ddl type) (\<lambda>(p, k). Inr (p, Some k))
     | DDL_TRUNCATE_TABLE \<Rightarrow> rbind (convert_truncate_table L cfg cs ddl) (\<lambda>p. Inr (Some p, None))
     | DDL_UNDEF \<Rightarrow> Inr (None, None))"

section \<open>The attribute table\<close>

text \<open>
  The statements that record which remote column an attribute comes from. The catalog gives the
  table's OID (\<open>relation_oid\<close>); a missing schema or table is an error or skips the update, by
  the error strategy. The result is the statement to run, if any, and the message stored for the connector.
\<close>

definition attribute_row :: "string \<Rightarrow> ConnectorType \<Rightarrow> nat \<Rightarrow> DBZ_DDL \<Rightarrow> DBZ_DDL_COLUMN \<times> PG_DDL_COLUMN \<Rightarrow> string" where
  "attribute_row name conntype tableoid ddl cp =
     (let (col, pgcol) = cp; q = [CHR 0x27]
      in if pc_attname pgcol = None \<or> pc_atttype pgcol = None then []
         else ''('' @ q @ name @ q @ '',lower('' @ q @ connectorTypeToString conntype @ q @ ''),'' @ show_nat tableoid @ '',''
           @ show_int (pc_position pgcol) @ '','' @ q @ dd_id ddl @ q @ '','' @ q @ dc_name col @ q @ '','' @ q @ dc_typeName col @ q @ ''),'')"

definition attribute_insert :: "string \<Rightarrow> ConnectorType \<Rightarrow> nat \<Rightarrow> DBZ_DDL \<Rightarrow> PG_DDL \<Rightarrow> string" where
  "attribute_insert name conntype tableoid ddl pgddl =
     chop 1 (''INSERT INTO synchdb_attribute (name, type, attrelid, attnum, ext_tbname, ext_attname, ext_atttypename) VALUES ''
       @ concat (map (attribute_row name conntype tableoid ddl) (zip (dd_columns ddl) (pd_columns pgddl))))
     @ '' ON CONFLICT(name, type, attrelid, attnum) DO UPDATE SET ext_tbname = EXCLUDED.ext_tbname,ext_attname = EXCLUDED.ext_attname,ext_atttypename = EXCLUDED.ext_atttypename;''"

definition attribute_dropped :: "string \<Rightarrow> ConnectorType \<Rightarrow> DBZ_DDL \<Rightarrow> PG_DDL_COLUMN \<Rightarrow> string" where
  "attribute_dropped name conntype ddl pgcol =
     (let q = [CHR 0x27]
      in ''UPDATE synchdb_attribute SET ext_attname = '' @ q @ ''........synchdb.dropped.'' @ show_int (pc_position pgcol) @ ''........'' @ q
         @ '',ext_atttypename = null WHERE lower(ext_attname) = lower('' @ q @ pr_s (pc_attname pgcol) @ q @ '') AND name = '' @ q @ name @ q
         @ '' AND lower(type) = lower('' @ q @ connectorTypeToString conntype @ q @ '') AND ext_tbname = '' @ q @ dd_id ddl @ q @ '';'')"

definition updateSynchdbAttribute ::
  "catalog \<Rightarrow> (string \<Rightarrow> string \<Rightarrow> nat) \<Rightarrow> ErrorStrategies \<Rightarrow> DBZ_DDL \<Rightarrow> PG_DDL \<Rightarrow> ConnectorType \<Rightarrow> string \<Rightarrow> (string option \<times> string option) res" where
  "updateSynchdbAttribute cat relation_oid strategy ddl pgddl conntype name =
     (let q = [CHR 0x27];
          cleanup = ''DELETE FROM synchdb_attribute WHERE attrelid NOT IN (SELECT oid FROM pg_class);'';
          missing = (\<lambda>m. if strategy = STRAT_EXIT_ON_ERROR then Inl (PgError (Some m) m) else Inr (None, Some m))
      in if pd_type pgddl = DDL_CREATE_TABLE
            \<or> pd_type pgddl = DDL_ALTER_TABLE \<and> pd_subtype pgddl \<in> {SUBTYPE_ADD_COLUMN, SUBTYPE_ALTER_COLUMN} then
           (if dd_columns ddl = [] \<or> pd_columns pgddl = [] then Inr (None, None)
            else if \<not> namespace_exists cat (pd_schema pgddl) then missing ''no valid OID found for schema''
            else if relation cat (pd_schema pgddl) (pd_tbname pgddl) = None then missing ''no valid OID found for table''
            else Inr (Some (attribute_insert name conntype (relation_oid (pd_schema pgddl) (pd_tbname pgddl)) ddl pgddl @ cleanup), None))
         else if pd_type pgddl = DDL_DROP_TABLE then
           Inr (Some (''DELETE FROM synchdb_attribute WHERE ext_tbname = '' @ q @ dd_id ddl @ q @ '' AND name = '' @ q @ name @ q
             @ '' AND lower(type) = lower('' @ q @ connectorTypeToString conntype @ q @ '');'' @ cleanup), None)
         else if pd_type pgddl = DDL_ALTER_TABLE \<and> pd_subtype pgddl = SUBTYPE_DROP_COLUMN then
           (if pd_columns pgddl = [] then Inr (None, None)
            else Inr (Some (concat (map (attribute_dropped name conntype ddl) (pd_columns pgddl)) @ cleanup), None))
         else Inr (None, None))"

section \<open>Properties: which table\<close>

text \<open>
  Creating, altering and dropping a table act on one and the same PostgreSQL table for a
  given remote id, whatever the rules and the letter casing strategy are, and the cache entry
  that altering and dropping discard is that table's.
\<close>

theorem ddl_targets_agree:
  assumes "dd_id d1 = dd_id d2" and "dd_id d3 = dd_id d2"
    and "convert_create_table L cfg cs d1 type = Inr p1" and "convert_drop_table L cfg cs d2 = Inr (p2, k2)"
    and "convert_alter_table L cfg cs cat d3 type = Inr (Some p3, k3)"
  shows "(pd_schema p1, pd_tbname p1) = (pd_schema p2, pd_tbname p2)
    \<and> (pd_schema p3, pd_tbname p3) = (pd_schema p2, pd_tbname p2)
    \<and> k3 = k2 \<and> k2 = (strlcpy SYNCHDB_CONNINFO_DB_NAME_SIZE (pd_schema p2), strlcpy SYNCHDB_CONNINFO_DB_NAME_SIZE (pd_tbname p2))"
proof -
  obtain s t where r: "resolve_table L cfg cs (dd_id d2) = Inr (s, t)"
    using assms(4) by (auto simp: convert_drop_table_def)
  have "pd_schema p2 = schema_name s" "pd_tbname p2 = t" "k2 = cache_key s t"
    using assms(4) r by (auto simp: convert_drop_table_def)
  moreover have "pd_schema p1 = schema_name s" "pd_tbname p1 = t"
    using assms(1,3) r by (auto simp: convert_create_table_def Let_def split: prod.splits)
  moreover have "pd_schema p3 = schema_name s \<and> pd_tbname p3 = t \<and> k3 = cache_key s t"
    using assms(2,5) r by (auto simp: convert_alter_table_def Let_def split: if_splits option.splits prod.splits)
  ultimately show ?thesis by (simp add: cache_key_def)
qed

definition example_ddl :: "DdlType \<Rightarrow> DBZ_DDL_COLUMN list \<Rightarrow> DBZ_DDL" where
  "example_ddl ty cols = \<lparr>dd_id = ''db.T'', dd_type = ty, dd_subtype = SUBTYPE_UNDEF, dd_primaryKeyColumnNames = None,
     dd_constraintName = None, dd_columns = cols, dd_dbz_ts_ms = 0, dd_src_ts_ms = 0\<rparr>"

definition lower_config :: config where
  "lower_config = example_config\<lparr>synchdb_letter_casing_strategy := LCS_NORMALIZE_LOWERCASE\<rparr>"

lemma example_resolve:
  "resolve_table ascii_lib lower_config (init_mysql conv_state0) ''db.T'' = Inr (Some ''db'', ''t'')"
  "resolve_truncated_table ascii_lib lower_config (init_mysql conv_state0) ''db.T'' = Inr (Some ''db'', ''T'')"
  by (simp_all add: resolve_table_def resolve_truncated_table_def transform_object_name_def init_mysql_def conv_state0_def
      lower_config_def example_config_def fc_normalize_name_def ascii_lib_def c_simps splitIdString_def strtok_all_def tok_def)

definition example_catalog :: catalog where
  "example_catalog = \<lparr>namespace_exists = (\<lambda>_. True),
     relation = (\<lambda>_ _. Some \<lparr>rd_attrs = [\<lparr>att_name = ''old'', attisdropped = False, att_in_pk = False\<rparr>], rd_has_pkey = True\<rparr>)\<rparr>"

lemma example_drop:
  "convert_drop_table ascii_lib lower_config (init_mysql conv_state0) (example_ddl DDL_DROP_TABLE []) =
     Inr (\<lparr>pd_ddlquery = ''DROP TABLE IF EXISTS '' @ qualified_name (Some ''db'') ''t'' @ '';'', pd_type = DDL_DROP_TABLE,
           pd_subtype = SUBTYPE_UNDEF, pd_schema = ''db'', pd_tbname = ''t'', pd_columns = []\<rparr>, (''db'', ''t''))"
  by (simp add: convert_drop_table_def example_ddl_def example_resolve schema_name_def cache_key_def size_defs)

lemma example_create_empty:
  "\<exists>p. convert_create_table ascii_lib lower_config (init_mysql conv_state0) (example_ddl DDL_CREATE_TABLE []) TYPE_MYSQL = Inr p"
  by (simp add: convert_create_table_def example_ddl_def example_resolve populate_primary_keys_def Let_def)

lemma example_alter_drop:
  "\<exists>p k. convert_alter_table ascii_lib lower_config (init_mysql conv_state0) example_catalog (example_ddl DDL_ALTER_TABLE []) TYPE_MYSQL
     = Inr (Some p, k)"
proof -
  have "\<not> mentions ''old'' ''pg.dropped''" by (simp add: mentions_def)
  then show ?thesis
    by (simp add: convert_alter_table_def example_ddl_def example_resolve example_catalog_def count_active_columns_def
        alter_drop_columns_def alter_drop_column_def Let_def)
qed

theorem ddl_targets_agree_witness:
  "\<exists>p1 p2 k2 p3 k3.
     convert_create_table ascii_lib lower_config (init_mysql conv_state0) (example_ddl DDL_CREATE_TABLE []) TYPE_MYSQL = Inr p1
   \<and> convert_drop_table ascii_lib lower_config (init_mysql conv_state0) (example_ddl DDL_DROP_TABLE []) = Inr (p2, k2)
   \<and> convert_alter_table ascii_lib lower_config (init_mysql conv_state0) example_catalog (example_ddl DDL_ALTER_TABLE []) TYPE_MYSQL
       = Inr (Some p3, k3)
   \<and> pd_tbname p1 = pd_tbname p2 \<and> pd_tbname p3 = pd_tbname p2 \<and> k3 = k2"
proof -
  obtain p1 where p1: "convert_create_table ascii_lib lower_config (init_mysql conv_state0) (example_ddl DDL_CREATE_TABLE []) TYPE_MYSQL = Inr p1"
    using example_create_empty by blast
  obtain p3 k3 where p3: "convert_alter_table ascii_lib lower_config (init_mysql conv_state0) example_catalog
      (example_ddl DDL_ALTER_TABLE []) TYPE_MYSQL = Inr (Some p3, k3)" using example_alter_drop by blast
  have i: "dd_id (example_ddl a x) = dd_id (example_ddl b y)" for a b x y by (simp add: example_ddl_def)
  show ?thesis using ddl_targets_agree [OF i i p1 example_drop p3] p1 p3 example_drop by blast
qed

text \<open>
  Truncating does not always reach that table: with lower-casing, a table \<^verbatim>\<open>db.T\<close> is created
  and dropped as \<^verbatim>\<open>t\<close> but truncated as \<^verbatim>\<open>T\<close>.
\<close>

theorem truncate_misses_normalised_table:
  "\<exists>p1 k1 p2. convert_drop_table ascii_lib lower_config (init_mysql conv_state0) (example_ddl DDL_DROP_TABLE []) = Inr (p1, k1)
    \<and> convert_truncate_table ascii_lib lower_config (init_mysql conv_state0) (example_ddl DDL_TRUNCATE_TABLE []) = Inr p2
    \<and> pd_tbname p1 = ''t'' \<and> pd_tbname p2 = ''T''"
  using example_drop by (simp add: convert_truncate_table_def example_resolve) (simp add: example_ddl_def example_resolve)

section \<open>Properties: which columns\<close>

lemma transformDDLColumns_attname:
  "transformDDLColumns L cfg cs objid col type dt pgcol = Inr (txt, pgcol', col') \<Longrightarrow>
   \<exists>name. column_attname L cfg cs objid (dc_name col) = Inr name \<and> pc_attname pgcol' = Some name \<and> pc_position pgcol' = pc_position pgcol"
proof -
  assume run: "transformDDLColumns L cfg cs objid col type dt pgcol = Inr (txt, pgcol', col')"
  then obtain name where n: "column_attname L cfg cs objid (dc_name col) = Inr name"
    by (cases "column_attname L cfg cs objid (dc_name col)") (simp_all add: transformDDLColumns_def)
  from run have "pc_attname pgcol' = Some name \<and> pc_position pgcol' = pc_position pgcol"
    by (auto simp: transformDDLColumns_def n Let_def split: sum.splits option.splits if_splits prod.splits)
  with n show ?thesis by blast
qed

lemma create_columns_fold:
  assumes "rfold (create_column L cfg cs objid type) cols (q0, ps0) = Inr (q, ps)"
  shows "map pc_position ps = map pc_position ps0 @ map (\<lambda>i. int (length ps0 + i) + 1) [0..<length cols]
    \<and> (\<exists>names. rmap (\<lambda>c. column_attname L cfg cs objid (dc_name c)) cols = Inr names
         \<and> map pc_attname ps = map pc_attname ps0 @ map Some names)"
  using assms
proof (induction cols arbitrary: q0 ps0)
  case (Cons c cols)
  from Cons.prems obtain q1 pgcol col' where t: "transformDDLColumns L cfg cs objid c type False new_pgcol = Inr (q1, pgcol, col')"
    and rest: "rfold (create_column L cfg cs objid type) cols
      (q0 @ q1 @ column_options L (dc_name col') col' @ '','', ps0 @ [pgcol\<lparr>pc_position := int (length ps0) + 1\<rparr>]) = Inr (q, ps)"
    by (auto simp: create_column_def [of L cfg cs objid type c])
  from transformDDLColumns_attname [OF t] obtain name where
    n: "column_attname L cfg cs objid (dc_name c) = Inr name" "pc_attname pgcol = Some name" by blast
  have "[0..<length (c # cols)] = 0 # map Suc [0..<length cols]" by (simp add: map_Suc_upt upt_conv_Cons del: upt_Suc)
  with Cons.IH [OF rest] n show ?case by (auto simp: comp_def)
qed simp


lemma example_create:
  "\<exists>p. convert_create_table ascii_lib lower_config (init_mysql conv_state0)
     (example_ddl DDL_CREATE_TABLE [example_column ''int'' 0 0, example_column ''int'' 0 0]) TYPE_MYSQL = Inr p"
proof -
  have h: "rulehash (init_mysql conv_state0) TYPE_MYSQL = Inr (Some (map_of mysql_defaultTypeMappings))"
    by (simp add: rulehash_def init_mysql_def)
  obtain q where "\<exists>pgcol' col'. transformDDLColumns ascii_lib lower_config (init_mysql conv_state0) ''db.T''
      (example_column ''int'' 0 0) TYPE_MYSQL False new_pgcol = Inr (q, pgcol', col')"
    using transformDDLColumns_succeeds [OF h] by (fastforce simp: init_mysql_def conv_state0_def)
  then show ?thesis
    by (auto simp: convert_create_table_def example_ddl_def example_resolve create_column_def populate_primary_keys_def Let_def)
qed


lemma add_column_text_fields:
  "add_column_text L cfg cs objid type col = Inr (q, pgcol) \<Longrightarrow>
   \<exists>name. column_attname L cfg cs objid (dc_name col) = Inr name \<and> pc_attname pgcol = Some name"
  by (auto simp: add_column_text_def dest!: transformDDLColumns_attname)

lemma alter_add_fold:
  assumes "rfold (alter_add_column L cfg cs objid type attrs) cols (q0, ps0, n0) = Inr (q, ps, n)"
  shows "\<exists>names new. rmap (\<lambda>c. column_attname L cfg cs objid (dc_name c)) cols = Inr names
    \<and> ps = ps0 @ new
    \<and> map pc_attname new = map (\<lambda>x. if has_attribute attrs x then None else Some x) names
    \<and> n = n0 + length (filter (\<lambda>x. \<not> has_attribute attrs x) names)
    \<and> map pc_position (filter (\<lambda>p. pc_attname p \<noteq> None) new)
        = map (\<lambda>i. int (length attrs + 1 + n0 + i)) [0..<length (filter (\<lambda>x. \<not> has_attribute attrs x) names)]"
  using assms
proof (induction cols arbitrary: q0 ps0 n0)
  case (Cons c cols)
  from Cons.prems obtain name where name: "column_attname L cfg cs objid (dc_name c) = Inr name"
    by (cases "column_attname L cfg cs objid (dc_name c)") (simp_all add: alter_add_column_def Let_def)
  have upt: "[0..<Suc k] = 0 # map Suc [0..<k]" for k by (simp add: map_Suc_upt upt_conv_Cons del: upt_Suc)
  show ?case
  proof (cases "has_attribute attrs name")
    case True
    with Cons.prems name have "rfold (alter_add_column L cfg cs objid type attrs) cols (q0, ps0 @ [new_pgcol], n0) = Inr (q, ps, n)"
      by (simp add: alter_add_column_def [of L cfg cs objid type attrs c])
    from Cons.IH [OF this] True name show ?thesis by (fastforce simp: new_pgcol_def)
  next
    case False
    with Cons.prems name obtain q1 pgcol where t: "add_column_text L cfg cs objid type c = Inr (q1, pgcol)"
      and rest: "rfold (alter_add_column L cfg cs objid type attrs) cols
        (q0 @ q1, ps0 @ [pgcol\<lparr>pc_position := int (length attrs + 1 + n0)\<rparr>], n0 + 1) = Inr (q, ps, n)"
      by (auto simp: alter_add_column_def [of L cfg cs objid type attrs c] Let_def)
    have "pc_attname pgcol = Some name" using add_column_text_fields [OF t] name by simp
    with Cons.IH [OF rest] False name show ?thesis
      by (fastforce simp: upt comp_def simp del: upt_Suc)
  qed
qed simp



definition gone_attributes :: "rel_attr list \<Rightarrow> string list \<Rightarrow> (nat \<times> rel_attr) list" where
  "gone_attributes attrs names =
     filter (\<lambda>na. \<not> mentions (att_name (snd na)) ''pg.dropped'' \<and> att_name (snd na) \<notin> set names)
       (zip [1..<length attrs + 1] attrs)"

lemma rmap_in_set: "rmap f xs = Inr ys \<Longrightarrow> x \<in> set xs \<Longrightarrow> \<exists>y. f x = Inr y"
  by (induction xs arbitrary: ys) auto

lemma rexists_names:
  assumes "rmap f cols = Inr names"
  shows "rexists (\<lambda>c. rbind (f c) (\<lambda>n. Inr (n = x))) cols = Inr (x \<in> set names)"
  using assms
proof (induction cols arbitrary: names)
  case (Cons c cols)
  then obtain y ys where y: "f c = Inr y" "rmap f cols = Inr ys" "names = y # ys" by auto
  from Cons.IH [OF y(2)] y show ?case by simp
qed simp

lemma alter_drop_fold:
  assumes names: "rmap (\<lambda>c. column_attname L cfg cs objid (dc_name c)) cols = Inr names"
  shows "rfold (alter_drop_column L cfg cs objid cols) nas (q0, ps0) =
    (let gone = filter (\<lambda>na. \<not> mentions (att_name (snd na)) ''pg.dropped'' \<and> att_name (snd na) \<notin> set names) nas
     in Inr (q0 @ concat (map (\<lambda>na. (''DROP COLUMN IF EXISTS '' @ dquote (att_name (snd na))) @ '','') gone),
             ps0 @ map (\<lambda>na. new_pgcol\<lparr>pc_attname := Some (att_name (snd na)), pc_position := int (fst na)\<rparr>) gone))"
proof (induction nas arbitrary: q0 ps0)
  case (Cons na nas)
  have "alter_drop_column L cfg cs objid cols na (q0, ps0) =
    (if mentions (att_name (snd na)) ''pg.dropped'' \<or> att_name (snd na) \<in> set names then Inr (q0, ps0)
     else Inr (q0 @ ''DROP COLUMN IF EXISTS '' @ dquote (att_name (snd na)) @ '','',
            ps0 @ [new_pgcol\<lparr>pc_attname := Some (att_name (snd na)), pc_position := int (fst na)\<rparr>]))"
    by (cases na) (simp add: alter_drop_column_def rexists_names [OF names])
  then show ?case
    by (cases "mentions (att_name (snd na)) ''pg.dropped'' \<or> att_name (snd na) \<in> set names")
      (simp_all add: Cons.IH Let_def)
qed simp

text \<open>
  C23: when Debezium reports fewer columns than the table has, exactly the table's columns that no
  reported column has the name of are dropped, by one clause each, and recorded under their own
  attribute numbers; attributes dropped earlier are left alone.
\<close>

theorem alter_drops_exactly_gone:
  assumes "rmap (\<lambda>c. column_attname L cfg cs (dd_id ddl) (dc_name c)) (dd_columns ddl) = Inr names"
  shows "alter_drop_columns L cfg cs ddl rel strinfo =
    Inr (let gone = gone_attributes (rd_attrs rel) names
         in if gone = [] then None
            else Some (strinfo @ join '','' (map (\<lambda>na. ''DROP COLUMN IF EXISTS '' @ dquote (att_name (snd na))) gone),
                       map (\<lambda>na. new_pgcol\<lparr>pc_attname := Some (att_name (snd na)), pc_position := int (fst na)\<rparr>) gone))"
proof -
  let ?gone = "gone_attributes (rd_attrs rel) names"
  let ?cl = "map (\<lambda>na. ''DROP COLUMN IF EXISTS '' @ dquote (att_name (snd na))) ?gone"
  have run: "rfold (alter_drop_column L cfg cs (dd_id ddl) (dd_columns ddl)) (zip [1..<length (rd_attrs rel) + 1] (rd_attrs rel)) (strinfo, []) =
    Inr (strinfo @ concat (map (\<lambda>x. x @ '','') ?cl),
         map (\<lambda>na. new_pgcol\<lparr>pc_attname := Some (att_name (snd na)), pc_position := int (fst na)\<rparr>) ?gone)"
    unfolding alter_drop_fold [OF assms] gone_attributes_def Let_def map_map comp_def append_Nil by (rule refl)
  show ?thesis
  proof (cases "?gone = []")
    case True
    with run show ?thesis by (simp add: alter_drop_columns_def)
  next
    case False
    then have "chop 1 (strinfo @ concat (map (\<lambda>x. x @ '','') ?cl)) = strinfo @ join '','' ?cl"
      by (intro chop_join) simp_all
    with False run show ?thesis by (simp add: alter_drop_columns_def Let_def)
  qed
qed

theorem alter_drops_exactly_gone_witness:
  "alter_drop_columns ascii_lib lower_config (init_mysql conv_state0) (example_ddl DDL_ALTER_TABLE [])
     \<lparr>rd_attrs = [\<lparr>att_name = ''old'', attisdropped = False, att_in_pk = False\<rparr>], rd_has_pkey = True\<rparr> ''X ''
   = Inr (Some (''X DROP COLUMN IF EXISTS '' @ dquote ''old'', [\<lparr>pc_attname = Some ''old'', pc_atttype = None, pc_position = 1\<rparr>]))"
  using alter_drops_exactly_gone [of ascii_lib lower_config "init_mysql conv_state0" "example_ddl DDL_ALTER_TABLE []" "[]"
      "\<lparr>rd_attrs = [\<lparr>att_name = ''old'', attisdropped = False, att_in_pk = False\<rparr>], rd_has_pkey = True\<rparr>" "''X ''"]
  by (simp add: example_ddl_def gone_attributes_def mentions_def new_pgcol_def)

section \<open>Properties: primary keys\<close>

lemma pk_elements:
  assumes "rmap (pk_column_name L cfg cs objid) names = Inr cols"
  shows "rfold (pk_token L cfg cs objid alter inl) (map (\<lambda>n. WJB_ELEM (JString n)) names) (q, isfirst) =
    Inr (q @ (if isfirst \<and> names \<noteq> [] then pk_opening alter inl else []) @ concat (map (\<lambda>x. x @ '','') (map dquote cols)),
         isfirst \<and> names = [])"
  using assms
proof (induction names arbitrary: cols q isfirst)
  case (Cons n names)
  then obtain y ys where y: "pk_column_name L cfg cs objid n = Inr y" "rmap (pk_column_name L cfg cs objid) names = Inr ys"
    "cols = y # ys" by auto
  from y Cons.IH [OF y(2)] show ?case by (simp add: pk_token_def)
qed simp

text \<open>
  The primary key clause made of a JSON array of column names lists exactly those columns, in
  order, each under the name its rule and the letter casing give it, and closes its parenthesis;
  an empty array adds nothing. PostgreSQL's iterator is taken to visit an array of strings as
  documented: a begin token, its elements in order, an end token.
\<close>

theorem primary_key_clause:
  assumes "jsonb_in L j = Some jb"
    and "JsonbIterator L jb = [WJB_BEGIN_ARRAY] @ map (\<lambda>n. WJB_ELEM (JString n)) names @ [WJB_END_ARRAY]"
    and "rmap (pk_column_name L cfg cs objid) names = Inr cols"
  shows "populate_primary_keys L cfg cs strinfo objid (Some j) alter inl =
    Inr (if names = [] then strinfo else strinfo @ pk_opening alter inl @ join '','' (map dquote cols) @ '')'')"
proof (cases "names = []")
  case True
  with assms show ?thesis by (simp add: populate_primary_keys_def pk_token_def)
next
  case False
  then have "cols \<noteq> []" using rmap_length [OF assms(3)] by auto
  then have "chop 1 ((strinfo @ pk_opening alter inl) @ concat (map (\<lambda>x. x @ '','') (map dquote cols)))
      = (strinfo @ pk_opening alter inl) @ join '','' (map dquote cols)" by (intro chop_join) simp_all
  with False assms pk_elements [OF assms(3), of alter inl strinfo True] show ?thesis
    by (simp add: populate_primary_keys_def rfold_append pk_token_def [of L cfg cs objid alter inl WJB_BEGIN_ARRAY]
        pk_token_def [of L cfg cs objid alter inl WJB_END_ARRAY])
qed

definition json_lib :: pg_lib where
  "json_lib = ascii_lib\<lparr>jsonb_in := (\<lambda>_. Some (JArray [JString ''ID'', JString ''K''])),
     JsonbIterator := (\<lambda>_. [WJB_BEGIN_ARRAY, WJB_ELEM (JString ''ID''), WJB_ELEM (JString ''K''), WJB_END_ARRAY])\<rparr>"

theorem primary_key_clause_witness:
  "populate_primary_keys json_lib lower_config conv_state0 ''X'' ''db.T'' (Some ''[...]'') False True =
     Inr (''X, PRIMARY KEY('' @ dquote ''id'' @ '','' @ dquote ''k'' @ '')'')"
proof -
  have "rmap (pk_column_name json_lib lower_config conv_state0 ''db.T'') [''ID'', ''K''] = Inr [''id'', ''k'']"
    by (simp add: pk_column_name_def transform_object_name_def conv_state0_def lower_config_def fc_normalize_name_def
        json_lib_def ascii_lib_def c_simps)
  from primary_key_clause [OF _ _ this, of "''[...]''" "JArray [JString ''ID'', JString ''K'']" "''X''" False True] show ?thesis
    by (simp add: json_lib_def pk_opening_def)
qed

end
