(* ===== verification/Event_Parse.thy ===== *)
theory Event_Parse
  imports DDL_Conv
begin

text \<open>
  The Debezium event parser (\<^verbatim>\<open>src/backend/converter/debezium_event_handler.c\<close>): the names of DDL kinds,
  literal types and time representations, the schema section of an event, the table changes of a DDL event
  and the row images of a DML event, with the cache of column data types that the parser keeps for each
  table. A \<^verbatim>\<open>jsonb\<close> iterator is the list of its tokens; the token loops are folds over a state that holds the
  pending key and value.
\<close>

section \<open>Names\<close>

definition name_to_ddltype :: "string \<Rightarrow> DdlType" where
  "name_to_ddltype name =
     (if strcaseeq name ''CREATE'' \<or> strcaseeq name ''CREATE TABLE'' then DDL_CREATE_TABLE
      else if strcaseeq name ''ALTER'' \<or> strcaseeq name ''ALTER TABLE'' then DDL_ALTER_TABLE
      else if strcaseeq name ''DROP'' \<or> strcaseeq name ''DROP TABLE'' then DDL_DROP_TABLE
      else DDL_UNDEF)"

definition getDbzTypeFromString :: "string \<Rightarrow> int" where
  "getDbzTypeFromString typestring =
     (case map_of [(''float32'', DBZTYPE_FLOAT32), (''float64'', DBZTYPE_FLOAT64), (''float'', DBZTYPE_FLOAT),
        (''double'', DBZTYPE_DOUBLE), (''bytes'', DBZTYPE_BYTES), (''int8'', DBZTYPE_INT8), (''int16'', DBZTYPE_INT16),
        (''int32'', DBZTYPE_INT32), (''int64'', DBZTYPE_INT64), (''struct'', DBZTYPE_STRUCT), (''string'', DBZTYPE_STRING)]
        typestring of Some t \<Rightarrow> t | None \<Rightarrow> DBZTYPE_UNDEF)"

definition timerep_names :: "(string \<times> TimeRep) list" where
  "timerep_names =
     [(''io.debezium.time.Date'', TIME_DATE), (''io.debezium.time.Time'', TIME_TIME),
      (''io.debezium.time.ZonedTime'', TIME_ZONEDTIME), (''io.debezium.time.MicroTime'', TIME_MICROTIME),
      (''io.debezium.time.NanoTime'', TIME_NANOTIME), (''io.debezium.time.Timestamp'', TIME_TIMESTAMP),
      (''io.debezium.time.MicroTimestamp'', TIME_MICROTIMESTAMP), (''io.debezium.time.NanoTimestamp'', TIME_NANOTIMESTAMP),
      (''io.debezium.time.ZonedTimestamp'', TIME_ZONEDTIMESTAMP), (''io.debezium.time.MicroDuration'', TIME_MICRODURATION),
      (''io.debezium.data.VariableScaleDecimal'', DATA_VARIABLE_SCALE),
      (''org.apache.kafka.connect.data.Decimal'', DATA_VARIABLE_SCALE),
      (''io.debezium.data.geometry.Geometry'', DATA_VARIABLE_SCALE), (''io.debezium.data.Enum'', DATA_ENUM),
      (''io.debezium.data.Uuid'', DATA_UUID), (''io.debezium.data.Json'', DATA_JSON), (''io.debezium.data.Xml'', DATA_XML),
      (''io.debezium.data.Bits'', DATA_BITS), (''io.debezium.data.geometry.Point'', DATA_POINT)]"

definition getTimerepFromString :: "string \<Rightarrow> TimeRep" where
  "getTimerepFromString typestring =
     (case find (\<lambda>(n, t). find_exact_string_match typestring n) timerep_names of
        Some (n, t) \<Rightarrow> t | None \<Rightarrow> TIME_UNDEF)"

section \<open>Members of a JSON object\<close>

text \<open>
  \<^verbatim>\<open>getKeyJsonValueFromContainer\<close>; the code reads \<^verbatim>\<open>val.string\<close> of the result without looking at its type.
\<close>

definition json_key :: "jsonb \<Rightarrow> string \<Rightarrow> jsonb option" where
  "json_key j k = (case j of JObject ms \<Rightarrow> map_of ms k | _ \<Rightarrow> None)"

definition json_string :: "jsonb \<Rightarrow> string res" where
  "json_string j = (case j of JString s \<Rightarrow> Inr s | _ \<Rightarrow> Inl (Undefined ''string member of another type''))"

definition json_numeric :: "pg_lib \<Rightarrow> jsonb \<Rightarrow> 64 word res" where
  "json_numeric L j = (case j of JNumeric s \<Rightarrow> Inr (numeric_int8 L s) | _ \<Rightarrow> Inl (Undefined ''numeric member of another type''))"

text \<open>A scalar as the token loops copy it.\<close>

definition scalar_text :: "jsonb \<Rightarrow> string option" where
  "scalar_text v = (case v of JNull \<Rightarrow> Some ''NULL'' | JString s \<Rightarrow> Some s | JNumeric s \<Rightarrow> Some s
     | JBool b \<Rightarrow> Some (if b then ''true'' else ''false'') | _ \<Rightarrow> None)"

section \<open>The schema section\<close>

record NameJsonposEntry =
  nj_name :: string
  nj_jsonpos :: int
  nj_dbztype :: int
  nj_timerep :: TimeRep
  nj_scale :: int

definition NAMEDATALEN :: nat where "NAMEDATALEN = 64"

text \<open>
  One element of \<^verbatim>\<open>schema.fields.0.fields\<close>. A name of 64 bytes or more overruns the buffer it is copied to.
\<close>

definition schema_field :: "pg_lib \<Rightarrow> jsonb \<Rightarrow> NameJsonposEntry option res" where
  "schema_field L v = (case v of
       JObject _ \<Rightarrow>
         (case json_key v ''field'' of None \<Rightarrow> Inr None
          | Some f \<Rightarrow> rbind (json_string f) (\<lambda>name.
              if NAMEDATALEN \<le> length name then Inl (Undefined ''field name too long'')
              else case json_key v ''type'' of None \<Rightarrow> Inr None
                | Some t \<Rightarrow> rbind (json_string t) (\<lambda>ty.
                    rbind (case json_key v ''name'' of None \<Rightarrow> Inr TIME_UNDEF
                           | Some n \<Rightarrow> rbind (json_string n) (\<lambda>s. Inr (getTimerepFromString s))) (\<lambda>rep.
                    rbind (case json_key v ''parameters'' of None \<Rightarrow> Inr 0
                           | Some ps \<Rightarrow> (case json_key ps ''scale'' of None \<Rightarrow> Inr 0
                               | Some sc \<Rightarrow> rbind (json_string sc) (\<lambda>s. Inr (atoi s)))) (\<lambda>scale.
                    Inr (Some \<lparr>nj_name = fc_normalize_name L LCS_NORMALIZE_LOWERCASE name (length name), nj_jsonpos = 0,
                          nj_dbztype = getDbzTypeFromString ty, nj_timerep = rep, nj_scale = scale\<rparr>))))))
     | JArray _ \<Rightarrow> Inr None
     | _ \<Rightarrow> Inr None)"

definition add_schema_field ::
  "pg_lib \<Rightarrow> jsonb \<Rightarrow> (string \<rightharpoonup> NameJsonposEntry) \<times> int \<Rightarrow> ((string \<rightharpoonup> NameJsonposEntry) \<times> int) res" where
  "add_schema_field L v st =
     rbind (schema_field L v) (\<lambda>e. case e of None \<Rightarrow> Inr st
       | Some entry \<Rightarrow> Inr (case fst st (nj_name entry) of
           None \<Rightarrow> (fst st)(nj_name entry \<mapsto> entry\<lparr>nj_jsonpos := snd st\<rparr>) | Some _ \<Rightarrow> fst st, snd st + 1))"

definition build_schema_jsonpos_hash :: "pg_lib \<Rightarrow> jsonb \<Rightarrow> (string \<rightharpoonup> NameJsonposEntry) res" where
  "build_schema_jsonpos_hash L jb =
     (case jsonb_get_element L jb [''schema'', ''fields'', ''0'', ''fields''] of
        Some (JArray vs) \<Rightarrow> rbind (rfold (add_schema_field L) vs (Map.empty, 0)) (\<lambda>st. Inr (fst st))
      | _ \<Rightarrow> Inr Map.empty)"

section \<open>DDL events\<close>

definition new_ddlcol :: DBZ_DDL_COLUMN where
  "new_ddlcol = \<lparr>dc_name = [], dc_length = 0, dc_optional = False, dc_position = 0, dc_typeName = [],
     dc_enumValues = None, dc_charsetName = None, dc_autoIncremented = False, dc_defaultValueExpression = None,
     dc_scale = 0\<rparr>"

text \<open>The attributes of a column, in the order of the source's tests; other keys are ignored.\<close>

definition set_ddlcol :: "pg_lib \<Rightarrow> string \<Rightarrow> string \<Rightarrow> DBZ_DDL_COLUMN \<Rightarrow> DBZ_DDL_COLUMN" where
  "set_ddlcol L key v col =
     (if key = ''name'' then col\<lparr>dc_name := v\<rparr>
      else if key = ''length'' then col\<lparr>dc_length := (if v = ''NULL'' then 0 else atoi v)\<rparr>
      else if key = ''optional'' then col\<lparr>dc_optional := (v = ''true'')\<rparr>
      else if key = ''position'' then col\<lparr>dc_position := atoi v\<rparr>
      else if key = ''typeName'' then col\<lparr>dc_typeName := fc_normalize_name L LCS_NORMALIZE_LOWERCASE v (length v)\<rparr>
      else if key = ''enumValues'' then col\<lparr>dc_enumValues := Some v\<rparr>
      else if key = ''charsetName'' then col\<lparr>dc_charsetName := Some v\<rparr>
      else if key = ''autoIncremented'' then col\<lparr>dc_autoIncremented := (v = ''true'')\<rparr>
      else if key = ''defaultValueExpression''
      then col\<lparr>dc_defaultValueExpression := (if v = ''NULL'' then None else Some v)\<rparr>
      else if key = ''scale'' then col\<lparr>dc_scale := (if v = ''NULL'' then 0 else atoi v)\<rparr>
      else col)"

record ddl_scan =
  ds_key :: "string option"
  ds_value :: "string option"
  ds_pause :: bool
  ds_col :: "DBZ_DDL_COLUMN option"
  ds_columns :: "DBZ_DDL_COLUMN list"

definition ddl_switch :: "jsonb_token \<Rightarrow> ddl_scan \<Rightarrow> ddl_scan res" where
  "ddl_switch r st = (case r of
       WJB_BEGIN_OBJECT \<Rightarrow> Inr (st\<lparr>ds_col := Some new_ddlcol, ds_key := None\<rparr>)
     | WJB_END_OBJECT \<Rightarrow> (case ds_col st of None \<Rightarrow> Inl (Undefined ''null column'')
         | Some c \<Rightarrow> Inr (st\<lparr>ds_columns := ds_columns st @ [c]\<rparr>))
     | WJB_BEGIN_ARRAY \<Rightarrow> Inr (if ds_key st \<noteq> None then st\<lparr>ds_pause := True, ds_key := None\<rparr> else st)
     | WJB_END_ARRAY \<Rightarrow> Inr (st\<lparr>ds_pause := False\<rparr>)
     | WJB_KEY k \<Rightarrow> Inr (if ds_pause st then st else st\<lparr>ds_key := Some k\<rparr>)
     | WJB_VALUE v \<Rightarrow> Inr (if ds_pause st then st
          else case scalar_text v of Some t \<Rightarrow> st\<lparr>ds_value := Some t\<rparr> | None \<Rightarrow> st)
     | WJB_ELEM v \<Rightarrow> Inr (if ds_pause st then st
          else case scalar_text v of Some t \<Rightarrow> st\<lparr>ds_value := Some t\<rparr> | None \<Rightarrow> st))"

definition ddl_consume :: "pg_lib \<Rightarrow> ddl_scan \<Rightarrow> ddl_scan res" where
  "ddl_consume L st = (case (ds_key st, ds_value st) of
       (Some k, Some v) \<Rightarrow> (case ds_col st of
           None \<Rightarrow> Inl (Undefined ''null column'')
         | Some c \<Rightarrow> Inr (st\<lparr>ds_col := Some (set_ddlcol L k v c), ds_key := None, ds_value := None\<rparr>))
     | _ \<Rightarrow> Inr st)"

definition ddl_token :: "pg_lib \<Rightarrow> jsonb_token \<Rightarrow> ddl_scan \<Rightarrow> ddl_scan res" where
  "ddl_token L r st = rbind (ddl_switch r st) (ddl_consume L)"

text \<open>
  \<^verbatim>\<open>deriveLogicalMessage\<close>: the content of a PostgreSQL logical message, decoded from base64, becomes the only
  table change of the event. \<open>None\<close> is the return value -1. The message prefix is only logged.
\<close>

definition deriveLogicalMessage :: "pg_lib \<Rightarrow> jsonb \<Rightarrow> jsonb option res" where
  "deriveLogicalMessage L jb =
     rbind (getPathElementString L jb ''payload.message.content'' True) (\<lambda>content.
       let strinfo = (case content of Some c \<Rightarrow> c | None \<Rightarrow> []);
           tmpout = (case pg_b64_decode L strinfo of None \<Rightarrow> [] | Some bs \<Rightarrow> c_string bs)
       in case jsonb_in L tmpout of
            None \<Rightarrow> Inr None
          | Some ddl_jb \<Rightarrow> Inr (Some (jsonb_set L jb [''payload'', ''tableChanges''] (JArray [ddl_jb]))))"

definition event_ts :: "pg_lib \<Rightarrow> jsonb \<Rightarrow> string \<Rightarrow> bool \<Rightarrow> 64 word res" where
  "event_ts L jb path wanted =
     (if wanted then rbind (getPathElementString L jb path True) (\<lambda>t.
        Inr (case t of None \<Rightarrow> 0 | Some s \<Rightarrow> strtoull s)) else Inr 0)"

definition ddl_columns :: "pg_lib \<Rightarrow> jsonb \<Rightarrow> DBZ_DDL_COLUMN list option res" where
  "ddl_columns L jb =
     (case jsonb_get_element L jb [''payload'', ''tableChanges'', ''0'', ''table'', ''columns''] of
        None \<Rightarrow> Inr None
      | Some ddlpayload \<Rightarrow>
          rbind (rfold (ddl_token L) (JsonbIterator L ddlpayload)
                   \<lparr>ds_key = None, ds_value = None, ds_pause = False, ds_col = None, ds_columns = []\<rparr>)
            (\<lambda>st. Inr (Some (ds_columns st))))"

definition parse_table_change :: "pg_lib \<Rightarrow> jsonb \<Rightarrow> 64 word \<Rightarrow> 64 word \<Rightarrow> DBZ_DDL option res" where
  "parse_table_change L jb dbz_ts src_ts =
     rbind (getPathElementString L jb ''payload.tableChanges.0.id'' True) (\<lambda>ident. case ident of
       None \<Rightarrow> Inr None
     | Some i \<Rightarrow>
         rbind (getPathElementString L jb ''payload.tableChanges.0.table.primaryKeyColumnNames'' False) (\<lambda>pks.
         rbind (getPathElementString L jb ''payload.tableChanges.0.type'' True) (\<lambda>ty. case ty of
           None \<Rightarrow> Inr None
         | Some t \<Rightarrow>
             let ddl = (\<lambda>cols. \<lparr>dd_id = i, dd_type = name_to_ddltype t, dd_subtype = SUBTYPE_UNDEF,
                   dd_primaryKeyColumnNames = pks, dd_constraintName = None, dd_columns = cols, dd_dbz_ts_ms = dbz_ts,
                   dd_src_ts_ms = src_ts\<rparr>)
             in if name_to_ddltype t \<in> {DDL_CREATE_TABLE, DDL_ALTER_TABLE}
                then rbind (ddl_columns L jb) (\<lambda>cols. Inr (map_option ddl cols))
                else if name_to_ddltype t = DDL_DROP_TABLE then Inr (Some (ddl []))
                else Inr None)))"

definition parseDBZDDL :: "pg_lib \<Rightarrow> jsonb \<Rightarrow> bool \<Rightarrow> bool \<Rightarrow> bool \<Rightarrow> DBZ_DDL option res" where
  "parseDBZDDL L jb isfirst islast deriveMsg =
     rbind (event_ts L jb ''payload.ts_ms'' (isfirst \<or> islast)) (\<lambda>dbz_ts.
     rbind (event_ts L jb ''payload.source.ts_ms'' (isfirst \<or> islast)) (\<lambda>src_ts.
       if deriveMsg
       then rbind (deriveLogicalMessage L jb) (\<lambda>d. case d of
              None \<Rightarrow> Inr None | Some jb' \<Rightarrow> parse_table_change L jb' dbz_ts src_ts)
       else parse_table_change L jb dbz_ts src_ts))"

section \<open>DML events\<close>

record NameOidEntry =
  ne_name :: string
  ne_oid :: Oid
  ne_position :: int
  ne_typemod :: int
  ne_ispk :: bool
  ne_typcategory :: typcategory
  ne_typispreferred :: bool
  ne_typname :: string

record DataCacheEntry =
  de_tableoid :: nat
  de_typeidhash :: "string \<rightharpoonup> NameOidEntry"
  de_namejsonposhash :: "string \<rightharpoonup> NameJsonposEntry"
  de_natts :: nat

text \<open>
  The catalog as the parser reads it: the attributes of a table in order, with the position that the loop
  over the tuple descriptor gives them. The cache maps a key to an entry, or to \<open>None\<close>: an entry that was
  entered into the hash table and never filled in, whose pointers are whatever the memory held.
\<close>

record dml_catalog =
  dk_namespace :: "string \<Rightarrow> bool"
  dk_table :: "string \<Rightarrow> string \<Rightarrow> (nat \<times> NameOidEntry list) option"

type_synonym data_cache = "(string \<times> string) \<rightharpoonup> DataCacheEntry option"

definition numbered_attributes :: "NameOidEntry list \<Rightarrow> NameOidEntry list" where
  "numbered_attributes atts = map (\<lambda>(i, e). e\<lparr>ne_position := int i + 1\<rparr>) (enumerate 0 atts)"

definition typeid_hash :: "NameOidEntry list \<Rightarrow> (string \<rightharpoonup> NameOidEntry)" where
  "typeid_hash atts = map_of (map (\<lambda>e. (ne_name e, e)) (numbered_attributes atts))"

text \<open>The name of the table: schema, table, and the identifier that the SPI statements use.\<close>

definition resolve_dml_table ::
  "pg_lib \<Rightarrow> config \<Rightarrow> conv_state \<Rightarrow> string \<Rightarrow> string \<Rightarrow> string \<Rightarrow> (string \<times> string \<times> string) res" where
  "resolve_dml_table L cfg cs objid db table =
     rbind (transform_object_name cs objid ''table'') (\<lambda>mapped. case mapped of
       Some m \<Rightarrow> (case splitIdString m False of
           (_, schema2, Some table2) \<Rightarrow> Inr (case schema2 of Some s \<Rightarrow> s | None \<Rightarrow> ''public'', table2, m)
         | _ \<Rightarrow> Inl invalid_transformed_id)
     | None \<Rightarrow>
         let s = fc_normalize_name L (synchdb_letter_casing_strategy cfg) db (length db);
             t = fc_normalize_name L (synchdb_letter_casing_strategy cfg) table (length table)
         in Inr (s, t, s @ ''.'' @ t))"

text \<open>One column value, from its key and its text.\<close>

definition dml_column ::
  "pg_lib \<Rightarrow> config \<Rightarrow> conv_state \<Rightarrow> string \<Rightarrow> DataCacheEntry \<Rightarrow> string \<Rightarrow> string \<Rightarrow> DBZ_DML_COLUMN_VALUE res" where
  "dml_column L cfg cs objid ce key v =
     rbind (column_attname L cfg cs objid key) (\<lambda>name.
       case de_typeidhash ce (strlcpy NAMEDATALEN name) of
         None \<Rightarrow> Inl (PgError None (''cannot find data type for column '' @ name @ ''. Non-existent column?''))
       | Some e \<Rightarrow>
           (case de_namejsonposhash ce (strlcpy NAMEDATALEN (fc_normalize_name L LCS_NORMALIZE_LOWERCASE key (length key))) of
              None \<Rightarrow> Inl (PgError None (''cannot find json schema data for column '' @ name))
            | Some e2 \<Rightarrow>
                Inr \<lparr>cv_name = name, cv_remoteColumnName = Some key, cv_value = Some v, cv_datatype = ne_oid e,
                     cv_position = ne_position e, cv_scale = nj_scale e2, cv_timerep = nj_timerep e2,
                     cv_typemod = ne_typemod e, cv_ispk = ne_ispk e, cv_dbztype = nj_dbztype e2,
                     cv_typcategory = ne_typcategory e, cv_typispreferred = ne_typispreferred e,
                     cv_typname = ne_typname e\<rparr>))"

record dml_scan =
  ms_key :: "string option"
  ms_value :: "string option"
  ms_pause :: bool
  ms_cols :: "DBZ_DML_COLUMN_VALUE list"

text \<open>PostgreSQL writes an array with curly brackets.\<close>

definition array_text :: "string \<Rightarrow> string" where
  "array_text s =
     (let s1 = (if s \<noteq> [] \<and> hd s = CHR ''['' then CHR ''{'' # tl s else s)
      in if s1 \<noteq> [] \<and> last s1 = CHR '']'' then butlast s1 @ [CHR ''}''] else s1)"

text \<open>
  The end of a nested object or array: its text is fetched from the row image with the path
  \<^verbatim>\<open>payload.\<close>\<open>section\<close>\<^verbatim>\<open>.\<close>\<open>key\<close>.
\<close>

definition nested_value ::
  "pg_lib \<Rightarrow> jsonb \<Rightarrow> string \<Rightarrow> (string \<Rightarrow> string) \<Rightarrow> dml_scan \<Rightarrow> dml_scan res" where
  "nested_value L jb section f st =
     (if \<not> ms_pause st then Inr st
      else case ms_key st of
             None \<Rightarrow> Inr (st\<lparr>ms_pause := False\<rparr>)
           | Some key \<Rightarrow> rbind (getPathElementString L jb (''payload.'' @ section @ ''.'' @ key) False) (\<lambda>t.
               Inr (case t of None \<Rightarrow> st\<lparr>ms_pause := False\<rparr>
                    | Some s \<Rightarrow> st\<lparr>ms_pause := False, ms_value := Some (f s)\<rparr>)))"

definition dml_switch ::
  "pg_lib \<Rightarrow> jsonb \<Rightarrow> string \<Rightarrow> string \<Rightarrow> jsonb_token \<Rightarrow> dml_scan \<Rightarrow> dml_scan res" where
  "dml_switch L jb section array_section r st = (case r of
       WJB_BEGIN_OBJECT \<Rightarrow> Inr (if ms_key st \<noteq> None then st\<lparr>ms_pause := True\<rparr> else st)
     | WJB_END_OBJECT \<Rightarrow> nested_value L jb section (\<lambda>s. s) st
     | WJB_BEGIN_ARRAY \<Rightarrow> Inr (if ms_key st \<noteq> None then st\<lparr>ms_pause := True\<rparr> else st)
     | WJB_END_ARRAY \<Rightarrow> nested_value L jb array_section array_text st
     | WJB_KEY k \<Rightarrow> Inr (if ms_pause st then st else st\<lparr>ms_key := Some k, ms_value := None\<rparr>)
     | WJB_VALUE v \<Rightarrow> Inr (if ms_pause st then st
          else st\<lparr>ms_value := Some (case scalar_text v of Some t \<Rightarrow> t | None \<Rightarrow> ''NULL'')\<rparr>)
     | WJB_ELEM v \<Rightarrow> Inr (if ms_pause st then st
          else st\<lparr>ms_value := Some (case scalar_text v of Some t \<Rightarrow> t | None \<Rightarrow> ''NULL'')\<rparr>))"

definition dml_token ::
  "pg_lib \<Rightarrow> config \<Rightarrow> conv_state \<Rightarrow> jsonb \<Rightarrow> string \<Rightarrow> DataCacheEntry \<Rightarrow> string \<Rightarrow> string \<Rightarrow> jsonb_token \<Rightarrow> dml_scan
   \<Rightarrow> dml_scan res" where
  "dml_token L cfg cs jb objid ce section array_section r st =
     rbind (dml_switch L jb section array_section r st) (\<lambda>st.
       case (ms_key st, ms_value st) of
         (Some k, Some v) \<Rightarrow> rbind (dml_column L cfg cs objid ce k v) (\<lambda>c.
            Inr (st\<lparr>ms_key := None, ms_value := None, ms_cols := ms_cols st @ [c]\<rparr>))
       | _ \<Rightarrow> Inr st)"

text \<open>
  The columns of one row image. The source passes the path prefix of the arrays separately, and for a
  delete the two differ.
\<close>

definition row_image ::
  "pg_lib \<Rightarrow> config \<Rightarrow> conv_state \<Rightarrow> jsonb \<Rightarrow> string \<Rightarrow> DataCacheEntry \<Rightarrow> string \<Rightarrow> string
   \<Rightarrow> DBZ_DML_COLUMN_VALUE list res" where
  "row_image L cfg cs jb objid ce section array_section =
     (case jsonb_get_element L jb [''payload'', section] of
        None \<Rightarrow> Inr []
      | Some dmlpayload \<Rightarrow>
          rbind (rfold (dml_token L cfg cs jb objid ce section array_section) (JsonbIterator L dmlpayload)
                   \<lparr>ms_key = None, ms_value = None, ms_pause = False, ms_cols = []\<rparr>) (\<lambda>st. Inr (ms_cols st)))"

text \<open>The cache lookup, which enters the key before the table is known to exist.\<close>

definition cached_table ::
  "pg_lib \<Rightarrow> dml_catalog \<Rightarrow> ErrorStrategies \<Rightarrow> jsonb \<Rightarrow> string \<Rightarrow> string \<Rightarrow> data_cache
   \<Rightarrow> (DataCacheEntry option \<times> data_cache \<times> string option) res" where
  "cached_table L cat strategy jb schema table cache =
     (let key = cache_key (Some schema) table;
          missing = (\<lambda>m. if strategy = STRAT_EXIT_ON_ERROR then Inl (PgError (Some m) m)
                         else Inr (None, cache(key \<mapsto> None), Some m))
      in case cache key of
           Some None \<Rightarrow> Inl (Undefined ''uninitialised cache entry'')
         | Some (Some ce) \<Rightarrow> Inr (Some ce, cache, None)
         | None \<Rightarrow>
             if \<not> dk_namespace cat schema then missing (''no valid OID found for schema '' @ schema)
             else (case dk_table cat schema table of
                     None \<Rightarrow> missing (''no valid OID found for table '' @ table)
                   | Some (tableoid, atts) \<Rightarrow>
                       rbind (build_schema_jsonpos_hash L jb) (\<lambda>jsonpos.
                         let ce = \<lparr>de_tableoid = tableoid, de_typeidhash = typeid_hash atts, de_namejsonposhash = jsonpos,
                                   de_natts = length atts\<rparr>
                         in Inr (Some ce, cache(key \<mapsto> Some ce), None))))"

text \<open>The parts of the object identifier in \<^verbatim>\<open>payload.source\<close>.\<close>

definition source_ident :: "jsonb \<Rightarrow> (string \<times> string \<times> string) option res" where
  "source_ident source =
     (case json_key source ''db'' of None \<Rightarrow> Inr None
      | Some d \<Rightarrow> rbind (json_string d) (\<lambda>db.
          rbind (case json_key source ''schema'' of None \<Rightarrow> Inr []
                 | Some s \<Rightarrow> rbind (json_string s) (\<lambda>x. Inr (x @ ''.''))) (\<lambda>schema_part.
          case json_key source ''table'' of None \<Rightarrow> Inr None
          | Some t \<Rightarrow> rbind (json_string t) (\<lambda>table. Inr (Some (db, table, db @ ''.'' @ schema_part @ table))))))"

definition dml_images ::
  "pg_lib \<Rightarrow> config \<Rightarrow> conv_state \<Rightarrow> jsonb \<Rightarrow> string \<Rightarrow> DataCacheEntry \<Rightarrow> char
   \<Rightarrow> (DBZ_DML_COLUMN_VALUE list \<times> DBZ_DML_COLUMN_VALUE list) option res" where
  "dml_images L cfg cs jb objid ce op =
     (if op = CHR ''c'' \<or> op = CHR ''r''
      then rbind (row_image L cfg cs jb objid ce ''after'' ''after'') (\<lambda>a. Inr (Some ([], a)))
      else if op = CHR ''d'' then rbind (row_image L cfg cs jb objid ce ''before'' ''after'') (\<lambda>b. Inr (Some (b, [])))
      else if op = CHR ''u''
      then rbind (row_image L cfg cs jb objid ce ''before'' ''before'') (\<lambda>b.
           rbind (row_image L cfg cs jb objid ce ''after'' ''after'') (\<lambda>a. Inr (Some (b, a))))
      else Inr None)"

text \<open>
  The result holds the parsed event (\<open>None\<close> for null), the cache, and the message stored for the connector
  when the table is missing and the error strategy lets the worker go on.
\<close>

definition parseDBZDML ::
  "pg_lib \<Rightarrow> config \<Rightarrow> conv_state \<Rightarrow> dml_catalog \<Rightarrow> ErrorStrategies \<Rightarrow> jsonb \<Rightarrow> char \<Rightarrow> jsonb \<Rightarrow> bool \<Rightarrow> bool \<Rightarrow> data_cache
   \<Rightarrow> (DBZ_DML option \<times> data_cache \<times> string option) res" where
  "parseDBZDML L cfg cs cat strategy jb op source isfirst islast cache =
     rbind (source_ident source) (\<lambda>ident. case ident of
       None \<Rightarrow> Inr (None, cache, None)
     | Some (db, table, objid) \<Rightarrow>
         rbind (if isfirst \<or> islast then case json_key source ''ts_ms'' of None \<Rightarrow> Inr 0 | Some n \<Rightarrow> json_numeric L n
                else Inr 0) (\<lambda>src_ts.
         rbind (event_ts L jb ''payload.ts_ms'' (isfirst \<or> islast)) (\<lambda>dbz_ts.
         rbind (resolve_dml_table L cfg cs objid db table) (\<lambda>(schema, tbl, mapped).
         rbind (cached_table L cat strategy jb schema tbl cache) (\<lambda>(entry, cache', msg). case entry of
           None \<Rightarrow> Inr (None, cache', msg)
         | Some ce \<Rightarrow>
             rbind (dml_images L cfg cs jb objid ce op) (\<lambda>images. case images of
               None \<Rightarrow> Inr (None, cache', msg)
             | Some (before, after) \<Rightarrow>
                 Inr (Some \<lparr>dm_op = op, dm_schema = Some schema, dm_table = Some tbl, dm_remoteObjectId = Some objid,
                        dm_mappedObjectId = mapped, dm_tableoid = de_tableoid ce, dm_natts = de_natts ce,
                        dm_columnValuesBefore = sort_key cv_position before,
                        dm_columnValuesAfter = sort_key cv_position after, dm_dbz_ts_ms = dbz_ts,
                        dm_src_ts_ms = src_ts\<rparr>, cache', msg)))))))"

section \<open>Row images\<close>

text \<open>
  The tokens that PostgreSQL's iterator produces for an object whose members are scalars or containers of
  scalars, which is what Debezium sends: a nested container is the value of a column of a composite type,
  such as \<^verbatim>\<open>{"wkb": .., "srid": ..}\<close>, or of an array.
\<close>

fun is_scalar :: "jsonb \<Rightarrow> bool" where
  "is_scalar (JArray _) = False"
| "is_scalar (JObject _) = False"
| "is_scalar _ = True"

fun flat_value :: "jsonb \<Rightarrow> bool" where
  "flat_value (JArray vs) = list_all is_scalar vs"
| "flat_value (JObject ms) = list_all (\<lambda>m. is_scalar (snd m)) ms"
| "flat_value _ = True"

fun value_tokens :: "jsonb \<Rightarrow> jsonb_token list" where
  "value_tokens (JArray vs) = WJB_BEGIN_ARRAY # map WJB_ELEM vs @ [WJB_END_ARRAY]"
| "value_tokens (JObject ms) = WJB_BEGIN_OBJECT # concat (map (\<lambda>(k, v). [WJB_KEY k, WJB_VALUE v]) ms) @ [WJB_END_OBJECT]"
| "value_tokens v = [WJB_VALUE v]"

definition row_tokens :: "(string \<times> jsonb) list \<Rightarrow> jsonb_token list" where
  "row_tokens ms = WJB_BEGIN_OBJECT # concat (map (\<lambda>(k, v). WJB_KEY k # value_tokens v) ms) @ [WJB_END_OBJECT]"

text \<open>The text of a member as a column value.\<close>

fun member_text :: "pg_lib \<Rightarrow> jsonb \<Rightarrow> string" where
  "member_text L (JArray vs) = array_text (JsonbToCString L (JArray vs))"
| "member_text L (JObject ms) = JsonbToCString L (JObject ms)"
| "member_text L JNull = ''NULL''"
| "member_text L (JString s) = s"
| "member_text L (JNumeric s) = s"
| "member_text L (JBool b) = (if b then ''true'' else ''false'')"

lemma getPathElementString_member:
  assumes "plain_name section" and "plain_name key"
  shows "getPathElementString L jb (''payload.'' @ section @ ''.'' @ key) False =
    Inr (map_option (JsonbToCString L) (jsonb_get_element L jb [''payload'', section, key]))"
proof -
  have p: "''payload.'' @ section @ ''.'' @ key = ''payload'' @ CHR ''.'' # section @ CHR ''.'' # key" by simp
  have "strtok_all (CHR ''.'') (''payload'' @ CHR ''.'' # section @ CHR ''.'' # key) = [''payload'', section, key]"
    using assms by (intro strtok_all_join3) (auto simp: plain_name_def)
  moreover have "count_list (''payload'' @ CHR ''.'' # section @ CHR ''.'' # key) (CHR ''.'') = 2"
    using assms by (simp add: plain_name_def)
  ultimately show ?thesis unfolding p getPathElementString_def Let_def by simp
qed

lemma paused_tokens:
  assumes "ms_pause st" and "ms_value st = None"
    and "\<forall>t \<in> set ts. (\<exists>k. t = WJB_KEY k) \<or> (\<exists>v. t = WJB_VALUE v) \<or> (\<exists>v. t = WJB_ELEM v)"
  shows "rfold (dml_token L cfg cs jb objid ce sec asec) ts st = Inr st"
  using assms(3)
proof (induction ts)
  case (Cons t ts)
  then have "dml_token L cfg cs jb objid ce sec asec t st = Inr st"
    using assms(1,2) by (auto simp: dml_token_def dml_switch_def split: option.splits)
  with Cons show ?case by simp
qed simp

lemma flat_object_tokens:
  "t \<in> set (concat (map (\<lambda>(k, v). [WJB_KEY k, WJB_VALUE v]) ms)) \<Longrightarrow> (\<exists>k. t = WJB_KEY k) \<or> (\<exists>v. t = WJB_VALUE v)"
  by auto

text \<open>
  Between two members the scan has no pending value. The key may be pending: that of an array whose text
  was not found.
\<close>

definition idle_scan :: "string option \<Rightarrow> DBZ_DML_COLUMN_VALUE list \<Rightarrow> dml_scan" where
  "idle_scan k cols = \<lparr>ms_key = k, ms_value = None, ms_pause = False, ms_cols = cols\<rparr>"

text \<open>A member that the parser can read: its text is found under the path the parser builds.\<close>

fun readable_member :: "pg_lib \<Rightarrow> jsonb \<Rightarrow> string \<Rightarrow> string \<Rightarrow> string \<times> jsonb \<Rightarrow> bool" where
  "readable_member L jb sec asec (key, JArray vs) = (jsonb_get_element L jb [''payload'', asec, key] = Some (JArray vs))"
| "readable_member L jb sec asec (key, JObject ms) = (jsonb_get_element L jb [''payload'', sec, key] = Some (JObject ms))"
| "readable_member L jb sec asec (key, v) = True"

fun absent_member :: "pg_lib \<Rightarrow> jsonb \<Rightarrow> string \<Rightarrow> string \<times> jsonb \<Rightarrow> bool" where
  "absent_member L jb asec (key, JArray vs) = (jsonb_get_element L jb [''payload'', asec, key] = None)"
| "absent_member L jb asec (key, v) = False"

abbreviation member_column ::
  "pg_lib \<Rightarrow> config \<Rightarrow> conv_state \<Rightarrow> string \<Rightarrow> DataCacheEntry \<Rightarrow> string \<times> jsonb \<Rightarrow> DBZ_DML_COLUMN_VALUE res" where
  "member_column L cfg cs objid ce m \<equiv> dml_column L cfg cs objid ce (fst m) (member_text L (snd m))"

text \<open>The value of a nested container is found, or is not, at its closing token.\<close>

lemma container_tokens:
  assumes "flat_value v" and "\<not> is_scalar v" and "plain_name key" and "plain_name sec" and "plain_name asec"
  shows "rfold (dml_token L cfg cs jb objid ce sec asec) (WJB_KEY key # value_tokens v) (idle_scan k cols) =
    (case jsonb_get_element L jb [''payload'', (case v of JArray _ \<Rightarrow> asec | _ \<Rightarrow> sec), key] of
       None \<Rightarrow> Inr (idle_scan (Some key) cols)
     | Some w \<Rightarrow> rbind (dml_column L cfg cs objid ce key (case v of JArray _ \<Rightarrow> array_text (JsonbToCString L w) | _ \<Rightarrow> JsonbToCString L w))
                  (\<lambda>c. Inr (idle_scan None (cols @ [c]))))"
proof -
  let ?tok = "dml_token L cfg cs jb objid ce sec asec"
  let ?k = "idle_scan (Some key) cols"
  have key: "?tok (WJB_KEY key) (idle_scan k cols) = Inr ?k"
    by (simp add: dml_token_def dml_switch_def idle_scan_def)
  obtain b m e where vt: "value_tokens v = b # m @ [e]"
    and m: "\<forall>t \<in> set m. (\<exists>k. t = WJB_KEY k) \<or> (\<exists>v. t = WJB_VALUE v) \<or> (\<exists>v. t = WJB_ELEM v)"
    and be: "(\<exists>vs. v = JArray vs) \<and> b = WJB_BEGIN_ARRAY \<and> e = WJB_END_ARRAY
      \<or> (\<exists>ms. v = JObject ms) \<and> b = WJB_BEGIN_OBJECT \<and> e = WJB_END_OBJECT"
    using assms(2) by (cases v) (auto dest: flat_object_tokens)
  have "?tok b ?k = Inr (?k\<lparr>ms_pause := True\<rparr>)" using be by (auto simp: dml_token_def dml_switch_def idle_scan_def)
  moreover have "rfold ?tok m (?k\<lparr>ms_pause := True\<rparr>) = Inr (?k\<lparr>ms_pause := True\<rparr>)"
    using m by (intro paused_tokens) (simp_all add: idle_scan_def)
  moreover have "?tok e (?k\<lparr>ms_pause := True\<rparr>) =
    (case jsonb_get_element L jb [''payload'', (case v of JArray _ \<Rightarrow> asec | _ \<Rightarrow> sec), key] of
       None \<Rightarrow> Inr (idle_scan (Some key) cols)
     | Some w \<Rightarrow> rbind (dml_column L cfg cs objid ce key (case v of JArray _ \<Rightarrow> array_text (JsonbToCString L w) | _ \<Rightarrow> JsonbToCString L w))
                  (\<lambda>c. Inr (idle_scan None (cols @ [c]))))"
    using be assms(3-5) getPathElementString_member [of sec key L jb] getPathElementString_member [of asec key L jb]
    by (auto simp: dml_token_def dml_switch_def nested_value_def idle_scan_def split: option.splits)
  ultimately show ?thesis using key
    by (simp add: vt rfold_append split: option.splits) (auto simp: rbind_def split: sum.splits)
qed

lemma member_tokens:
  assumes "flat_value (snd m)" and "plain_name (fst m)" and "plain_name sec" and "plain_name asec"
  shows "readable_member L jb sec asec m \<Longrightarrow>
      rfold (dml_token L cfg cs jb objid ce sec asec) (WJB_KEY (fst m) # value_tokens (snd m)) (idle_scan k cols) =
      rbind (member_column L cfg cs objid ce m) (\<lambda>c. Inr (idle_scan None (cols @ [c])))"
    and "absent_member L jb asec m \<Longrightarrow>
      rfold (dml_token L cfg cs jb objid ce sec asec) (WJB_KEY (fst m) # value_tokens (snd m)) (idle_scan k cols) =
      Inr (idle_scan (Some (fst m)) cols)"
proof -
  obtain key v where m: "m = (key, v)" by (cases m)
  note nested = container_tokens [OF assms(1) _ assms(2-4), of L cfg cs jb objid ce k cols]
  show "rfold (dml_token L cfg cs jb objid ce sec asec) (WJB_KEY (fst m) # value_tokens (snd m)) (idle_scan k cols) =
      rbind (member_column L cfg cs objid ce m) (\<lambda>c. Inr (idle_scan None (cols @ [c])))"
    if "readable_member L jb sec asec m"
  proof (cases "is_scalar v")
    case True
    then have "value_tokens v = [WJB_VALUE v]" and "scalar_text v = Some (member_text L v)"
      by (cases v; simp add: scalar_text_def)+
    then show ?thesis
      by (cases "dml_column L cfg cs objid ce key (member_text L v)")
        (simp_all add: m dml_token_def dml_switch_def idle_scan_def)
  next
    case False
    then show ?thesis using nested that by (cases v) (simp_all add: m)
  qed
  show "rfold (dml_token L cfg cs jb objid ce sec asec) (WJB_KEY (fst m) # value_tokens (snd m)) (idle_scan k cols) =
      Inr (idle_scan (Some (fst m)) cols)" if "absent_member L jb asec m"
    using nested that by (cases v) (simp_all add: m)
qed

lemma members_tokens:
  assumes "plain_name sec" and "plain_name asec"
    and "\<forall>m \<in> set ms. flat_value (snd m) \<and> plain_name (fst m) \<and> (readable_member L jb sec asec m \<or> absent_member L jb asec m)"
  shows "rbind (rfold (dml_token L cfg cs jb objid ce sec asec)
      (concat (map (\<lambda>m. WJB_KEY (fst m) # value_tokens (snd m)) ms) @ [WJB_END_OBJECT]) (idle_scan k cols)) (\<lambda>st. Inr (ms_cols st)) =
    rbind (rmap (member_column L cfg cs objid ce) (filter (readable_member L jb sec asec) ms)) (\<lambda>new. Inr (cols @ new))"
  using assms(3)
proof (induction ms arbitrary: k cols)
  case Nil
  show ?case by (cases k) (simp_all add: dml_token_def dml_switch_def nested_value_def idle_scan_def)
next
  case (Cons m ms)
  have m: "flat_value (snd m)" "plain_name (fst m)" using Cons.prems by simp_all
  have IH: "rbind (rfold (dml_token L cfg cs jb objid ce sec asec)
      (concat (map (\<lambda>m. WJB_KEY (fst m) # value_tokens (snd m)) ms) @ [WJB_END_OBJECT]) (idle_scan k cols)) (\<lambda>st. Inr (ms_cols st)) =
    rbind (rmap (member_column L cfg cs objid ce) (filter (readable_member L jb sec asec) ms)) (\<lambda>new. Inr (cols @ new))" for k cols
    using Cons by simp
  show ?case
  proof (cases "readable_member L jb sec asec m")
    case True
    note step = member_tokens(1) [OF m assms(1,2) True]
    show ?thesis
      unfolding list.map concat.simps append_assoc rfold_append [of _ "WJB_KEY _ # _"] step rbind_assoc rbind_Inr IH
      using True by (simp add: rbind_assoc)
  next
    case False
    then have "absent_member L jb asec m" using Cons.prems by simp
    note step = member_tokens(2) [OF m assms(1,2) this]
    show ?thesis
      unfolding list.map concat.simps append_assoc rfold_append [of _ "WJB_KEY _ # _"] step rbind_assoc rbind_Inr IH
      using False by simp
  qed
qed

lemma row_image_members:
  assumes "jsonb_get_element L jb [''payload'', sec] = Some (JObject ms)"
    and "JsonbIterator L (JObject ms) = row_tokens ms" and "plain_name sec" and "plain_name asec"
    and "\<forall>m \<in> set ms. flat_value (snd m) \<and> plain_name (fst m) \<and> (readable_member L jb sec asec m \<or> absent_member L jb asec m)"
  shows "row_image L cfg cs jb objid ce sec asec =
    rmap (member_column L cfg cs objid ce) (filter (readable_member L jb sec asec) ms)"
proof -
  have "dml_token L cfg cs jb objid ce sec asec WJB_BEGIN_OBJECT (idle_scan None []) = Inr (idle_scan None [])"
    by (simp add: dml_token_def dml_switch_def idle_scan_def)
  moreover have "(\<lambda>(k, v). WJB_KEY k # value_tokens v) = (\<lambda>m. WJB_KEY (fst m) # value_tokens (snd m))" by auto
  ultimately show ?thesis
    using assms(1,2) members_tokens [OF assms(3-5), of cfg cs objid ce None "[]"]
    by (simp add: row_image_def row_tokens_def flip: idle_scan_def)
      (cases "rmap (member_column L cfg cs objid ce) (filter (readable_member L jb sec asec) ms)"; simp)
qed


text \<open>
  A delete event loses its array columns: the text of an array of the old row is looked up in the new row, which
  a delete does not have, so the row image that selects the row to delete has only the other columns.
\<close>

theorem delete_drops_arrays:
  assumes "jsonb_get_element L jb [''payload'', ''before''] = Some (JObject ms)"
    and "JsonbIterator L (JObject ms) = row_tokens ms"
    and "\<forall>m \<in> set ms. flat_value (snd m) \<and> plain_name (fst m) \<and> jsonb_get_element L jb [''payload'', ''before'', fst m] = Some (snd m)
      \<and> jsonb_get_element L jb [''payload'', ''after'', fst m] = None"
  shows "dml_images L cfg cs jb objid ce CHR ''d'' =
    rbind (rmap (\<lambda>(key, v). dml_column L cfg cs objid ce key (member_text L v))
      (filter (\<lambda>(key, v). case v of JArray _ \<Rightarrow> False | _ \<Rightarrow> True) ms)) (\<lambda>b. Inr (Some (b, [])))"
proof -
  have r: "readable_member L jb ''before'' ''after'' m = (\<lambda>(key, v). case v of JArray _ \<Rightarrow> False | _ \<Rightarrow> True) m
      \<and> (readable_member L jb ''before'' ''after'' m \<or> absent_member L jb ''after'' m)" if "m \<in> set ms" for m
    using assms(3) that by (cases m; cases "snd m") auto
  then have "filter (readable_member L jb ''before'' ''after'') ms =
      filter (\<lambda>(key, v). case v of JArray _ \<Rightarrow> False | _ \<Rightarrow> True) ms" by (intro filter_cong) auto
  moreover have "row_image L cfg cs jb objid ce ''before'' ''after'' =
      rmap (member_column L cfg cs objid ce) (filter (readable_member L jb ''before'' ''after'') ms)"
    using r assms(3) by (intro row_image_members [OF assms(1,2)]) (auto simp: plain_name_def)
  moreover have "member_column L cfg cs objid ce = (\<lambda>(key, v). dml_column L cfg cs objid ce key (member_text L v))"
    by auto
  ultimately show ?thesis by (simp add: dml_images_def)
qed

text \<open>An event and a library for the examples: paths through objects, and the iterator on objects.\<close>

fun json_path :: "jsonb \<Rightarrow> string list \<Rightarrow> jsonb option" where
  "json_path j [] = Some j"
| "json_path (JObject ms) (k # ks) = (case map_of ms k of None \<Rightarrow> None | Some j \<Rightarrow> json_path j ks)"
| "json_path _ _ = None"

definition example_source :: jsonb where
  "example_source = JObject [(''connector'', JString ''mysql''), (''snapshot'', JString ''false''), (''db'', JString ''db''), (''table'', JString ''t'')]"

definition example_event :: jsonb where
  "example_event = JObject [(''payload'', JObject [(''source'', example_source), (''op'', JString ''c''),
     (''after'', JObject [(''id'', JNumeric ''7'')])])]"

definition object_lib :: pg_lib where
  "object_lib = ascii_lib\<lparr>jsonb_in := (\<lambda>_. Some example_event), jsonb_get_element := json_path,
     JsonbIterator := (\<lambda>j. case j of JObject ms \<Rightarrow> row_tokens ms | _ \<Rightarrow> []),
     JsonbToCString := (\<lambda>j. case j of JArray _ \<Rightarrow> ''[1, 2]'' | JString s \<Rightarrow> [CHR 0x22] @ s @ [CHR 0x22] | _ \<Rightarrow> ''{}'')\<rparr>"

lemma object_lib_simps [simp]:
  "jsonb_get_element object_lib = json_path" "JsonbIterator object_lib (JObject ms) = row_tokens ms"
  "JsonbToCString object_lib (JArray vs) = ''[1, 2]''" "JsonbToCString object_lib (JString s) = [CHR 0x22] @ s @ [CHR 0x22]"
  "jsonb_in object_lib t = Some example_event"
  by (simp_all add: object_lib_def)

definition example_members :: "(string \<times> jsonb) list" where
  "example_members = [(''id'', JNumeric ''7''), (''tags'', JArray [JNumeric ''1'', JNumeric ''2''])]"

definition example_attr :: "string \<Rightarrow> int \<Rightarrow> NameOidEntry" where
  "example_attr name pos = \<lparr>ne_name = name, ne_oid = TEXTOID, ne_position = pos, ne_typemod = -1, ne_ispk = (name = ''id''),
     ne_typcategory = TYPCATEGORY_STRING, ne_typispreferred = False, ne_typname = ''text''\<rparr>"

definition example_entry :: DataCacheEntry where
  "example_entry = \<lparr>de_tableoid = 16400, de_typeidhash = typeid_hash [example_attr ''id'' 0, example_attr ''tags'' 0],
     de_namejsonposhash = (\<lambda>n. Some \<lparr>nj_name = n, nj_jsonpos = 0, nj_dbztype = DBZTYPE_STRING, nj_timerep = TIME_UNDEF, nj_scale = 0\<rparr>),
     de_natts = 2\<rparr>"

definition image_value :: "string \<Rightarrow> int \<Rightarrow> string \<Rightarrow> DBZ_DML_COLUMN_VALUE" where
  "image_value name pos v = \<lparr>cv_name = name, cv_remoteColumnName = Some name, cv_value = Some v, cv_datatype = TEXTOID,
     cv_position = pos, cv_scale = 0, cv_timerep = TIME_UNDEF, cv_typemod = -1, cv_ispk = (name = ''id''),
     cv_dbztype = DBZTYPE_STRING, cv_typcategory = TYPCATEGORY_STRING, cv_typispreferred = False, cv_typname = ''text''\<rparr>"

lemma image_values:
  assumes "synchdb_letter_casing_strategy cfg = LCS_NORMALIZE_LOWERCASE"
  shows "dml_column object_lib cfg conv_state0 ''db.t'' example_entry ''id'' v = Inr (image_value ''id'' 1 v)"
    and "dml_column object_lib cfg conv_state0 ''db.t'' example_entry ''tags'' v = Inr (image_value ''tags'' 2 v)"
  using assms by (simp_all add: dml_column_def column_attname_def transform_object_name_def conv_state0_def
      fc_normalize_name_def object_lib_def ascii_lib_def c_simps example_entry_def typeid_hash_def numbered_attributes_def
      example_attr_def image_value_def strlcpy_def NAMEDATALEN_def)


theorem delete_drops_arrays_witness:
  "dml_images object_lib lower_config conv_state0
     (JObject [(''payload'', JObject [(''before'', JObject example_members), (''after'', JNull)])]) ''db.t'' example_entry CHR ''d'' =
   Inr (Some ([image_value ''id'' 1 ''7''], []))"
  using delete_drops_arrays [of object_lib
      "JObject [(''payload'', JObject [(''before'', JObject example_members), (''after'', JNull)])]"
      example_members lower_config conv_state0 "''db.t''" example_entry]
  by (simp add: example_members_def plain_name_def image_values lower_config_def)

section \<open>The columns of a table change\<close>

text \<open>A column object: its scalar members decide the column, a nested array (the values of an enumeration) is skipped.\<close>

definition ddl_column :: "pg_lib \<Rightarrow> (string \<times> jsonb) list \<Rightarrow> DBZ_DDL_COLUMN" where
  "ddl_column L ms = fold (\<lambda>(k, v). set_ddlcol L k (member_text L v)) (filter (\<lambda>(k, v). is_scalar v) ms) new_ddlcol"

definition ddl_member_ok :: "string \<times> jsonb \<Rightarrow> bool" where
  "ddl_member_ok m \<longleftrightarrow> (case snd m of JArray vs \<Rightarrow> list_all is_scalar vs | JObject _ \<Rightarrow> False | _ \<Rightarrow> True)"

definition ddl_tokens :: "(string \<times> jsonb) list list \<Rightarrow> jsonb_token list" where
  "ddl_tokens rows = WJB_BEGIN_ARRAY # concat (map row_tokens rows) @ [WJB_END_ARRAY]"

definition ddl_idle :: "DBZ_DDL_COLUMN option \<Rightarrow> DBZ_DDL_COLUMN list \<Rightarrow> ddl_scan" where
  "ddl_idle c cols = \<lparr>ds_key = None, ds_value = None, ds_pause = False, ds_col = c, ds_columns = cols\<rparr>"

lemma ddl_skip_elements:
  assumes "ds_pause st" and "ds_key st = None"
  shows "rfold (ddl_token L) (map WJB_ELEM vs) st = Inr st"
  using assms by (induction vs) (auto simp: ddl_token_def ddl_switch_def ddl_consume_def)

lemma ddl_member_tokens:
  assumes "ddl_member_ok m"
  shows "rfold (ddl_token L) (WJB_KEY (fst m) # value_tokens (snd m)) (ddl_idle (Some c) cols) =
    Inr (ddl_idle (Some (if is_scalar (snd m) then set_ddlcol L (fst m) (member_text L (snd m)) c else c)) cols)"
proof -
  obtain key v where m: "m = (key, v)" by (cases m)
  show ?thesis
  proof (cases "is_scalar v")
    case True
    then have "value_tokens v = [WJB_VALUE v]" and "scalar_text v = Some (member_text L v)"
      by (cases v; simp add: scalar_text_def)+
    with True show ?thesis by (simp add: m ddl_token_def ddl_switch_def ddl_consume_def ddl_idle_def)
  next
    case False
    then obtain vs where v: "v = JArray vs" using assms by (cases v) (auto simp: m ddl_member_ok_def)
    have "rfold (ddl_token L) (map WJB_ELEM vs) ((ddl_idle (Some c) cols)\<lparr>ds_pause := True\<rparr>) =
        Inr ((ddl_idle (Some c) cols)\<lparr>ds_pause := True\<rparr>)"
      by (intro ddl_skip_elements) (simp_all add: ddl_idle_def)
    then show ?thesis
      by (simp add: m v rfold_append ddl_token_def ddl_switch_def ddl_consume_def ddl_idle_def)
  qed
qed

lemma ddl_row_members:
  assumes "\<forall>m \<in> set ms. ddl_member_ok m"
  shows "rfold (ddl_token L) (concat (map (\<lambda>m. WJB_KEY (fst m) # value_tokens (snd m)) ms)) (ddl_idle (Some c) cols) =
    Inr (ddl_idle (Some (fold (\<lambda>(k, v). set_ddlcol L k (member_text L v)) (filter (\<lambda>(k, v). is_scalar v) ms) c)) cols)"
  using assms
proof (induction ms arbitrary: c)
  case (Cons m ms)
  note step = ddl_member_tokens [of m L c cols]
  show ?case
    unfolding list.map concat.simps rfold_append [of _ "WJB_KEY _ # _"] step [OF Cons.prems [THEN bspec, OF list.set_intros(1)]] rbind_Inr
    using Cons by (cases m) simp
qed simp

lemma ddl_row_tokens:
  assumes "\<forall>m \<in> set ms. ddl_member_ok m"
  shows "rfold (ddl_token L) (row_tokens ms) (ddl_idle c0 cols) = Inr (ddl_idle (Some (ddl_column L ms)) (cols @ [ddl_column L ms]))"
proof -
  have "(\<lambda>(k, v). WJB_KEY k # value_tokens v) = (\<lambda>m. WJB_KEY (fst m) # value_tokens (snd m))" by auto
  moreover have "ddl_token L WJB_BEGIN_OBJECT (ddl_idle c0 cols) = Inr (ddl_idle (Some new_ddlcol) cols)"
    and "\<And>c. ddl_token L WJB_END_OBJECT (ddl_idle (Some c) cols) = Inr (ddl_idle (Some c) (cols @ [c]))"
    by (simp_all add: ddl_token_def ddl_switch_def ddl_consume_def ddl_idle_def)
  ultimately show ?thesis using ddl_row_members [OF assms, of L new_ddlcol cols]
    by (simp add: row_tokens_def rfold_append ddl_column_def)
qed

lemma ddl_rows_tokens:
  assumes "\<forall>ms \<in> set rows. \<forall>m \<in> set ms. ddl_member_ok m"
  shows "\<exists>c. rfold (ddl_token L) (concat (map row_tokens rows)) (ddl_idle c0 cols) = Inr (ddl_idle c (cols @ map (ddl_column L) rows))"
  using assms
proof (induction rows arbitrary: c0 cols)
  case (Cons ms rows)
  then show ?case
    using Cons.IH [of "Some (ddl_column L ms)" "cols @ [ddl_column L ms]"] ddl_row_tokens [of ms L c0 cols]
    by (simp add: rfold_append)
qed auto


definition ddl_lib :: pg_lib where
  "ddl_lib = ascii_lib\<lparr>jsonb_get_element := (\<lambda>_ _. Some (JArray [])),
     JsonbIterator := (\<lambda>_. ddl_tokens [[(''name'', JString ''id''), (''enumValues'', JArray [JString ''a'']), (''length'', JNumeric ''11'')]])\<rparr>"


section \<open>The cache of column types\<close>

text \<open>
  Under the skip strategy an event for a table that does not exist poisons the cache: the lookup has already entered the
  key when it finds the table missing, and every later event for the same table uses the entry that was never filled in,
  whether or not the table has been created in between.
\<close>

theorem missing_table_poisons_cache:
  assumes "strategy \<noteq> STRAT_EXIT_ON_ERROR" and "cache (cache_key (Some schema) table) = None"
    and "\<not> dk_namespace cat schema \<or> dk_table cat schema table = None"
  shows "\<exists>cache' msg. cached_table L cat strategy jb schema table cache = Inr (None, cache', Some msg)
    \<and> (\<forall>cat' jb'. cached_table L cat' strategy jb' schema table cache' = Inl (Undefined ''uninitialised cache entry''))"
  using assms by (auto simp: cached_table_def Let_def)

theorem missing_table_poisons_cache_witness:
  "\<exists>cache' msg. cached_table ascii_lib \<lparr>dk_namespace = (\<lambda>_. True), dk_table = (\<lambda>_ _. None)\<rparr> STRAT_SKIP_ON_ERROR JNull ''db'' ''t'' Map.empty
      = Inr (None, cache', Some msg)
    \<and> (\<forall>cat' jb'. cached_table ascii_lib cat' STRAT_SKIP_ON_ERROR jb' ''db'' ''t'' cache' = Inl (Undefined ''uninitialised cache entry''))"
  by (rule missing_table_poisons_cache) simp_all

text \<open>Every cached attribute has its position in the tuple descriptor.\<close>

definition entry_ok :: "DataCacheEntry \<Rightarrow> bool" where
  "entry_ok ce \<longleftrightarrow> (\<forall>e \<in> ran (de_typeidhash ce). 1 \<le> ne_position e \<and> ne_position e \<le> int (de_natts ce))"

definition cache_ok :: "data_cache \<Rightarrow> bool" where
  "cache_ok cache \<longleftrightarrow> (\<forall>k ce. cache k = Some (Some ce) \<longrightarrow> entry_ok ce)"

lemma typeid_hash_position:
  assumes "typeid_hash atts n = Some e"
  shows "1 \<le> ne_position e \<and> ne_position e \<le> int (length atts)"
proof -
  have "(n, e) \<in> set (map (\<lambda>e. (ne_name e, e)) (numbered_attributes atts))"
    using assms unfolding typeid_hash_def by (rule map_of_SomeD)
  then obtain i where "i < length atts" and "ne_position e = int i + 1"
    by (auto simp: numbered_attributes_def in_set_enumerate_eq)
  then show ?thesis by simp
qed

lemma new_entry_ok:
  "entry_ok \<lparr>de_tableoid = tableoid, de_typeidhash = typeid_hash atts, de_namejsonposhash = jsonpos, de_natts = length atts\<rparr>"
  using typeid_hash_position by (auto simp: entry_ok_def ran_def)

lemma cached_table_cases:
  assumes "cached_table L cat strategy jb schema table cache = Inr (entry, cache', msg)"
  shows "(\<exists>ce. cache (cache_key (Some schema) table) = Some (Some ce) \<and> entry = Some ce \<and> cache' = cache)
    \<or> (entry = None \<and> cache' = cache(cache_key (Some schema) table \<mapsto> None))
    \<or> (\<exists>ce. entry_ok ce \<and> entry = Some ce \<and> cache' = cache(cache_key (Some schema) table \<mapsto> Some ce))"
  using assms by (auto simp: cached_table_def Let_def new_entry_ok split: option.split_asm if_split_asm)

lemma cached_table_ok:
  assumes "cache_ok cache" and "cached_table L cat strategy jb schema table cache = Inr (entry, cache', msg)"
  shows "cache_ok cache' \<and> (\<forall>ce. entry = Some ce \<longrightarrow> entry_ok ce)"
  using cached_table_cases [OF assms(2)] assms(1) unfolding cache_ok_def
  by (metis fun_upd_apply option.distinct(1) option.inject)

lemma dml_column_position:
  assumes "dml_column L cfg cs objid ce key v = Inr c" and "entry_ok ce"
  shows "1 \<le> cv_position c \<and> cv_position c \<le> int (de_natts ce)"
proof -
  obtain name where n: "column_attname L cfg cs objid key = Inr name"
    using assms(1) by (cases "column_attname L cfg cs objid key") (auto simp: dml_column_def)
  obtain e where e: "de_typeidhash ce (strlcpy NAMEDATALEN name) = Some e"
    using assms(1) n by (cases "de_typeidhash ce (strlcpy NAMEDATALEN name)") (auto simp: dml_column_def)
  then have "cv_position c = ne_position e"
    using assms(1) n by (auto simp: dml_column_def split: option.split_asm)
  then show ?thesis using assms(2) e by (auto simp: entry_ok_def ran_def)
qed

lemma dml_tokens_position:
  assumes "rfold (dml_token L cfg cs jb objid ce sec asec) ts st = Inr st'" and "entry_ok ce"
    and "\<forall>c \<in> set (ms_cols st). 1 \<le> cv_position c \<and> cv_position c \<le> int (de_natts ce)"
  shows "\<forall>c \<in> set (ms_cols st'). 1 \<le> cv_position c \<and> cv_position c \<le> int (de_natts ce)"
  using assms(1,3)
proof (induction ts arbitrary: st)
  case (Cons t ts)
  from Cons.prems(1) obtain st1 where step: "dml_token L cfg cs jb objid ce sec asec t st = Inr st1"
    and rest: "rfold (dml_token L cfg cs jb objid ce sec asec) ts st1 = Inr st'" by auto
  from step obtain st0 where sw: "dml_switch L jb sec asec t st = Inr st0" by (auto simp: dml_token_def)
  then have "ms_cols st0 = ms_cols st"
    by (auto simp: dml_switch_def nested_value_def split: jsonb_token.splits option.splits if_splits)
  then have "\<forall>c \<in> set (ms_cols st1). 1 \<le> cv_position c \<and> cv_position c \<le> int (de_natts ce)"
    using step sw Cons.prems(2) dml_column_position [OF _ assms(2)]
    by (fastforce simp: dml_token_def split: option.splits)
  then show ?case using Cons.IH rest by blast
qed simp

lemma row_image_position:
  assumes "row_image L cfg cs jb objid ce sec asec = Inr cols" and "entry_ok ce" and "c \<in> set cols"
  shows "1 \<le> cv_position c \<and> cv_position c \<le> int (de_natts ce)"
proof (cases "jsonb_get_element L jb [''payload'', sec]")
  case None
  then show ?thesis using assms(1,3) by (simp add: row_image_def)
next
  case (Some p)
  with assms(1) obtain st where "rfold (dml_token L cfg cs jb objid ce sec asec) (JsonbIterator L p)
      \<lparr>ms_key = None, ms_value = None, ms_pause = False, ms_cols = []\<rparr> = Inr st" and cols: "cols = ms_cols st"
    by (auto simp: row_image_def)
  from dml_tokens_position [OF this(1) assms(2)] show ?thesis using assms(3) cols by simp
qed

text \<open>The parser keeps the cache well formed, and the positions it reports lie inside the table it names.\<close>

lemma parseDBZDML_positions:
  assumes "cache_ok cache" and "parseDBZDML L cfg cs cat strategy jb op source isfirst islast cache = Inr (r, cache', msg)"
  shows "cache_ok cache'"
    and "r = Some dml \<Longrightarrow> c \<in> set (dm_columnValuesBefore dml) \<union> set (dm_columnValuesAfter dml)
      \<Longrightarrow> 1 \<le> cv_position c \<and> cv_position c \<le> int (dm_natts dml)"
proof -
  show "cache_ok cache'"
    using assms cached_table_ok [OF assms(1)]
    by (fastforce simp: parseDBZDML_def split: option.splits prod.splits)
  show "1 \<le> cv_position c \<and> cv_position c \<le> int (dm_natts dml)"
    if "r = Some dml" and "c \<in> set (dm_columnValuesBefore dml) \<union> set (dm_columnValuesAfter dml)"
  proof -
    from assms(2) that(1) obtain objid schema tbl ce before after where
      cached: "cached_table L cat strategy jb schema tbl cache = Inr (Some ce, cache', msg)"
      and images: "dml_images L cfg cs jb objid ce op = Inr (Some (before, after))"
      and dml: "dm_natts dml = de_natts ce" "set (dm_columnValuesBefore dml) = set before" "set (dm_columnValuesAfter dml) = set after"
      by (fastforce simp: parseDBZDML_def split: option.splits prod.splits)
    have "entry_ok ce" using cached_table_ok [OF assms(1) cached] by simp
    then show ?thesis using images that(2) dml row_image_position [of L cfg cs jb objid ce]
      by (fastforce simp: dml_images_def split: if_splits)
  qed
qed

section \<open>DDL and DML events name the same table\<close>

text \<open>PostgreSQL's case folding neither creates nor removes a dot.\<close>

definition keeps_dots :: "pg_lib \<Rightarrow> bool" where
  "keeps_dots L \<longleftrightarrow> (\<forall>c. (pg_tolower L c = CHR ''.'') = (c = CHR ''.'') \<and> (pg_toupper L c = CHR ''.'') = (c = CHR ''.''))"

definition casing :: "pg_lib \<Rightarrow> LetterCasingStrategy \<Rightarrow> char \<Rightarrow> char" where
  "casing L st = (case st of LCS_NORMALIZE_LOWERCASE \<Rightarrow> pg_tolower L | LCS_NORMALIZE_UPPERCASE \<Rightarrow> pg_toupper L | LCS_AS_IS \<Rightarrow> (\<lambda>c. c))"

lemma fc_normalize_name_map: "fc_normalize_name L st name (length name) = map (casing L st) name"
  by (simp add: fc_normalize_name_def casing_def split: LetterCasingStrategy.split)

lemma casing_dot: "keeps_dots L \<Longrightarrow> casing L st c = CHR ''.'' \<longleftrightarrow> c = CHR ''.''"
  by (simp add: casing_def keeps_dots_def split: LetterCasingStrategy.split)

lemma plain_name_casing: "keeps_dots L \<Longrightarrow> plain_name (map (casing L st) a) = plain_name a"
proof -
  assume "keeps_dots L"
  then have "CHR ''.'' = casing L st c \<longleftrightarrow> c = CHR ''.''" for c using casing_dot by metis
  then have "CHR ''.'' \<in> set (map (casing L st) a) \<longleftrightarrow> CHR ''.'' \<in> set a" by (simp only: set_map image_iff) blast
  then show ?thesis by (simp add: plain_name_def del: set_map)
qed

definition object_id :: "string \<Rightarrow> string option \<Rightarrow> string \<Rightarrow> string" where
  "object_id db schema table = db @ ''.'' @ (case schema of None \<Rightarrow> [] | Some s \<Rightarrow> s @ ''.'') @ table"

lemma split_normalized_id:
  assumes "keeps_dots L" and "plain_name db" and "\<forall>s. schema = Some s \<longrightarrow> plain_name s" and "plain_name table"
  shows "\<exists>s. splitIdString (map (casing L st) (object_id db schema table)) True =
    (Some (map (casing L st) db), s, Some (map (casing L st) table))"
proof -
  let ?n = "map (casing L st)"
  have p: "plain_name (?n db)" "plain_name (?n table)" "\<And>s. schema = Some s \<Longrightarrow> plain_name (?n s)"
    using assms by (auto simp only: plain_name_casing)
  have dot: "casing L st (CHR ''.'') = CHR ''.''" using casing_dot [OF assms(1)] by simp
  show ?thesis
  proof (cases schema)
    case None
    then have "?n (object_id db schema table) = ?n db @ CHR ''.'' # ?n table" by (simp add: object_id_def dot)
    then show ?thesis using p by (simp add: splitIdString_def plain_name_def strtok_all_join2 tok_def del: set_map)
  next
    case (Some s)
    then have "?n (object_id db schema table) = ?n db @ CHR ''.'' # ?n s @ CHR ''.'' # ?n table"
      by (simp add: object_id_def dot)
    then show ?thesis using p Some by (simp add: splitIdString_def plain_name_def strtok_all_join3 tok_def del: set_map)
  qed
qed

text \<open>
  C18: A row change finds the table that the schema change made: for a source object \<^verbatim>\<open>db.table\<close> or \<^verbatim>\<open>db.schema.table\<close>,
  with or without a mapping rule and under every letter casing, the parser of DML events computes the same PostgreSQL schema and
  table as \<^verbatim>\<open>convert2PGDDL\<close> (a table without a schema is in \<^verbatim>\<open>public\<close>), so a DDL event drops exactly the cache entry that
  the DML events of its table use.
\<close>

theorem ddl_dml_same_table:
  assumes "keeps_dots L" and "plain_name db" and "\<forall>s. schema = Some s \<longrightarrow> plain_name s" and "plain_name table"
    and "resolve_table L cfg cs (object_id db schema table) = Inr (ps, pt)"
  shows "\<exists>m. resolve_dml_table L cfg cs (object_id db schema table) db table = Inr (schema_name ps, pt, m)
    \<and> cache_key (Some (schema_name ps)) pt = cache_key ps pt"
proof -
  obtain mapped where m: "transform_object_name cs (object_id db schema table) ''table'' = Inr mapped"
    using assms(5) by (auto simp: resolve_table_def)
  have key: "cache_key (Some (schema_name ps)) pt = cache_key ps pt" by (simp add: cache_key_def schema_name_def)
  show ?thesis
  proof (cases mapped)
    case None
    then show ?thesis
      using assms(5) m key split_normalized_id [OF assms(1-4), of "synchdb_letter_casing_strategy cfg"]
      by (auto simp: resolve_table_def resolve_dml_table_def Let_def schema_name_def fc_normalize_name_map)
  next
    case (Some o')
    then show ?thesis using assms(5) m key
      by (auto simp: resolve_table_def resolve_dml_table_def schema_name_def split: prod.splits option.splits)
  qed
qed

lemma of_char_46: "of_char (CHR ''.'') = (46 :: nat)"
  by simp

lemma keeps_dots_ascii: "keeps_dots ascii_lib"
proof -
  have eq: "c = CHR ''.'' \<longleftrightarrow> of_char c = (46 :: nat)" for c
    by (metis char_of_char of_char_46)
  have "(c_tolower c = CHR ''.'') = (c = CHR ''.'') \<and> (c_toupper c = CHR ''.'') = (c = CHR ''.'')" for c
    by (auto simp: eq c_tolower_def c_toupper_def)
  then show ?thesis by (simp add: keeps_dots_def ascii_lib_def)
qed

theorem ddl_dml_same_table_witness:
  "\<exists>m. resolve_dml_table ascii_lib lower_config conv_state0 (object_id ''Inv'' (Some ''dbo'') ''Orders'') ''Inv'' ''Orders''
     = Inr (''inv'', ''orders'', m)"
proof -
  have "resolve_table ascii_lib lower_config conv_state0 (object_id ''Inv'' (Some ''dbo'') ''Orders'') = Inr (Some ''inv'', ''orders'')"
    by (simp add: resolve_table_def transform_object_name_def conv_state0_def lower_config_def fc_normalize_name_def ascii_lib_def
        object_id_def splitIdString_def strtok_all_def tok_def c_simps)
  from ddl_dml_same_table [OF keeps_dots_ascii _ _ _ this] show ?thesis
    by (auto simp: plain_name_def schema_name_def)
qed

end
