(* ===== verification/Stats.thy ===== *)
theory Stats
  imports SDB_Types
begin

text \<open>
  Connector statistics (\<^verbatim>\<open>src/include/synchdb/synchdb.h\<close> and \<^verbatim>\<open>src/backend/synchdb/synchdb.c\<close>).
  A worker counts the events of one batch in a private \<^verbatim>\<open>SynchdbStatistics\<close> with
  \<^verbatim>\<open>increment_connector_statistics\<close> and adds the batch to the shared totals with
  \<^verbatim>\<open>set_shm_connector_statistics\<close>. Counters are \<^verbatim>\<open>unsigned long long\<close>, so they are 64-bit words and
  every addition wraps around.
\<close>

section \<open>The counters\<close>

record GeneralStatistics =
  stats_bad_change_event :: "64 word"
  stats_total_change_event :: "64 word"
  stats_batch_completion :: "64 word"
  stats_average_batch_size :: "64 word"
  stats_first_src_ts :: "64 word"
  stats_first_pg_ts :: "64 word"
  stats_last_src_ts :: "64 word"
  stats_last_pg_ts :: "64 word"

record SnapshotStatistics =
  snapstats_tables :: "64 word"
  snapstats_rows :: "64 word"
  snapstats_begintime_ts :: "64 word"
  snapstats_endtime_ts :: "64 word"

record CDCStatistics =
  stats_ddl :: "64 word"
  stats_dml :: "64 word"
  stats_create :: "64 word"
  stats_update :: "64 word"
  stats_delete :: "64 word"
  stats_tx :: "64 word"
  stats_truncate :: "64 word"

record SynchdbStatistics =
  genstats :: GeneralStatistics
  snapstats :: SnapshotStatistics
  cdcstats :: CDCStatistics

text \<open>All fields zero: the initialiser \<^verbatim>\<open>{0}\<close>, and the \<^verbatim>\<open>memset\<close> before each batch.\<close>

definition zero_stats :: SynchdbStatistics where
  "zero_stats =
     \<lparr>genstats = \<lparr>stats_bad_change_event = 0, stats_total_change_event = 0, stats_batch_completion = 0,
        stats_average_batch_size = 0, stats_first_src_ts = 0, stats_first_pg_ts = 0, stats_last_src_ts = 0,
        stats_last_pg_ts = 0\<rparr>,
      snapstats = \<lparr>snapstats_tables = 0, snapstats_rows = 0, snapstats_begintime_ts = 0, snapstats_endtime_ts = 0\<rparr>,
      cdcstats = \<lparr>stats_ddl = 0, stats_dml = 0, stats_create = 0, stats_update = 0, stats_delete = 0, stats_tx = 0,
        stats_truncate = 0\<rparr>\<rparr>"

section \<open>Operations\<close>

definition increment_connector_statistics ::
  "SynchdbStatistics \<Rightarrow> ConnectorStatistics \<Rightarrow> int \<Rightarrow> SynchdbStatistics" where
  "increment_connector_statistics myStats which incby =
     (let n = word_of_int incby; c = cdcstats myStats; p = snapstats myStats; g = genstats myStats in
      case which of
        STATS_DDL \<Rightarrow> myStats\<lparr>cdcstats := c\<lparr>stats_ddl := stats_ddl c + n\<rparr>\<rparr>
      | STATS_DML \<Rightarrow> myStats\<lparr>cdcstats := c\<lparr>stats_dml := stats_dml c + n\<rparr>\<rparr>
      | STATS_CREATE \<Rightarrow> myStats\<lparr>cdcstats := c\<lparr>stats_create := stats_create c + n\<rparr>\<rparr>
      | STATS_UPDATE \<Rightarrow> myStats\<lparr>cdcstats := c\<lparr>stats_update := stats_update c + n\<rparr>\<rparr>
      | STATS_DELETE \<Rightarrow> myStats\<lparr>cdcstats := c\<lparr>stats_delete := stats_delete c + n\<rparr>\<rparr>
      | STATS_TRUNCATE \<Rightarrow> myStats\<lparr>cdcstats := c\<lparr>stats_truncate := stats_truncate c + n\<rparr>\<rparr>
      | STATS_TX \<Rightarrow> myStats\<lparr>cdcstats := c\<lparr>stats_tx := stats_tx c + n\<rparr>\<rparr>
      | STATS_TABLES \<Rightarrow> myStats\<lparr>snapstats := p\<lparr>snapstats_tables := snapstats_tables p + n\<rparr>\<rparr>
      | STATS_ROWS \<Rightarrow> myStats\<lparr>snapstats := p\<lparr>snapstats_rows := snapstats_rows p + n\<rparr>\<rparr>
      | STATS_BAD_CHANGE_EVENT \<Rightarrow>
          myStats\<lparr>genstats := g\<lparr>stats_bad_change_event := stats_bad_change_event g + n\<rparr>\<rparr>
      | STATS_TOTAL_CHANGE_EVENT \<Rightarrow>
          myStats\<lparr>genstats := g\<lparr>stats_total_change_event := stats_total_change_event g + n\<rparr>\<rparr>
      | STATS_BATCH_COMPLETION \<Rightarrow>
          myStats\<lparr>genstats := g\<lparr>stats_batch_completion := stats_batch_completion g + n\<rparr>\<rparr>
      | _ \<Rightarrow> myStats)"

text \<open>The snapshot part is the body of \<^verbatim>\<open>set_shm_connector_snapshot_statistics\<close> too.\<close>

definition add_snapshot_statistics :: "SnapshotStatistics \<Rightarrow> SnapshotStatistics \<Rightarrow> SnapshotStatistics" where
  "add_snapshot_statistics shared snap =
     (let s1 = shared\<lparr>snapstats_tables := snapstats_tables shared + snapstats_tables snap,
                      snapstats_rows := snapstats_rows shared + snapstats_rows snap\<rparr>;
          s2 = (if snapstats_begintime_ts snap > 0
                then s1\<lparr>snapstats_begintime_ts := snapstats_begintime_ts snap, snapstats_endtime_ts := 0\<rparr> else s1)
      in if snapstats_endtime_ts snap > 0 then s2\<lparr>snapstats_endtime_ts := snapstats_endtime_ts snap\<rparr> else s2)"

definition add_cdc_statistics :: "CDCStatistics \<Rightarrow> CDCStatistics \<Rightarrow> CDCStatistics" where
  "add_cdc_statistics shared c =
     shared\<lparr>stats_ddl := stats_ddl shared + stats_ddl c, stats_dml := stats_dml shared + stats_dml c,
       stats_create := stats_create shared + stats_create c, stats_update := stats_update shared + stats_update c,
       stats_delete := stats_delete shared + stats_delete c, stats_tx := stats_tx shared + stats_tx c,
       stats_truncate := stats_truncate shared + stats_truncate c\<rparr>"

definition add_general_statistics :: "GeneralStatistics \<Rightarrow> GeneralStatistics \<Rightarrow> GeneralStatistics" where
  "add_general_statistics shared g =
     shared\<lparr>stats_bad_change_event := stats_bad_change_event shared + stats_bad_change_event g,
       stats_total_change_event := stats_total_change_event shared + stats_total_change_event g,
       stats_batch_completion := stats_batch_completion shared + stats_batch_completion g,
       stats_first_src_ts := stats_first_src_ts g, stats_first_pg_ts := stats_first_pg_ts g,
       stats_last_src_ts := stats_last_src_ts g, stats_last_pg_ts := stats_last_pg_ts g\<rparr>"

definition add_statistics :: "SynchdbStatistics \<Rightarrow> SynchdbStatistics \<Rightarrow> SynchdbStatistics" where
  "add_statistics shared stats =
     shared\<lparr>cdcstats := add_cdc_statistics (cdcstats shared) (cdcstats stats),
       genstats := add_general_statistics (genstats shared) (genstats stats),
       snapstats := add_snapshot_statistics (snapstats shared) (snapstats stats)\<rparr>"

text \<open>The average that \<^verbatim>\<open>synchdb_get_stats\<close> shows (column 11): computed when read, never stored.\<close>

definition average_batch_size :: "SynchdbStatistics \<Rightarrow> 64 word" where
  "average_batch_size s =
     (if stats_batch_completion (genstats s) > 0
      then stats_total_change_event (genstats s) div stats_batch_completion (genstats s) else 0)"

section \<open>The abstract view: one number for each kind of event\<close>

fun counter :: "SynchdbStatistics \<Rightarrow> ConnectorStatistics \<Rightarrow> 64 word" where
  "counter s STATS_DDL = stats_ddl (cdcstats s)"
| "counter s STATS_DML = stats_dml (cdcstats s)"
| "counter s STATS_CREATE = stats_create (cdcstats s)"
| "counter s STATS_UPDATE = stats_update (cdcstats s)"
| "counter s STATS_DELETE = stats_delete (cdcstats s)"
| "counter s STATS_TX = stats_tx (cdcstats s)"
| "counter s STATS_TRUNCATE = stats_truncate (cdcstats s)"
| "counter s STATS_BAD_CHANGE_EVENT = stats_bad_change_event (genstats s)"
| "counter s STATS_TOTAL_CHANGE_EVENT = stats_total_change_event (genstats s)"
| "counter s STATS_BATCH_COMPLETION = stats_batch_completion (genstats s)"
| "counter s STATS_TABLES = snapstats_tables (snapstats s)"
| "counter s STATS_ROWS = snapstats_rows (snapstats s)"
| "counter s STATS_AVERAGE_BATCH_SIZE = 0"
| "counter s STATS_UNDEF = 0"

definition counted :: "ConnectorStatistics \<Rightarrow> bool" where
  "counted w \<longleftrightarrow> w \<noteq> STATS_UNDEF \<and> w \<noteq> STATS_AVERAGE_BATCH_SIZE"

lemma counter_increment:
  "counter (increment_connector_statistics s w n) k =
     counter s k + (if counted w \<and> w = k then word_of_int n else 0)"
  by (cases w; cases k) (simp_all add: increment_connector_statistics_def counted_def Let_def)

lemma counter_add [simp]: "counter (add_statistics s t) k = counter s k + counter t k"
  by (cases k) (simp_all add: add_statistics_def add_cdc_statistics_def add_general_statistics_def
      add_snapshot_statistics_def Let_def)

lemma counter_zero [simp]: "counter zero_stats k = 0"
  by (cases k) (simp_all add: zero_stats_def)

text \<open>A batch: the increments it made, in order, on the zeroed private statistics.\<close>

definition count_events :: "(ConnectorStatistics \<times> int) list \<Rightarrow> SynchdbStatistics \<Rightarrow> SynchdbStatistics" where
  "count_events = fold (\<lambda>(w, n) s. increment_connector_statistics s w n)"

lemma counter_count_events:
  "counted k \<Longrightarrow> counter (count_events evs s) k =
     counter s k + (\<Sum>(w, n) \<leftarrow> evs. if w = k then word_of_int n else 0)"
  unfolding count_events_def
proof (induction evs arbitrary: s)
  case (Cons e evs)
  then show ?case by (cases e) (simp add: counter_increment add.assoc)
qed simp

lemma counter_batches:
  "counted k \<Longrightarrow> counter (fold (\<lambda>evs sh. add_statistics sh (count_events evs zero_stats)) batches shared) k =
     counter shared k + (\<Sum>(w, n) \<leftarrow> concat batches. if w = k then word_of_int n else 0)"
proof (induction batches arbitrary: shared)
  case (Cons b bs)
  show ?case
    using Cons.IH [OF Cons.prems, of "add_statistics shared (count_events b zero_stats)"] counter_count_events [OF Cons.prems, of b]
    by (simp add: add.assoc)
qed simp

end
