(* ===== verification/Executor.thy ===== *)
theory Executor
  imports Event_Parse Stats
begin

text \<open>
  The execution of converted events (\<^verbatim>\<open>src/backend/executor/replication_agent.c\<close>): statements through
  PostgreSQL's server programming interface, and row changes through the heap access methods, with the error
  handling of each. PostgreSQL's executor is an argument: a record of operations on a database state
  \<open>'db\<close>, with datums \<open>'d\<close> and tuple identifiers \<open>'tid\<close>. An operation that fails leaves the database in
  whatever state it reached, because the handlers do not open a subtransaction; it is the caller's transaction
  that discards it.
\<close>

section \<open>PostgreSQL's executor as a parameter\<close>

text \<open>The parts of an error that the handlers print.\<close>

record exec_error =
  ee_schema :: "string option"
  ee_table :: "string option"
  ee_message :: string
  ee_detail :: "string option"

record ('db, 'd, 'tid) executor =
  SPI_exec :: "string \<Rightarrow> 'db \<Rightarrow> 'db \<times> exec_error option"
  table_open :: "nat \<Rightarrow> 'db \<Rightarrow> exec_error + int list"
  OidInputFunctionCall :: "Oid \<Rightarrow> string \<Rightarrow> int \<Rightarrow> exec_error + 'd"
  ExecSimpleRelationInsert :: "nat \<Rightarrow> 'd option list \<Rightarrow> 'db \<Rightarrow> 'db \<times> exec_error option"
  RelationFindReplTuple :: "nat \<Rightarrow> 'd option list \<Rightarrow> 'db \<Rightarrow> exec_error + 'tid option"
  ExecSimpleRelationUpdate :: "nat \<Rightarrow> 'tid \<Rightarrow> 'd option list \<Rightarrow> 'db \<Rightarrow> 'db \<times> exec_error option"
  ExecSimpleRelationDelete :: "nat \<Rightarrow> 'tid \<Rightarrow> 'db \<Rightarrow> 'db \<times> exec_error option"

text \<open>
  \<open>table_open\<close> gives the type modifiers of the table's attributes. \<open>RelationFindReplTuple\<close> stands for the search
  by the replica identity or primary key index if the table has one and by a sequential scan otherwise.
\<close>

section \<open>Statements\<close>

text \<open>The message of a failed statement is stored for the connector before the error goes on.\<close>

definition spi_execute :: "('db, 'd, 'tid) executor \<Rightarrow> string \<Rightarrow> 'db \<Rightarrow> (int \<times> 'db) res" where
  "spi_execute X query db =
     (case SPI_exec X query db of
        (db', None) \<Rightarrow> Inr (0, db')
      | (db', Some e) \<Rightarrow> Inl (PgError (Some (ee_message e)) (ee_message e)))"

definition ra_executeCommand :: "('db, 'd, 'tid) executor \<Rightarrow> string \<Rightarrow> 'db \<Rightarrow> (int \<times> 'db) res" where
  "ra_executeCommand X query db = spi_execute X query db"

section \<open>Tuple slots\<close>

text \<open>
  A failure inside a handler: an error of PostgreSQL, with whether \<^verbatim>\<open>resultRelInfo\<close> and \<^verbatim>\<open>epqstate\<close> had been
  initialised by then, or an access outside the slot.
\<close>

datatype exec_failure = Raised exec_error bool bool | Outside string

text \<open>
  A slot has one place for each attribute of the table. The code marks the first \<open>natts\<close> of them null, a number
  it has cached, and then stores the given values; a value spelled null in any letter case stays null.
\<close>

definition store_value ::
  "('db, 'd, 'tid) executor \<Rightarrow> int list \<Rightarrow> PG_DML_COLUMN_VALUE \<Rightarrow> exec_failure + 'd option list \<Rightarrow> exec_failure + 'd option list" where
  "store_value X typmods colval r = (case r of Inl f \<Rightarrow> Inl f
     | Inr slot \<Rightarrow>
         if pv_position colval < 1 \<or> int (length typmods) < pv_position colval then Inl (Outside ''attribute position'')
         else let i = nat (pv_position colval - 1)
              in if strcaseeq (pv_value colval) ''NULL'' then Inr (slot[i := None])
                 else case OidInputFunctionCall X (pv_datatype colval) (pv_value colval) (typmods ! i) of
                        Inl e \<Rightarrow> Inl (Raised e True False)
                      | Inr d \<Rightarrow> Inr (slot[i := Some d]))"

definition fill_slot ::
  "('db, 'd, 'tid) executor \<Rightarrow> int list \<Rightarrow> nat \<Rightarrow> PG_DML_COLUMN_VALUE list \<Rightarrow> exec_failure + 'd option list" where
  "fill_slot X typmods natts colvals =
     (if natts \<noteq> length typmods then Inl (Outside ''cached number of attributes'')
      else fold (store_value X typmods) colvals (Inr (replicate natts None)))"

section \<open>Row changes\<close>

definition with_error :: "bool \<Rightarrow> 'db \<times> exec_error option \<Rightarrow> 'db \<times> (exec_failure + int)" where
  "with_error epq r = (fst r, case snd r of None \<Rightarrow> Inr 0 | Some e \<Rightarrow> Inl (Raised e True epq))"

definition handle_insert ::
  "('db, 'd, 'tid) executor \<Rightarrow> PG_DML_COLUMN_VALUE list \<Rightarrow> nat \<Rightarrow> nat \<Rightarrow> 'db \<Rightarrow> 'db \<times> (exec_failure + int)" where
  "handle_insert X colval tableoid natts db =
     (case table_open X tableoid db of
        Inl e \<Rightarrow> (db, Inl (Raised e False False))
      | Inr typmods \<Rightarrow>
          (case fill_slot X typmods natts colval of
             Inl f \<Rightarrow> (db, Inl f)
           | Inr slot \<Rightarrow> with_error False (ExecSimpleRelationInsert X tableoid slot db)))"

text \<open>A row to update or delete that is not found is reported as a warning only.\<close>

definition handle_update ::
  "('db, 'd, 'tid) executor \<Rightarrow> PG_DML_COLUMN_VALUE list \<Rightarrow> PG_DML_COLUMN_VALUE list \<Rightarrow> nat \<Rightarrow> nat \<Rightarrow> 'db
   \<Rightarrow> 'db \<times> (exec_failure + int)" where
  "handle_update X colvalbefore colvalafter tableoid natts db =
     (case table_open X tableoid db of
        Inl e \<Rightarrow> (db, Inl (Raised e False False))
      | Inr typmods \<Rightarrow>
          (case fill_slot X typmods natts colvalbefore of
             Inl f \<Rightarrow> (db, Inl f)
           | Inr old \<Rightarrow>
               (case RelationFindReplTuple X tableoid old db of
                  Inl e \<Rightarrow> (db, Inl (Raised e True True))
                | Inr None \<Rightarrow> (db, Inr 0)
                | Inr (Some tid) \<Rightarrow>
                    (case fill_slot X typmods natts colvalafter of
                       Inl (Raised e r q) \<Rightarrow> (db, Inl (Raised e r True))
                     | Inl (Outside w) \<Rightarrow> (db, Inl (Outside w))
                     | Inr new \<Rightarrow> with_error True (ExecSimpleRelationUpdate X tableoid tid new db)))))"

definition handle_delete ::
  "('db, 'd, 'tid) executor \<Rightarrow> PG_DML_COLUMN_VALUE list \<Rightarrow> nat \<Rightarrow> nat \<Rightarrow> 'db \<Rightarrow> 'db \<times> (exec_failure + int)" where
  "handle_delete X colvalbefore tableoid natts db =
     (case table_open X tableoid db of
        Inl e \<Rightarrow> (db, Inl (Raised e False False))
      | Inr typmods \<Rightarrow>
          (case fill_slot X typmods natts colvalbefore of
             Inl f \<Rightarrow> (db, Inl f)
           | Inr old \<Rightarrow>
               (case RelationFindReplTuple X tableoid old db of
                  Inl e \<Rightarrow> (db, Inl (Raised e True True))
                | Inr None \<Rightarrow> (db, Inr 0)
                | Inr (Some tid) \<Rightarrow> with_error True (ExecSimpleRelationDelete X tableoid tid db))))"

text \<open>The message that a handler stores for the connector.\<close>

definition handler_message :: "exec_error \<Rightarrow> string" where
  "handler_message e =
     strlcpy SYNCHDB_ERRMSG_SIZE ((case ee_schema e of None \<Rightarrow> [] | Some s \<Rightarrow> s) @ ''.'' @ (case ee_table e of None \<Rightarrow> [] | Some t \<Rightarrow> t)
       @ '': '' @ ee_message e @ '' | '' @ (case ee_detail e of None \<Rightarrow> [] | Some d \<Rightarrow> d))"

text \<open>
  The \<^verbatim>\<open>PG_CATCH\<close> blocks. Under the skip strategy the code cleans up and returns -1: the insert handler tests its
  pointers, the update handler calls \<^verbatim>\<open>EvalPlanQualEnd\<close> whether or not \<^verbatim>\<open>epqstate\<close> was initialised, and the
  delete handler tests nothing. Under the other strategies the error goes on.
\<close>

definition catch ::
  "ErrorStrategies \<Rightarrow> (bool \<Rightarrow> bool \<Rightarrow> bool) \<Rightarrow> 'db \<times> (exec_failure + int) \<Rightarrow> (int \<times> string option \<times> 'db) res" where
  "catch strategy safe r = (case r of
       (db, Inr ret) \<Rightarrow> Inr (ret, None, db)
     | (db, Inl (Outside w)) \<Rightarrow> Inl (Undefined w)
     | (db, Inl (Raised e rel epq)) \<Rightarrow>
         if strategy = STRAT_SKIP_ON_ERROR
         then (if safe rel epq then Inr (-1, Some (handler_message e), db) else Inl (Undefined ''cleanup of an uninitialised state''))
         else Inl (PgError (Some (handler_message e)) (ee_message e)))"

definition synchdb_handle_insert ::
  "('db, 'd, 'tid) executor \<Rightarrow> ErrorStrategies \<Rightarrow> PG_DML_COLUMN_VALUE list \<Rightarrow> nat \<Rightarrow> nat \<Rightarrow> 'db \<Rightarrow> (int \<times> string option \<times> 'db) res" where
  "synchdb_handle_insert X strategy colval tableoid natts db =
     catch strategy (\<lambda>rel epq. True) (handle_insert X colval tableoid natts db)"

definition synchdb_handle_update ::
  "('db, 'd, 'tid) executor \<Rightarrow> ErrorStrategies \<Rightarrow> PG_DML_COLUMN_VALUE list \<Rightarrow> PG_DML_COLUMN_VALUE list \<Rightarrow> nat \<Rightarrow> nat \<Rightarrow> 'db
   \<Rightarrow> (int \<times> string option \<times> 'db) res" where
  "synchdb_handle_update X strategy colvalbefore colvalafter tableoid natts db =
     catch strategy (\<lambda>rel epq. epq) (handle_update X colvalbefore colvalafter tableoid natts db)"

definition synchdb_handle_delete ::
  "('db, 'd, 'tid) executor \<Rightarrow> ErrorStrategies \<Rightarrow> PG_DML_COLUMN_VALUE list \<Rightarrow> nat \<Rightarrow> nat \<Rightarrow> 'db \<Rightarrow> (int \<times> string option \<times> 'db) res" where
  "synchdb_handle_delete X strategy colvalbefore tableoid natts db =
     catch strategy (\<lambda>rel epq. rel \<and> epq) (handle_delete X colvalbefore tableoid natts db)"

section \<open>Entry points\<close>

definition ra_executePGDDL :: "('db, 'd, 'tid) executor \<Rightarrow> PG_DDL \<Rightarrow> 'db \<Rightarrow> (int \<times> 'db) res" where
  "ra_executePGDDL X pgddl db = spi_execute X (pd_ddlquery pgddl) db"

text \<open>The row counters are incremented whether or not the change succeeded.\<close>

definition ra_executePGDML ::
  "('db, 'd, 'tid) executor \<Rightarrow> config \<Rightarrow> ErrorStrategies \<Rightarrow> PG_DML \<Rightarrow> bool \<Rightarrow> SynchdbStatistics \<Rightarrow> 'db
   \<Rightarrow> (int \<times> string option \<times> SynchdbStatistics \<times> 'db) res" where
  "ra_executePGDML X cfg strategy pgdml isInSnapshot myBatchStats db =
     (let spi = rbind (spi_execute X (pm_dmlquery pgdml) db) (\<lambda>(ret, db'). Inr (ret, None, db'));
          run = (\<lambda>handler. if synchdb_dml_use_spi cfg then spi else handler);
          counted_as = (\<lambda>which r. rbind r (\<lambda>(ret, msg, db'). Inr (ret, msg,
             (if which = STATS_ROWS \<or> \<not> isInSnapshot then increment_connector_statistics myBatchStats which 1 else myBatchStats), db')))
      in if pm_op pgdml = CHR ''r''
         then counted_as STATS_ROWS (run (synchdb_handle_insert X strategy (pm_columnValuesAfter pgdml) (pm_tableoid pgdml) (pm_natts pgdml) db))
         else if pm_op pgdml = CHR ''c''
         then counted_as STATS_CREATE (run (synchdb_handle_insert X strategy (pm_columnValuesAfter pgdml) (pm_tableoid pgdml) (pm_natts pgdml) db))
         else if pm_op pgdml = CHR ''u''
         then counted_as STATS_UPDATE (run (synchdb_handle_update X strategy (pm_columnValuesBefore pgdml) (pm_columnValuesAfter pgdml)
                (pm_tableoid pgdml) (pm_natts pgdml) db))
         else if pm_op pgdml = CHR ''d''
         then counted_as STATS_DELETE (run (synchdb_handle_delete X strategy (pm_columnValuesBefore pgdml) (pm_tableoid pgdml) (pm_natts pgdml) db))
         else rbind spi (\<lambda>(ret, msg, db'). Inr (ret, msg, myBatchStats, db')))"

section \<open>Properties of a filled slot\<close>

definition slot_value :: "('db, 'd, 'tid) executor \<Rightarrow> int list \<Rightarrow> PG_DML_COLUMN_VALUE \<Rightarrow> exec_error + 'd option" where
  "slot_value X typmods v =
     (if strcaseeq (pv_value v) ''NULL'' then Inr None
      else map_sum (\<lambda>e. e) Some (OidInputFunctionCall X (pv_datatype v) (pv_value v) (typmods ! nat (pv_position v - 1))))"

abbreviation slot_index :: "PG_DML_COLUMN_VALUE \<Rightarrow> nat" where
  "slot_index v \<equiv> nat (pv_position v - 1)"

definition fits :: "nat \<Rightarrow> PG_DML_COLUMN_VALUE \<Rightarrow> bool" where
  "fits n v \<longleftrightarrow> 1 \<le> pv_position v \<and> pv_position v \<le> int n"

lemma slot_value_cases:
  "slot_value X typmods v = Inr d \<Longrightarrow> if strcaseeq (pv_value v) ''NULL'' then d = None
     else \<exists>x. OidInputFunctionCall X (pv_datatype v) (pv_value v) (typmods ! slot_index v) = Inr x \<and> d = Some x"
  by (cases "OidInputFunctionCall X (pv_datatype v) (pv_value v) (typmods ! slot_index v)")
    (auto simp: slot_value_def split: if_split_asm)

lemma store_value_fits:
  assumes "fits (length typmods) v"
  shows "store_value X typmods v (Inr slot) =
    (case slot_value X typmods v of Inl e \<Rightarrow> Inl (Raised e True False) | Inr d \<Rightarrow> Inr (slot[slot_index v := d]))"
  using assms by (auto simp: store_value_def slot_value_def fits_def Let_def split: sum.split)

lemma store_value_Inl [simp]: "fold (store_value X typmods) vs (Inl f) = Inl f"
  by (induction vs) (simp_all add: store_value_def)

text \<open>The only failures of values that fit are those of the type input functions.\<close>

lemma fill_slot_fits:
  assumes "\<forall>v \<in> set vs. fits (length typmods) v" and "fold (store_value X typmods) vs (Inr slot) = Inl f"
  shows "\<exists>v \<in> set vs. \<exists>e. slot_value X typmods v = Inl e \<and> f = Raised e True False"
  using assms
proof (induction vs arbitrary: slot)
  case (Cons v vs)
  then show ?case
    by (cases "slot_value X typmods v") (fastforce simp: store_value_fits)+
qed simp

lemma fold_store_values:
  assumes "\<forall>v \<in> set vs. fits (length typmods) v" and "length slot = length typmods"
    and "fold (store_value X typmods) vs (Inr slot) = Inr slot'" and "distinct (map pv_position vs)"
  shows "length slot' = length typmods \<and> (\<forall>v \<in> set vs. slot_value X typmods v = Inr (slot' ! slot_index v))
    \<and> (\<forall>i < length typmods. int i + 1 \<notin> pv_position ` set vs \<longrightarrow> slot' ! i = slot ! i)"
  using assms
proof (induction vs arbitrary: slot)
  case (Cons v vs)
  have v: "fits (length typmods) v" using Cons.prems by simp
  from Cons.prems(3) v obtain d where d: "slot_value X typmods v = Inr d"
    and rest: "fold (store_value X typmods) vs (Inr (slot[slot_index v := d])) = Inr slot'"
    by (cases "slot_value X typmods v") (simp_all add: store_value_fits)
  have IH: "length slot' = length typmods \<and> (\<forall>v \<in> set vs. slot_value X typmods v = Inr (slot' ! slot_index v))
      \<and> (\<forall>i < length typmods. int i + 1 \<notin> pv_position ` set vs \<longrightarrow> slot' ! i = slot[slot_index v := d] ! i)"
    using Cons.prems rest by (intro Cons.IH) auto
  have "slot' ! slot_index v = d"
    using IH Cons.prems(2,4) v by (auto simp: fits_def nat_less_iff)
  moreover have "slot' ! i = slot ! i" if "i < length typmods" "int i + 1 \<notin> pv_position ` set (v # vs)" for i
  proof -
    have "i \<noteq> slot_index v" using that v by (auto simp: fits_def)
    then show ?thesis using IH that by simp
  qed
  ultimately show ?case using IH d by auto
qed simp

text \<open>
  The tuple written through the heap access methods has exactly the event's values: when the slot is filled, each value of the
  event stands at its attribute, read by the input function of its type with the attribute's modifier, a value spelled null in any
  letter case is null, and every attribute that the event does not mention is null.
\<close>

theorem slot_has_exactly_the_values:
  assumes "fill_slot X typmods natts vs = Inr slot" and "\<forall>v \<in> set vs. fits natts v" and "distinct (map pv_position vs)"
  shows "length slot = length typmods
    \<and> (\<forall>v \<in> set vs. if strcaseeq (pv_value v) ''NULL'' then slot ! nat (pv_position v - 1) = None
         else \<exists>d. OidInputFunctionCall X (pv_datatype v) (pv_value v) (typmods ! nat (pv_position v - 1)) = Inr d
            \<and> slot ! nat (pv_position v - 1) = Some d)
    \<and> (\<forall>i < length typmods. int i + 1 \<notin> pv_position ` set vs \<longrightarrow> slot ! i = None)"
proof -
  have n: "natts = length typmods" and f: "fold (store_value X typmods) vs (Inr (replicate natts None)) = Inr slot"
    using assms(1) by (auto simp: fill_slot_def split: if_split_asm)
  have "length slot = length typmods \<and> (\<forall>v \<in> set vs. slot_value X typmods v = Inr (slot ! slot_index v))
      \<and> (\<forall>i < length typmods. int i + 1 \<notin> pv_position ` set vs \<longrightarrow> slot ! i = replicate natts None ! i)"
    using fold_store_values [OF _ _ f assms(3)] assms(2) n by simp
  then show ?thesis using n slot_value_cases [of X typmods] by auto
qed

definition unit_executor :: "(string option list list, string, nat) executor" where
  "unit_executor = \<lparr>SPI_exec = (\<lambda>q db. (db, None)), table_open = (\<lambda>oid db. Inr [-1, -1]),
     OidInputFunctionCall = (\<lambda>oid s m. if s = ''bad'' then Inl \<lparr>ee_schema = None, ee_table = None, ee_message = ''invalid input'', ee_detail = None\<rparr>
        else Inr s),
     ExecSimpleRelationInsert = (\<lambda>oid row db. (db @ [row], None)), RelationFindReplTuple = (\<lambda>oid row db. Inr (find (\<lambda>i. db ! i = row) [0..<length db])),
     ExecSimpleRelationUpdate = (\<lambda>oid i row db. (db[i := row], None)), ExecSimpleRelationDelete = (\<lambda>oid i db. (take i db @ drop (Suc i) db, None))\<rparr>"

abbreviation pg_int :: "int \<Rightarrow> string \<Rightarrow> PG_DML_COLUMN_VALUE" where
  "pg_int pos v \<equiv> \<lparr>pv_value = v, pv_datatype = INT4OID, pv_position = pos\<rparr>"

theorem slot_has_exactly_the_values_witness:
  "fill_slot unit_executor [-1, -1] 2 [pg_int 2 ''7''] = Inr [None, Some ''7'']
   \<and> (\<exists>d. OidInputFunctionCall unit_executor INT4OID ''7'' (-1) = Inr d \<and> [None, Some ''7''] ! 1 = Some d)"
proof -
  have f: "fill_slot unit_executor [-1, -1] 2 [pg_int 2 ''7''] = Inr [None, Some ''7'']"
    by (simp add: fill_slot_def store_value_def unit_executor_def c_simps strcaseeq_def numeral_2_eq_2)
  show ?thesis using slot_has_exactly_the_values [OF f] f by (simp add: fits_def strcaseeq_def c_simps)
qed

section \<open>The values of a parsed event fit the table\<close>

lemma rmap_positions:
  assumes "rmap f xs = Inr ys" and "y \<in> set ys" and "\<And>x y. f x = Inr y \<Longrightarrow> pos y = pos' x"
  shows "\<exists>x \<in> set xs. pos y = pos' x"
  using rmap_map_fields [of f xs ys pos pos'] assms by (metis (no_types, lifting) image_iff list.set_map)

lemma heap_update_position:
  assumes "heap_update L cfg cs dml type = Inr (b, a)" and "v \<in> set b \<union> set a"
  shows "\<exists>c \<in> set (dm_columnValuesBefore dml) \<union> set (dm_columnValuesAfter dml). pv_position v = cv_position c"
proof (cases "dm_columnValuesAfter dml \<noteq> [] \<and> dm_columnValuesBefore dml = []")
  case True
  let ?conv = "heap_value L cfg cs (dm_remoteObjectId dml) type"
  let ?pk = "\<lambda>c. if cv_ispk c then ?conv c else Inr (to_pg_value c None)"
  from assms(1) True obtain after' where
    b: "rmap ?pk (dm_columnValuesAfter dml) = Inr b"
    and p: "rmap (\<lambda>c. if cv_ispk c then processed_colval L type c else Inr c) (dm_columnValuesAfter dml) = Inr after'"
    and a: "rmap ?conv after' = Inr a"
    by (auto simp: heap_update_def Let_def)
  have "pv_position y = cv_position c" if "?pk c = Inr y" for c y
    using that by (auto dest: heap_value_fields simp: to_pg_value_def split: if_split_asm)
  then have B: "v \<in> set b \<Longrightarrow> ?thesis" using rmap_positions [OF b, of v pv_position cv_position] by blast
  have "cv_position c' = cv_position c" if "(if cv_ispk c then processed_colval L type c else Inr c) = Inr c'" for c c'
    using that processed_colval_position by (auto split: if_split_asm)
  then have P: "c' \<in> set after' \<Longrightarrow> \<exists>c \<in> set (dm_columnValuesAfter dml). cv_position c' = cv_position c" for c'
    using rmap_positions [OF p, of c' cv_position cv_position] by blast
  have "v \<in> set a \<Longrightarrow> \<exists>c \<in> set after'. pv_position v = cv_position c"
    using rmap_positions [OF a, of v pv_position cv_position] heap_value_fields by blast
  then show ?thesis using assms(2) B P by fastforce
next
  case False
  let ?conv = "heap_value L cfg cs (dm_remoteObjectId dml) type"
  let ?pair = "\<lambda>(ca, cb). rbind (?conv ca) (\<lambda>a. rbind (?conv cb) (\<lambda>b. Inr (b, a)))"
  from assms(1) False obtain ps where
    ps: "rmap ?pair (zip (dm_columnValuesAfter dml) (dm_columnValuesBefore dml)) = Inr ps" and ba: "b = map fst ps" "a = map snd ps"
    by (auto simp: heap_update_def Let_def split: if_split_asm)
  have 12: "pv_position (fst y) = cv_position (snd x) \<and> pv_position (snd y) = cv_position (fst x)" if "?pair x = Inr y" for x y
    using that by (cases x) (auto dest: heap_value_fields)
  have "\<exists>x \<in> set (zip (dm_columnValuesAfter dml) (dm_columnValuesBefore dml)).
      pv_position v = cv_position (fst x) \<or> pv_position v = cv_position (snd x)"
  proof -
    obtain y where y: "y \<in> set ps" "v = fst y \<or> v = snd y" using assms(2) ba by auto
    then obtain x where "x \<in> set (zip (dm_columnValuesAfter dml) (dm_columnValuesBefore dml))" and "?pair x = Inr y"
      using rmap_in_ys [OF ps] by blast
    then show ?thesis using 12 y(2) by metis
  qed
  then show ?thesis by (auto dest: set_zip_leftD set_zip_rightD)
qed

lemma convert2PGDML_position:
  assumes "convert2PGDML L cfg cs dml type = Inr (Some pg)"
  shows "pm_natts pg = dm_natts dml" and "v \<in> set (pm_columnValuesBefore pg) \<union> set (pm_columnValuesAfter pg)
    \<Longrightarrow> \<exists>c \<in> set (dm_columnValuesBefore dml) \<union> set (dm_columnValuesAfter dml). pv_position v = cv_position c"
proof -
  show "pm_natts pg = dm_natts dml"
    using assms by (auto simp: convert2PGDML_def Let_def split: if_split_asm)
  assume v: "v \<in> set (pm_columnValuesBefore pg) \<union> set (pm_columnValuesAfter pg)"
  let ?conv = "heap_value L cfg cs (dm_remoteObjectId dml) type"
  from assms v have "rmap ?conv (dm_columnValuesAfter dml) = Inr (pm_columnValuesAfter pg) \<and> v \<in> set (pm_columnValuesAfter pg)
      \<or> rmap ?conv (dm_columnValuesBefore dml) = Inr (pm_columnValuesBefore pg) \<and> v \<in> set (pm_columnValuesBefore pg)
      \<or> heap_update L cfg cs dml type = Inr (pm_columnValuesBefore pg, pm_columnValuesAfter pg)"
    by (auto simp: convert2PGDML_def Let_def split: if_split_asm)
  then show "\<exists>c \<in> set (dm_columnValuesBefore dml) \<union> set (dm_columnValuesAfter dml). pv_position v = cv_position c"
    using heap_update_position [OF _ v] rmap_positions [of ?conv _ _ v pv_position cv_position] heap_value_fields by blast
qed

text \<open>
  What the parsers of row events promise, as a relation between the cache before, the row and the cache after: the cache stays well
  formed, and a row only has positions inside its table. Debezium's parser and the one for Openlog events both keep it.
\<close>

locale row_parser =
  fixes parses :: "data_cache \<Rightarrow> DBZ_DML option \<Rightarrow> data_cache \<Rightarrow> bool"
  assumes parses_cache: "cache_ok cache \<Longrightarrow> parses cache r cache' \<Longrightarrow> cache_ok cache'"
    and parses_positions: "cache_ok cache \<Longrightarrow> parses cache (Some dml) cache' \<Longrightarrow> c \<in> set (dm_columnValuesBefore dml) \<union> set (dm_columnValuesAfter dml)
      \<Longrightarrow> 1 \<le> cv_position c \<and> cv_position c \<le> int (dm_natts dml)"
begin

lemma values_fit:
  assumes "cache_ok cache" and "parses cache (Some dml) cache'" and "convert2PGDML L cfg cs dml type = Inr (Some pg)"
    and "length typmods = dm_natts dml"
  shows "cache_ok cache'
    \<and> (\<forall>w. fill_slot X typmods (pm_natts pg) (pm_columnValuesBefore pg) \<noteq> Inl (Outside w)
        \<and> fill_slot X typmods (pm_natts pg) (pm_columnValuesAfter pg) \<noteq> Inl (Outside w))"
proof -
  have n: "pm_natts pg = length typmods" using convert2PGDML_position(1) [OF assms(3)] assms(4) by simp
  have fit: "fits (length typmods) v" if "v \<in> set (pm_columnValuesBefore pg) \<union> set (pm_columnValuesAfter pg)" for v
    using convert2PGDML_position(2) [OF assms(3) that] parses_positions [OF assms(1,2)] assms(4)
    by (auto simp: fits_def)
  have "fill_slot X typmods (pm_natts pg) vs \<noteq> Inl (Outside w)"
    if "set vs \<subseteq> set (pm_columnValuesBefore pg) \<union> set (pm_columnValuesAfter pg)" for vs w
    using fill_slot_fits [of vs typmods X "replicate (pm_natts pg) None" "Outside w"] that fit n
    by (auto simp: fill_slot_def)
  then show ?thesis using parses_cache [OF assms(1,2)] by simp
qed

end

interpretation dbz_rows: row_parser "\<lambda>cache r cache'. \<exists>L cfg cs cat strategy jb op source isf isla msg.
    parseDBZDML L cfg cs cat strategy jb op source isf isla cache = Inr (r, cache', msg)"
  by unfold_locales (blast dest: parseDBZDML_positions(1), blast dest: parseDBZDML_positions(2))

text \<open>
  C1: From the event to the tuple no attribute is accessed outside the table: when the cached types are those of the table (the invariant
  that the parser keeps), the values that \<^verbatim>\<open>parseDBZDML\<close> and \<^verbatim>\<open>convert2PGDML\<close> produce for an event fill a slot of the
  table's width without an out-of-range position, whatever the event contains; a value that PostgreSQL cannot read is the only
  failure. The cache stays well formed for the next event.
\<close>

theorem event_values_fit_table:
  assumes "cache_ok cache" and "parseDBZDML L cfg cs cat strategy jb op source isfirst islast cache = Inr (Some dml, cache', msg)"
    and "convert2PGDML L cfg cs dml type = Inr (Some pg)" and "length typmods = dm_natts dml"
  shows "cache_ok cache'
    \<and> (\<forall>w. fill_slot X typmods (pm_natts pg) (pm_columnValuesBefore pg) \<noteq> Inl (Outside w)
        \<and> fill_slot X typmods (pm_natts pg) (pm_columnValuesAfter pg) \<noteq> Inl (Outside w))"
  using assms by (intro dbz_rows.values_fit) blast+

definition example_cache :: data_cache where
  "example_cache = [(''db'', ''t'') \<mapsto> Some example_entry]"

lemma example_cache_ok: "cache_ok example_cache"
proof -
  have "entry_ok example_entry"
    using new_entry_ok [of _ "[example_attr ''id'' 0, example_attr ''tags'' 0]"] by (simp add: example_entry_def numeral_2_eq_2)
  then show ?thesis by (simp add: cache_ok_def example_cache_def)
qed

definition heap_lower_config :: config where
  "heap_lower_config = lower_config\<lparr>synchdb_dml_use_spi := False\<rparr>"

definition example_parsed :: DBZ_DML where
  "example_parsed = \<lparr>dm_op = CHR ''c'', dm_schema = Some ''db'', dm_table = Some ''t'', dm_remoteObjectId = Some ''db.t'',
     dm_mappedObjectId = ''db.t'', dm_tableoid = 16400, dm_natts = 2, dm_columnValuesBefore = [],
     dm_columnValuesAfter = [image_value ''id'' 1 ''7''], dm_dbz_ts_ms = 0, dm_src_ts_ms = 0\<rparr>"

lemma example_parse:
  "parseDBZDML object_lib heap_lower_config conv_state0 cat STRAT_SKIP_ON_ERROR example_event CHR ''c'' example_source isf isla example_cache
   = Inr (Some example_parsed, example_cache, None)"
proof -
  have "row_image object_lib heap_lower_config conv_state0 example_event ''db.t'' example_entry ''after'' ''after'' = Inr [image_value ''id'' 1 ''7'']"
    using row_image_members [of object_lib example_event "''after''" "[(''id'', JNumeric ''7'')]" "''after''" heap_lower_config conv_state0
        "''db.t''" example_entry]
    by (simp add: example_event_def plain_name_def image_values heap_lower_config_def lower_config_def)
  moreover have "resolve_dml_table object_lib heap_lower_config conv_state0 ''db.t'' ''db'' ''t'' = Inr (''db'', ''t'', ''db.t'')"
    by (simp add: resolve_dml_table_def transform_object_name_def conv_state0_def lower_config_def heap_lower_config_def Let_def fc_normalize_name_def object_lib_def
        ascii_lib_def c_simps)
  moreover have "cached_table object_lib cat STRAT_SKIP_ON_ERROR example_event ''db'' ''t'' example_cache = Inr (Some example_entry, example_cache, None)"
    by (simp add: cached_table_def Let_def example_cache_def cache_key_def schema_name_def strlcpy_def SYNCHDB_CONNINFO_DB_NAME_SIZE_def)
  moreover have "event_ts object_lib example_event ''payload.ts_ms'' w = Inr 0" for w
    by (simp add: event_ts_def getPathElementString_def strtok_all_def Let_def example_event_def)
  ultimately show ?thesis
    by (simp add: parseDBZDML_def source_ident_def example_source_def json_key_def json_string_def event_ts_def dml_images_def
        example_parsed_def example_entry_def)
qed

definition example_row :: PG_DML where
  "example_row = \<lparr>pm_dmlquery = [], pm_op = CHR ''c'', pm_tableoid = 16400, pm_natts = 2, pm_columnValuesBefore = [],
     pm_columnValuesAfter = [\<lparr>pv_value = ''7'', pv_datatype = TEXTOID, pv_position = 1\<rparr>]\<rparr>"

lemma example_convert: "convert2PGDML object_lib heap_lower_config conv_state0 example_parsed TYPE_MYSQL = Inr (Some example_row)"
  by (simp add: convert2PGDML_def example_parsed_def heap_lower_config_def Let_def heap_value_def to_pg_value_def processDataByType_def
      image_value_def convert_by_oid_def quote_text_def transform_data_expression_def conv_state0_def strcaseeq_def c_simps example_row_def)

theorem event_values_fit_table_witness:
  "cache_ok example_cache \<and> (\<forall>w. fill_slot unit_executor [-1, -1] 2 (pm_columnValuesAfter example_row) \<noteq> Inl (Outside w))"
  using event_values_fit_table [OF example_cache_ok example_parse [of _ False False] example_convert, of "[-1, -1]" unit_executor]
  by (simp add: example_parsed_def example_row_def)

section \<open>Errors and the error strategy\<close>



end
