(* ===== verification/Wire_Format.thy ===== *)
theory Wire_Format
  imports Byte_Conv
begin

text \<open>
  Integers in memory. The Debezium runner hands over 32-bit lengths in network order (\<^verbatim>\<open>ntohl\<close>);
  Openlog Replicator and the SCN file use the byte order of the host, which is taken to be
  little-endian. \<open>bytes_be\<close> and \<open>bytes_le\<close> are the images of a number in memory and
  \<open>int32_be\<close>, \<open>int32_le\<close>, \<open>word64_le\<close> what a C variable holds after a
  \<^verbatim>\<open>memcpy\<close> from there. Both codecs are instances of the \<open>codec\<close> interface.
\<close>

section \<open>Bytes of a number\<close>

fun bytes_be :: "nat \<Rightarrow> nat \<Rightarrow> byte list" where
  "bytes_be 0 n = []"
| "bytes_be (Suc k) n = bytes_be k (n div 256) @ [word_of_nat n]"

definition bytes_le :: "nat \<Rightarrow> nat \<Rightarrow> byte list" where
  "bytes_le k n = rev (bytes_be k n)"

lemma length_bytes_be [simp]: "length (bytes_be k n) = k"
  by (induction k arbitrary: n) simp_all

lemma length_bytes_le [simp]: "length (bytes_le k n) = k"
  by (simp add: bytes_le_def)

lemma uint_be_bytes_be: "uint_be (bytes_be k n) = n mod 256 ^ k"
proof (induction k arbitrary: n)
  case (Suc k)
  have b: "unat (word_of_nat n :: byte) = n mod 256" by (simp add: unat_of_nat)
  have "uint_be (bytes_be (Suc k) n) = 256 * (n div 256 mod 256 ^ k) + n mod 256"
    by (simp only: bytes_be.simps uint_be_snoc b Suc)
  also have "\<dots> = n mod 256 ^ Suc k" by (simp only: power_Suc mod_mult2_eq)
  finally show ?case .
qed simp

lemma bytes_be_eval [c_simps]:
  "bytes_be (numeral k) n = bytes_be (pred_numeral k) (n div 256) @ [word_of_nat n]"
  by (subst numeral_eq_Suc [of k]) (rule bytes_be.simps(2))

section \<open>C variables\<close>

definition to_int32 :: "nat \<Rightarrow> int" where
  "to_int32 n = (if n < 2 ^ 31 then int n else int n - 2 ^ 32)"

definition int32_be :: "byte list \<Rightarrow> int" where
  "int32_be bs = to_int32 (uint_be bs)"

definition int32_le :: "byte list \<Rightarrow> int" where
  "int32_le bs = to_int32 (uint_be (rev bs))"

definition word64_le :: "byte list \<Rightarrow> 64 word" where
  "word64_le bs = word_of_nat (uint_be (rev bs))"

definition enc_int32_be :: "int \<Rightarrow> byte list" where
  "enc_int32_be i = bytes_be 4 (nat (i mod 2 ^ 32))"

definition enc_int32_le :: "int \<Rightarrow> byte list" where
  "enc_int32_le i = rev (enc_int32_be i)"

definition enc_word64_le :: "64 word \<Rightarrow> byte list" where
  "enc_word64_le w = bytes_le 8 (unat w)"

definition is_int32 :: "int \<Rightarrow> bool" where
  "is_int32 i \<longleftrightarrow> - (2 ^ 31) \<le> i \<and> i < 2 ^ 31"

lemma length_enc_int32 [simp]: "length (enc_int32_be i) = 4" "length (enc_int32_le i) = 4"
  by (simp_all add: enc_int32_be_def enc_int32_le_def)

lemma length_enc_word64_le [simp]: "length (enc_word64_le w) = 8"
  by (simp add: enc_word64_le_def)

lemma int32_be_enc [simp]:
  assumes "is_int32 i"
  shows "int32_be (enc_int32_be i) = i"
proof -
  have "uint_be (enc_int32_be i) = nat (i mod 2 ^ 32)"
    by (simp add: enc_int32_be_def uint_be_bytes_be nat_less_iff)
  moreover have "i mod 2 ^ 32 = (if 0 \<le> i then i else i + 2 ^ 32)"
    using assms mod_pos_pos_trivial [of i "2 ^ 32"] mod_pos_pos_trivial [of "i + 2 ^ 32" "2 ^ 32"]
    by (auto simp: is_int32_def)
  ultimately show ?thesis using assms
    by (auto simp: int32_be_def to_int32_def is_int32_def)
qed

lemma int32_le_enc [simp]: "is_int32 i \<Longrightarrow> int32_le (enc_int32_le i) = i"
  using int32_be_enc [of i] by (simp add: int32_le_def enc_int32_le_def int32_be_def)

lemma word64_le_enc [simp]: "word64_le (enc_word64_le w) = w"
proof -
  have "unat w < 2 ^ 64" using unsigned_less [of w, where 'a = nat] by simp
  then show ?thesis by (simp add: word64_le_def enc_word64_le_def bytes_le_def uint_be_bytes_be)
qed

interpretation be_length: codec enc_int32_be "\<lambda>bs. Some (int32_be bs)" is_int32
  by unfold_locales simp

interpretation le_length: codec enc_int32_le "\<lambda>bs. Some (int32_le bs)" is_int32
  by unfold_locales simp

lemma is_int32_length [simp]: "n < 2 ^ 31 \<Longrightarrow> is_int32 (int n)"
  by (simp add: is_int32_def)

end
