(* ===== verification/OLR_Client.thy ===== *)
theory OLR_Client
  imports Wire_Format Stats
begin

text \<open>
  The Openlog Replicator client: \<^verbatim>\<open>src/backend/utils/netio_utils.c\<close> (reading from the socket) and
  \<^verbatim>\<open>src/backend/olr/olr_client.c\<close> (the stream of length-prefixed change events, the system change
  numbers and the two state files). The operating system is an argument: what \<^verbatim>\<open>select\<close> says and
  the sequence of results of \<^verbatim>\<open>recv\<close>. The event handler \<^verbatim>\<open>fc_processOLRChangeEvent\<close> is an argument
  \<open>handler\<close> of \<open>olr_client_get_change\<close>, so that the framing theorems hold for every handler.
\<close>

section \<open>Reading from the socket\<close>

text \<open>
  The results of \<^verbatim>\<open>select\<close> (is there something to read) and of \<^verbatim>\<open>recv\<close>: data waiting in the socket (a call takes at most as much as it asks for
  and leaves the rest), an orderly shutdown, or an error with its \<^verbatim>\<open>errno\<close>. An exhausted list stands
  for a socket without data.
\<close>

datatype recv_result = RecvData "byte list" | RecvClosed | RecvAgain | RecvIntr | RecvError

record net_env =
  select_queue :: "bool list"
  recv_queue :: "recv_result list"

text \<open>The loop: \<open>remaining\<close> is \<open>None\<close> for size -1. Result: what was read, still connected, failed.\<close>

definition recv_weight :: "recv_result list \<Rightarrow> nat" where
  "recv_weight q = (\<Sum>r \<leftarrow> q. case r of RecvData bs \<Rightarrow> Suc (length bs) | _ \<Rightarrow> 1)"

function netio_loop :: "nat option \<Rightarrow> recv_result list \<Rightarrow> byte list \<Rightarrow> byte list \<times> bool \<times> bool \<times> recv_result list" where
  "netio_loop remaining q acc =
     (if remaining = Some 0 then (acc, True, False, q)
      else case q of
        [] \<Rightarrow> (acc, True, False, [])
      | RecvData bs # q' \<Rightarrow>
          if bs = [] then (acc, False, False, q')
          else let to_read = (case remaining of None \<Rightarrow> 8192 | Some r \<Rightarrow> min r 8192);
                   got = take to_read bs
               in netio_loop (map_option (\<lambda>r. r - length got) remaining)
                    (if length bs \<le> to_read then q' else RecvData (drop to_read bs) # q') (acc @ got)
      | RecvClosed # q' \<Rightarrow> (acc, False, False, q')
      | RecvAgain # q' \<Rightarrow> (acc, True, False, q')
      | RecvIntr # q' \<Rightarrow> netio_loop remaining q' acc
      | RecvError # q' \<Rightarrow> (acc, False, True, q'))"
  by pat_completeness auto

termination
proof (relation "measure (\<lambda>(remaining, q, acc). recv_weight q)", goal_cases)
  case (2 remaining q acc r q' bs to_read got)
  then have "0 < to_read" by (cases remaining) auto
  with 2 show ?case by (auto simp: recv_weight_def)
qed (auto simp: recv_weight_def)

declare netio_loop.simps [simp del]

definition netio_read ::
  "bool \<Rightarrow> net_env \<Rightarrow> byte list \<Rightarrow> int \<Rightarrow> int \<times> byte list \<times> bool \<times> net_env" where
  "netio_read is_connected ne buf sz =
     (if \<not> is_connected then (-1, buf, is_connected, ne)
      else if select_queue ne = [] \<or> \<not> hd (select_queue ne)
      then (-1, buf, is_connected, ne\<lparr>select_queue := tl (select_queue ne)\<rparr>)
      else let (got, conn, failed, q) =
                 netio_loop (if sz = -1 then None else Some (nat sz)) (recv_queue ne) []
           in (if failed \<or> got = [] then -1 else int (length got), buf @ got, conn,
               ne\<lparr>select_queue := tl (select_queue ne), recv_queue := q\<rparr>))"

lemma netio_loop_full [simp]: "netio_loop (Some 0) q acc = (acc, True, False, q)"
  by (subst netio_loop.simps) simp

lemma netio_loop_cases:
  assumes "remaining \<noteq> Some 0"
  shows "netio_loop remaining [] acc = (acc, True, False, [])"
    and "netio_loop remaining (RecvData [] # q) acc = (acc, False, False, q)"
    and "netio_loop remaining (RecvClosed # q) acc = (acc, False, False, q)"
    and "netio_loop remaining (RecvAgain # q) acc = (acc, True, False, q)"
    and "netio_loop remaining (RecvError # q) acc = (acc, False, True, q)"
    and "netio_loop remaining (RecvIntr # q) acc = netio_loop remaining q acc"
  using assms by (subst netio_loop.simps, simp)+

lemma netio_loop_data:
  assumes "remaining \<noteq> Some 0" and "bs \<noteq> []"
    and "to_read = (case remaining of None \<Rightarrow> 8192 | Some r \<Rightarrow> min r 8192)"
  shows "netio_loop remaining (RecvData bs # q) acc =
     netio_loop (map_option (\<lambda>r. r - length (take to_read bs)) remaining)
       (if length bs \<le> to_read then q else RecvData (drop to_read bs) # q) (acc @ take to_read bs)"
  using assms by (subst netio_loop.simps) (simp add: Let_def)

lemma netio_loop_appends:
  "netio_loop remaining q acc = (got, conn, failed, q') \<Longrightarrow>
     \<exists>new. got = acc @ new \<and> (\<forall>r. remaining = Some r \<longrightarrow> length new \<le> r)"
proof (induction remaining q acc arbitrary: got conn failed q' rule: netio_loop.induct)
  case (1 remaining q acc)
  show ?case
  proof (cases "remaining = Some 0 \<or> q = []")
    case True
    then show ?thesis using "1.prems" netio_loop_cases(1) [of remaining acc] by (cases "remaining = Some 0") auto
  next
    case False
    then obtain r q1 where q: "q = r # q1" and rem: "remaining \<noteq> Some 0" by (cases q) auto
    show ?thesis
    proof (cases r)
      case (RecvData bs)
      show ?thesis
      proof (cases "bs = []")
        case True
        then show ?thesis using "1.prems" q RecvData netio_loop_cases(2) [OF rem] by simp
      next
        case False
        define to_read where "to_read = (case remaining of None \<Rightarrow> 8192 | Some r \<Rightarrow> min r 8192)"
        have "netio_loop (map_option (\<lambda>r. r - length (take to_read bs)) remaining)
            (if length bs \<le> to_read then q1 else RecvData (drop to_read bs) # q1) (acc @ take to_read bs)
            = (got, conn, failed, q')"
          using "1.prems" q RecvData netio_loop_data [OF rem False to_read_def] by simp
        from "1.IH"(1) [OF rem q RecvData False to_read_def refl this]
        obtain new where "got = (acc @ take to_read bs) @ new"
          and len: "\<forall>r. map_option (\<lambda>r. r - length (take to_read bs)) remaining = Some r \<longrightarrow> length new \<le> r"
          by blast
        moreover have "length (take to_read bs @ new) \<le> r" if "remaining = Some r" for r
          using len that by (auto simp: to_read_def)
        ultimately show ?thesis by (metis append.assoc)
      qed
    next
      case RecvIntr
      then have "netio_loop remaining q1 acc = (got, conn, failed, q')"
        using "1.prems" q netio_loop_cases(6) [OF rem] by simp
      then show ?thesis using "1.IH"(2) [OF rem q RecvIntr] by blast
    qed (use "1.prems" q netio_loop_cases [OF rem] in auto)
  qed
qed

lemma netio_loop_chunk:
  "length bs \<le> r \<Longrightarrow> bs \<noteq> [] \<Longrightarrow> netio_loop (Some r) [RecvData bs] acc = (acc @ bs, True, False, [])"
proof (induction "length bs" arbitrary: bs r acc rule: less_induct)
  case less
  have r: "Some r \<noteq> Some 0" using less.prems by (cases bs) auto
  note step = netio_loop_data [OF r less.prems(2) refl, of "[]" acc]
  show ?case
  proof (cases "length bs \<le> min r 8192")
    case True
    then show ?thesis using step netio_loop_cases(1) [of "Some (r - length bs)" "acc @ bs"]
      by (cases "r = length bs") auto
  next
    case False
    then have m: "min r 8192 = 8192" using less.prems(1) by simp
    have "netio_loop (Some (r - 8192)) [RecvData (drop 8192 bs)] (acc @ take 8192 bs)
        = ((acc @ take 8192 bs) @ drop 8192 bs, True, False, [])"
      using False m less.prems(1) by (intro less.hyps) auto
    then show ?thesis using step False m by simp
  qed
qed

section \<open>The client's state\<close>

record olr_client =
  is_connected :: bool
  g_scn :: "64 word"
  g_c_scn :: "64 word"
  g_c_idx :: "64 word"
  g_strinfo :: "byte list"
  g_offset :: nat
  last_flush_time :: int

definition olr_client0 :: olr_client where
  "olr_client0 = \<lparr>is_connected = False, g_scn = 0, g_c_scn = 0, g_c_idx = 0, g_strinfo = [], g_offset = 0,
     last_flush_time = 0\<rparr>"

text \<open>\<open>reachable\<close> says whether \<^verbatim>\<open>netio_connect\<close> succeeds; the result is the C return value.\<close>

definition olr_client_init :: "bool \<Rightarrow> olr_client \<Rightarrow> int \<times> olr_client" where
  "olr_client_init reachable c =
     (let c1 = c\<lparr>g_strinfo := []\<rparr>
      in if reachable then (0, c1\<lparr>is_connected := True\<rparr>) else (-1, c1))"

definition olr_client_shutdown :: "olr_client \<Rightarrow> olr_client" where
  "olr_client_shutdown c = (if is_connected c then c\<lparr>is_connected := False\<rparr> else c)"

definition olr_client_set_scns :: "64 word \<Rightarrow> 64 word \<Rightarrow> 64 word \<Rightarrow> olr_client \<Rightarrow> olr_client" where
  "olr_client_set_scns scn c_scn c_idx c =
     c\<lparr>g_scn := (if scn > 0 then scn else g_scn c), g_c_scn := (if c_scn > 0 then c_scn else g_c_scn c),
       g_c_idx := (if c_idx > 0 then c_idx else g_c_idx c)\<rparr>"

section \<open>The stream of change events\<close>

text \<open>
  The loop of \<^verbatim>\<open>olr_client_get_change\<close>. A negative length, or one that makes the C expression
  \<^verbatim>\<open>g_offset + 4 + json_len\<close> overflow, is undefined behaviour in the source and an error here.
\<close>

function olr_events ::
  "(byte list \<Rightarrow> bool \<Rightarrow> bool \<Rightarrow> 's \<Rightarrow> (int \<times> 's) res) \<Rightarrow> byte list \<Rightarrow> nat \<Rightarrow> nat \<Rightarrow> int \<Rightarrow> 's
   \<Rightarrow> (nat \<times> nat \<times> int \<times> 's) res" where
  "olr_events handler buf offset cnt ret s =
     (if offset + 4 \<le> length buf
      then let json_len = int32_le (take 4 (drop offset buf)); next_offset = offset + 4 + nat json_len
           in if json_len < 0 \<or> 2 ^ 31 \<le> int offset + 4 + json_len
              then Inl (Undefined ''json length out of range'')
              else if length buf < next_offset then Inr (offset, cnt, ret, s)
              else rbind (handler (take (nat json_len) (drop (offset + 4) buf)) (cnt = 0)
                            (next_offset = length buf \<or> length buf < next_offset + 4) s)
                     (\<lambda>(r, s'). olr_events handler buf next_offset (cnt + 1) r s')
      else Inr (offset, cnt, ret, s))"
  by pat_completeness auto

termination
  by (relation "measure (\<lambda>(h, buf, offset, cnt, ret, s). length buf - offset)") auto

declare olr_events.simps [simp del]

text \<open>
  One call. The handler's state holds the batch statistics and whatever else the handler changes.
\<close>

definition olr_client_get_change ::
  "int \<Rightarrow> (byte list \<Rightarrow> bool \<Rightarrow> bool \<Rightarrow> SynchdbStatistics \<times> 'w \<Rightarrow> (int \<times> SynchdbStatistics \<times> 'w) res)
   \<Rightarrow> net_env \<Rightarrow> olr_client \<Rightarrow> SynchdbStatistics \<times> 'w
   \<Rightarrow> (int \<times> net_env \<times> olr_client \<times> SynchdbStatistics \<times> 'w) res" where
  "olr_client_get_change g_read_buffer_size handler ne c s =
     (if \<not> is_connected c then Inr (-2, ne, c, s)
      else let (nbytes, buf, conn, ne') = netio_read (is_connected c) ne (g_strinfo c) g_read_buffer_size;
               c1 = c\<lparr>g_strinfo := buf, is_connected := conn\<rparr>
           in if 0 < nbytes
              then rbind (olr_events handler buf (g_offset c) 0 (-1) s) (\<lambda>(offset, cnt, ret, myBatchStats, w).
                 let c2 = (if length buf \<le> offset then c1\<lparr>g_strinfo := [], g_offset := 0\<rparr>
                           else if 0 < offset then c1\<lparr>g_strinfo := drop offset buf, g_offset := 0\<rparr>
                           else c1\<lparr>g_offset := offset\<rparr>)
                 in Inr (ret, ne', c2,
                      increment_connector_statistics myBatchStats STATS_TOTAL_CHANGE_EVENT (int cnt), w))
              else Inr (-2, ne', c1, s))"

section \<open>Requests to the replicator\<close>

text \<open>
  The messages are packed and unpacked by generated protobuf code and the protobuf-c library:
  \<open>pack\<close> and \<open>unpack\<close> are arguments (\<open>unpack\<close> gives the response code, or \<open>None\<close> for a
  malformed message). The results list the bytes sent.
\<close>

datatype request_code = REQUEST_START | REQUEST_CONTINUE | REQUEST_CONFIRM

record redo_request =
  rr_code :: request_code
  rr_database_name :: string
  rr_scn :: "64 word"
  rr_c_scn :: "64 word"
  rr_c_idx :: "64 word"

definition RES_STARTING :: int where "RES_STARTING = 2"
definition RES_ALREADY_STARTED :: int where "RES_ALREADY_STARTED = 3"
definition RES_REPLICATE :: int where "RES_REPLICATE = 4"
definition RES_INVALID_DATABASE :: int where "RES_INVALID_DATABASE = 6"
definition RES_INVALID_COMMAND :: int where "RES_INVALID_COMMAND = 7"

definition request_message :: "(redo_request \<Rightarrow> byte list) \<Rightarrow> redo_request \<Rightarrow> byte list" where
  "request_message pack r = enc_int32_le (int (length (pack r))) @ pack r"

definition olr_client_start_or_cont_replication ::
  "(redo_request \<Rightarrow> byte list) \<Rightarrow> (byte list \<Rightarrow> int option) \<Rightarrow> string \<Rightarrow> bool \<Rightarrow> net_env \<Rightarrow> olr_client
   \<Rightarrow> int \<times> byte list list \<times> net_env \<times> olr_client" where
  "olr_client_start_or_cont_replication pack unpack source start ne c =
     (if \<not> is_connected c then (-1, [], ne, c)
      else let msg = request_message pack \<lparr>rr_code = (if start then REQUEST_START else REQUEST_CONTINUE),
                       rr_database_name = source, rr_scn = g_scn c, rr_c_scn = g_c_scn c, rr_c_idx = 0\<rparr>;
               (n1, buf1, conn1, ne1) = netio_read (is_connected c) ne [] 4;
               (nbytes, buf, conn, ne') =
                 (if n1 = 4 then let (n2, buf2, conn2, ne2) = netio_read conn1 ne1 buf1 (int32_le (take 4 buf1))
                                 in (4 + n2, buf2, conn2, ne2)
                  else (n1, buf1, conn1, ne1));
               c' = c\<lparr>is_connected := conn\<rparr>
           in if 4 < nbytes
              then case unpack (take (nat (nbytes - 4)) (drop 4 buf)) of
                     Some code \<Rightarrow> (code, [msg], ne', c') | None \<Rightarrow> (-1, [msg], ne', c')
              else (-1, [msg], ne', c'))"

definition olr_client_confirm_scn ::
  "(redo_request \<Rightarrow> byte list) \<Rightarrow> string \<Rightarrow> olr_client \<Rightarrow> int \<times> byte list list" where
  "olr_client_confirm_scn pack source c =
     (if g_c_scn c = 0 then (-1, [])
      else if \<not> is_connected c then (-1, [])
      else (0, [request_message pack \<lparr>rr_code = REQUEST_CONFIRM, rr_database_name = source, rr_scn = g_scn c,
                  rr_c_scn = g_c_scn c, rr_c_idx = g_c_idx c\<rparr>]))"

section \<open>System change numbers: the offset text and the state files\<close>

text \<open>
  The directory \<^verbatim>\<open>pg_synchdb\<close> is a map from file names to contents. \<open>writable\<close> says whether
  \<^verbatim>\<open>OpenTransientFile\<close> and \<^verbatim>\<open>write\<close> succeed, \<open>now\<close> is \<^verbatim>\<open>GetCurrentTimestamp()\<close> in microseconds.
\<close>

type_synonym files = "string \<rightharpoonup> byte list"

definition offset_file :: "ConnectorType \<Rightarrow> string \<Rightarrow> string \<Rightarrow> string" where
  "offset_file type name dstdb =
     ''pg_synchdb/'' @ get_shm_connector_name type @ ''_'' @ name @ ''_'' @ dstdb @ ''_offsets.dat''"

definition schema_file :: "ConnectorType \<Rightarrow> string \<Rightarrow> string \<Rightarrow> string" where
  "schema_file type name dstdb =
     ''pg_synchdb/'' @ get_shm_connector_name type @ ''_'' @ name @ ''_'' @ dstdb @ ''_schemahistory.dat''"

definition olr_client_write_scn_state ::
  "bool \<Rightarrow> int \<Rightarrow> int \<Rightarrow> ConnectorType \<Rightarrow> string \<Rightarrow> string \<Rightarrow> bool \<Rightarrow> olr_client \<Rightarrow> files
   \<Rightarrow> (bool \<times> olr_client \<times> files) res" where
  "olr_client_write_scn_state writable now dbz_offset_flush_interval_ms type name dstdb force c fs =
     (if \<not> force \<and> last_flush_time c \<noteq> 0 \<and> \<not> dbz_offset_flush_interval_ms * 1000 \<le> now - last_flush_time c
      then Inr (False, c, fs)
      else if \<not> writable
      then Inl (PgError (Some ''cannot open scn file to write!'') ''can not open file for writing'')
      else Inr (True, c\<lparr>last_flush_time := now\<rparr>,
             fs(offset_file type name dstdb \<mapsto> enc_word64_le (g_scn c) @ enc_word64_le (g_c_scn c) @ enc_word64_le (g_c_idx c))))"

definition olr_client_init_scn_state ::
  "ConnectorType \<Rightarrow> string \<Rightarrow> string \<Rightarrow> olr_client \<Rightarrow> files \<Rightarrow> (bool \<times> olr_client) res" where
  "olr_client_init_scn_state type name dstdb c fs =
     (case fs (offset_file type name dstdb) of
        None \<Rightarrow> Inr (False, c)
      | Some buf \<Rightarrow>
          if length buf < 24 then Inl (PgError (Some ''cannot read scn from file'') ''cannot read from file'')
          else Inr (True, c\<lparr>g_scn := word64_le (take 8 buf), g_c_scn := word64_le (take 8 (drop 8 buf)),
                           g_c_idx := word64_le (take 8 (drop 16 buf))\<rparr>))"

definition olr_client_write_snapshot_state ::
  "bool \<Rightarrow> ConnectorType \<Rightarrow> string \<Rightarrow> string \<Rightarrow> bool \<Rightarrow> files \<Rightarrow> (bool \<times> files) res" where
  "olr_client_write_snapshot_state writable type name dstdb isdone fs =
     (if \<not> writable
      then Inl (PgError (Some ''cannot open snapshot file to write!'') ''can not open file for writing'')
      else Inr (True, fs(schema_file type name dstdb \<mapsto> [if isdone then 0x74 else 0x66])))"

text \<open>The result is \<open>None\<close> when the file is absent; the output argument is then left alone.\<close>

definition olr_client_read_snapshot_state ::
  "ConnectorType \<Rightarrow> string \<Rightarrow> string \<Rightarrow> files \<Rightarrow> bool option res" where
  "olr_client_read_snapshot_state type name dstdb fs =
     (case fs (schema_file type name dstdb) of
        None \<Rightarrow> Inr None
      | Some [] \<Rightarrow> Inl (PgError (Some ''cannot read snapshot state from file'') ''cannot read from file'')
      | Some (state # _) \<Rightarrow> Inr (Some (state = 0x74)))"

text \<open>The offset of an Openlog connector as \<^verbatim>\<open>set_shm_dbz_offset\<close> shows it.\<close>

definition olr_offset_text :: "olr_client \<Rightarrow> string" where
  "olr_offset_text c =
     ''{\"scn\":'' @ show_nat (unat (g_scn c)) @ '', \"c_scn\":'' @ show_nat (unat (g_c_scn c))
       @ '', \"c_idx\":'' @ show_nat (unat (g_c_idx c)) @ ''}''"

definition scan_after :: "string \<Rightarrow> string \<Rightarrow> 64 word option" where
  "scan_after text key = map_option (\<lambda>p. strtoull (drop (length key) p)) (strstr text key)"

text \<open>\<^verbatim>\<open>olr_set_offset_from_raw\<close>: the offset a user passes to \<^verbatim>\<open>synchdb_set_offset\<close>.\<close>

definition olr_set_offset_from_raw :: "string \<Rightarrow> olr_client \<Rightarrow> int \<times> olr_client" where
  "olr_set_offset_from_raw offsetdata c =
     (case scan_after offsetdata ''\"scn\":'' of None \<Rightarrow> (-1, c)
      | Some scn \<Rightarrow> (case scan_after offsetdata ''\"c_scn\":'' of None \<Rightarrow> (-1, c)
        | Some c_scn \<Rightarrow> (case scan_after offsetdata ''\"c_idx\":'' of None \<Rightarrow> (-1, c)
          | Some c_idx \<Rightarrow> (0, olr_client_set_scns scn c_scn c_idx c))))"

lemma quote_not_digit: "CHR 0x22 \<notin> set (show_nat n)"
  using show_nat_digits [of "CHR 0x22" n] by (auto simp: is_digit_def)

lemma strtoull_word:
  fixes w :: "64 word"
  assumes "t = [] \<or> \<not> is_digit (hd t)"
  shows "strtoull (show_nat (unat w) @ t) = w"
proof -
  have "unat w < 2 ^ 64" using unsigned_less [of w, where 'a = nat] by simp
  from strtoull_show_nat [OF this assms] show ?thesis by simp
qed

lemma scan_scn: "scan_after (olr_offset_text c) ''\"scn\":'' = Some (g_scn c)"
proof -
  have "strstr (olr_offset_text c) ''\"scn\":'' = Some (tl (olr_offset_text c))"
    by (simp add: olr_offset_text_def)
  then show ?thesis by (simp add: scan_after_def olr_offset_text_def strtoull_word is_digit_def)
qed

lemma scan_c_scn: "scan_after (olr_offset_text c) ''\"c_scn\":'' = Some (g_c_scn c)"
proof -
  have "strstr (olr_offset_text c) ''\"c_scn\":'' =
      Some (''\"c_scn\":'' @ show_nat (unat (g_c_scn c)) @ '', \"c_idx\":'' @ show_nat (unat (g_c_idx c)) @ ''}'')"
    by (simp add: olr_offset_text_def strstr_skip quote_not_digit)
  then show ?thesis by (simp add: scan_after_def strtoull_word is_digit_def)
qed

lemma scan_c_idx: "scan_after (olr_offset_text c) ''\"c_idx\":'' = Some (g_c_idx c)"
proof -
  have "strstr (olr_offset_text c) ''\"c_idx\":'' = Some (''\"c_idx\":'' @ show_nat (unat (g_c_idx c)) @ ''}'')"
    by (simp add: olr_offset_text_def strstr_skip quote_not_digit)
  then show ?thesis by (simp add: scan_after_def strtoull_word is_digit_def)
qed

section \<open>The frames of a byte stream\<close>

definition olr_frame :: "byte list \<Rightarrow> byte list" where
  "olr_frame p = enc_int32_le (int (length p)) @ p"

text \<open>What may be left in the buffer between two calls: a proper prefix of a frame.\<close>

definition partial_frame :: "byte list \<Rightarrow> bool" where
  "partial_frame part \<longleftrightarrow> (\<exists>p rest. length p < 2 ^ 28 \<and> olr_frame p = part @ rest \<and> rest \<noteq> [])"

abbreviation frames :: "byte list list \<Rightarrow> byte list" where
  "frames ps \<equiv> concat (map olr_frame ps)"

lemma length_olr_frame [simp]: "length (olr_frame p) = 4 + length p"
  by (simp add: olr_frame_def)

lemma int32_le_olr_frame: "length p < 2 ^ 28 \<Longrightarrow> int32_le (take 4 (olr_frame p @ xs)) = int (length p)"
  by (simp add: olr_frame_def)

lemma partial_frame_Nil [simp]: "partial_frame []"
proof -
  have "olr_frame [] \<noteq> []" using length_olr_frame [of "[]"] by force
  then show ?thesis unfolding partial_frame_def by (intro exI [of _ "[]"] exI [of _ "olr_frame []"]) simp
qed

lemma partial_frame_length: "partial_frame part \<Longrightarrow> length part < 2 ^ 28 + 4"
  unfolding partial_frame_def
proof (elim exE conjE)
  fix p rest assume "length p < 2 ^ 28" and "olr_frame p = part @ rest"
  then show ?thesis using length_olr_frame [of p] by simp
qed

lemma partial_frame_header:
  assumes "partial_frame part" and "4 \<le> length part"
  obtains n where "int32_le (take 4 part) = int n" and "n < 2 ^ 28" and "length part < 4 + n"
proof -
  from assms(1) obtain p rest where p: "length p < 2 ^ 28" "olr_frame p = part @ rest" "rest \<noteq> []"
    unfolding partial_frame_def by blast
  have "take 4 part = take 4 (olr_frame p @ [])" using p(2) assms(2) by simp
  then have "int32_le (take 4 part) = int (length p)" using int32_le_olr_frame [OF p(1), of "[]"] by metis
  moreover have "length part < 4 + length p"
  proof -
    have "length part + length rest = 4 + length p" using arg_cong [OF p(2), of length] by simp
    then show ?thesis using p(3) by (cases rest) auto
  qed
  ultimately show ?thesis using that p(1) by blast
qed

text \<open>Cutting a stream of frames anywhere leaves whole frames and a proper prefix of the next one.\<close>

lemma cut_frames:
  assumes "xs @ ys = frames ps" and "\<forall>p \<in> set ps. length p < 2 ^ 28"
  shows "\<exists>ps1 ps2 part. ps = ps1 @ ps2 \<and> xs = frames ps1 @ part \<and> partial_frame part \<and> part @ ys = frames ps2"
  using assms
proof (induction ps arbitrary: xs)
  case Nil
  then show ?case by simp
next
  case (Cons p ps)
  show ?case
  proof (cases "length xs < length (olr_frame p)")
    case True
    from Cons.prems(1) have "xs @ ys = olr_frame p @ frames ps" by simp
    then have "olr_frame p = xs @ drop (length xs) (olr_frame p)"
      using True by (metis append_eq_append_conv_if append_take_drop_id less_imp_le)
    then have "partial_frame xs" unfolding partial_frame_def
      using Cons.prems(2) True by (intro exI [of _ p] exI [of _ "drop (length xs) (olr_frame p)"]) auto
    then show ?thesis using Cons.prems(1) by (intro exI [of _ "[]"] exI [of _ "p # ps"] exI [of _ xs]) simp
  next
    case False
    from Cons.prems(1) have e: "xs @ ys = olr_frame p @ frames ps" by simp
    then obtain xs' where xs: "xs = olr_frame p @ xs'"
      using False by (metis append_eq_append_conv_if not_less append_take_drop_id)
    with e have "xs' @ ys = frames ps" by simp
    from Cons.IH [OF this] Cons.prems(2) obtain ps1 ps2 part where
      "ps = ps1 @ ps2" "xs' = frames ps1 @ part" "partial_frame part" "part @ ys = frames ps2" by auto
    then show ?thesis using xs by (intro exI [of _ "p # ps1"] exI [of _ ps2] exI [of _ part]) simp
  qed
qed

section \<open>The loop over a buffer\<close>

fun olr_run ::
  "int \<Rightarrow> (byte list \<Rightarrow> bool \<Rightarrow> bool \<Rightarrow> SynchdbStatistics \<times> 'w \<Rightarrow> (int \<times> SynchdbStatistics \<times> 'w) res)
   \<Rightarrow> byte list list \<Rightarrow> olr_client \<Rightarrow> SynchdbStatistics \<times> 'w \<Rightarrow> (olr_client \<times> SynchdbStatistics \<times> 'w) res" where
  "olr_run size_limit handler [] c s = Inr (c, s)"
| "olr_run size_limit handler (chunk # chunks) c s =
     rbind (olr_client_get_change size_limit handler \<lparr>select_queue = [True], recv_queue = [RecvData chunk]\<rparr> c s)
       (\<lambda>(r, ne', c', s'). olr_run size_limit handler chunks c' s')"

text \<open>
  The law a client of the framing relies on: where \<open>g\<close> is defined, it is the handler's effect on the part \<open>w\<close> of its state,
  whatever the batch statistics and the position of the event in the batch.
\<close>

fun apply_all :: "('p \<Rightarrow> 'w \<Rightarrow> 'w option) \<Rightarrow> 'p list \<Rightarrow> 'w \<Rightarrow> 'w option" where
  "apply_all g [] w = Some w"
| "apply_all g (p # ps) w = Option.bind (g p w) (apply_all g ps)"

lemma apply_all_append: "apply_all g (ps @ qs) w = Option.bind (apply_all g ps w) (apply_all g qs)"
proof (induction ps arbitrary: w)
  case (Cons p ps)
  then show ?case by (cases "g p w") simp_all
qed simp

locale event_handler =
  fixes handler :: "byte list \<Rightarrow> bool \<Rightarrow> bool \<Rightarrow> SynchdbStatistics \<times> 'w \<Rightarrow> (int \<times> SynchdbStatistics \<times> 'w) res"
    and g :: "byte list \<Rightarrow> 'w \<Rightarrow> 'w option"
  assumes handler_effect: "g p w = Some w' \<Longrightarrow> \<exists>r st'. handler p isfirst islast (st, w) = Inr (r, st', w')"
begin

lemma olr_events_end:
  assumes "partial_frame part" and "length pre + 4 \<le> 2 ^ 30"
  shows "olr_events handler (pre @ part) (length pre) cnt ret s = Inr (length pre, cnt, ret, s)"
proof (cases "4 \<le> length part")
  case True
  from partial_frame_header [OF assms(1) True] obtain n where
    "int32_le (take 4 part) = int n" "n < 2 ^ 28" "length part < 4 + n" .
  then show ?thesis using True assms(2) by (subst olr_events.simps) (simp add: Let_def)
qed (subst olr_events.simps, simp)

lemma olr_events_frame:
  assumes "length p < 2 ^ 28" and "length pre + 4 \<le> 2 ^ 30" and "handler p (cnt = 0) (xs = [] \<or> length xs < 4) s = Inr (r, s')"
  shows "olr_events handler (pre @ olr_frame p @ xs) (length pre) cnt ret s =
    olr_events handler (pre @ olr_frame p @ xs) (length (pre @ olr_frame p)) (cnt + 1) r s'"
proof -
  have len: "int32_le (take 4 (drop (length pre) (pre @ olr_frame p @ xs))) = int (length p)"
    using int32_le_olr_frame [OF assms(1), of xs] by simp
  have payload: "take (length p) (drop (length pre + 4) (pre @ olr_frame p @ xs)) = p"
    by (simp add: olr_frame_def)
  have last: "(length pre + 4 + length p = length (pre @ olr_frame p @ xs)
      \<or> length (pre @ olr_frame p @ xs) < length pre + 4 + length p + 4) = (xs = [] \<or> length xs < 4)"
    by auto
  show ?thesis using assms(1,2) assms(3) len payload last
    by (subst olr_events.simps) (simp add: Let_def add.assoc)
qed

lemma olr_events_frames:
  assumes "\<forall>p \<in> set ps. length p < 2 ^ 28" and "partial_frame part" and "length (pre @ frames ps) + 4 \<le> 2 ^ 30"
    and "apply_all g ps w = Some w'"
  shows "\<exists>r st'. olr_events handler (pre @ frames ps @ part) (length pre) cnt ret (st, w) =
     Inr (length (pre @ frames ps), cnt + length ps, r, st', w')"
  using assms
proof (induction ps arbitrary: pre cnt ret st w)
  case Nil
  then show ?case using olr_events_end [of part pre] by auto
next
  case (Cons p ps)
  let ?xs = "frames ps @ part"
  obtain w1 where w1: "g p w = Some w1" "apply_all g ps w1 = Some w'" using Cons.prems(4) by (auto simp: Option.bind_eq_Some_conv)
  obtain r st' where h: "handler p (cnt = 0) (?xs = [] \<or> length ?xs < 4) (st, w) = Inr (r, st', w1)"
    using handler_effect [OF w1(1), of "cnt = 0" "?xs = [] \<or> length ?xs < 4" st] by blast
  have pre: "length pre + 4 \<le> 2 ^ 30" and p: "length p < 2 ^ 28" using Cons.prems by auto
  have "length ((pre @ olr_frame p) @ frames ps) + 4 \<le> 2 ^ 30" using Cons.prems(3) by simp
  then obtain r2 st2 where "olr_events handler ((pre @ olr_frame p) @ frames ps @ part) (length (pre @ olr_frame p)) (cnt + 1) r (st', w1)
      = Inr (length ((pre @ olr_frame p) @ frames ps), cnt + 1 + length ps, r2, st2, w')"
    using Cons.IH [of "pre @ olr_frame p" w1 "cnt + 1" r st'] Cons.prems(1,2) w1(2) by auto
  then show ?case using olr_events_frame [OF p pre h, of ret] by (auto simp del: length_append simp add: add.assoc) 
qed

lemma get_change_step:
  assumes "is_connected c" and "g_offset c = 0" and "partial_frame (g_strinfo c)"
    and "chunk \<noteq> []" and "int (length chunk) \<le> size_limit" and "size_limit \<le> 2 ^ 29"
    and "g_strinfo c @ chunk = frames ps @ part" and "\<forall>p \<in> set ps. length p < 2 ^ 28" and "partial_frame part"
    and "apply_all g ps w = Some w'"
  shows "\<exists>r ne' c' st'. olr_client_get_change size_limit handler
      \<lparr>select_queue = [True], recv_queue = [RecvData chunk]\<rparr> c (st, w) = Inr (r, ne', c', st', w')
    \<and> is_connected c' \<and> g_offset c' = 0 \<and> g_strinfo c' = part"
proof -
  let ?ne = "\<lparr>select_queue = [True], recv_queue = [RecvData chunk]\<rparr>"
  have nn: "size_limit \<noteq> -1" and le: "length chunk \<le> nat size_limit" using assms(4,5) by auto
  have read: "netio_read True ?ne (g_strinfo c) size_limit
      = (int (length chunk), g_strinfo c @ chunk, True, \<lparr>select_queue = [], recv_queue = []\<rparr>)"
    using nn assms(4) netio_loop_chunk [OF le assms(4), of "[]"] by (simp add: netio_read_def)
  have "length (g_strinfo c) < 2 ^ 28 + 4" by (rule partial_frame_length [OF assms(3)])
  moreover have "length (frames ps) \<le> length (g_strinfo c) + length chunk"
    using arg_cong [OF assms(7), of length] by simp
  ultimately have "length (frames ps) + 4 \<le> 2 ^ 30" using assms(5,6) by simp
  then obtain r st' where ev: "olr_events handler (frames ps @ part) 0 0 (-1) (st, w)
      = Inr (length (frames ps), length ps, r, st', w')"
    using olr_events_frames [OF assms(8,9), of "[]" w w' 0 "-1" st] assms(10) by auto
  have pos: "0 < int (length chunk)" using assms(4) by simp
  show ?thesis
    using assms(1,2) read ev pos assms(7)
    by (auto simp: olr_client_get_change_def Let_def)
qed

text \<open>A sequence of calls, one for each chunk that arrives.\<close>

lemma olr_run_frames:
  assumes "is_connected c" and "g_offset c = 0" and "partial_frame (g_strinfo c)"
    and "g_strinfo c @ concat chunks = frames ps" and "\<forall>p \<in> set ps. length p < 2 ^ 28"
    and "\<forall>chunk \<in> set chunks. chunk \<noteq> [] \<and> int (length chunk) \<le> size_limit" and "size_limit \<le> 2 ^ 29"
    and "apply_all g ps w = Some w'"
  shows "\<exists>c' st'. olr_run size_limit handler chunks c (st, w) = Inr (c', st', w')
    \<and> is_connected c' \<and> g_offset c' = 0 \<and> g_strinfo c' = []"
  using assms
proof (induction chunks arbitrary: c st w ps)
  case Nil
  from cut_frames [of "g_strinfo c" "[]" ps] Nil.prems have ps: "g_strinfo c = frames ps" by simp
  have "ps = []"
  proof (cases ps)
    case (Cons p qs)
    then have "4 \<le> length (g_strinfo c)" using ps by simp
    from partial_frame_header [OF Nil.prems(3) this] obtain n where
      n: "int32_le (take 4 (g_strinfo c)) = int n" "length (g_strinfo c) < 4 + n" .
    have "int32_le (take 4 (g_strinfo c)) = int (length p)"
      using Cons ps int32_le_olr_frame [of p "frames qs"] Nil.prems(5) by simp
    then show ?thesis using n ps Cons by simp
  qed simp
  then show ?case using Nil.prems ps by simp
next
  case (Cons chunk chunks)
  have "(g_strinfo c @ chunk) @ concat chunks = frames ps" using Cons.prems(4) by simp
  from cut_frames [OF this Cons.prems(5)] obtain ps1 ps2 part where cut: "ps = ps1 @ ps2"
    "g_strinfo c @ chunk = frames ps1 @ part" "partial_frame part" "part @ concat chunks = frames ps2" by blast
  have ps1: "\<forall>p \<in> set ps1. length p < 2 ^ 28" and ps2: "\<forall>p \<in> set ps2. length p < 2 ^ 28"
    using Cons.prems(5) cut(1) by auto
  have ch: "chunk \<noteq> []" "int (length chunk) \<le> size_limit" using Cons.prems(6) by auto
  obtain w1 where w1: "apply_all g ps1 w = Some w1" "apply_all g ps2 w1 = Some w'"
    using Cons.prems(8) by (auto simp: cut(1) apply_all_append Option.bind_eq_Some_conv)
  from get_change_step [OF Cons.prems(1-3) ch Cons.prems(7) cut(2) ps1 cut(3) w1(1), of st]
  obtain r ne' c1 st1 where one: "olr_client_get_change size_limit handler
      \<lparr>select_queue = [True], recv_queue = [RecvData chunk]\<rparr> c (st, w) = Inr (r, ne', c1, st1, w1)"
    and c1: "is_connected c1" "g_offset c1 = 0" "g_strinfo c1 = part" by blast
  have "\<exists>c' st'. olr_run size_limit handler chunks c1 (st1, w1) = Inr (c', st', w')
      \<and> is_connected c' \<and> g_offset c' = 0 \<and> g_strinfo c' = []"
    using Cons.prems(6,7) c1 cut ps2 w1(2) by (intro Cons.IH) auto
  then show ?case using one by auto
qed

end

text \<open>
  C34: The system change numbers survive a restart: after a forced (or due) flush of one process, another process
  that initialises its client from the same offset file resumes at exactly the three numbers written, and the rest
  of its state is untouched. Only that file changes.
\<close>

theorem scn_state_roundtrip:
  assumes "olr_client_write_scn_state writable now interval type name dstdb force c fs = Inr (True, c', fs')"
  shows "olr_client_init_scn_state type name dstdb c0 fs' =
      Inr (True, c0\<lparr>g_scn := g_scn c, g_c_scn := g_c_scn c, g_c_idx := g_c_idx c\<rparr>)
    \<and> (\<forall>f. f \<noteq> offset_file type name dstdb \<longrightarrow> fs' f = fs f)"
  using assms
  by (auto simp: olr_client_write_scn_state_def olr_client_init_scn_state_def split: if_splits)

theorem scn_state_roundtrip_witness:
  "olr_client_init_scn_state TYPE_OLR ''c1'' ''db'' olr_client0
      [offset_file TYPE_OLR ''c1'' ''db'' \<mapsto> enc_word64_le 7 @ enc_word64_le 9 @ enc_word64_le 0] =
    Inr (True, olr_client0\<lparr>g_scn := 7, g_c_scn := 9, g_c_idx := 0\<rparr>)"
  using scn_state_roundtrip [of True 5 1000 TYPE_OLR "''c1''" "''db''" True "olr_client0\<lparr>g_scn := 7, g_c_scn := 9\<rparr>"
      Map.empty "olr_client0\<lparr>g_scn := 7, g_c_scn := 9, last_flush_time := 5\<rparr>"
      "[offset_file TYPE_OLR ''c1'' ''db'' \<mapsto> enc_word64_le 7 @ enc_word64_le 9 @ enc_word64_le 0]" olr_client0]
  by (simp add: olr_client_write_scn_state_def olr_client0_def)

text \<open>
  The offset that \<^verbatim>\<open>synchdb_get_state\<close> displays for an Openlog connector can be given back to
  \<^verbatim>\<open>synchdb_set_offset\<close>: parsing the displayed text succeeds and sets the numbers it was printed from. A number
  that is zero is the exception: it leaves the previous value in place, so an index of zero cannot be restored.
\<close>

theorem offset_text_roundtrip:
  "fst (olr_set_offset_from_raw (olr_offset_text c) c0) = 0
   \<and> g_scn (snd (olr_set_offset_from_raw (olr_offset_text c) c0)) = (if g_scn c = 0 then g_scn c0 else g_scn c)
   \<and> g_c_scn (snd (olr_set_offset_from_raw (olr_offset_text c) c0)) = (if g_c_scn c = 0 then g_c_scn c0 else g_c_scn c)
   \<and> g_c_idx (snd (olr_set_offset_from_raw (olr_offset_text c) c0)) = (if g_c_idx c = 0 then g_c_idx c0 else g_c_idx c)"
  by (simp add: olr_set_offset_from_raw_def scan_scn scan_c_scn scan_c_idx olr_client_set_scns_def word_gt_0)

end
