(* ===== verification/Conn_Shm.thy ===== *)
theory Conn_Shm
  imports OLR_Client
begin

text \<open>
  The shared memory of the connectors (\<^verbatim>\<open>src/backend/synchdb/synchdb.c\<close>): the array of
  \<^verbatim>\<open>ActiveConnectors\<close>, its accessors, the assignment of slots to connector names, and the SQL functions
  that start, stop and control a connector by posting a request in its slot. Shared memory that is not
  attached (\<^verbatim>\<open>sdb_state\<close> is null) is \<open>None\<close>. Connector identifiers are list indices; the functions that
  produce them return an index of the array or nothing (\<^verbatim>\<open>-1\<close>). Each accessor takes the lock around one
  read or write, so an accessor is one atomic step.
\<close>

section \<open>Data\<close>

record ExtraConnectionInfo =
  ex_ssl_mode :: string
  ex_ssl_keystore :: string
  ex_ssl_keystore_pass :: string
  ex_ssl_truststore :: string
  ex_ssl_truststore_pass :: string

record JMXConnectionInfo =
  jx_listenaddr :: string
  jx_port :: nat
  jx_rmiserveraddr :: string
  jx_rmiport :: nat
  jx_auth :: bool
  jx_auth_passwdfile :: string
  jx_auth_accessfile :: string
  jx_ssl :: bool
  jx_ssl_keystore :: string
  jx_ssl_keystore_pass :: string
  jx_ssl_truststore :: string
  jx_ssl_truststore_pass :: string
  jx_exporter :: string
  jx_exporter_port :: nat
  jx_exporter_conf :: string

record FdwConnectionInfo =
  fd_ssl_cert :: string
  fd_ssl_key :: string
  fd_ssl_rootcert :: string
  fd_ssl_cipher :: string

record IspnInfo =
  is_cache_type :: string
  is_memory_type :: string
  is_memory_size :: nat

record OLRConnectionInfo =
  ol_host :: string
  ol_port :: nat
  ol_source :: string

record OffsetData =
  od_type :: ConnectorType
  od_binlog_file :: string
  od_binlog_pos :: "64 word"
  od_server_id :: string
  od_oracle_scn :: "64 word"
  od_lsn :: "64 word"

record ConnectionInfo =
  ci_name :: string
  ci_hostname :: string
  ci_port :: nat
  ci_user :: string
  ci_pwd :: string
  ci_srcdb :: string
  ci_srcschema :: string
  ci_dstdb :: string
  ci_table :: string
  ci_snapshottable :: string
  ci_active :: bool
  ci_flag :: "32 word"
  ci_isOraCompat :: bool
  ci_extra :: ExtraConnectionInfo
  ci_jmx :: JMXConnectionInfo
  ci_olr :: OLRConnectionInfo
  ci_fdw :: FdwConnectionInfo
  ci_ispn :: IspnInfo
  ci_snapengine :: SnapshotEngine
  ci_offsetdata :: OffsetData

record SynchdbRequest =
  reqstate :: ConnectorState
  reqdata :: string
  reqconninfo :: ConnectionInfo

record ActiveConnectors =
  ac_pid :: int
  ac_state :: ConnectorState
  ac_stage :: ConnectorStage
  ac_type :: ConnectorType
  ac_req :: SynchdbRequest
  ac_errmsg :: string
  ac_dbzoffset :: string
  ac_snapshotMode :: string
  ac_conninfo :: ConnectionInfo
  ac_stats :: SynchdbStatistics

type_synonym shm = "ActiveConnectors list option"

definition InvalidPid :: int where "InvalidPid = -1"

definition zero_conninfo :: ConnectionInfo where
  "zero_conninfo = \<lparr>ci_name = [], ci_hostname = [], ci_port = 0, ci_user = [], ci_pwd = [], ci_srcdb = [],
     ci_srcschema = [], ci_dstdb = [], ci_table = [], ci_snapshottable = [], ci_active = False, ci_flag = 0,
     ci_isOraCompat = False,
     ci_extra = \<lparr>ex_ssl_mode = [], ex_ssl_keystore = [], ex_ssl_keystore_pass = [], ex_ssl_truststore = [],
       ex_ssl_truststore_pass = []\<rparr>,
     ci_jmx = \<lparr>jx_listenaddr = [], jx_port = 0, jx_rmiserveraddr = [], jx_rmiport = 0, jx_auth = False,
       jx_auth_passwdfile = [], jx_auth_accessfile = [], jx_ssl = False, jx_ssl_keystore = [],
       jx_ssl_keystore_pass = [], jx_ssl_truststore = [], jx_ssl_truststore_pass = [], jx_exporter = [],
       jx_exporter_port = 0, jx_exporter_conf = []\<rparr>,
     ci_olr = \<lparr>ol_host = [], ol_port = 0, ol_source = []\<rparr>,
     ci_fdw = \<lparr>fd_ssl_cert = [], fd_ssl_key = [], fd_ssl_rootcert = [], fd_ssl_cipher = []\<rparr>,
     ci_ispn = \<lparr>is_cache_type = [], is_memory_type = [], is_memory_size = 0\<rparr>, ci_snapengine = ENGINE_DEBEZIUM,
     ci_offsetdata = \<lparr>od_type = TYPE_UNDEF, od_binlog_file = [], od_binlog_pos = 0, od_server_id = [],
       od_oracle_scn = 0, od_lsn = 0\<rparr>\<rparr>"

text \<open>A slot after \<^verbatim>\<open>memset\<close> to zero and the assignments that follow it.\<close>

definition free_slot :: ActiveConnectors where
  "free_slot = \<lparr>ac_pid = InvalidPid, ac_state = STATE_UNDEF, ac_stage = STAGE_UNDEF, ac_type = TYPE_UNDEF,
     ac_req = \<lparr>reqstate = STATE_UNDEF, reqdata = [], reqconninfo = zero_conninfo\<rparr>, ac_errmsg = [], ac_dbzoffset = [],
     ac_snapshotMode = [], ac_conninfo = zero_conninfo, ac_stats = zero_stats\<rparr>"

section \<open>Accessors\<close>

definition slot :: "shm \<Rightarrow> nat \<Rightarrow> ActiveConnectors" where
  "slot s i = the s ! i"

definition upd_slot :: "nat \<Rightarrow> (ActiveConnectors \<Rightarrow> ActiveConnectors) \<Rightarrow> shm \<Rightarrow> shm" where
  "upd_slot i f s = map_option (\<lambda>cs. cs[i := f (cs ! i)]) s"

definition synchdb_init_shmem :: "nat \<Rightarrow> shm \<Rightarrow> shm" where
  "synchdb_init_shmem synchdb_max_connector_workers s =
     (case s of None \<Rightarrow> Some (replicate synchdb_max_connector_workers free_slot) | Some cs \<Rightarrow> Some cs)"

definition get_shm_connector_pid :: "shm \<Rightarrow> nat \<Rightarrow> int" where
  "get_shm_connector_pid s i = (if s = None then InvalidPid else ac_pid (slot s i))"

definition set_shm_connector_pid :: "nat \<Rightarrow> int \<Rightarrow> shm \<Rightarrow> shm" where
  "set_shm_connector_pid i pid = upd_slot i (\<lambda>c. c\<lparr>ac_pid := pid\<rparr>)"

definition get_shm_connector_errmsg :: "shm \<Rightarrow> nat \<Rightarrow> string" where
  "get_shm_connector_errmsg s i =
     (if s = None then ''no error'' else if ac_errmsg (slot s i) \<noteq> [] then ac_errmsg (slot s i) else ''no error'')"

definition set_shm_connector_errmsg :: "nat \<Rightarrow> string option \<Rightarrow> shm \<Rightarrow> shm" where
  "set_shm_connector_errmsg i err =
     upd_slot i (\<lambda>c. c\<lparr>ac_errmsg := strlcpy SYNCHDB_ERRMSG_SIZE (case err of None \<Rightarrow> [] | Some e \<Rightarrow> e)\<rparr>)"

definition get_shm_connector_stage_enum :: "shm \<Rightarrow> nat \<Rightarrow> ConnectorStage" where
  "get_shm_connector_stage_enum s i = (if s = None then STAGE_UNDEF else ac_stage (slot s i))"

definition get_shm_connector_stage :: "shm \<Rightarrow> nat \<Rightarrow> string" where
  "get_shm_connector_stage s i =
     (if s = None then ''unknown''
      else case ac_stage (slot s i) of
             STAGE_INITIAL_SNAPSHOT \<Rightarrow> ''initial snapshot''
           | STAGE_CHANGE_DATA_CAPTURE \<Rightarrow> ''change data capture''
           | STAGE_SCHEMA_SYNC \<Rightarrow> ''schema sync''
           | STAGE_UNDEF \<Rightarrow> ''unknown'')"

definition set_shm_connector_stage :: "nat \<Rightarrow> ConnectorStage \<Rightarrow> shm \<Rightarrow> shm" where
  "set_shm_connector_stage i stage = upd_slot i (\<lambda>c. c\<lparr>ac_stage := stage\<rparr>)"

definition get_shm_connector_type_enum :: "shm \<Rightarrow> nat \<Rightarrow> ConnectorType" where
  "get_shm_connector_type_enum s i = (if s = None then TYPE_UNDEF else ac_type (slot s i))"

definition connectorStateAsString :: "ConnectorState \<Rightarrow> string" where
  "connectorStateAsString state = (case state of
       STATE_UNDEF \<Rightarrow> ''stopped'' | STATE_STOPPED \<Rightarrow> ''stopped'' | STATE_INITIALIZING \<Rightarrow> ''initializing''
     | STATE_PAUSED \<Rightarrow> ''paused'' | STATE_SYNCING \<Rightarrow> ''polling'' | STATE_PARSING \<Rightarrow> ''parsing''
     | STATE_CONVERTING \<Rightarrow> ''converting'' | STATE_EXECUTING \<Rightarrow> ''executing''
     | STATE_OFFSET_UPDATE \<Rightarrow> ''updating offset'' | STATE_RESTARTING \<Rightarrow> ''restarting''
     | STATE_MEMDUMP \<Rightarrow> ''dumping memory'' | STATE_SCHEMA_SYNC_DONE \<Rightarrow> ''schema sync''
     | STATE_RELOAD_OBJMAP \<Rightarrow> ''reloading objmap''
     | STATE_DBZ_LOGLEVEL_UPDATE \<Rightarrow> ''updating dbz log level'')"

definition get_shm_connector_state :: "shm \<Rightarrow> nat \<Rightarrow> string" where
  "get_shm_connector_state s i = (if s = None then ''stopped'' else connectorStateAsString (ac_state (slot s i)))"

definition get_shm_connector_state_enum :: "shm \<Rightarrow> nat \<Rightarrow> ConnectorState" where
  "get_shm_connector_state_enum s i = (if s = None then STATE_UNDEF else ac_state (slot s i))"

definition set_shm_connector_state :: "nat \<Rightarrow> ConnectorState \<Rightarrow> shm \<Rightarrow> shm" where
  "set_shm_connector_state i state = upd_slot i (\<lambda>c. c\<lparr>ac_state := state\<rparr>)"

text \<open>\<open>dbz_offset\<close> is what \<^verbatim>\<open>dbz_engine_get_offset\<close> returned, \<open>None\<close> for null.\<close>

definition set_shm_dbz_offset :: "config \<Rightarrow> string option \<Rightarrow> olr_client \<Rightarrow> nat \<Rightarrow> shm \<Rightarrow> shm" where
  "set_shm_dbz_offset cfg dbz_offset c i s =
     (if s = None then s
      else case (if with_olr cfg \<and> ac_type (slot s i) = TYPE_OLR then Some (olr_offset_text c) else dbz_offset) of
             None \<Rightarrow> s
           | Some offset \<Rightarrow> upd_slot i (\<lambda>c. c\<lparr>ac_dbzoffset := strlcpy SYNCHDB_ERRMSG_SIZE offset\<rparr>) s)"

definition get_shm_dbz_offset :: "shm \<Rightarrow> nat \<Rightarrow> string" where
  "get_shm_dbz_offset s i =
     (if s = None then ''n/a'' else if ac_dbzoffset (slot s i) \<noteq> [] then ac_dbzoffset (slot s i) else ''no offset'')"

definition get_shm_connector_name_by_id :: "shm \<Rightarrow> nat \<Rightarrow> string" where
  "get_shm_connector_name_by_id s i =
     (if s = None then ''n/a''
      else if ci_name (ac_conninfo (slot s i)) \<noteq> [] then ci_name (ac_conninfo (slot s i)) else ''no name'')"

definition get_shm_connector_user_by_id :: "shm \<Rightarrow> nat \<Rightarrow> string" where
  "get_shm_connector_user_by_id s i =
     (if s = None then ''n/a''
      else if ci_user (ac_conninfo (slot s i)) \<noteq> [] then ci_user (ac_conninfo (slot s i)) else ''no user'')"

definition get_shm_ora_compat :: "shm \<Rightarrow> nat \<Rightarrow> bool" where
  "get_shm_ora_compat s i = (if s = None then False else ci_isOraCompat (ac_conninfo (slot s i)))"

definition reset_shm_request_state :: "nat \<Rightarrow> shm \<Rightarrow> shm" where
  "reset_shm_request_state i =
     upd_slot i (\<lambda>c. c\<lparr>ac_req := (ac_req c)\<lparr>reqstate := STATE_UNDEF, reqdata := []\<rparr>\<rparr>)"

definition set_shm_connector_statistics :: "nat \<Rightarrow> SynchdbStatistics \<Rightarrow> shm \<Rightarrow> shm" where
  "set_shm_connector_statistics i stats = upd_slot i (\<lambda>c. c\<lparr>ac_stats := add_statistics (ac_stats c) stats\<rparr>)"

definition set_shm_connector_snapshot_statistics :: "nat \<Rightarrow> SnapshotStatistics \<Rightarrow> shm \<Rightarrow> shm" where
  "set_shm_connector_snapshot_statistics i snap =
     upd_slot i (\<lambda>c. c\<lparr>ac_stats := (ac_stats c)\<lparr>snapstats := add_snapshot_statistics (snapstats (ac_stats c)) snap\<rparr>\<rparr>)"

declare slot_def [shm_defs] upd_slot_def [shm_defs] get_shm_connector_pid_def [shm_defs]
  set_shm_connector_pid_def [shm_defs] set_shm_connector_errmsg_def [shm_defs]
  get_shm_connector_stage_enum_def [shm_defs] set_shm_connector_stage_def [shm_defs]
  get_shm_connector_type_enum_def [shm_defs] get_shm_connector_state_enum_def [shm_defs]
  set_shm_connector_state_def [shm_defs] set_shm_dbz_offset_def [shm_defs]
  reset_shm_request_state_def [shm_defs] set_shm_connector_statistics_def [shm_defs]

section \<open>The interface of an array of slots\<close>

locale slot_store =
  fixes look :: "'s \<Rightarrow> nat \<Rightarrow> 'a" and upd :: "nat \<Rightarrow> ('a \<Rightarrow> 'a) \<Rightarrow> 's \<Rightarrow> 's" and valid :: "'s \<Rightarrow> nat \<Rightarrow> bool"
  assumes look_upd_same: "valid s i \<Longrightarrow> look (upd i f s) i = f (look s i)"
    and look_upd_other: "i \<noteq> j \<Longrightarrow> look (upd i f s) j = look s j"
    and valid_upd: "valid (upd i f s) j = valid s j"
begin

lemma look_upd: "valid s i \<Longrightarrow> look (upd i f s) j = (if i = j then f (look s i) else look s j)"
  by (cases "i = j") (simp_all add: look_upd_same look_upd_other)

lemma all_slots_upd:
  assumes "\<And>j. valid s j \<Longrightarrow> P (look s j)" and "valid s i \<Longrightarrow> P (f (look s i))" and "valid (upd i f s) j"
  shows "P (look (upd i f s) j)"
  using assms look_upd_same [of s i f] look_upd_other [of i j f s] valid_upd [of i f s j] by (cases "i = j") auto

lemma unchanged_upd: "valid s i \<Longrightarrow> (\<And>a. P (f a) = P a) \<Longrightarrow> P (look (upd i f s) j) = P (look s j)"
  by (simp add: look_upd)

end

definition valid_slot :: "shm \<Rightarrow> nat \<Rightarrow> bool" where
  "valid_slot s i \<longleftrightarrow> s \<noteq> None \<and> i < length (the s)"

interpretation shm: slot_store slot upd_slot valid_slot
proof unfold_locales
  show "i \<noteq> j \<Longrightarrow> slot (upd_slot i f s) j = slot s j" for i j f s
    by (cases s) (simp_all add: slot_def upd_slot_def)
qed (auto simp: slot_def upd_slot_def valid_slot_def)

lemmas slot_upd_slot [simp] = shm.look_upd
lemmas valid_upd_slot [simp] = shm.valid_upd

lemma upd_slot_None_iff [simp]: "upd_slot i f s = None \<longleftrightarrow> s = None"
  by (simp add: upd_slot_def)

lemma valid_slotD [dest]: "valid_slot s i \<Longrightarrow> s \<noteq> None"
  by (simp add: valid_slot_def)

section \<open>Slots and connector names\<close>

definition same_connector :: "ConnectionInfo \<Rightarrow> string \<Rightarrow> string \<Rightarrow> bool" where
  "same_connector ci name dstdb \<longleftrightarrow> strcaseeq (ci_name ci) name \<and> strcaseeq (ci_dstdb ci) dstdb"

definition first_slot :: "(ActiveConnectors \<Rightarrow> bool) \<Rightarrow> ActiveConnectors list \<Rightarrow> nat option" where
  "first_slot p cs = find (\<lambda>i. p (cs ! i)) [0..<length cs]"

definition assign_connector_id :: "ActiveConnectors list \<Rightarrow> string \<Rightarrow> string \<Rightarrow> nat option" where
  "assign_connector_id cs name dstdb =
     (case first_slot (\<lambda>c. same_connector (ac_conninfo c) name dstdb) cs of
        Some i \<Rightarrow> Some i
      | None \<Rightarrow>
          (case first_slot (\<lambda>c. ac_state c = STATE_UNDEF \<and> ci_name (ac_conninfo c) = [] \<and> ci_dstdb (ac_conninfo c) = []) cs of
             Some i \<Rightarrow> Some i
           | None \<Rightarrow> first_slot (\<lambda>c. ac_state c = STATE_UNDEF) cs))"

definition get_shm_connector_id_by_name :: "shm \<Rightarrow> string \<Rightarrow> string \<Rightarrow> nat option" where
  "get_shm_connector_id_by_name s name dstdb =
     (case s of None \<Rightarrow> None
      | Some cs \<Rightarrow> first_slot (\<lambda>c. ci_name (ac_conninfo c) = name \<and> ci_dstdb (ac_conninfo c) = dstdb) cs)"

definition has_running_connectors_for_db :: "pg_lib \<Rightarrow> shm \<Rightarrow> string \<Rightarrow> string option" where
  "has_running_connectors_for_db L s dbname =
     (case s of None \<Rightarrow> None
      | Some cs \<Rightarrow> map_option (\<lambda>i. ci_name (ac_conninfo (cs ! i)))
          (first_slot (\<lambda>c. ac_pid c \<noteq> InvalidPid \<and> ac_state c \<noteq> STATE_UNDEF \<and> ac_state c \<noteq> STATE_STOPPED
             \<and> ci_dstdb (ac_conninfo c) \<noteq> []
             \<and> map (pg_tolower L) (ci_dstdb (ac_conninfo c)) = map (pg_tolower L) dbname) cs))"

lemma first_slot_Some: "first_slot p cs = Some i \<Longrightarrow> i < length cs \<and> p (cs ! i) \<and> (\<forall>j < i. \<not> p (cs ! j))"
  unfolding first_slot_def by (auto simp: find_Some_iff simp del: upt_conv_Nil upt_rec_numeral)

lemma first_slot_None: "first_slot p cs = None \<longleftrightarrow> (\<forall>i < length cs. \<not> p (cs ! i))"
  by (auto simp: first_slot_def find_None_iff)

lemma first_slot_unique:
  assumes "i < length cs" and "p (cs ! i)" and "\<And>j. j < length cs \<Longrightarrow> p (cs ! j) \<Longrightarrow> j = i"
  shows "first_slot p cs = Some i"
proof (cases "first_slot p cs")
  case None
  then show ?thesis using assms first_slot_None by blast
next
  case (Some j)
  then show ?thesis using assms(3) [of j] first_slot_Some [OF Some] by simp
qed

lemma strcaseeq_sym: "strcaseeq a b \<longleftrightarrow> strcaseeq b a"
  by (auto simp: strcaseeq_def)

lemma strcaseeq_trans: "strcaseeq a b \<Longrightarrow> strcaseeq b c \<Longrightarrow> strcaseeq a c"
  by (simp add: strcaseeq_def)

lemma strcaseeq_Nil [simp]: "strcaseeq [] b \<longleftrightarrow> b = []" "strcaseeq a [] \<longleftrightarrow> a = []"
  by (auto simp: strcaseeq_def)

text \<open>What an assigned slot was before: the connector's own slot, or one whose worker is not running.\<close>

lemma assign_connector_id_Some:
  assumes "assign_connector_id cs name dstdb = Some i"
  shows "i < length cs" and "same_connector (ac_conninfo (cs ! i)) name dstdb \<or>
     (ac_state (cs ! i) = STATE_UNDEF \<and> (\<forall>j < length cs. \<not> same_connector (ac_conninfo (cs ! j)) name dstdb))"
  using assms
  by (auto simp: assign_connector_id_def first_slot_None split: option.splits dest: first_slot_Some)

section \<open>Connector flags\<close>

text \<open>
  The macros of \<^verbatim>\<open>synchdb.h\<close> expand to unparenthesised shifts. Where a flag is tested or set this is the
  intended bit; a complement \<^verbatim>\<open>~CONNFLAG_X\<close> expands to \<^verbatim>\<open>~1 << k\<close>, the complement of 1 shifted, whose
  \<open>k\<close> low bits are zero too.
\<close>

definition CONNFLAG_SCHEMA_SYNC_MODE :: "32 word" where
  "CONNFLAG_SCHEMA_SYNC_MODE = push_bit 0 1"

definition CONNFLAG_NO_CDC_MODE :: "32 word" where
  "CONNFLAG_NO_CDC_MODE = push_bit 1 1"

definition CONNFLAG_INITIAL_SNAPSHOT_MODE :: "32 word" where
  "CONNFLAG_INITIAL_SNAPSHOT_MODE = push_bit 2 1"

definition not_CONNFLAG_SCHEMA_SYNC_MODE :: "32 word" where
  "not_CONNFLAG_SCHEMA_SYNC_MODE = push_bit 0 (NOT 1)"

definition not_CONNFLAG_INITIAL_SNAPSHOT_MODE :: "32 word" where
  "not_CONNFLAG_INITIAL_SNAPSHOT_MODE = push_bit 2 (NOT 1)"

definition has_flag :: "ConnectionInfo \<Rightarrow> 32 word \<Rightarrow> bool" where
  "has_flag ci f \<longleftrightarrow> ci_flag ci AND f \<noteq> 0"

section \<open>Starting and stopping\<close>

text \<open>
  What a backend that calls the SQL functions finds around it: \<open>be_conninfo\<close> is the row of
  \<^verbatim>\<open>synchdb_conninfo\<close> that \<^verbatim>\<open>ra_getConninfoByName\<close> reads, \<open>be_dbname\<close> the current database,
  \<open>be_compat\<close> the setting \<^verbatim>\<open>ivorysql.compatible_mode\<close>; \<open>be_registered\<close> and \<open>be_started\<close> say whether the
  server could register and start a background worker. A function returns the shared memory, which keeps
  its changes when an error is raised, and the commands it ran or the error.
\<close>

record backend_env =
  be_workers :: nat
  be_conninfo :: "string \<Rightarrow> (ConnectionInfo \<times> string) option"
  be_dbname :: string
  be_compat :: "string option"
  be_registered :: bool
  be_started :: bool

definition pg_err :: "string \<Rightarrow> 'a res" where
  "pg_err msg = Inl (PgError None msg)"

definition prepare_bgw :: "backend_env \<Rightarrow> ConnectionInfo \<Rightarrow> string \<Rightarrow> nat \<Rightarrow> string \<Rightarrow> shm \<Rightarrow> shm \<times> unit res" where
  "prepare_bgw E connInfo connector i snapshotMode s =
     (case fc_get_connector_type connector of
        Inl e \<Rightarrow> (s, Inl e)
      | Inr type \<Rightarrow>
          if SYNCHDB_SNAPSHOT_MODE_SIZE \<le> length snapshotMode then (s, Inl (Undefined ''strcpy past snapshotMode''))
          else (upd_slot i (\<lambda>c. c\<lparr>ac_type := type, ac_snapshotMode := snapshotMode,
                  ac_conninfo := (if be_compat E \<noteq> None \<and> strcaseeq (the (be_compat E)) ''oracle''
                                  then connInfo\<lparr>ci_isOraCompat := True\<rparr> else connInfo)\<rparr>) s, Inr ()))"

definition activate_command :: "string \<Rightarrow> string \<Rightarrow> string" where
  "activate_command value name =
     ''UPDATE synchdb_conninfo set isactive = '' @ value @ '' WHERE name = '' @ [CHR 0x27] @ name @ [CHR 0x27]"

text \<open>The common body of the two start functions, after the snapshot mode has been decided.\<close>

definition start_engine ::
  "config \<Rightarrow> backend_env \<Rightarrow> string \<Rightarrow> ConnectionInfo \<Rightarrow> string \<Rightarrow> string \<Rightarrow> shm \<Rightarrow> shm \<times> string list res" where
  "start_engine cfg E name connInfo connector snapshotMode s0 =
     (if with_olr cfg \<and> fc_get_connector_type connector = Inr TYPE_OLR
         \<and> (ol_host (ci_olr connInfo) = [] \<or> ol_source (ci_olr connInfo) = [] \<or> ol_port (ci_olr connInfo) = 0)
      then (s0, pg_err ''OLR conninfo is missing'')
      else let s = synchdb_init_shmem (be_workers E) s0
           in case assign_connector_id (the s) (ci_name connInfo) (ci_dstdb connInfo) of
                None \<Rightarrow> (s, pg_err ''max number of connectors reached'')
              | Some i \<Rightarrow>
                  (case prepare_bgw E connInfo connector i snapshotMode s of
                     (s1, Inl e) \<Rightarrow> (s1, Inl e)
                   | (s1, Inr _) \<Rightarrow>
                       if \<not> be_registered E then (s1, pg_err ''could not register background process'')
                       else if \<not> be_started E then (s1, pg_err ''could not start background process'')
                       else (s1, Inr [activate_command ''true'' name])))"

definition synchdb_start_engine_bgw_snapshot_mode ::
  "config \<Rightarrow> backend_env \<Rightarrow> string \<Rightarrow> string \<Rightarrow> shm \<Rightarrow> shm \<times> string list res" where
  "synchdb_start_engine_bgw_snapshot_mode cfg E name snapshotmode s =
     (case be_conninfo E name of
        None \<Rightarrow> (s, pg_err ''connection name does not exist'')
      | Some (connInfo, connector) \<Rightarrow>
          if strcaseeq snapshotmode ''schemasync''
          then start_engine cfg E name (connInfo\<lparr>ci_flag := ci_flag connInfo OR CONNFLAG_SCHEMA_SYNC_MODE\<rparr>) connector ''no_data'' s
          else start_engine cfg E name connInfo connector snapshotmode s)"

definition synchdb_start_engine_bgw :: "config \<Rightarrow> backend_env \<Rightarrow> string \<Rightarrow> shm \<Rightarrow> shm \<times> string list res" where
  "synchdb_start_engine_bgw cfg E name s =
     (case be_conninfo E name of
        None \<Rightarrow> (s, pg_err ''connection name does not exist'')
      | Some (connInfo, connector) \<Rightarrow> start_engine cfg E name connInfo connector ''initial'' s)"

text \<open>The slot of a named connector, as every control function looks it up.\<close>

definition connector_slot :: "backend_env \<Rightarrow> string \<Rightarrow> shm \<Rightarrow> nat res" where
  "connector_slot E name s =
     (case get_shm_connector_id_by_name s name (be_dbname E) of
        None \<Rightarrow> pg_err ''dbz connector does not have connector ID assigned'' | Some i \<Rightarrow> Inr i)"

text \<open>\<open>terminated\<close> lists the processes that were sent a termination request.\<close>

definition synchdb_stop_engine_bgw :: "backend_env \<Rightarrow> string \<Rightarrow> shm \<Rightarrow> shm \<times> int list \<times> string list res" where
  "synchdb_stop_engine_bgw E name s0 =
     (let s = synchdb_init_shmem (be_workers E) s0
      in case connector_slot E name s of
           Inl e \<Rightarrow> (s, [], Inl e)
         | Inr i \<Rightarrow>
             if get_shm_connector_pid s i \<noteq> InvalidPid
             then (set_shm_connector_pid i InvalidPid s, [get_shm_connector_pid s i], Inr [activate_command ''false'' name])
             else (s, [], pg_err ''dbz connector is not running''))"

section \<open>Requests\<close>

text \<open>
  A control function checks, without holding the lock, that the connector runs and that no request is
  pending, and then writes its request under the lock. The two halves are \<open>request_check\<close> and
  \<open>post_request\<close>.
\<close>

definition request_check :: "backend_env \<Rightarrow> string \<Rightarrow> (ActiveConnectors \<Rightarrow> unit res) \<Rightarrow> shm \<Rightarrow> nat res" where
  "request_check E name guard s =
     rbind (connector_slot E name s) (\<lambda>i.
       if get_shm_connector_pid s i = InvalidPid then pg_err ''dbz connector is not running''
       else rbind (guard (slot s i)) (\<lambda>_.
         if reqstate (ac_req (slot s i)) \<noteq> STATE_UNDEF then pg_err ''an active request is currently active for connector''
         else Inr i))"

definition post_request :: "nat \<Rightarrow> (SynchdbRequest \<Rightarrow> SynchdbRequest) \<Rightarrow> shm \<Rightarrow> shm" where
  "post_request i f = upd_slot i (\<lambda>c. c\<lparr>ac_req := f (ac_req c)\<rparr>)"

definition send_request ::
  "backend_env \<Rightarrow> string \<Rightarrow> (ActiveConnectors \<Rightarrow> unit res) \<Rightarrow> (SynchdbRequest \<Rightarrow> SynchdbRequest) \<Rightarrow> shm \<Rightarrow> shm \<times> unit res" where
  "send_request E name guard f s0 =
     (let s = synchdb_init_shmem (be_workers E) s0
      in case request_check E name guard s of Inl e \<Rightarrow> (s, Inl e) | Inr i \<Rightarrow> (post_request i f s, Inr ()))"

definition no_guard :: "ActiveConnectors \<Rightarrow> unit res" where
  "no_guard c = Inr ()"

definition paused_guard :: "ActiveConnectors \<Rightarrow> unit res" where
  "paused_guard c = (if ac_state c \<noteq> STATE_PAUSED then pg_err ''dbz connector is not in paused state.'' else Inr ())"

definition synchdb_pause_engine :: "backend_env \<Rightarrow> string \<Rightarrow> shm \<Rightarrow> shm \<times> unit res" where
  "synchdb_pause_engine E name = send_request E name no_guard (\<lambda>r. r\<lparr>reqstate := STATE_PAUSED\<rparr>)"

definition synchdb_resume_engine :: "backend_env \<Rightarrow> string \<Rightarrow> shm \<Rightarrow> shm \<times> unit res" where
  "synchdb_resume_engine E name = send_request E name no_guard (\<lambda>r. r\<lparr>reqstate := STATE_SYNCING\<rparr>)"

text \<open>\<^verbatim>\<open>strncpy\<close> with the full size of the buffer: a text of 256 characters or more is not terminated.\<close>

definition synchdb_set_offset :: "backend_env \<Rightarrow> string \<Rightarrow> string \<Rightarrow> shm \<Rightarrow> shm \<times> unit res" where
  "synchdb_set_offset E name offsetstr = send_request E name paused_guard
     (\<lambda>r. r\<lparr>reqstate := STATE_OFFSET_UPDATE, reqdata := take SYNCHDB_ERRMSG_SIZE offsetstr\<rparr>)"

definition synchdb_restart_connector :: "backend_env \<Rightarrow> string \<Rightarrow> string \<Rightarrow> shm \<Rightarrow> shm \<times> unit res" where
  "synchdb_restart_connector E name snapshot_mode s =
     (if name = [] then (s, pg_err ''connection name cannot be empty'')
      else case be_conninfo E name of
        None \<Rightarrow> (s, pg_err ''connection name does not exist'')
      | Some (connInfo, connector) \<Rightarrow>
          send_request E name no_guard
            (\<lambda>r. r\<lparr>reqstate := STATE_RESTARTING,
                  reqdata := strlcpy SYNCHDB_ERRMSG_SIZE (if snapshot_mode = [] then ''null'' else snapshot_mode),
                  reqconninfo := connInfo\<rparr>) s)"

definition synchdb_log_jvm_meminfo :: "backend_env \<Rightarrow> string \<Rightarrow> shm \<Rightarrow> shm \<times> unit res" where
  "synchdb_log_jvm_meminfo E name = send_request E name no_guard (\<lambda>r. r\<lparr>reqstate := STATE_MEMDUMP\<rparr>)"

definition synchdb_reload_objmap :: "backend_env \<Rightarrow> string \<Rightarrow> shm \<Rightarrow> shm \<times> unit res" where
  "synchdb_reload_objmap E name = send_request E name no_guard (\<lambda>r. r\<lparr>reqstate := STATE_RELOAD_OBJMAP\<rparr>)"

text \<open>The values of \<^verbatim>\<open>DbzLogLevels\<close>.\<close>

definition dbz_log_level :: "string \<Rightarrow> int option" where
  "dbz_log_level level_str = map_of [(''all'', 1), (''debug'', 2), (''info'', 3), (''warn'', 4), (''error'', 5),
     (''fatal'', 6), (''off'', 7), (''trace'', 8)] level_str"

definition synchdb_set_dbz_loglevel :: "pg_lib \<Rightarrow> backend_env \<Rightarrow> string \<Rightarrow> string \<Rightarrow> shm \<Rightarrow> shm \<times> unit res" where
  "synchdb_set_dbz_loglevel L E name level_str s =
     (case dbz_log_level (map (pg_tolower L) level_str) of
        None \<Rightarrow> (s, pg_err ''invalid log level'')
      | Some level \<Rightarrow> send_request E name no_guard
          (\<lambda>r. r\<lparr>reqstate := STATE_DBZ_LOGLEVEL_UPDATE, reqdata := strlcpy SYNCHDB_ERRMSG_SIZE (show_int level)\<rparr>) s)"

definition synchdb_reset_stats :: "backend_env \<Rightarrow> string \<Rightarrow> shm \<Rightarrow> shm \<times> unit res" where
  "synchdb_reset_stats E name s0 =
     (let s = synchdb_init_shmem (be_workers E) s0
      in case connector_slot E name s of
           Inl e \<Rightarrow> (s, Inl e) | Inr i \<Rightarrow> (upd_slot i (\<lambda>c. c\<lparr>ac_stats := zero_stats\<rparr>) s, Inr ()))"

definition synchdb_set_snapstats ::
  "backend_env \<Rightarrow> string \<Rightarrow> int \<Rightarrow> int \<Rightarrow> int \<Rightarrow> int \<Rightarrow> shm \<Rightarrow> shm \<times> unit res" where
  "synchdb_set_snapstats E name tables_inc rows_inc begintime endtime s0 =
     (let s = synchdb_init_shmem (be_workers E) s0
      in case get_shm_connector_id_by_name s name (be_dbname E) of
           None \<Rightarrow> (s, pg_err ''no connector id assigned for connector'')
         | Some i \<Rightarrow> (set_shm_connector_snapshot_statistics i
               \<lparr>snapstats_tables = word_of_int tables_inc, snapstats_rows = word_of_int rows_inc,
                snapstats_begintime_ts = word_of_int begintime, snapstats_endtime_ts = word_of_int endtime\<rparr> s, Inr ()))"

text \<open>
  \<^verbatim>\<open>remove_dbz_metadata_files\<close> on the names in the metadata directory: it removes every file whose name
  contains the connector name between underscores.
\<close>

definition remove_dbz_metadata_files :: "string \<Rightarrow> string list \<Rightarrow> string list" where
  "remove_dbz_metadata_files name dir = filter (\<lambda>f. strstr f (''_'' @ name @ ''_'') = None) dir"

definition synchdb_del_conninfo ::
  "backend_env \<Rightarrow> string \<Rightarrow> string list \<Rightarrow> shm \<Rightarrow> shm \<times> int list \<times> string list \<times> string list" where
  "synchdb_del_conninfo E name dir s0 =
     (let s = synchdb_init_shmem (be_workers E) s0;
          q = (\<lambda>tab. ''DELETE FROM '' @ tab @ '' WHERE name = '' @ [CHR 0x27] @ name @ [CHR 0x27] @ '';'');
          cmds = [q ''synchdb_conninfo'' @ q ''synchdb_attribute'' @ q ''synchdb_objmap'']
      in case get_shm_connector_id_by_name s name (be_dbname E) of
           None \<Rightarrow> (s, [], cmds, remove_dbz_metadata_files name dir)
         | Some i \<Rightarrow>
             (upd_slot i (\<lambda>_. free_slot) s,
              (if get_shm_connector_pid s i \<noteq> InvalidPid then [get_shm_connector_pid s i] else []),
              cmds, remove_dbz_metadata_files name dir))"

section \<open>The views\<close>

record state_row =
  sr_name :: string
  sr_type :: string
  sr_pid :: int
  sr_stage :: string
  sr_state :: string
  sr_err :: string
  sr_offset :: string

definition shown_slots :: "backend_env \<Rightarrow> shm \<Rightarrow> nat list" where
  "shown_slots E s =
     filter (\<lambda>i. ci_name (ac_conninfo (slot s i)) \<noteq> [] \<and> strcaseeq (ci_dstdb (ac_conninfo (slot s i))) (be_dbname E))
       [0..<length (the s)]"

definition synchdb_get_state :: "backend_env \<Rightarrow> shm \<Rightarrow> state_row list" where
  "synchdb_get_state E s0 =
     (let s = synchdb_init_shmem (be_workers E) s0
      in map (\<lambda>i. \<lparr>sr_name = ci_name (ac_conninfo (slot s i)), sr_type = get_shm_connector_name (ac_type (slot s i)),
             sr_pid = get_shm_connector_pid s i, sr_stage = get_shm_connector_stage s i,
             sr_state = get_shm_connector_state s i, sr_err = get_shm_connector_errmsg s i,
             sr_offset = get_shm_dbz_offset s i\<rparr>) (shown_slots E s))"

definition stats_row :: "string \<Rightarrow> SynchdbStatistics \<Rightarrow> string \<times> 64 word list" where
  "stats_row name st =
     (let c = cdcstats st; g = genstats st; p = snapstats st
      in (name, [stats_ddl c, stats_dml c, stats_create c, stats_update c, stats_delete c, stats_tx c, stats_truncate c,
             stats_bad_change_event g, stats_total_change_event g, stats_batch_completion g, average_batch_size st,
             stats_first_src_ts g, stats_first_pg_ts g, stats_last_src_ts g, stats_last_pg_ts g,
             snapstats_tables p, snapstats_rows p, snapstats_begintime_ts p, snapstats_endtime_ts p]))"

definition synchdb_get_stats :: "backend_env \<Rightarrow> shm \<Rightarrow> (string \<times> 64 word list) list" where
  "synchdb_get_stats E s0 =
     (let s = synchdb_init_shmem (be_workers E) s0
      in map (\<lambda>i. stats_row (ci_name (ac_conninfo (slot s i))) (ac_stats (slot s i))) (shown_slots E s))"

end
