(* ===== verification/Dbz_Batch.thy ===== *)
theory Dbz_Batch
  imports Wire_Format Stats
begin

text \<open>
  The batch of change events that the Debezium runner hands to a worker
  (\<^verbatim>\<open>dbz_engine_get_change\<close> of \<^verbatim>\<open>src/backend/synchdb/synchdb.c\<close>). The runner's answer is a byte buffer: the
  letter B, a batch number, a count and that many zero-terminated JSON texts with their lengths; or the
  letter K, a success flag and a message. The JNI calls that fetch the buffer are not modelled: the buffer
  is an argument, \<open>None\<close> when there is none. The event handler is an argument \<open>handler\<close>.
\<close>

section \<open>The loop over the events\<close>

text \<open>
  A negative length, and a text that is not terminated inside the buffer, make the source read outside
  the buffer; the model stops there.
\<close>

function dbz_events ::
  "(byte list \<Rightarrow> bool \<Rightarrow> bool \<Rightarrow> 's \<Rightarrow> 's res) \<Rightarrow> byte list \<Rightarrow> int \<Rightarrow> nat \<Rightarrow> nat \<Rightarrow> 's \<Rightarrow> 's res" where
  "dbz_events handler data batchsize offset cnt s =
     (if offset + 4 \<le> length data \<and> int cnt < batchsize
      then let json_len = int32_be (take 4 (drop offset data)); o1 = offset + 4
           in if int (length data) < int o1 + json_len then Inr s
              else if json_len = 0 then dbz_events handler data batchsize (o1 + 4) (cnt + 1) s
              else if json_len < 0 \<or> 0 \<notin> set (drop o1 data) then Inl (Undefined ''event outside the buffer'')
              else rbind (handler (takeWhile (\<lambda>b. b \<noteq> 0) (drop o1 data)) (cnt = 0) (int cnt = batchsize - 1) s)
                     (\<lambda>s'. dbz_events handler data batchsize (o1 + nat json_len) (cnt + 1) s')
      else Inr s)"
  by pat_completeness auto

termination
  by (relation "measure (\<lambda>(h, data, batchsize, offset, cnt, s). nat (batchsize - int cnt))") auto

declare dbz_events.simps [simp del]

section \<open>One call\<close>

record dbz_answer =
  da_batchId :: int
  da_exit :: bool
  da_errmsg :: "string option"

definition SYNCHDB_INVALID_BATCH_ID :: int where
  "SYNCHDB_INVALID_BATCH_ID = -1"

definition no_batch :: dbz_answer where
  "no_batch = \<lparr>da_batchId = SYNCHDB_INVALID_BATCH_ID, da_exit = False, da_errmsg = None\<rparr>"

text \<open>A counted field of the K message: the bytes and what follows.\<close>

definition counted_field :: "byte list \<Rightarrow> (byte list \<times> byte list) res" where
  "counted_field data =
     (let n = int32_be (take 4 data)
      in if length data < 4 \<or> n < 0 \<or> length data < 4 + nat n then Inl (Undefined ''field outside the buffer'')
         else Inr (take (nat n) (drop 4 data), drop (4 + nat n) data))"

definition dbz_engine_get_change ::
  "(byte list \<Rightarrow> bool \<Rightarrow> bool \<Rightarrow> SynchdbStatistics \<times> 'w \<Rightarrow> (SynchdbStatistics \<times> 'w) res) \<Rightarrow> byte list option
   \<Rightarrow> SynchdbStatistics \<times> 'w \<Rightarrow> (int \<times> dbz_answer \<times> SynchdbStatistics \<times> 'w) res" where
  "dbz_engine_get_change handler buffer s =
     (case buffer of
        None \<Rightarrow> Inr (-1, no_batch, s)
      | Some [] \<Rightarrow> Inl (Undefined ''empty buffer'')
      | Some (tag # rest) \<Rightarrow>
          if tag = 0x42
          then if length rest < 8 then Inl (Undefined ''short batch header'')
               else let batchId = int32_be (take 4 rest); batchsize = int32_be (take 4 (drop 4 rest))
                    in rbind (dbz_events handler (tag # rest) batchsize 9 0 s) (\<lambda>(myBatchStats, w).
                         Inr (0, no_batch\<lparr>da_batchId := batchId\<rparr>,
                              increment_connector_statistics myBatchStats STATS_TOTAL_CHANGE_EVENT batchsize, w))
          else if tag = 0x4B
          then rbind (counted_field rest) (\<lambda>(successflag, rest1).
               rbind (counted_field rest1) (\<lambda>(dbzmsg, _).
                 Inr (0, no_batch\<lparr>da_exit := c_string successflag \<noteq> [],
                                 da_errmsg := (if c_string dbzmsg \<noteq> [] then Some (c_string dbzmsg) else None)\<rparr>, s)))
          else Inr (0, no_batch, s))"

section \<open>What the runner sends\<close>

definition dbz_event_image :: "byte list \<Rightarrow> byte list" where
  "dbz_event_image p = enc_int32_be (int (length p) + 1) @ p @ [0]"

definition dbz_batch_image :: "int \<Rightarrow> byte list list \<Rightarrow> byte list" where
  "dbz_batch_image batchId ps =
     0x42 # enc_int32_be batchId @ enc_int32_be (int (length ps)) @ concat (map dbz_event_image ps)"

lemma length_dbz_event_image [simp]: "length (dbz_event_image p) = length p + 5"
  by (simp add: dbz_event_image_def)

text \<open>The events with their positions, as the handler sees them.\<close>

definition handle_all ::
  "(byte list \<Rightarrow> bool \<Rightarrow> bool \<Rightarrow> 's \<Rightarrow> 's res) \<Rightarrow> nat \<Rightarrow> nat \<Rightarrow> byte list list \<Rightarrow> 's \<Rightarrow> 's res" where
  "handle_all handler n k ps = rfold (\<lambda>(j, p). handler p (j = 0) (j = n - 1)) (enumerate k ps)"

lemma dbz_events_step:
  assumes "0 \<notin> set p" and "length p + 1 < 2 ^ 31" and "int cnt < batchsize"
  shows "dbz_events handler (pre @ dbz_event_image p @ post) batchsize (length pre) cnt s =
    rbind (handler p (cnt = 0) (int cnt = batchsize - 1) s)
      (dbz_events handler (pre @ dbz_event_image p @ post) batchsize (length (pre @ dbz_event_image p)) (cnt + 1))"
proof -
  let ?data = "pre @ dbz_event_image p @ post"
  have len: "int32_be (take 4 (drop (length pre) ?data)) = int (length p) + 1"
    using assms(2) by (simp add: dbz_event_image_def is_int32_def)
  have payload: "drop (length pre + 4) ?data = p @ 0 # post"
    by (simp add: dbz_event_image_def)
  have tw: "takeWhile (\<lambda>b. b \<noteq> 0) (p @ 0 # post) = p"
    using assms(1) by (subst takeWhile_append2) auto
  have next_off: "length pre + 4 + nat (int (length p) + 1) = length (pre @ dbz_event_image p)"
    by (simp add: nat_add_distrib)
  have "rbind (handler p (cnt = 0) (int cnt = batchsize - 1) s)
      (\<lambda>s'. dbz_events handler ?data batchsize (length pre + 4 + nat (int (length p) + 1)) (cnt + 1) s')
    = rbind (handler p (cnt = 0) (int cnt = batchsize - 1) s)
      (dbz_events handler ?data batchsize (length (pre @ dbz_event_image p)) (cnt + 1))"
    by (simp only: next_off)
  then show ?thesis
    by (subst dbz_events.simps) (simp only: len payload tw Let_def, use assms(3) in simp)
qed

lemma dbz_events_all:
  assumes "\<forall>p \<in> set ps. 0 \<notin> set p \<and> length p + 1 < 2 ^ 31" and "n = cnt + length ps"
  shows "dbz_events handler (pre @ concat (map dbz_event_image ps)) (int n) (length pre) cnt s =
    handle_all handler n cnt ps s"
  using assms
proof (induction ps arbitrary: pre cnt s)
  case Nil
  then show ?case by (subst dbz_events.simps) (simp add: handle_all_def)
next
  case (Cons p ps)
  have "(int cnt = int n - 1) = (cnt = n - 1)" using Cons.prems(2) by auto
  moreover have "dbz_events handler ((pre @ dbz_event_image p) @ concat (map dbz_event_image ps)) (int n)
      (length (pre @ dbz_event_image p)) (cnt + 1) = handle_all handler n (cnt + 1) ps"
    using Cons.prems by (intro ext Cons.IH) auto
  ultimately show ?case
    using dbz_events_step [of p cnt "int n" handler pre "concat (map dbz_event_image ps)" s] Cons.prems
    by (simp add: handle_all_def)
qed

text \<open>
  C24: A batch is delivered completely: for the buffer the Debezium runner builds from a list of JSON texts,
  \<^verbatim>\<open>dbz_engine_get_change\<close> calls the handler once for each text, in order, with the flags that mark the first and
  the last event, reports the batch number and adds the number of events to the total; when the handler raises an
  error, that error is the result. Texts contain no zero byte and are shorter than 2 GB.
\<close>

theorem dbz_batch_delivered:
  assumes "is_int32 batchId" and "length ps < 2 ^ 31" and "\<forall>p \<in> set ps. 0 \<notin> set p \<and> length p + 1 < 2 ^ 31"
  shows "dbz_engine_get_change handler (Some (dbz_batch_image batchId ps)) s =
    rbind (handle_all handler (length ps) 0 ps s) (\<lambda>(myBatchStats, w).
      Inr (0, no_batch\<lparr>da_batchId := batchId\<rparr>,
           increment_connector_statistics myBatchStats STATS_TOTAL_CHANGE_EVENT (int (length ps)), w))"
proof -
  let ?h = "0x42 # enc_int32_be batchId @ enc_int32_be (int (length ps))"
  have "dbz_events handler (?h @ concat (map dbz_event_image ps)) (int (length ps)) 9 0 s =
      handle_all handler (length ps) 0 ps s"
    using dbz_events_all [OF assms(3), of "length ps" 0 handler ?h s] by simp
  then show ?thesis using assms(1,2) by (simp add: dbz_engine_get_change_def dbz_batch_image_def)
qed

definition collect_text :: "byte list \<Rightarrow> bool \<Rightarrow> bool \<Rightarrow> SynchdbStatistics \<times> string list \<Rightarrow> (SynchdbStatistics \<times> string list) res" where
  "collect_text p isfirst islast s = Inr (fst s, snd s @ [c_string p])"

theorem dbz_batch_delivered_witness:
  "dbz_engine_get_change collect_text (Some (dbz_batch_image 3 [[0x7B, 0x7D], [0x31]])) (zero_stats, []) =
    Inr (0, no_batch\<lparr>da_batchId := 3\<rparr>, increment_connector_statistics zero_stats STATS_TOTAL_CHANGE_EVENT 2,
         [''{}'', ''1''])"
proof -
  have "char_of (123 :: nat) = CHR ''{''" "char_of (125 :: nat) = CHR ''}''" "char_of (49 :: nat) = CHR ''1''"
    by code_simp+
  then show ?thesis
    using dbz_batch_delivered [of 3 "[[0x7B, 0x7D], [0x31]]" collect_text "(zero_stats, [])"]
    by (simp add: is_int32_def handle_all_def collect_text_def c_string_def)
qed

text \<open>
  An event of length zero makes the rest of its batch unreadable: the loop skips four bytes more than the
  length field it has read, takes the first characters of the next JSON object for a length and stops. The
  events that follow are not handled, yet the batch is reported complete and all its events are counted.
\<close>

theorem empty_event_drops_rest:
  assumes "is_int32 batchId" and "4 \<le> length p" and "hd p = 0x7B" and "length (concat (map dbz_event_image (p # ps))) < 2 ^ 30"
    and "length ps + 2 < 2 ^ 31"
  shows "dbz_engine_get_change handler
      (Some (0x42 # enc_int32_be batchId @ enc_int32_be (int (length ps) + 2) @ enc_int32_be 0
             @ concat (map dbz_event_image (p # ps)))) (myBatchStats, w) =
    Inr (0, no_batch\<lparr>da_batchId := batchId\<rparr>,
         increment_connector_statistics myBatchStats STATS_TOTAL_CHANGE_EVENT (int (length ps) + 2), w)"
proof -
  let ?n = "int (length ps) + 2"
  let ?h = "0x42 # enc_int32_be batchId @ enc_int32_be ?n"
  let ?q = "concat (map dbz_event_image (p # ps))"
  let ?data = "?h @ enc_int32_be 0 @ ?q"
  obtain b1 b2 b3 t where p: "p = 0x7B # b1 # b2 # b3 # t"
    using assms(2,3) by (cases p; cases "tl p"; cases "tl (tl p)"; cases "tl (tl (tl p))") auto
  have four: "take 4 (drop 17 ?data) = [0x7B, b1, b2, b3]"
    by (simp add: p dbz_event_image_def)
  have "uint_be [0x7B, b1, b2, b3] < 2 ^ 31" and "2 ^ 30 + 100 < uint_be [0x7B, b1, b2, b3]"
    using unat_byte_le [of b1] unat_byte_le [of b2] unat_byte_le [of b3]
    by (simp_all add: uint_be_Cons del: unat_byte_le)
  then have big: "int (length ?data) < int 21 + int32_be [0x7B, b1, b2, b3]"
    using assms(4) by (simp add: int32_be_def to_int32_def)
  have stop: "dbz_events handler ?data ?n 17 1 (myBatchStats, w) = Inr (myBatchStats, w)"
    using big four by (subst dbz_events.simps) (simp only: four Let_def, simp)
  have "int32_be (enc_int32_be 0) = 0" by (simp add: is_int32_def)
  then have "dbz_events handler ?data ?n 9 0 (myBatchStats, w) = dbz_events handler ?data ?n 17 1 (myBatchStats, w)"
    by (subst dbz_events.simps) simp
  then show ?thesis using stop assms(1,5) by (simp add: dbz_engine_get_change_def is_int32_def)
qed

theorem empty_event_drops_rest_witness:
  "dbz_engine_get_change collect_text (Some (0x42 # enc_int32_be 3 @ enc_int32_be 2 @ enc_int32_be 0
       @ dbz_event_image [0x7B, 0x22, 0x22, 0x7D])) (zero_stats, []) =
    Inr (0, no_batch\<lparr>da_batchId := 3\<rparr>, increment_connector_statistics zero_stats STATS_TOTAL_CHANGE_EVENT 2, [])"
  using empty_event_drops_rest [of 3 "[0x7B, 0x22, 0x22, 0x7D]" "[]" collect_text zero_stats "[]"]
  by (simp add: is_int32_def)

end
