(* ===== verification/Event_Flow.thy ===== *)
theory Event_Flow
  imports Executor Conn_Shm Dbz_Batch
begin

text \<open>
  The way of one Debezium change event through the worker (\<^verbatim>\<open>fc_processDBZChangeEvent\<close> of
  \<^verbatim>\<open>src/backend/converter/debezium_event_handler.c\<close>): classification, parsing, conversion and execution, with
  the connector's state, stage, statistics and snapshot flag along the way. It composes the models of the parser, the two
  converters, the executor, the shared memory and the statistics, and is the handler of \<open>dbz_engine_get_change\<close>.
\<close>

section \<open>State\<close>

text \<open>
  What an event can change besides the batch statistics: the shared memory, the global \<^verbatim>\<open>isInSnapshot\<close>, the
  data cache, the system change numbers of the Openlog client and the database of the current transaction.
\<close>

record 'db flow =
  fl_shm :: shm
  fl_isInSnapshot :: bool
  fl_cache :: data_cache
  fl_olr :: olr_client
  fl_db :: 'db

text \<open>
  What it reads: the settings, the rules, PostgreSQL's routines, its executor and the two catalog views of a database
  state, \<^verbatim>\<open>gettimeofday\<close> in milliseconds, \<^verbatim>\<open>myConnectorId\<close> and the flags of the connector.
\<close>

record ('db, 'd, 'tid) flow_env =
  fe_lib :: pg_lib
  fe_cfg :: config
  fe_conv :: conv_state
  fe_strategy :: ErrorStrategies
  fe_exec :: "('db, 'd, 'tid) executor"
  fe_catalog :: "'db \<Rightarrow> catalog"
  fe_relation_oid :: "'db \<Rightarrow> string \<Rightarrow> string \<Rightarrow> nat"
  fe_dml_catalog :: "'db \<Rightarrow> dml_catalog"
  fe_now :: "64 word"
  fe_id :: nat
  fe_flag :: "32 word"
  fe_name :: string

type_synonym 'db event_result = "(int \<times> SynchdbStatistics \<times> 'db flow) res"

definition flag_set :: "32 word \<Rightarrow> 32 word \<Rightarrow> bool" where
  "flag_set flag f \<longleftrightarrow> flag AND f \<noteq> 0"

definition set_state :: "('db, 'd, 'tid) flow_env \<Rightarrow> ConnectorState \<Rightarrow> 'db flow \<Rightarrow> 'db flow" where
  "set_state E st s = s\<lparr>fl_shm := set_shm_connector_state (fe_id E) st (fl_shm s)\<rparr>"

definition set_errmsg :: "('db, 'd, 'tid) flow_env \<Rightarrow> string option \<Rightarrow> 'db flow \<Rightarrow> 'db flow" where
  "set_errmsg E msg s = (case msg of None \<Rightarrow> s | Some m \<Rightarrow> s\<lparr>fl_shm := set_shm_connector_errmsg (fe_id E) (Some m) (fl_shm s)\<rparr>)"

definition ensure_stage :: "nat \<Rightarrow> ConnectorStage \<Rightarrow> shm \<Rightarrow> shm" where
  "ensure_stage i stage s = (if get_shm_connector_stage_enum s i \<noteq> stage then set_shm_connector_stage i stage s else s)"

section \<open>Snapshot bookkeeping\<close>

definition note_snapshot ::
  "('db, 'd, 'tid) flow_env \<Rightarrow> string \<Rightarrow> SynchdbStatistics \<times> 'db flow \<Rightarrow> bool \<times> SynchdbStatistics \<times> 'db flow" where
  "note_snapshot E snapshot sf = (case sf of (st, s) \<Rightarrow>
     if snapshot = ''true'' \<or> snapshot = ''last'' then
       let s1 = s\<lparr>fl_shm := ensure_stage (fe_id E)
                   (if flag_set (fe_flag E) CONNFLAG_SCHEMA_SYNC_MODE then STAGE_SCHEMA_SYNC else STAGE_INITIAL_SNAPSHOT) (fl_shm s)\<rparr>;
           (st2, s2) = (if \<not> fl_isInSnapshot s1 \<and> snapshot = ''true''
              then (st\<lparr>snapstats := (snapstats st)\<lparr>snapstats_begintime_ts := fe_now E, snapstats_endtime_ts := 0\<rparr>\<rparr>,
                    s1\<lparr>fl_isInSnapshot := True\<rparr>)
              else (st, s1));
           st3 = (if snapshot = ''last'' then st2\<lparr>snapstats := (snapstats st2)\<lparr>snapstats_endtime_ts := fe_now E\<rparr>\<rparr> else st2)
       in (snapshot = ''last'', st3, s2)
     else (False, st, s\<lparr>fl_shm := ensure_stage (fe_id E) STAGE_CHANGE_DATA_CAPTURE (fl_shm s)\<rparr>))"

text \<open>An Openlog connector takes its starting point from the last event of a Debezium snapshot.\<close>

definition json_scn :: "jsonb \<Rightarrow> string \<Rightarrow> 64 word" where
  "json_scn source key = (case json_key source key of Some (JString t) \<Rightarrow> strtoull t | _ \<Rightarrow> 0)"

definition take_snapshot_scn :: "('db, 'd, 'tid) flow_env \<Rightarrow> jsonb \<Rightarrow> bool \<Rightarrow> 'db flow \<Rightarrow> 'db flow" where
  "take_snapshot_scn E source islastsnapshot s =
     (if with_olr (fe_cfg E) \<and> islastsnapshot \<and> get_shm_connector_type_enum (fl_shm s) (fe_id E) = TYPE_OLR
      then let scn = json_scn source ''scn''; c_scn = json_scn source ''commit_scn''
           in s\<lparr>fl_olr := olr_client_set_scns scn (if c_scn > 0 then c_scn else scn) 0 (fl_olr s)\<rparr>
      else s)"

section \<open>Outcomes\<close>

definition bad_event :: "SynchdbStatistics \<Rightarrow> 'db flow \<Rightarrow> 'db event_result" where
  "bad_event st s = Inr (-1, increment_connector_statistics st STATS_BAD_CHANGE_EVENT 1, s)"

text \<open>The processing times of the first and the last event of a batch.\<close>

definition stamp :: "('db, 'd, 'tid) flow_env \<Rightarrow> bool \<Rightarrow> bool \<Rightarrow> 64 word \<Rightarrow> SynchdbStatistics \<Rightarrow> SynchdbStatistics" where
  "stamp E isfirst islast src_ts st =
     (let g1 = (if islast then (genstats st)\<lparr>stats_last_src_ts := src_ts, stats_last_pg_ts := fe_now E\<rparr> else genstats st);
          g2 = (if isfirst then g1\<lparr>stats_first_src_ts := src_ts, stats_first_pg_ts := fe_now E\<rparr> else g1)
      in st\<lparr>genstats := g2\<rparr>)"

definition end_of_event :: "('db, 'd, 'tid) flow_env \<Rightarrow> bool \<Rightarrow> 'db flow \<Rightarrow> 'db flow" where
  "end_of_event E islastsnapshot s =
     set_state E (if islastsnapshot \<and> (flag_set (fe_flag E) CONNFLAG_SCHEMA_SYNC_MODE \<or> flag_set (fe_flag E) CONNFLAG_INITIAL_SNAPSHOT_MODE)
                  then STATE_SCHEMA_SYNC_DONE else STATE_SYNCING)
       (if islastsnapshot then s\<lparr>fl_isInSnapshot := False\<rparr> else s)"

section \<open>DDL and DML events\<close>

text \<open>Steps (3) to (6) of a DDL event, then step (2), then step (1).\<close>

definition count_ddl ::
  "('db, 'd, 'tid) flow_env \<Rightarrow> DBZ_DDL \<Rightarrow> bool \<Rightarrow> bool \<Rightarrow> bool \<Rightarrow> SynchdbStatistics \<Rightarrow> SynchdbStatistics" where
  "count_ddl E ddl isfirst islast insnapshot st =
     (let st1 = stamp E isfirst islast (dd_src_ts_ms ddl) st;
          st2 = (if \<not> insnapshot then increment_connector_statistics st1 STATS_DDL 1 else st1)
      in if insnapshot \<and> dd_type ddl = DDL_CREATE_TABLE then increment_connector_statistics st2 STATS_TABLES 1 else st2)"

definition execute_ddl ::
  "('db, 'd, 'tid) flow_env \<Rightarrow> DBZ_DDL \<Rightarrow> PG_DDL \<Rightarrow> bool \<Rightarrow> bool \<Rightarrow> bool \<Rightarrow> SynchdbStatistics \<Rightarrow> 'db flow \<Rightarrow> 'db event_result" where
  "execute_ddl E ddl pg islastsnapshot isfirst islast st s =
     rbind (ra_executePGDDL (fe_exec E) pg (fl_db s)) (\<lambda>(ret, db).
       let s1 = s\<lparr>fl_db := db\<rparr>
       in if ret \<noteq> 0 then bad_event st (set_state E STATE_SYNCING s1)
          else rbind (updateSynchdbAttribute (fe_catalog E db) (fe_relation_oid E db) (fe_strategy E) ddl pg
                        (get_shm_connector_type_enum (fl_shm s1) (fe_id E)) (fe_name E)) (\<lambda>(stmt, msg).
               rbind (case stmt of None \<Rightarrow> Inr (0, db) | Some q \<Rightarrow> ra_executeCommand (fe_exec E) q db) (\<lambda>(_, db').
                 let s2 = (set_errmsg E msg s1)\<lparr>fl_db := db'\<rparr>
                 in Inr (0, count_ddl E ddl isfirst islast (fl_isInSnapshot s2) st, end_of_event E islastsnapshot s2))))"

definition convert_ddl ::
  "('db, 'd, 'tid) flow_env \<Rightarrow> DBZ_DDL \<Rightarrow> ConnectorType \<Rightarrow> bool \<Rightarrow> bool \<Rightarrow> bool \<Rightarrow> SynchdbStatistics \<Rightarrow> 'db flow \<Rightarrow> 'db event_result" where
  "convert_ddl E ddl type islastsnapshot isfirst islast st s =
     rbind (convert2PGDDL (fe_lib E) (fe_cfg E) (fe_conv E) (fe_catalog E (fl_db s)) ddl type) (\<lambda>(pgddl, key).
       let s1 = (case key of None \<Rightarrow> s | Some k \<Rightarrow> s\<lparr>fl_cache := (fl_cache s)(k := None)\<rparr>)
       in case pgddl of
            None \<Rightarrow> bad_event st (set_state E STATE_SYNCING s1)
          | Some pg \<Rightarrow> execute_ddl E ddl pg islastsnapshot isfirst islast st (set_state E STATE_EXECUTING s1))"

definition process_ddl ::
  "('db, 'd, 'tid) flow_env \<Rightarrow> jsonb \<Rightarrow> ConnectorType \<Rightarrow> bool \<Rightarrow> bool \<Rightarrow> bool \<Rightarrow> bool \<Rightarrow> SynchdbStatistics \<Rightarrow> 'db flow \<Rightarrow> 'db event_result" where
  "process_ddl E jb type deriveMsg islastsnapshot isfirst islast st s =
     (let s1 = set_state E STATE_PARSING s in
      rbind (parseDBZDDL (fe_lib E) jb isfirst islast deriveMsg) (\<lambda>dbzddl. case dbzddl of
        None \<Rightarrow> bad_event st (set_state E STATE_SYNCING s1)
      | Some ddl \<Rightarrow> convert_ddl E ddl type islastsnapshot isfirst islast st (set_state E STATE_CONVERTING s1)))"

text \<open>Steps (3) to (5) of a DML event, then step (2), then step (1).\<close>

definition execute_dml ::
  "('db, 'd, 'tid) flow_env \<Rightarrow> DBZ_DML \<Rightarrow> PG_DML \<Rightarrow> bool \<Rightarrow> bool \<Rightarrow> bool \<Rightarrow> SynchdbStatistics \<Rightarrow> 'db flow \<Rightarrow> 'db event_result" where
  "execute_dml E dml pg islastsnapshot isfirst islast st s =
     rbind (ra_executePGDML (fe_exec E) (fe_cfg E) (fe_strategy E) pg (fl_isInSnapshot s) st (fl_db s)) (\<lambda>(ret, msg, st1, db).
       let s1 = (set_errmsg E msg s)\<lparr>fl_db := db\<rparr>
       in if ret \<noteq> 0 then bad_event st1 (set_state E STATE_SYNCING s1)
          else let st2 = stamp E isfirst islast (dm_src_ts_ms dml) st1;
                   st3 = (if \<not> fl_isInSnapshot s1 then increment_connector_statistics st2 STATS_DML 1 else st2)
               in Inr (0, st3, end_of_event E islastsnapshot s1))"

definition convert_dml ::
  "('db, 'd, 'tid) flow_env \<Rightarrow> DBZ_DML \<Rightarrow> ConnectorType \<Rightarrow> bool \<Rightarrow> bool \<Rightarrow> bool \<Rightarrow> SynchdbStatistics \<Rightarrow> 'db flow \<Rightarrow> 'db event_result" where
  "convert_dml E dml type islastsnapshot isfirst islast st s =
     rbind (convert2PGDML (fe_lib E) (fe_cfg E) (fe_conv E) dml type) (\<lambda>pgdml. case pgdml of
       None \<Rightarrow> bad_event st (set_state E STATE_SYNCING s)
     | Some pg \<Rightarrow> execute_dml E dml pg islastsnapshot isfirst islast st (set_state E STATE_EXECUTING s))"

definition process_dml ::
  "('db, 'd, 'tid) flow_env \<Rightarrow> jsonb \<Rightarrow> jsonb \<Rightarrow> char \<Rightarrow> ConnectorType \<Rightarrow> bool \<Rightarrow> bool \<Rightarrow> bool \<Rightarrow> SynchdbStatistics \<Rightarrow> 'db flow
   \<Rightarrow> 'db event_result" where
  "process_dml E jb source op type islastsnapshot isfirst islast st s =
     (let s1 = set_state E STATE_PARSING s in
      rbind (parseDBZDML (fe_lib E) (fe_cfg E) (fe_conv E) (fe_dml_catalog E (fl_db s1)) (fe_strategy E) jb op source isfirst islast
               (fl_cache s1)) (\<lambda>(dbzdml, cache, msg).
        let s2 = (set_errmsg E msg s1)\<lparr>fl_cache := cache\<rparr>
        in case dbzdml of
          None \<Rightarrow> bad_event st (set_state E STATE_SYNCING s2)
        | Some dml \<Rightarrow> convert_dml E dml type islastsnapshot isfirst islast st (set_state E STATE_CONVERTING s2)))"

section \<open>Transaction boundaries\<close>

definition process_boundary ::
  "('db, 'd, 'tid) flow_env \<Rightarrow> jsonb \<Rightarrow> jsonb \<Rightarrow> bool \<Rightarrow> bool \<Rightarrow> SynchdbStatistics \<Rightarrow> 'db flow \<Rightarrow> 'db event_result" where
  "process_boundary E jb payload isfirst islast st s =
     (case json_key payload ''status'' of
        None \<Rightarrow> bad_event st s
      | Some v \<Rightarrow>
          (let ts = (\<lambda>c old. case json_key c ''ts_ms'' of None \<Rightarrow> Inr old | Some n \<Rightarrow> json_numeric (fe_lib E) n);
               st1 = increment_connector_statistics st STATS_TX 1; g = genstats st1 in
           rbind (json_string v) (\<lambda>_.
           rbind (if islast then rbind (ts payload (stats_last_src_ts g)) (\<lambda>t.
                     Inr (g\<lparr>stats_last_src_ts := t, stats_last_pg_ts := fe_now E\<rparr>)) else Inr g) (\<lambda>g1.
           rbind (if isfirst then rbind (ts jb (stats_first_src_ts g1)) (\<lambda>t.
                     Inr (g1\<lparr>stats_first_src_ts := t, stats_first_pg_ts := fe_now E\<rparr>)) else Inr g1) (\<lambda>g2.
             Inr (-1, st1\<lparr>genstats := g2\<rparr>, s))))))"

section \<open>One event\<close>

definition process_change ::
  "('db, 'd, 'tid) flow_env \<Rightarrow> jsonb \<Rightarrow> jsonb \<Rightarrow> ConnectorType \<Rightarrow> bool \<Rightarrow> bool \<Rightarrow> bool \<Rightarrow> SynchdbStatistics \<Rightarrow> 'db flow \<Rightarrow> 'db event_result" where
  "process_change E jb source type islastsnapshot isfirst islast st s =
     rbind (getPathElementString (fe_lib E) jb ''payload.op'' True) (\<lambda>opt. case opt of
       None \<Rightarrow> process_ddl E jb type False islastsnapshot isfirst islast st s
     | Some t \<Rightarrow>
         if t \<noteq> [] \<and> hd t = CHR ''m'' then process_ddl E jb type True islastsnapshot isfirst islast st s
         else process_dml E jb source (if t = [] then CHR 0x00 else hd t) type islastsnapshot isfirst islast st s)"

definition fc_processDBZChangeEvent ::
  "('db, 'd, 'tid) flow_env \<Rightarrow> string \<Rightarrow> bool \<Rightarrow> bool \<Rightarrow> SynchdbStatistics \<times> 'db flow \<Rightarrow> 'db event_result" where
  "fc_processDBZChangeEvent E event isfirst islast sf = (case sf of (st, s) \<Rightarrow>
     (case jsonb_in (fe_lib E) event of
        None \<Rightarrow> bad_event st s
      | Some jb \<Rightarrow>
          (case jsonb_get_element (fe_lib E) jb [''payload'', ''source''] of
             Some source \<Rightarrow>
               (case json_key source ''connector'' of None \<Rightarrow> bad_event st s
                | Some v \<Rightarrow> rbind (json_string v) (\<lambda>connector. rbind (fc_get_connector_type connector) (\<lambda>type.
                    case json_key source ''snapshot'' of None \<Rightarrow> bad_event st s
                    | Some w \<Rightarrow> rbind (json_string w) (\<lambda>snapshot.
                        let (islastsnapshot, st1, s1) = note_snapshot E snapshot (st, s)
                        in process_change E jb source type islastsnapshot isfirst islast st1 (take_snapshot_scn E source islastsnapshot s1)))))
           | None \<Rightarrow>
               (case jsonb_get_element (fe_lib E) jb [''payload''] of
                  Some payload \<Rightarrow> process_boundary E jb payload isfirst islast st s
                | None \<Rightarrow> bad_event st s))))"

text \<open>The handler that a batch runs on each of its events; the return value is not used.\<close>

definition dbz_handler ::
  "('db, 'd, 'tid) flow_env \<Rightarrow> byte list \<Rightarrow> bool \<Rightarrow> bool \<Rightarrow> SynchdbStatistics \<times> 'db flow \<Rightarrow> (SynchdbStatistics \<times> 'db flow) res" where
  "dbz_handler E event isfirst islast sf = rbind (fc_processDBZChangeEvent E (c_string event) isfirst islast sf) (\<lambda>(ret, sf'). Inr sf')"

section \<open>What an event changes in the shared memory\<close>

text \<open>A worker reports its progress in its own slot: state, stage and error message. Nothing else moves.\<close>

definition connector_frame ::
  "ActiveConnectors \<Rightarrow> int \<times> ConnectorType \<times> SynchdbRequest \<times> string \<times> string \<times> ConnectionInfo \<times> SynchdbStatistics" where
  "connector_frame c = (ac_pid c, ac_type c, ac_req c, ac_dbzoffset c, ac_snapshotMode c, ac_conninfo c, ac_stats c)"

definition progress_only :: "nat \<Rightarrow> shm \<Rightarrow> shm \<Rightarrow> bool" where
  "progress_only i s s' \<longleftrightarrow> (\<forall>j. valid_slot s' j = valid_slot s j) \<and> (\<forall>j. j \<noteq> i \<longrightarrow> slot s' j = slot s j)
     \<and> connector_frame (slot s' i) = connector_frame (slot s i)"

lemma progress_only_refl: "progress_only i s s"
  by (simp add: progress_only_def)

lemma progress_only_trans: "progress_only i s s' \<Longrightarrow> progress_only i s' s'' \<Longrightarrow> progress_only i s s''"
  by (simp add: progress_only_def)

lemma progress_only_set:
  assumes "valid_slot s i"
  shows "progress_only i s (set_shm_connector_state i st s)" and "progress_only i s (set_shm_connector_stage i sg s)"
    and "progress_only i s (set_shm_connector_errmsg i msg s)"
  using assms
  by (simp_all add: progress_only_def connector_frame_def set_shm_connector_state_def set_shm_connector_stage_def
      set_shm_connector_errmsg_def)

text \<open>The invariant of a worker between two events, relative to the state at the start.\<close>

definition flow_step :: "('db, 'd, 'tid) flow_env \<Rightarrow> 'db flow \<Rightarrow> 'db flow \<Rightarrow> bool" where
  "flow_step E s s' \<longleftrightarrow> progress_only (fe_id E) (fl_shm s) (fl_shm s') \<and> (cache_ok (fl_cache s) \<longrightarrow> cache_ok (fl_cache s'))"

abbreviation flow_valid :: "('db, 'd, 'tid) flow_env \<Rightarrow> 'db flow \<Rightarrow> bool" where
  "flow_valid E s \<equiv> valid_slot (fl_shm s) (fe_id E)"

abbreviation flow_state :: "('db, 'd, 'tid) flow_env \<Rightarrow> 'db flow \<Rightarrow> ConnectorState" where
  "flow_state E s \<equiv> ac_state (slot (fl_shm s) (fe_id E))"

lemma flow_step_refl [simp]: "flow_step E s s"
  by (simp add: flow_step_def progress_only_refl)

lemma flow_step_trans: "flow_step E s s' \<Longrightarrow> flow_step E s' s'' \<Longrightarrow> flow_step E s s''"
  by (auto simp: flow_step_def intro: progress_only_trans)

lemma flow_step_valid: "flow_step E s s' \<Longrightarrow> flow_valid E s' = flow_valid E s"
  by (simp add: flow_step_def progress_only_def)

lemma set_state_simps [simp]:
  "fl_isInSnapshot (set_state E st s) = fl_isInSnapshot s" "fl_cache (set_state E st s) = fl_cache s"
  "fl_db (set_state E st s) = fl_db s" "flow_valid E (set_state E st s) = flow_valid E s"
  "flow_valid E s \<Longrightarrow> flow_state E (set_state E st s) = st"
  by (simp_all add: set_state_def set_shm_connector_state_def)

lemma set_errmsg_simps [simp]:
  "fl_isInSnapshot (set_errmsg E m s) = fl_isInSnapshot s" "fl_cache (set_errmsg E m s) = fl_cache s"
  "fl_db (set_errmsg E m s) = fl_db s" "flow_valid E (set_errmsg E m s) = flow_valid E s"
  by (simp_all add: set_errmsg_def set_shm_connector_errmsg_def split: option.split)

lemma flow_step_set [simp]:
  assumes "flow_valid E s"
  shows "flow_step E s (set_state E st s)" and "flow_step E s (set_errmsg E m s)"
  using assms progress_only_set
  by (auto simp: flow_step_def set_state_def set_errmsg_def progress_only_refl split: option.split)

lemma flow_step_db [simp]: "flow_step E s (s\<lparr>fl_db := db\<rparr>)" "flow_step E s (s\<lparr>fl_isInSnapshot := b\<rparr>)" "flow_step E s (s\<lparr>fl_olr := c\<rparr>)"
  by (simp_all add: flow_step_def progress_only_refl)

lemma flow_step_cache: "(cache_ok (fl_cache s) \<Longrightarrow> cache_ok c) \<Longrightarrow> flow_step E s (s\<lparr>fl_cache := c\<rparr>)"
  by (auto simp: flow_step_def progress_only_refl)

lemma end_of_event_simps:
  "fl_isInSnapshot (end_of_event E l s) = (if l then False else fl_isInSnapshot s)"
  "flow_valid E s \<Longrightarrow> flow_step E s (end_of_event E l s)"
  "flow_valid E s \<Longrightarrow> flow_state E (end_of_event E l s) =
     (if l \<and> (flag_set (fe_flag E) CONNFLAG_SCHEMA_SYNC_MODE \<or> flag_set (fe_flag E) CONNFLAG_INITIAL_SNAPSHOT_MODE)
      then STATE_SCHEMA_SYNC_DONE else STATE_SYNCING)"
proof -
  assume v: "flow_valid E s"
  have "flow_step E s (s\<lparr>fl_isInSnapshot := False\<rparr>)" by simp
  then show "flow_step E s (end_of_event E l s)"
    using v flow_step_trans [of E s "s\<lparr>fl_isInSnapshot := False\<rparr>"] by (simp add: end_of_event_def)
qed (simp_all add: end_of_event_def)

section \<open>Outcomes of one change\<close>

text \<open>
  \<open>change_outcome\<close> collects what every processed change establishes: the return value, the connector state, the snapshot flag and
  the three counters that depend on the outcome alone.
\<close>

definition change_outcome ::
  "('db, 'd, 'tid) flow_env \<Rightarrow> bool \<Rightarrow> SynchdbStatistics \<Rightarrow> 'db flow \<Rightarrow> int \<Rightarrow> SynchdbStatistics \<Rightarrow> 'db flow \<Rightarrow> bool" where
  "change_outcome E islastsnapshot st s ret st' s' \<longleftrightarrow>
     (ret = 0 \<or> ret = -1)
     \<and> flow_state E s' = (if ret = 0 \<and> islastsnapshot
          \<and> (flag_set (fe_flag E) CONNFLAG_SCHEMA_SYNC_MODE \<or> flag_set (fe_flag E) CONNFLAG_INITIAL_SNAPSHOT_MODE)
        then STATE_SCHEMA_SYNC_DONE else STATE_SYNCING)
     \<and> fl_isInSnapshot s' = (if ret = 0 \<and> islastsnapshot then False else fl_isInSnapshot s)
     \<and> counter st' STATS_BAD_CHANGE_EVENT = counter st STATS_BAD_CHANGE_EVENT + (if ret = 0 then 0 else 1)
     \<and> counter st' STATS_DDL + counter st' STATS_DML = counter st STATS_DDL + counter st STATS_DML
         + (if ret = 0 \<and> \<not> fl_isInSnapshot s then 1 else 0)"

declare counter.simps [simp del]

lemma counter_stamp [simp]: "counter (stamp E f l t st) k = counter st k"
  by (cases k) (simp_all add: stamp_def Let_def counter.simps)

lemma counter_genstats_stamps [simp]:
  "counter (st\<lparr>genstats := (genstats st)\<lparr>stats_last_src_ts := a, stats_last_pg_ts := b\<rparr>\<rparr>) k = counter st k"
  by (cases k) (simp_all add: counter.simps)

lemma bad_outcome:
  assumes "flow_valid E s'" and "fl_isInSnapshot s' = fl_isInSnapshot s"
    and "\<And>k. k \<in> {STATS_BAD_CHANGE_EVENT, STATS_DDL, STATS_DML} \<Longrightarrow> counter st1 k = counter st k"
    and "bad_event st1 (set_state E STATE_SYNCING s') = Inr (ret, st2, s2)"
  shows "change_outcome E l st s ret st2 s2"
proof -
  have "counter st1 STATS_BAD_CHANGE_EVENT = counter st STATS_BAD_CHANGE_EVENT" "counter st1 STATS_DDL = counter st STATS_DDL"
    "counter st1 STATS_DML = counter st STATS_DML" using assms(3) by simp_all
  moreover from assms(4) have "ret = -1" "st2 = increment_connector_statistics st1 STATS_BAD_CHANGE_EVENT 1" "s2 = set_state E STATE_SYNCING s'"
    by (simp_all add: bad_event_def)
  ultimately show ?thesis using assms(1,2) by (simp add: change_outcome_def counter_increment counted_def)
qed

lemma done_outcome:
  assumes "flow_valid E s1" and "fl_isInSnapshot s1 = fl_isInSnapshot s"
    and "counter st2 STATS_BAD_CHANGE_EVENT = counter st STATS_BAD_CHANGE_EVENT"
    and "counter st2 STATS_DDL + counter st2 STATS_DML = counter st STATS_DDL + counter st STATS_DML + (if fl_isInSnapshot s then 0 else 1)"
  shows "change_outcome E l st s 0 st2 (end_of_event E l s1)"
  using assms by (simp add: change_outcome_def end_of_event_simps)

lemma with_error_Inr: "snd (with_error b y) = Inr x \<longleftrightarrow> x = 0 \<and> snd y = None"
  by (auto simp: with_error_def split: option.split)

lemma spi_execute_Inr: "spi_execute X q db = Inr (ret, db') \<longleftrightarrow> ret = 0 \<and> SPI_exec X q db = (db', None)"
  by (auto simp: spi_execute_def split: prod.split option.split)

lemma executePGDML_counters:
  assumes "ra_executePGDML X cfg strategy pg sn st db = Inr (ret, msg, st1, db')"
  shows "k \<in> {STATS_BAD_CHANGE_EVENT, STATS_DDL, STATS_DML} \<Longrightarrow> counter st1 k = counter st k" and "ret = 0 \<or> ret = -1"
proof -
  have c: "r = 0 \<or> r = -1" if "catch strategy safe (d, x) = Inr (r, msg, db')" "\<forall>y. x = Inr y \<longrightarrow> y = 0" for safe r d x msg
    using that by (auto simp: catch_def split: sum.split_asm exec_failure.split_asm if_split_asm)
  have "snd (handle_insert X vs oid n db) = Inr y \<longrightarrow> y = 0" "snd (handle_update X vs vs' oid n db) = Inr y \<longrightarrow> y = 0"
    "snd (handle_delete X vs oid n db) = Inr y \<longrightarrow> y = 0" for vs vs' oid n y
    by (auto simp: handle_insert_def handle_update_def handle_delete_def with_error_Inr split: sum.split option.split exec_failure.split)
  then have rets: "synchdb_handle_insert X strategy vs oid n db = Inr (r, msg, db') \<longrightarrow> r = 0 \<or> r = -1"
    "synchdb_handle_update X strategy vs vs' oid n db = Inr (r, msg, db') \<longrightarrow> r = 0 \<or> r = -1"
    "synchdb_handle_delete X strategy vs oid n db = Inr (r, msg, db') \<longrightarrow> r = 0 \<or> r = -1" for vs vs' oid n r msg
    using c unfolding synchdb_handle_insert_def synchdb_handle_update_def synchdb_handle_delete_def by (metis prod.collapse)+
  show "ret = 0 \<or> ret = -1"
    using assms by (auto simp: ra_executePGDML_def Let_def spi_execute_Inr split: if_split_asm dest: rets [THEN mp])
  show "counter st1 k = counter st k" if "k \<in> {STATS_BAD_CHANGE_EVENT, STATS_DDL, STATS_DML}"
    using assms that by (auto simp: ra_executePGDML_def Let_def counter_increment split: if_split_asm)
qed

lemma convert2PGDDL_cache: "cache_ok c \<Longrightarrow> cache_ok (c(k := None))"
  by (simp add: cache_ok_def)

text \<open>
  Each stage, started in a state that agrees with the event's first state on the snapshot flag, ends in a proper outcome.
\<close>

lemma bad_step:
  assumes "bad_event st1 (set_state E STATE_SYNCING s') = Inr (ret, st2, s2)" and "flow_valid E s'"
  shows "flow_step E s' s2"
  using assms by (auto simp: bad_event_def)

lemma execute_ddl_outcome:
  assumes "execute_ddl E ddl pg l isf isla st s = Inr (ret, st', s')" and "flow_valid E s"
  shows "change_outcome E l st s ret st' s' \<and> flow_step E s s'"
proof -
  have "\<exists>db msg db'. s' = end_of_event E l ((set_errmsg E msg (s\<lparr>fl_db := db\<rparr>))\<lparr>fl_db := db'\<rparr>) \<and> ret = 0
      \<and> st' = count_ddl E ddl isf isla (fl_isInSnapshot s) st"
  proof (cases "ra_executePGDDL (fe_exec E) pg (fl_db s)")
    case (Inr p)
    then obtain db where p: "p = (0, db)" by (cases p) (auto simp: ra_executePGDDL_def spi_execute_Inr)
    let ?upd = "updateSynchdbAttribute (fe_catalog E db) (fe_relation_oid E db) (fe_strategy E) ddl pg
        (get_shm_connector_type_enum (fl_shm s) (fe_id E)) (fe_name E)"
    obtain stmt msg where u: "?upd = Inr (stmt, msg)"
      using assms(1) Inr p by (cases ?upd) (auto simp: execute_ddl_def)
    obtain r db' where "(case stmt of None \<Rightarrow> Inr (0, db) | Some q \<Rightarrow> ra_executeCommand (fe_exec E) q db) = Inr (r, db')"
      using assms(1) Inr p u
      by (cases "case stmt of None \<Rightarrow> Inr (0, db) | Some q \<Rightarrow> ra_executeCommand (fe_exec E) q db") (auto simp: execute_ddl_def)
    then show ?thesis using assms(1) Inr p u
      by (intro exI [of _ db] exI [of _ msg] exI [of _ db']) (simp add: execute_ddl_def Let_def)
  qed (use assms(1) in \<open>simp add: execute_ddl_def\<close>)
  then obtain db msg db' where s': "s' = end_of_event E l ((set_errmsg E msg (s\<lparr>fl_db := db\<rparr>))\<lparr>fl_db := db'\<rparr>)" and ret: "ret = 0"
    and st': "st' = count_ddl E ddl isf isla (fl_isInSnapshot s) st" by blast
  let ?s1 = "s\<lparr>fl_db := db\<rparr>"
  have 1: "flow_step E s ?s1" and v1: "flow_valid E ?s1" using assms(2) by simp_all
  have "flow_step E ?s1 (set_errmsg E msg ?s1)" using v1 by simp
  with 1 have "flow_step E s ((set_errmsg E msg ?s1)\<lparr>fl_db := db'\<rparr>)"
    by (blast intro: flow_step_trans [OF flow_step_trans] flow_step_db(1))
  moreover have v2: "flow_valid E ((set_errmsg E msg ?s1)\<lparr>fl_db := db'\<rparr>)" using v1 by simp
  ultimately have "flow_step E s s'" using end_of_event_simps(2) [OF v2, of l] s' flow_step_trans by simp
  moreover have "change_outcome E l st s 0 st' s'"
    unfolding s' by (rule done_outcome [OF v2]) (simp_all add: st' count_ddl_def Let_def counter_increment counted_def add.commute)
  ultimately show ?thesis using ret by simp
qed

lemma execute_dml_outcome:
  assumes "execute_dml E dml pg l isf isla st s = Inr (ret, st', s')" and "flow_valid E s"
  shows "change_outcome E l st s ret st' s' \<and> flow_step E s s'"
proof -
  let ?x = "ra_executePGDML (fe_exec E) (fe_cfg E) (fe_strategy E) pg (fl_isInSnapshot s) st (fl_db s)"
  obtain r msg st1 db where x: "?x = Inr (r, msg, st1, db)" using assms(1) by (cases ?x) (auto simp: execute_dml_def)
  define s1 where "s1 = (set_errmsg E msg s)\<lparr>fl_db := db\<rparr>"
  have v1: "flow_valid E s1" and sn: "fl_isInSnapshot s1 = fl_isInSnapshot s" using assms(2) by (simp_all add: s1_def)
  have step: "flow_step E s s1" unfolding s1_def
    by (rule flow_step_trans [OF flow_step_set(2) [OF assms(2)] flow_step_db(1)])
  note same = executePGDML_counters(1) [OF x]
  show ?thesis
  proof (cases "r = 0")
    case True
    let ?st3 = "if \<not> fl_isInSnapshot s then increment_connector_statistics (stamp E isf isla (dm_src_ts_ms dml) st1) STATS_DML 1
        else stamp E isf isla (dm_src_ts_ms dml) st1"
    have res: "ret = 0" "st' = ?st3" "s' = end_of_event E l s1"
      using assms(1) x True sn by (simp_all add: execute_dml_def Let_def flip: s1_def)
    have "change_outcome E l st s 0 ?st3 (end_of_event E l s1)"
      using same [of STATS_BAD_CHANGE_EVENT] same [of STATS_DDL] same [of STATS_DML]
      by (intro done_outcome [OF v1 sn]) (simp_all add: counter_increment counted_def add.assoc)
    then show ?thesis using res flow_step_trans [OF step end_of_event_simps(2) [OF v1]] by simp
  next
    case False
    then have bad: "bad_event st1 (set_state E STATE_SYNCING s1) = Inr (ret, st', s')"
      using assms(1) x by (simp add: execute_dml_def Let_def flip: s1_def)
    show ?thesis using bad_outcome [OF v1 sn same bad] flow_step_trans [OF step bad_step [OF bad v1]] by simp
  qed
qed

lemma change_outcome_from:
  assumes "change_outcome E l st s1 ret st' s'" and "fl_isInSnapshot s1 = fl_isInSnapshot s"
  shows "change_outcome E l st s ret st' s'"
  using assms by (simp add: change_outcome_def)

text \<open>A stage that runs from a later state of the same event.\<close>

lemma stage_outcome:
  assumes "change_outcome E l st s1 ret st' s' \<and> flow_step E s1 s'" and "flow_step E s s1" and "fl_isInSnapshot s1 = fl_isInSnapshot s"
  shows "change_outcome E l st s ret st' s' \<and> flow_step E s s'"
  using assms change_outcome_from flow_step_trans by blast

lemma bad_stage:
  assumes "bad_event st (set_state E STATE_SYNCING s1) = Inr (ret, st', s')" and "flow_valid E s1"
  shows "change_outcome E l st s1 ret st' s' \<and> flow_step E s1 s'"
  using bad_outcome [OF assms(2) refl refl assms(1)] bad_step [OF assms] by simp

lemma convert_ddl_outcome:
  assumes "convert_ddl E ddl type l isf isla st s = Inr (ret, st', s')" and "flow_valid E s"
  shows "change_outcome E l st s ret st' s' \<and> flow_step E s s'"
proof -
  let ?c = "convert2PGDDL (fe_lib E) (fe_cfg E) (fe_conv E) (fe_catalog E (fl_db s)) ddl type"
  obtain pgddl key where c: "?c = Inr (pgddl, key)" using assms(1) by (cases ?c) (auto simp: convert_ddl_def)
  define s1 where "s1 = (case key of None \<Rightarrow> s | Some k \<Rightarrow> s\<lparr>fl_cache := (fl_cache s)(k := None)\<rparr>)"
  have v1: "flow_valid E s1" and sn: "fl_isInSnapshot s1 = fl_isInSnapshot s" and step: "flow_step E s s1"
    using assms(2) by (auto simp: s1_def intro: flow_step_cache convert2PGDDL_cache split: option.split)
  have "change_outcome E l st s1 ret st' s' \<and> flow_step E s1 s'"
  proof (cases pgddl)
    case None
    then have "bad_event st (set_state E STATE_SYNCING s1) = Inr (ret, st', s')"
      using assms(1) c by (simp add: convert_ddl_def Let_def flip: s1_def)
    then show ?thesis using bad_stage v1 by blast
  next
    case (Some pg)
    then have "execute_ddl E ddl pg l isf isla st (set_state E STATE_EXECUTING s1) = Inr (ret, st', s')"
      using assms(1) c by (simp add: convert_ddl_def Let_def flip: s1_def)
    then show ?thesis using stage_outcome [OF execute_ddl_outcome, of E ddl pg l isf isla st _ ret st' s' s1] v1 by simp
  qed
  then show ?thesis using stage_outcome step sn by blast
qed

lemma process_ddl_outcome:
  assumes "process_ddl E jb type m l isf isla st s = Inr (ret, st', s')" and "flow_valid E s"
  shows "change_outcome E l st s ret st' s' \<and> flow_step E s s'"
proof -
  define s1 where "s1 = set_state E STATE_PARSING s"
  have s1: "flow_valid E s1" "fl_isInSnapshot s1 = fl_isInSnapshot s" "flow_step E s s1" using assms(2) by (simp_all add: s1_def)
  obtain d where d: "parseDBZDDL (fe_lib E) jb isf isla m = Inr d"
    using assms(1) by (cases "parseDBZDDL (fe_lib E) jb isf isla m") (auto simp: process_ddl_def)
  have "change_outcome E l st s1 ret st' s' \<and> flow_step E s1 s'"
  proof (cases d)
    case None
    then show ?thesis using assms(1) d bad_stage [OF _ s1(1)] by (simp add: process_ddl_def flip: s1_def)
  next
    case (Some ddl)
    then have "convert_ddl E ddl type l isf isla st (set_state E STATE_CONVERTING s1) = Inr (ret, st', s')"
      using assms(1) d by (simp add: process_ddl_def flip: s1_def)
    then show ?thesis using stage_outcome [OF convert_ddl_outcome, of E ddl type l isf isla st _ ret st' s' s1] s1 by simp
  qed
  then show ?thesis using stage_outcome s1 by blast
qed

lemma process_dml_outcome:
  assumes "process_dml E jb source op type l isf isla st s = Inr (ret, st', s')" and "flow_valid E s"
  shows "change_outcome E l st s ret st' s' \<and> flow_step E s s'"
proof -
  define s1 where "s1 = set_state E STATE_PARSING s"
  let ?p = "parseDBZDML (fe_lib E) (fe_cfg E) (fe_conv E) (fe_dml_catalog E (fl_db s1)) (fe_strategy E) jb op source isf isla (fl_cache s1)"
  obtain d cache msg where p: "?p = Inr (d, cache, msg)"
    using assms(1) by (cases ?p) (auto simp: process_dml_def simp flip: s1_def)
  define s2 where "s2 = (set_errmsg E msg s1)\<lparr>fl_cache := cache\<rparr>"
  have s1: "flow_valid E s1" "flow_step E s s1" using assms(2) by (simp_all add: s1_def)
  have "flow_step E (set_errmsg E msg s1) s2" unfolding s2_def
    using parseDBZDML_positions(1) [OF _ p] by (intro flow_step_cache) simp
  then have step: "flow_step E s s2" using flow_step_trans [OF s1(2) flow_step_trans [OF flow_step_set(2) [OF s1(1)]]] by blast
  have s2: "flow_valid E s2" "fl_isInSnapshot s2 = fl_isInSnapshot s" using assms(2) by (simp_all add: s2_def s1_def)
  have "change_outcome E l st s2 ret st' s' \<and> flow_step E s2 s'"
  proof (cases d)
    case None
    then have "bad_event st (set_state E STATE_SYNCING s2) = Inr (ret, st', s')"
      using assms(1) p by (simp add: process_dml_def Let_def s2_def flip: s1_def)
    then show ?thesis using bad_stage s2(1) by blast
  next
    case (Some dml)
    define s3 where "s3 = set_state E STATE_CONVERTING s2"
    have s3: "flow_valid E s3" "fl_isInSnapshot s3 = fl_isInSnapshot s2" "flow_step E s2 s3" using s2 by (simp_all add: s3_def)
    have c: "convert_dml E dml type l isf isla st s3 = Inr (ret, st', s')"
      using assms(1) p Some by (simp add: process_dml_def Let_def s2_def s3_def flip: s1_def)
    obtain q where q: "convert2PGDML (fe_lib E) (fe_cfg E) (fe_conv E) dml type = Inr q"
      using c by (cases "convert2PGDML (fe_lib E) (fe_cfg E) (fe_conv E) dml type") (auto simp: convert_dml_def)
    have "change_outcome E l st s3 ret st' s' \<and> flow_step E s3 s'"
    proof (cases q)
      case None
      then show ?thesis using c q bad_stage [OF _ s3(1)] by (simp add: convert_dml_def)
    next
      case (Some pg)
      then have "execute_dml E dml pg l isf isla st (set_state E STATE_EXECUTING s3) = Inr (ret, st', s')"
        using c q by (simp add: convert_dml_def)
      then show ?thesis using stage_outcome [OF execute_dml_outcome, of E dml pg l isf isla st _ ret st' s' s3] s3 by simp
    qed
    then show ?thesis using stage_outcome s3 by blast
  qed
  then show ?thesis using stage_outcome step s2(2) by blast
qed

lemma process_change_outcome:
  assumes "process_change E jb source type l isf isla st s = Inr (ret, st', s')" and "flow_valid E s"
  shows "change_outcome E l st s ret st' s' \<and> flow_step E s s'"
proof -
  obtain opt where "getPathElementString (fe_lib E) jb ''payload.op'' True = Inr opt"
    using assms(1) by (cases "getPathElementString (fe_lib E) jb ''payload.op'' True") (auto simp: process_change_def)
  then show ?thesis using assms(1)
    by (cases opt) (auto simp: process_change_def split: if_split_asm
        dest: process_ddl_outcome [OF _ assms(2)] process_dml_outcome [OF _ assms(2)])
qed

lemma ensure_stage_simps:
  "valid_slot s i \<Longrightarrow> progress_only i s (ensure_stage i sg s)" "valid_slot (ensure_stage i sg s) j = valid_slot s j"
  "valid_slot s i \<Longrightarrow> ac_state (slot (ensure_stage i sg s) i) = ac_state (slot s i)"
  using progress_only_set(2) by (auto simp: ensure_stage_def progress_only_refl set_shm_connector_stage_def)

lemma note_snapshot_step:
  assumes "note_snapshot E snapshot (st, s) = (l, st', s')" and "flow_valid E s"
  shows "flow_step E s s' \<and> flow_state E s' = flow_state E s \<and> l = (snapshot = ''last'')
    \<and> fl_isInSnapshot s' = (fl_isInSnapshot s \<or> snapshot = ''true'') \<and> (\<forall>k. counter st' k = counter st k)"
proof -
  have c: "counter (st\<lparr>snapstats := (snapstats st)\<lparr>snapstats_begintime_ts := a, snapstats_endtime_ts := b\<rparr>\<rparr>) k = counter st k"
    "counter (st\<lparr>snapstats := (snapstats st)\<lparr>snapstats_endtime_ts := b\<rparr>\<rparr>) k = counter st k" for a b k
    by (cases k; simp add: counter.simps)+
  show ?thesis using assms ensure_stage_simps
    by (auto simp: note_snapshot_def Let_def flow_step_def c split: if_split_asm)
qed

lemma take_snapshot_scn_step:
  "flow_step E s (take_snapshot_scn E source l s)" "flow_state E (take_snapshot_scn E source l s) = flow_state E s"
  "fl_isInSnapshot (take_snapshot_scn E source l s) = fl_isInSnapshot s"
  by (simp_all add: take_snapshot_scn_def Let_def)

lemma process_boundary_same:
  "process_boundary E jb payload isf isla st s = Inr (ret, st', s') \<Longrightarrow> s' = s"
  by (auto simp: process_boundary_def bad_event_def Let_def split: option.split_asm if_split_asm)

text \<open>An event with a source goes through the snapshot bookkeeping and then one of the two paths.\<close>

lemma source_event_outcome:
  assumes "fc_processDBZChangeEvent E event isf isla (st, s) = Inr (ret, st', s')" and "flow_valid E s"
    and "jsonb_in (fe_lib E) event = Some jb" and "jsonb_get_element (fe_lib E) jb [''payload'', ''source''] = Some source"
    and "json_key source ''connector'' = Some v" and "json_key source ''snapshot'' = Some w"
  shows "\<exists>snapshot st1 s1. w = JString snapshot \<and> change_outcome E (snapshot = ''last'') st1 s1 ret st' s' \<and> flow_step E s s'
    \<and> fl_isInSnapshot s1 = (fl_isInSnapshot s \<or> snapshot = ''true'') \<and> (\<forall>k. counter st1 k = counter st k)"
proof -
  note unf = assms(1) [unfolded fc_processDBZChangeEvent_def prod.case assms(3,4) option.case assms(5,6)]
  obtain conn where conn: "json_string v = Inr conn" using unf by (cases "json_string v") simp_all
  obtain type where type: "fc_get_connector_type conn = Inr type" using unf conn by (cases "fc_get_connector_type conn") simp_all
  obtain snapshot where sn: "json_string w = Inr snapshot" using unf conn type by (cases "json_string w") simp_all
  then have w: "w = JString snapshot" by (cases w) (simp_all add: json_string_def)
  have r: "(let (l, st1, s1) = note_snapshot E snapshot (st, s)
      in process_change E jb source type l isf isla st1 (take_snapshot_scn E source l s1)) = Inr (ret, st', s')"
    using unf conn type sn by simp
  obtain l st1 s1 where n: "note_snapshot E snapshot (st, s) = (l, st1, s1)" by (metis prod_cases3)
  note ns = note_snapshot_step [OF n assms(2)]
  define s2 where "s2 = take_snapshot_scn E source l s1"
  have step: "flow_step E s s2" using ns take_snapshot_scn_step(1) flow_step_trans unfolding s2_def by blast
  have "process_change E jb source type l isf isla st1 s2 = Inr (ret, st', s')" using r n by (simp add: s2_def)
  then have "change_outcome E l st1 s2 ret st' s' \<and> flow_step E s2 s'"
    using process_change_outcome flow_step_valid [OF step] assms(2) by blast
  then show ?thesis using w ns flow_step_trans [OF step] take_snapshot_scn_step(3) [of E source l s1]
    by (intro exI [of _ snapshot] exI [of _ st1] exI [of _ s2]) (simp add: s2_def)
qed

text \<open>
  C6: How an event ends: an event of a table (with a source) that returns gives 0 or -1. It leaves the connector in the state
  SCHEMA\_SYNC\_DONE exactly when it succeeded, was marked as the last of the snapshot and the connector was started for a snapshot or
  schema sync, and in SYNCING otherwise; it leaves the snapshot phase exactly when it succeeded and was the last. A failed event is
  counted as bad, a successful one outside the snapshot phase once as DDL or DML. In particular a failed last event leaves the
  connector in the snapshot phase, and any later event of the batch undoes SCHEMA\_SYNC\_DONE.
\<close>

theorem event_outcome:
  assumes "fc_processDBZChangeEvent E event isfirst islast (st, s) = Inr (ret, st', s')" and "valid_slot (fl_shm s) (fe_id E)"
    and "jsonb_in (fe_lib E) event = Some jb" and "jsonb_get_element (fe_lib E) jb [''payload'', ''source''] = Some source"
    and "json_key source ''connector'' = Some v" and "json_key source ''snapshot'' = Some (JString snapshot)"
  shows "(ret = 0 \<or> ret = -1)
    \<and> get_shm_connector_state_enum (fl_shm s') (fe_id E) =
        (if ret = 0 \<and> snapshot = ''last'' \<and> (flag_set (fe_flag E) CONNFLAG_SCHEMA_SYNC_MODE \<or> flag_set (fe_flag E) CONNFLAG_INITIAL_SNAPSHOT_MODE)
         then STATE_SCHEMA_SYNC_DONE else STATE_SYNCING)
    \<and> fl_isInSnapshot s' = (if ret = 0 \<and> snapshot = ''last'' then False else fl_isInSnapshot s \<or> snapshot = ''true'')
    \<and> counter st' STATS_BAD_CHANGE_EVENT = counter st STATS_BAD_CHANGE_EVENT + (if ret = 0 then 0 else 1)
    \<and> counter st' STATS_DDL + counter st' STATS_DML = counter st STATS_DDL + counter st STATS_DML
        + (if ret = 0 \<and> \<not> (fl_isInSnapshot s \<or> snapshot = ''true'') then 1 else 0)"
proof -
  obtain snap st1 s1 where sn: "JString snapshot = JString snap" and o: "change_outcome E (snap = ''last'') st1 s1 ret st' s'" and f: "flow_step E s s'"
    and s1: "fl_isInSnapshot s1 = (fl_isInSnapshot s \<or> snap = ''true'')" and c: "\<forall>k. counter st1 k = counter st k"
    using source_event_outcome [OF assms] by blast
  have "valid_slot (fl_shm s') (fe_id E)" using flow_step_valid [OF f] assms(2) by simp
  then have "get_shm_connector_state_enum (fl_shm s') (fe_id E) = flow_state E s'"
    by (auto simp: get_shm_connector_state_enum_def valid_slot_def)
  then show ?thesis using sn o s1 c by (simp add: change_outcome_def)
qed

definition example_env :: "(string option list list, string, nat) flow_env" where
  "example_env = \<lparr>fe_lib = object_lib, fe_cfg = heap_lower_config, fe_conv = conv_state0, fe_strategy = STRAT_SKIP_ON_ERROR,
     fe_exec = unit_executor, fe_catalog = (\<lambda>_. example_catalog), fe_relation_oid = (\<lambda>_ _ _. 16400),
     fe_dml_catalog = (\<lambda>_. \<lparr>dk_namespace = (\<lambda>_. True), dk_table = (\<lambda>_ _. None)\<rparr>), fe_now = 1, fe_id = 0, fe_flag = 0, fe_name = ''conn''\<rparr>"

definition example_flow :: "string option list list flow" where
  "example_flow = \<lparr>fl_shm = Some [free_slot\<lparr>ac_pid := 100, ac_state := STATE_SYNCING\<rparr>], fl_isInSnapshot = False, fl_cache = example_cache,
     fl_olr = olr_client0, fl_db = []\<rparr>"

lemma example_flow_valid: "valid_slot (fl_shm example_flow) (fe_id example_env)"
  by (simp add: example_flow_def example_env_def valid_slot_def)

lemma example_source_simps:
  "json_key example_source ''connector'' = Some (JString ''mysql'')" "json_key example_source ''snapshot'' = Some (JString ''false'')"
  "json_path example_event [''payload'', ''source''] = Some example_source"
  by (simp_all add: example_source_def example_event_def json_key_def)

lemma example_insert:
  "ra_executePGDML unit_executor heap_lower_config STRAT_SKIP_ON_ERROR example_row False st [] =
   Inr (0, None, increment_connector_statistics st STATS_CREATE 1, [[Some ''7'', None]])"
  by (simp add: ra_executePGDML_def example_row_def heap_lower_config_def synchdb_handle_insert_def handle_insert_def unit_executor_def
      fill_slot_def store_value_def catch_def with_error_def strcaseeq_def c_simps numeral_2_eq_2)

lemma example_run:
  "\<exists>st' s'. fc_processDBZChangeEvent example_env t isf isla (zero_stats, example_flow) = Inr (0, st', s')
     \<and> fl_db s' = [[Some ''7'', None]]"
proof -
  have t: "fc_get_connector_type ''mysql'' = Inr TYPE_MYSQL" by (simp add: fc_get_connector_type_def strcaseeq_def c_simps)
  have o: "getPathElementString object_lib example_event ''payload.op'' True = Inr (Some ''c'')"
    by (simp add: getPathElementString_def strtok_all_def Let_def example_event_def remove_double_quotes_def)
  show ?thesis
    by (simp add: fc_processDBZChangeEvent_def example_env_def example_source_simps json_string_def t note_snapshot_def Let_def
        take_snapshot_scn_def process_change_def o process_dml_def example_flow_def example_parse set_errmsg_def set_state_def
        convert_dml_def example_convert execute_dml_def example_insert end_of_event_def)
qed

theorem event_outcome_witness:
  "\<exists>st' s'. fc_processDBZChangeEvent example_env ''{}'' False False (zero_stats, example_flow) = Inr (0, st', s')
     \<and> get_shm_connector_state_enum (fl_shm s') 0 = STATE_SYNCING \<and> counter st' STATS_DDL + counter st' STATS_DML = 1"
proof -
  obtain st' s' where r: "fc_processDBZChangeEvent example_env ''{}'' False False (zero_stats, example_flow) = Inr (0, st', s')"
    using example_run by blast
  have "jsonb_in (fe_lib example_env) ''{}'' = Some example_event"
    "jsonb_get_element (fe_lib example_env) example_event [''payload'', ''source''] = Some example_source"
    by (simp_all add: example_env_def example_source_simps)
  from event_outcome [OF r example_flow_valid this example_source_simps(1,2)] r show ?thesis
    by (simp add: example_env_def example_flow_def)
qed

section \<open>The whole batch\<close>

lemma dbz_events_invariant:
  assumes "\<And>p f l s s'. handler p f l s = Inr s' \<Longrightarrow> P s \<Longrightarrow> P s'"
  shows "dbz_events handler data n offset cnt s = Inr s' \<Longrightarrow> P s \<Longrightarrow> P s'"
  using assms
proof (induction handler data n offset cnt s rule: dbz_events.induct)
  case (1 h data n offset cnt s)
  show ?case
  proof (cases "offset + 4 \<le> length data \<and> int cnt < n")
    case False
    then have "s' = s" using "1.prems"(1) by (subst (asm) dbz_events.simps) auto
    then show ?thesis using "1.prems"(2) by simp
  next
    case True
    define len where "len = int32_be (take 4 (drop offset data))"
    note unf = "1.prems"(1) [unfolded dbz_events.simps [of h data n offset cnt s] Let_def, folded len_def]
    consider "s' = s" | "len = 0" "dbz_events h data n (offset + 4 + 4) (cnt + 1) s = Inr s'"
      | s1 where "\<not> int (length data) < int (offset + 4) + len" "len \<noteq> 0" "\<not> (len < 0 \<or> 0 \<notin> set (drop (offset + 4) data))"
        "h (takeWhile (\<lambda>b. b \<noteq> 0) (drop (offset + 4) data)) (cnt = 0) (int cnt = n - 1) s = Inr s1"
        "dbz_events h data n (offset + 4 + nat len) (cnt + 1) s1 = Inr s'"
      using unf True by (auto split: if_split_asm)
    then show ?thesis
    proof cases
      case 2
      then show ?thesis using "1.IH"(1) [OF True refl refl] "1.prems"(2,3) unf True by (auto simp: len_def split: if_split_asm)
    next
      case (3 s1)
      have "P s1" using "1.prems"(2,3) 3(4) by blast
      then show ?thesis using "1.IH"(2) [OF True refl refl, folded len_def] 3 "1.prems"(3) by blast
    qed (use "1.prems"(2) in simp)
  qed
qed

lemma event_flow_step:
  assumes "fc_processDBZChangeEvent E event isf isla (st, s) = Inr (ret, st', s')" and "flow_valid E s"
  shows "flow_step E s s' \<and> flow_state E s' \<in> {flow_state E s, STATE_SYNCING, STATE_SCHEMA_SYNC_DONE}"
proof (cases "\<exists>jb source v w. jsonb_in (fe_lib E) event = Some jb \<and> jsonb_get_element (fe_lib E) jb [''payload'', ''source''] = Some source
    \<and> json_key source ''connector'' = Some v \<and> json_key source ''snapshot'' = Some w")
  case True
  then obtain jb source v w where "jsonb_in (fe_lib E) event = Some jb"
    "jsonb_get_element (fe_lib E) jb [''payload'', ''source''] = Some source" "json_key source ''connector'' = Some v"
    "json_key source ''snapshot'' = Some w" by blast
  from source_event_outcome [OF assms this] show ?thesis by (auto simp: change_outcome_def)
next
  case False
  then have "s' = s" using assms(1)
    by (auto simp: fc_processDBZChangeEvent_def bad_event_def split: option.split_asm dest: process_boundary_same)
  then show ?thesis by simp
qed

lemma batch_flow_step:
  assumes "dbz_engine_get_change (dbz_handler E) buffer (st, s) = Inr (r, answer, st', s')" and "valid_slot (fl_shm s) (fe_id E)"
    and "ac_state (slot (fl_shm s) (fe_id E)) \<in> {STATE_SYNCING, STATE_SCHEMA_SYNC_DONE}"
  shows "flow_step E s s' \<and> flow_state E s' \<in> {STATE_SYNCING, STATE_SCHEMA_SYNC_DONE}"
proof -
  let ?P = "\<lambda>(_, s'). flow_step E s s' \<and> flow_state E s' \<in> {STATE_SYNCING, STATE_SCHEMA_SYNC_DONE}"
  have inv: "?P y" if h: "dbz_handler E p f l x = Inr y" and px: "?P x" for p f l x y
  proof -
    obtain st1 s1 ret st2 s2 where x: "x = (st1, s1)" and y: "y = (st2, s2)"
      and e: "fc_processDBZChangeEvent E (c_string p) f l (st1, s1) = Inr (ret, st2, s2)"
      using h by (cases x, cases y) (auto simp: dbz_handler_def)
    have "flow_valid E s1" using px x assms(2) flow_step_valid [of E s s1] by simp
    from event_flow_step [OF e this] show ?thesis using px x y flow_step_trans [of E s s1 s2] by auto
  qed
  have "?P (st', s')"
  proof (cases "\<exists>n o'. dbz_events (dbz_handler E) (the buffer) n o' 0 (st, s) = Inr (st', s')
      \<or> (\<exists>st''. dbz_events (dbz_handler E) (the buffer) n o' 0 (st, s) = Inr (st'', s'))")
    case True
    then obtain st'' n o' where "dbz_events (dbz_handler E) (the buffer) n o' 0 (st, s) = Inr (st'', s')" by blast
    from dbz_events_invariant [of "dbz_handler E" ?P, OF inv this] show ?thesis using assms(3) by simp
  next
    case False
    then have "s' = s" using assms(1)
      by (auto simp: dbz_engine_get_change_def Let_def split: option.split_asm list.split_asm if_split_asm)
    then show ?thesis using assms(3) by simp
  qed
  then show ?thesis by simp
qed



end
