(* ===== verification/OLR_Parse.thy ===== *)
theory OLR_Parse
  imports Event_Parse
begin

text \<open>
  The parser of Openlog Replicator events (\<^verbatim>\<open>src/backend/converter/olr_event_handler.c\<close>): the filter on DDL statements, the
  reading of Oracle's DDL from a parse tree, the row images of DML events and the column types of the schema section. The Oracle grammar
  is a shared library that the code loads at run time: its result is an argument, a list of statements of the datatypes below,
  which carry the fields of PostgreSQL's parse nodes that the code reads.
\<close>

section \<open>Letter case\<close>

definition isallupper :: "string \<Rightarrow> bool" where
  "isallupper s \<longleftrightarrow> list_all (\<lambda>c. \<not> ((97::nat) \<le> of_char c \<and> of_char c \<le> (122::nat))) s"

definition isalllower :: "string \<Rightarrow> bool" where
  "isalllower s \<longleftrightarrow> list_all (\<lambda>c. \<not> ((65::nat) \<le> of_char c \<and> of_char c \<le> (90::nat))) s"

definition strtoupper :: "pg_lib \<Rightarrow> string \<Rightarrow> string" where
  "strtoupper L s = map (pg_toupper L) s"

text \<open>
  The treatment of a name of the Oracle parser, which folds a name of one letter case to the other one: the code repeats
  these lines for every kind of name.
\<close>

definition olr_casing :: "pg_lib \<Rightarrow> config \<Rightarrow> string \<Rightarrow> string" where
  "olr_casing L cfg name =
     (if synchdb_letter_casing_strategy cfg = LCS_AS_IS
      then if isallupper name then fc_normalize_name L LCS_NORMALIZE_LOWERCASE name (length name)
           else if isalllower name then fc_normalize_name L LCS_NORMALIZE_UPPERCASE name (length name)
           else fc_normalize_name L LCS_AS_IS name (length name)
      else fc_normalize_name L (synchdb_letter_casing_strategy cfg) name (length name))"

section \<open>Data types and filters\<close>

definition getOlrTypeFromString :: "string \<Rightarrow> int" where
  "getOlrTypeFromString typestring =
     (if typestring \<in> {''number'', ''binary_float'', ''binary_double'', ''date'', ''timestamp'', ''timestamp with local time zone''}
      then OLRTYPE_NUMBER
      else if typestring \<in> {''char'', ''varchar2'', ''varchar'', ''nvarchar'', ''nvarchar2'', ''raw'', ''blob'', ''clob'', ''long'',
        ''urowid'', ''rowid'', ''unknown'', ''nclob'', ''interval day to second'', ''interval year to month'', ''timestamp with time zone''}
      then OLRTYPE_STRING else OLRTYPE_UNDEF)"

definition DBZ_LOG_MINING_FLUSH_TABLE :: string where
  "DBZ_LOG_MINING_FLUSH_TABLE = ''LOG_MINING_FLUSH''"

definition is_whitelist_table :: "string \<Rightarrow> bool" where
  "is_whitelist_table table \<longleftrightarrow> \<not> strcaseeq table DBZ_LOG_MINING_FLUSH_TABLE"

text \<open>The text up to the parenthesis that closes the first one.\<close>

fun strip_from :: "int \<Rightarrow> string \<Rightarrow> string" where
  "strip_from paren_level [] = []"
| "strip_from paren_level (c # cs) =
     (if c = CHR ''('' then c # strip_from (paren_level + 1) cs
      else if c = CHR '')'' then if paren_level - 1 = 0 then [c] else c # strip_from (paren_level - 1) cs
      else c # strip_from paren_level cs)"

definition strip_after_column_def :: "string \<Rightarrow> string" where
  "strip_after_column_def sql = strip_from 0 sql"

text \<open>The part of a text before the first occurrence of a word, in any letter case (\<^verbatim>\<open>strcasestr\<close>).\<close>

fun before_caseless :: "string \<Rightarrow> string \<Rightarrow> string option" where
  "before_caseless [] needle = (if needle = [] then Some [] else None)"
| "before_caseless (c # cs) needle =
     (if strcaseeq (take (length needle) (c # cs)) needle then Some [] else map_option ((#) c) (before_caseless cs needle))"

text \<open>The statement to parse, or nothing. The tests look at the statement before the cuts.\<close>

definition is_whitelist_sql :: "pg_lib \<Rightarrow> string \<Rightarrow> string option" where
  "is_whitelist_sql L sql =
     (let has = (\<lambda>word. strstr (strtoupper L sql) word \<noteq> None);
          sql1 = (if has ''DROP'' \<and> has ''TABLE'' \<and> has ''AS''
                  then case before_caseless sql ''AS'' of Some s \<Rightarrow> s | None \<Rightarrow> sql else sql);
          sql2 = (if has ''CREATE'' \<and> has ''TABLE'' then strip_after_column_def sql1 else sql1)
      in if has ''TABLE'' \<and> (has ''CREATE'' \<or> has ''DROP'' \<or> has ''ALTER'' \<or> has ''TRUNCATE'') then Some sql2 else None)"

section \<open>The schema section\<close>

definition olr_schema_field :: "pg_lib \<Rightarrow> jsonb \<Rightarrow> NameJsonposEntry option res" where
  "olr_schema_field L v = (case v of
       JObject _ \<Rightarrow>
         (case json_key v ''name'' of None \<Rightarrow> Inr None
          | Some f \<Rightarrow> rbind (json_string f) (\<lambda>name.
              if NAMEDATALEN \<le> length name then Inl (Undefined ''field name too long'')
              else case json_key v ''type'' of None \<Rightarrow> Inr None
                | Some t \<Rightarrow> rbind (json_string t) (\<lambda>ty.
                    rbind (case json_key v ''scale'' of None \<Rightarrow> Inr 0
                           | Some sc \<Rightarrow> rbind (json_string sc) (\<lambda>s. Inr (atoi s))) (\<lambda>scale.
                    Inr (Some \<lparr>nj_name = fc_normalize_name L LCS_NORMALIZE_LOWERCASE name (length name), nj_jsonpos = 0,
                          nj_dbztype = getOlrTypeFromString ty, nj_timerep = TIME_UNDEF, nj_scale = scale\<rparr>)))))
     | _ \<Rightarrow> Inr None)"

definition add_olr_schema_field ::
  "pg_lib \<Rightarrow> jsonb \<Rightarrow> (string \<rightharpoonup> NameJsonposEntry) \<times> int \<Rightarrow> ((string \<rightharpoonup> NameJsonposEntry) \<times> int) res" where
  "add_olr_schema_field L v st =
     rbind (olr_schema_field L v) (\<lambda>e. case e of None \<Rightarrow> Inr st
       | Some entry \<Rightarrow> Inr (case fst st (nj_name entry) of
           None \<Rightarrow> (fst st)(nj_name entry \<mapsto> entry\<lparr>nj_jsonpos := snd st\<rparr>) | Some _ \<Rightarrow> fst st, snd st + 1))"

definition build_olr_schema_jsonpos_hash :: "pg_lib \<Rightarrow> jsonb \<Rightarrow> (string \<rightharpoonup> NameJsonposEntry) res" where
  "build_olr_schema_jsonpos_hash L jbschema =
     (case jsonb_get_element L jbschema [''columns''] of
        Some (JArray vs) \<Rightarrow> rbind (rfold (add_olr_schema_field L) vs (Map.empty, 0)) (\<lambda>st. Inr (fst st))
      | _ \<Rightarrow> Inr Map.empty)"

section \<open>The parse tree of the Oracle parser\<close>

text \<open>A type modifier: an integer constant, another constant, or another node.\<close>

datatype typmod = Const_int int | Const_other | Node_other

datatype constr = CONSTR_PRIMARY "string option" "string list" | CONSTR_DEFAULT string | CONSTR_NOTNULL | CONSTR_OTHER

record ColumnDef =
  colname :: string
  col_type :: "(string list \<times> typmod list) option"
  is_not_null :: bool
  col_constraints :: "constr list"

datatype table_elt = Elt_column ColumnDef | Elt_constraint constr | Elt_other

datatype alter_cmd = AT_AddColumn ColumnDef | AT_DropColumn string | AT_AlterColumnType string ColumnDef
  | AT_AddConstraint constr | AT_DropConstraint "string option" | AT_unsupported

text \<open>The relation, and for a DROP whether the objects are tables, each a qualified name.\<close>

datatype raw_stmt = CreateStmt string "table_elt list" | AlterTableStmt string "alter_cmd list"
  | DropStmt bool "string list list" | TruncateStmt "string list" | Stmt_other | Not_raw

section \<open>DDL statements\<close>

record olr_scan =
  os_ddl :: DBZ_DDL
  os_col :: "DBZ_DDL_COLUMN option"
  os_table :: string

definition type_mods :: "typmod list \<Rightarrow> DBZ_DDL_COLUMN \<Rightarrow> DBZ_DDL_COLUMN" where
  "type_mods mods c =
     (let c1 = (case mods of Const_int n # _ \<Rightarrow> c\<lparr>dc_length := n\<rparr> | Node_other # _ \<Rightarrow> c\<lparr>dc_length := 0\<rparr> | _ \<Rightarrow> c)
      in case mods of _ # Const_int n # _ \<Rightarrow> c1\<lparr>dc_scale := n\<rparr> | _ # Node_other # _ \<Rightarrow> c1\<lparr>dc_length := 0\<rparr> | _ \<Rightarrow> c1)"

definition column_constraint :: "constr \<Rightarrow> DBZ_DDL_COLUMN \<Rightarrow> DBZ_DDL_COLUMN" where
  "column_constraint k c = (case k of CONSTR_DEFAULT e \<Rightarrow> c\<lparr>dc_defaultValueExpression := Some e\<rparr>
     | CONSTR_NOTNULL \<Rightarrow> c\<lparr>dc_optional := False\<rparr> | _ \<Rightarrow> c)"

text \<open>A column definition under a name, with the names its inline constraints put into the primary key.\<close>

definition olr_ddl_column :: "pg_lib \<Rightarrow> config \<Rightarrow> string \<Rightarrow> ColumnDef \<Rightarrow> (DBZ_DDL_COLUMN \<times> string list) res" where
  "olr_ddl_column L cfg name col =
     (case col_type col of None \<Rightarrow> Inl (Undefined ''null type name'')
      | Some (names, mods) \<Rightarrow>
          (let ty = join ''.'' names;
               c = type_mods mods (new_ddlcol\<lparr>dc_name := olr_casing L cfg name,
                     dc_typeName := fc_normalize_name L LCS_NORMALIZE_LOWERCASE ty (length ty), dc_optional := \<not> is_not_null col\<rparr>)
           in Inr (fold column_constraint (col_constraints col) c,
                   concat (map (\<lambda>k. case k of CONSTR_PRIMARY _ _ \<Rightarrow> [name] | _ \<Rightarrow> []) (col_constraints col)))))"

text \<open>The list of key columns as text, or nothing when it is empty.\<close>

definition pk_list :: "pg_lib \<Rightarrow> config \<Rightarrow> string list \<Rightarrow> string option" where
  "pk_list L cfg keys =
     (let pklist = ''['' @ concat (map (\<lambda>k. ''\"'' @ k @ ''\",'') keys)
      in if 1 < length pklist then Some (olr_casing L cfg (chop 1 pklist @ '']'')) else None)"

definition set_pk :: "string option \<Rightarrow> olr_scan \<Rightarrow> olr_scan" where
  "set_pk pk st = (case pk of None \<Rightarrow> st | Some p \<Rightarrow> st\<lparr>os_ddl := (os_ddl st)\<lparr>dd_primaryKeyColumnNames := Some p\<rparr>\<rparr>)"

definition add_ddl_column :: "DBZ_DDL_COLUMN \<Rightarrow> olr_scan \<Rightarrow> olr_scan" where
  "add_ddl_column c st = st\<lparr>os_ddl := (os_ddl st)\<lparr>dd_columns := dd_columns (os_ddl st) @ [c]\<rparr>\<rparr>"

definition create_elt :: "pg_lib \<Rightarrow> config \<Rightarrow> table_elt \<Rightarrow> olr_scan \<times> string list \<Rightarrow> (olr_scan \<times> string list) res" where
  "create_elt L cfg elt st = (case elt of
       Elt_column col \<Rightarrow> rbind (olr_ddl_column L cfg (colname col) col) (\<lambda>(c, pks).
          Inr (add_ddl_column c ((fst st)\<lparr>os_col := Some c\<rparr>), snd st @ pks))
     | Elt_constraint (CONSTR_PRIMARY _ keys) \<Rightarrow> Inr (fst st, snd st @ keys)
     | _ \<Rightarrow> Inr st)"

definition create_stmt :: "pg_lib \<Rightarrow> config \<Rightarrow> string \<Rightarrow> table_elt list \<Rightarrow> olr_scan \<Rightarrow> olr_scan res" where
  "create_stmt L cfg relname elts st =
     rbind (rfold (create_elt L cfg) elts (st\<lparr>os_ddl := (os_ddl st)\<lparr>dd_type := DDL_CREATE_TABLE\<rparr>\<rparr>, [])) (\<lambda>(st1, pks).
       Inr ((set_pk (pk_list L cfg pks) st1)\<lparr>os_table := relname\<rparr>))"

definition set_subtype :: "AlterSubType \<Rightarrow> olr_scan \<Rightarrow> olr_scan" where
  "set_subtype t st = st\<lparr>os_ddl := (os_ddl st)\<lparr>dd_subtype := t\<rparr>\<rparr>"

text \<open>The subcommands of an ALTER TABLE. The name of a constraint is folded when it is dropped, not when it is added.\<close>

definition alter_cmd_add_column :: "pg_lib \<Rightarrow> config \<Rightarrow> ColumnDef \<Rightarrow> olr_scan \<Rightarrow> olr_scan res" where
  "alter_cmd_add_column L cfg col st = rbind (olr_ddl_column L cfg (colname col) col) (\<lambda>(c, pks).
     Inr (set_pk (pk_list L cfg pks) ((set_subtype SUBTYPE_ADD_COLUMN st)\<lparr>os_col := Some c\<rparr>)))"

definition alter_cmd_drop_column :: "pg_lib \<Rightarrow> config \<Rightarrow> string \<Rightarrow> olr_scan \<Rightarrow> olr_scan" where
  "alter_cmd_drop_column L cfg name st = (set_subtype SUBTYPE_DROP_COLUMN st)\<lparr>os_col := Some (new_ddlcol\<lparr>dc_name := olr_casing L cfg name\<rparr>)\<rparr>"

definition alter_cmd_column_type :: "pg_lib \<Rightarrow> config \<Rightarrow> string \<Rightarrow> ColumnDef \<Rightarrow> olr_scan \<Rightarrow> olr_scan res" where
  "alter_cmd_column_type L cfg name col st = rbind (olr_ddl_column L cfg name col) (\<lambda>(c, pks).
     Inr (set_pk (pk_list L cfg pks) ((set_subtype SUBTYPE_ALTER_COLUMN st)\<lparr>os_col := Some c\<rparr>)))"

definition alter_cmd_add_constraint :: "pg_lib \<Rightarrow> config \<Rightarrow> constr \<Rightarrow> olr_scan \<Rightarrow> olr_scan res" where
  "alter_cmd_add_constraint L cfg k st =
     (let st1 = set_subtype SUBTYPE_ADD_CONSTRAINT st
      in case k of
           CONSTR_PRIMARY conname keys \<Rightarrow>
             (case conname of None \<Rightarrow> Inl (Undefined ''null constraint name'')
              | Some n \<Rightarrow> Inr (set_pk (pk_list L cfg keys) (st1\<lparr>os_ddl := (os_ddl st1)\<lparr>dd_constraintName := Some n\<rparr>\<rparr>)))
         | _ \<Rightarrow> Inr st1)"

definition alter_cmd_drop_constraint :: "pg_lib \<Rightarrow> config \<Rightarrow> string option \<Rightarrow> olr_scan \<Rightarrow> olr_scan" where
  "alter_cmd_drop_constraint L cfg name st =
     (let st1 = set_subtype SUBTYPE_DROP_CONSTRAINT st
      in case name of None \<Rightarrow> st1
           | Some n \<Rightarrow> st1\<lparr>os_ddl := (os_ddl st1)\<lparr>dd_constraintName := Some (olr_casing L cfg n)\<rparr>\<rparr>)"

text \<open>
  One subcommand. After each one the current column is appended, also when the subcommand did not make it.
  \<open>None\<close> stands for a statement that is given up.
\<close>

definition alter_subcommand :: "pg_lib \<Rightarrow> config \<Rightarrow> alter_cmd \<Rightarrow> olr_scan \<Rightarrow> olr_scan option res" where
  "alter_subcommand L cfg cmd st = (case cmd of
       AT_AddColumn col \<Rightarrow> rbind (alter_cmd_add_column L cfg col st) (\<lambda>st1. Inr (Some st1))
     | AT_DropColumn name \<Rightarrow> Inr (Some (alter_cmd_drop_column L cfg name st))
     | AT_AlterColumnType name col \<Rightarrow> rbind (alter_cmd_column_type L cfg name col st) (\<lambda>st1. Inr (Some st1))
     | AT_AddConstraint k \<Rightarrow> rbind (alter_cmd_add_constraint L cfg k st) (\<lambda>st1. Inr (Some st1))
     | AT_DropConstraint name \<Rightarrow> Inr (Some (alter_cmd_drop_constraint L cfg name st))
     | AT_unsupported \<Rightarrow> Inr None)"

fun alter_subcommands :: "pg_lib \<Rightarrow> config \<Rightarrow> alter_cmd list \<Rightarrow> olr_scan \<Rightarrow> olr_scan option res" where
  "alter_subcommands L cfg [] st = Inr (Some st)"
| "alter_subcommands L cfg (cmd # cmds) st =
     rbind (alter_subcommand L cfg cmd st) (\<lambda>r. case r of None \<Rightarrow> Inr None
       | Some st1 \<Rightarrow> alter_subcommands L cfg cmds (case os_col st1 of None \<Rightarrow> st1 | Some c \<Rightarrow> add_ddl_column c st1))"

definition set_type :: "DdlType \<Rightarrow> olr_scan \<Rightarrow> olr_scan" where
  "set_type t st = st\<lparr>os_ddl := (os_ddl st)\<lparr>dd_type := t\<rparr>\<rparr>"

definition olr_stmt :: "pg_lib \<Rightarrow> config \<Rightarrow> string \<Rightarrow> raw_stmt \<Rightarrow> olr_scan \<Rightarrow> olr_scan option res" where
  "olr_stmt L cfg skipped_operations stmt st = (case stmt of
       Not_raw \<Rightarrow> Inr (Some st)
     | CreateStmt relname elts \<Rightarrow> rbind (create_stmt L cfg relname elts st) (\<lambda>st1. Inr (Some st1))
     | AlterTableStmt relname cmds \<Rightarrow> rbind (alter_subcommands L cfg cmds (set_type DDL_ALTER_TABLE st)) (\<lambda>r.
          Inr (map_option (\<lambda>st1. st1\<lparr>os_table := relname\<rparr>) r))
     | DropStmt is_table objects \<Rightarrow>
          (let st1 = set_type DDL_DROP_TABLE st
           in if \<not> is_table then Inr (Some st1)
              else case objects of [] \<Rightarrow> Inr (Some st1) | [names] \<Rightarrow> Inr (Some (st1\<lparr>os_table := last names\<rparr>)) | _ \<Rightarrow> Inr None)
     | TruncateStmt relations \<Rightarrow>
          (let st1 = set_type DDL_TRUNCATE_TABLE st
           in if strstr skipped_operations ''t'' \<noteq> None then Inr None
              else case relations of [] \<Rightarrow> Inr (Some st1) | [rv] \<Rightarrow> Inr (Some (st1\<lparr>os_table := rv\<rparr>)) | _ \<Rightarrow> Inr None)
     | Stmt_other \<Rightarrow> Inr None)"

fun olr_stmts :: "pg_lib \<Rightarrow> config \<Rightarrow> string \<Rightarrow> raw_stmt list \<Rightarrow> olr_scan \<Rightarrow> olr_scan option res" where
  "olr_stmts L cfg skipped_operations [] st = Inr (Some st)"
| "olr_stmts L cfg skipped_operations (s # ss) st =
     rbind (olr_stmt L cfg skipped_operations s st) (\<lambda>r. case r of None \<Rightarrow> Inr None
       | Some st1 \<Rightarrow> olr_stmts L cfg skipped_operations ss st1)"

section \<open>The parts that every event carries\<close>

text \<open>
  A required number of the event, kept when a later part turns out to be missing: the commit position is used also for events
  that are not understood.
\<close>

record olr_position =
  op_scn :: "64 word"
  op_c_scn :: "64 word"
  op_c_idx :: "64 word"

definition no_position :: olr_position where
  "no_position = \<lparr>op_scn = 0, op_c_scn = 0, op_c_idx = 0\<rparr>"

definition json_number :: "pg_lib \<Rightarrow> jsonb \<Rightarrow> string \<Rightarrow> 64 word option res" where
  "json_number L jb key = (case json_key jb key of None \<Rightarrow> Inr None | Some n \<Rightarrow> rbind (json_numeric L n) (\<lambda>w. Inr (Some w)))"

definition event_position :: "pg_lib \<Rightarrow> jsonb \<Rightarrow> (bool \<times> olr_position) res" where
  "event_position L jb =
     rbind (json_number L jb ''scn'') (\<lambda>scn. case scn of None \<Rightarrow> Inr (False, no_position)
     | Some s \<Rightarrow> rbind (json_number L jb ''c_scn'') (\<lambda>c_scn. case c_scn of None \<Rightarrow> Inr (False, no_position\<lparr>op_scn := s\<rparr>)
     | Some c \<Rightarrow> rbind (json_number L jb ''c_idx'') (\<lambda>c_idx. case c_idx of None \<Rightarrow> Inr (False, no_position\<lparr>op_scn := s, op_c_scn := c\<rparr>)
     | Some i \<Rightarrow> Inr (True, \<lparr>op_scn = s, op_c_scn = c, op_c_idx = i\<rparr>))))"

definition json_text :: "jsonb \<Rightarrow> string \<Rightarrow> string option res" where
  "json_text j key = (case json_key j key of None \<Rightarrow> Inr None | Some v \<Rightarrow> rbind (json_string v) (\<lambda>s. Inr (Some s)))"

text \<open>Nanoseconds to milliseconds, on the first and last event of a batch.\<close>

definition event_tm :: "pg_lib \<Rightarrow> jsonb \<Rightarrow> bool \<Rightarrow> 64 word option res" where
  "event_tm L jb wanted = (if wanted then rbind (json_number L jb ''tm'') (\<lambda>t. Inr (map_option (\<lambda>w. w div 1000 div 1000) t)) else Inr None)"

section \<open>DDL events\<close>

text \<open>
  What the parser of Openlog events finds around it: the Oracle parser (\<open>None\<close> when it raises), the setting
  \<^verbatim>\<open>dbz_skipped_operations\<close>, the user of the connection, and \<open>oc_stale\<close>, the byte that the memory of a new hash
  entry happens to hold in its \<^verbatim>\<open>ispk\<close>, which the code sets only for key columns.
\<close>

record olr_conf =
  oc_parser :: "string \<Rightarrow> raw_stmt list option"
  oc_skipped_operations :: string
  oc_user :: string
  oc_stale :: "string \<Rightarrow> bool"

definition new_ddl :: DBZ_DDL where
  "new_ddl = \<lparr>dd_id = [], dd_type = DDL_UNDEF, dd_subtype = SUBTYPE_UNDEF, dd_primaryKeyColumnNames = None, dd_constraintName = None,
     dd_columns = [], dd_dbz_ts_ms = 0, dd_src_ts_ms = 0\<rparr>"

text \<open>The statement of a DDL event with its owner and its table, when it is one to apply.\<close>

definition olr_ddl_source :: "pg_lib \<Rightarrow> olr_conf \<Rightarrow> jsonb \<Rightarrow> (string \<times> string \<times> string) option res" where
  "olr_ddl_source L C payload =
     (case jsonb_get_element L payload [''schema''] of None \<Rightarrow> Inr None
      | Some jbschema \<Rightarrow> rbind (json_text jbschema ''owner'') (\<lambda>owner. case owner of None \<Rightarrow> Inr None
        | Some schema \<Rightarrow> if \<not> strcaseeq schema (oc_user C) then Inr None
            else rbind (json_text jbschema ''table'') (\<lambda>t. case t of None \<Rightarrow> Inr None
              | Some table \<Rightarrow> if \<not> is_whitelist_table table then Inr None
                  else rbind (json_text payload ''sql'') (\<lambda>q. case q of None \<Rightarrow> Inr None
                    | Some sql \<Rightarrow> Inr (map_option (\<lambda>sql'. (schema, table, sql')) (is_whitelist_sql L sql))))))"

definition finish_ddl :: "pg_lib \<Rightarrow> config \<Rightarrow> string \<Rightarrow> string \<Rightarrow> olr_scan \<Rightarrow> DBZ_DDL" where
  "finish_ddl L cfg db schema st =
     (let n = (\<lambda>s. fc_normalize_name L (synchdb_letter_casing_strategy cfg) s (length s))
      in (os_ddl st)\<lparr>dd_id := n db @ ''.'' @ n schema @ ''.'' @ olr_casing L cfg (os_table st)\<rparr>)"

definition parseOLRDDL :: "pg_lib \<Rightarrow> config \<Rightarrow> olr_conf \<Rightarrow> jsonb \<Rightarrow> jsonb \<Rightarrow> bool \<Rightarrow> bool \<Rightarrow> (DBZ_DDL option \<times> olr_position) res" where
  "parseOLRDDL L cfg C jb payload isfirst islast =
     rbind (event_position L jb) (\<lambda>(complete, pos).
       if \<not> complete then Inr (None, pos)
       else rbind (json_text jb ''db'') (\<lambda>d. case d of None \<Rightarrow> Inr (None, pos)
       | Some db \<Rightarrow> rbind (olr_ddl_source L C payload) (\<lambda>src. case src of None \<Rightarrow> Inr (None, pos)
         | Some (schema, table, sql) \<Rightarrow> rbind (event_tm L jb (isfirst \<or> islast)) (\<lambda>tm.
             case oc_parser C sql of None \<Rightarrow> Inr (None, pos)
             | Some ptree \<Rightarrow>
                 rbind (olr_stmts L cfg (oc_skipped_operations C) ptree
                          \<lparr>os_ddl = new_ddl\<lparr>dd_src_ts_ms := (case tm of None \<Rightarrow> 0 | Some t \<Rightarrow> t)\<rparr>, os_col = None, os_table = table\<rparr>) (\<lambda>r.
                   Inr (map_option (finish_ddl L cfg db schema) r, pos))))))"

section \<open>DML events\<close>

text \<open>
  The token loop. It differs from the one for Debezium events: an array drops its key, a key does not drop a value that
  is left over, and the nested value of a delete is taken when its path is \<^emph>\<open>not\<close> found.
\<close>

definition olr_nested_value :: "pg_lib \<Rightarrow> jsonb \<Rightarrow> string \<Rightarrow> bool \<Rightarrow> dml_scan \<Rightarrow> dml_scan res" where
  "olr_nested_value L payload section deleting st =
     (if \<not> ms_pause st then Inr st
      else case ms_key st of None \<Rightarrow> Inr (st\<lparr>ms_pause := False\<rparr>)
           | Some key \<Rightarrow> rbind (getPathElementString L payload (section @ ''.'' @ key) False) (\<lambda>t.
               Inr (case t of
                      None \<Rightarrow> if deleting then st\<lparr>ms_pause := False, ms_value := Some []\<rparr> else st\<lparr>ms_pause := False\<rparr>
                    | Some s \<Rightarrow> if deleting then st\<lparr>ms_pause := False\<rparr> else st\<lparr>ms_pause := False, ms_value := Some s\<rparr>)))"

definition olr_scalar :: "jsonb \<Rightarrow> dml_scan \<Rightarrow> dml_scan" where
  "olr_scalar v st = (if ms_pause st then st else st\<lparr>ms_value := Some (case scalar_text v of Some t \<Rightarrow> t | None \<Rightarrow> ''NULL'')\<rparr>)"

definition olr_switch :: "pg_lib \<Rightarrow> jsonb \<Rightarrow> string \<Rightarrow> bool \<Rightarrow> jsonb_token \<Rightarrow> dml_scan \<Rightarrow> dml_scan res" where
  "olr_switch L payload section deleting r st = (case r of
       WJB_BEGIN_OBJECT \<Rightarrow> Inr (if ms_key st \<noteq> None then st\<lparr>ms_pause := True\<rparr> else st)
     | WJB_END_OBJECT \<Rightarrow> olr_nested_value L payload section deleting st
     | WJB_BEGIN_ARRAY \<Rightarrow> Inr (st\<lparr>ms_key := None\<rparr>)
     | WJB_END_ARRAY \<Rightarrow> Inr st
     | WJB_KEY k \<Rightarrow> Inr (if ms_pause st then st else st\<lparr>ms_key := Some k\<rparr>)
     | WJB_VALUE v \<Rightarrow> Inr (olr_scalar v st)
     | WJB_ELEM v \<Rightarrow> Inr (olr_scalar v st))"

definition olr_column ::
  "pg_lib \<Rightarrow> config \<Rightarrow> conv_state \<Rightarrow> string \<Rightarrow> DataCacheEntry \<Rightarrow> string \<Rightarrow> string \<Rightarrow> DBZ_DML_COLUMN_VALUE res" where
  "olr_column L cfg cs objid ce key v =
     rbind (column_attname L cfg cs objid key) (\<lambda>name.
       case de_typeidhash ce (strlcpy NAMEDATALEN name) of
         None \<Rightarrow> Inl (PgError None (''cannot find data type for column '' @ name @ ''. Non-existent column?''))
       | Some e \<Rightarrow>
           (case de_namejsonposhash ce (strlcpy NAMEDATALEN (fc_normalize_name L LCS_NORMALIZE_LOWERCASE key (length key))) of
              None \<Rightarrow> Inl (PgError None (''cannot find olr json column schema data for column '' @ name))
            | Some e2 \<Rightarrow>
                Inr \<lparr>cv_name = name, cv_remoteColumnName = Some key, cv_value = Some v, cv_datatype = ne_oid e,
                     cv_position = ne_position e, cv_scale = nj_scale e2, cv_timerep = nj_timerep e2,
                     cv_typemod = ne_typemod e, cv_ispk = ne_ispk e, cv_dbztype = nj_dbztype e2,
                     cv_typcategory = ne_typcategory e, cv_typispreferred = ne_typispreferred e,
                     cv_typname = ne_typname e\<rparr>))"

definition olr_token ::
  "pg_lib \<Rightarrow> config \<Rightarrow> conv_state \<Rightarrow> jsonb \<Rightarrow> string \<Rightarrow> DataCacheEntry \<Rightarrow> string \<Rightarrow> bool \<Rightarrow> jsonb_token \<Rightarrow> dml_scan \<Rightarrow> dml_scan res" where
  "olr_token L cfg cs payload objid ce section deleting r st =
     rbind (olr_switch L payload section deleting r st) (\<lambda>st.
       case (ms_key st, ms_value st) of
         (Some k, Some v) \<Rightarrow> rbind (olr_column L cfg cs objid ce k v) (\<lambda>c.
            Inr (st\<lparr>ms_key := None, ms_value := None, ms_cols := ms_cols st @ [c]\<rparr>))
       | _ \<Rightarrow> Inr st)"

text \<open>One row image, from the key and value that the image before it left.\<close>

definition olr_image ::
  "pg_lib \<Rightarrow> config \<Rightarrow> conv_state \<Rightarrow> jsonb \<Rightarrow> string \<Rightarrow> DataCacheEntry \<Rightarrow> string \<Rightarrow> bool \<Rightarrow> dml_scan \<Rightarrow> dml_scan res" where
  "olr_image L cfg cs payload objid ce section deleting st =
     (case jsonb_get_element L payload [section] of
        None \<Rightarrow> Inr (st\<lparr>ms_cols := []\<rparr>)
      | Some dmldata \<Rightarrow> rfold (olr_token L cfg cs payload objid ce section deleting) (JsonbIterator L dmldata)
          (st\<lparr>ms_pause := False, ms_cols := []\<rparr>))"

definition no_scan :: dml_scan where
  "no_scan = \<lparr>ms_key = None, ms_value = None, ms_pause = False, ms_cols = []\<rparr>"

text \<open>(old row, new row) of an insert, an update and a delete.\<close>

type_synonym olr_rows_result = "(DBZ_DML_COLUMN_VALUE list \<times> DBZ_DML_COLUMN_VALUE list) res"

definition olr_insert_rows :: "pg_lib \<Rightarrow> config \<Rightarrow> conv_state \<Rightarrow> jsonb \<Rightarrow> string \<Rightarrow> DataCacheEntry \<Rightarrow> olr_rows_result" where
  "olr_insert_rows L cfg cs payload objid ce =
     rbind (olr_image L cfg cs payload objid ce ''after'' False no_scan) (\<lambda>a. Inr ([], ms_cols a))"

definition olr_update_rows :: "pg_lib \<Rightarrow> config \<Rightarrow> conv_state \<Rightarrow> jsonb \<Rightarrow> string \<Rightarrow> DataCacheEntry \<Rightarrow> olr_rows_result" where
  "olr_update_rows L cfg cs payload objid ce =
     rbind (olr_image L cfg cs payload objid ce ''before'' False no_scan) (\<lambda>b.
     rbind (olr_image L cfg cs payload objid ce ''after'' False b) (\<lambda>a. Inr (ms_cols b, ms_cols a)))"

definition olr_delete_rows :: "pg_lib \<Rightarrow> config \<Rightarrow> conv_state \<Rightarrow> jsonb \<Rightarrow> string \<Rightarrow> DataCacheEntry \<Rightarrow> olr_rows_result" where
  "olr_delete_rows L cfg cs payload objid ce =
     rbind (olr_image L cfg cs payload objid ce ''before'' True no_scan) (\<lambda>b. Inr (ms_cols b, []))"

lemmas olr_rows_defs = olr_insert_rows_def olr_update_rows_def olr_delete_rows_def

definition olr_images :: "pg_lib \<Rightarrow> config \<Rightarrow> conv_state \<Rightarrow> jsonb \<Rightarrow> string \<Rightarrow> DataCacheEntry \<Rightarrow> char \<Rightarrow> olr_rows_result" where
  "olr_images L cfg cs payload objid ce op =
     (if op = CHR ''c'' then olr_insert_rows L cfg cs payload objid ce
      else if op = CHR ''u'' then olr_update_rows L cfg cs payload objid ce
      else if op = CHR ''d'' then olr_delete_rows L cfg cs payload objid ce
      else Inr ([], []))"

definition olr_cached_table ::
  "pg_lib \<Rightarrow> dml_catalog \<Rightarrow> ErrorStrategies \<Rightarrow> (string \<Rightarrow> bool) \<Rightarrow> jsonb \<Rightarrow> string \<Rightarrow> string \<Rightarrow> data_cache
   \<Rightarrow> (DataCacheEntry option \<times> data_cache \<times> string option) res" where
  "olr_cached_table L cat strategy stale jbschema schema table cache =
     (let key = cache_key (Some schema) table;
          missing = (\<lambda>m. if strategy = STRAT_EXIT_ON_ERROR then Inl (PgError (Some m) m)
                         else Inr (None, cache(key \<mapsto> None), Some m))
      in case cache key of
           Some None \<Rightarrow> Inl (Undefined ''uninitialised cache entry'')
         | Some (Some ce) \<Rightarrow> Inr (Some ce, cache, None)
         | None \<Rightarrow>
             if \<not> dk_namespace cat schema then missing (''no valid OID found for schema '' @ schema)
             else (case dk_table cat schema table of
                     None \<Rightarrow> missing (''no valid OID found for table '' @ table)
                   | Some (tableoid, atts) \<Rightarrow>
                       rbind (build_olr_schema_jsonpos_hash L jbschema) (\<lambda>jsonpos.
                         let ce = \<lparr>de_tableoid = tableoid,
                                   de_typeidhash = typeid_hash (map (\<lambda>e. e\<lparr>ne_ispk := ne_ispk e \<or> stale (ne_name e)\<rparr>) atts),
                                   de_namejsonposhash = jsonpos, de_natts = length atts\<rparr>
                         in Inr (Some ce, cache(key \<mapsto> Some ce), None))))"

text \<open>(schema section, table, object identifier)\<close>

definition olr_source :: "pg_lib \<Rightarrow> string \<Rightarrow> jsonb \<Rightarrow> (jsonb \<times> string \<times> string) option res" where
  "olr_source L db payload =
     (case jsonb_get_element L payload [''schema''] of None \<Rightarrow> Inr None
      | Some jbschema \<Rightarrow> rbind (json_text jbschema ''owner'') (\<lambda>owner. rbind (json_text jbschema ''table'') (\<lambda>t. case t of None \<Rightarrow> Inr None
          | Some table \<Rightarrow> if \<not> is_whitelist_table table then Inr None
              else Inr (Some (jbschema, table, db @ ''.'' @ (case owner of None \<Rightarrow> [] | Some s \<Rightarrow> s @ ''.'') @ table)))))"

definition parseOLRDML ::
  "pg_lib \<Rightarrow> config \<Rightarrow> conv_state \<Rightarrow> dml_catalog \<Rightarrow> ErrorStrategies \<Rightarrow> olr_conf \<Rightarrow> jsonb \<Rightarrow> char \<Rightarrow> jsonb \<Rightarrow> bool \<Rightarrow> bool \<Rightarrow> data_cache
   \<Rightarrow> (DBZ_DML option \<times> olr_position \<times> data_cache \<times> string option) res" where
  "parseOLRDML L cfg cs cat strategy C jb op payload isfirst islast cache =
     rbind (event_position L jb) (\<lambda>(complete, pos).
       if \<not> complete then Inr (None, pos, cache, None)
       else rbind (json_text jb ''db'') (\<lambda>d. case d of None \<Rightarrow> Inr (None, pos, cache, None)
       | Some db \<Rightarrow> rbind (event_tm L jb (isfirst \<or> islast)) (\<lambda>tm. rbind (olr_source L db payload) (\<lambda>src. case src of
         None \<Rightarrow> Inr (None, pos, cache, None)
       | Some (jbschema, table, objid) \<Rightarrow>
           rbind (resolve_dml_table L cfg cs objid db table) (\<lambda>(schema, tbl, mapped).
           rbind (olr_cached_table L cat strategy (oc_stale C) jbschema schema tbl cache) (\<lambda>(entry, cache', msg). case entry of
             None \<Rightarrow> Inr (None, pos, cache', msg)
           | Some ce \<Rightarrow>
               rbind (olr_images L cfg cs payload objid ce op) (\<lambda>(before, after).
                 Inr (Some \<lparr>dm_op = op, dm_schema = Some schema, dm_table = Some tbl, dm_remoteObjectId = Some objid,
                        dm_mappedObjectId = mapped, dm_tableoid = de_tableoid ce, dm_natts = de_natts ce,
                        dm_columnValuesBefore = sort_key cv_position before,
                        dm_columnValuesAfter = sort_key cv_position after, dm_dbz_ts_ms = 0,
                        dm_src_ts_ms = (case tm of None \<Rightarrow> 0 | Some t \<Rightarrow> t)\<rparr>, pos, cache', msg))))))))"

section \<open>The data cache and the positions of the columns\<close>

lemma olr_cached_table_ok:
  assumes "cache_ok cache" and "olr_cached_table L cat strategy stale jbschema schema table cache = Inr (entry, cache', msg)"
  shows "cache_ok cache' \<and> (\<forall>ce. entry = Some ce \<longrightarrow> entry_ok ce)"
proof -
  have "entry_ok \<lparr>de_tableoid = t, de_typeidhash = typeid_hash (map f atts), de_namejsonposhash = j, de_natts = length atts\<rparr>" for t j atts and f :: "NameOidEntry \<Rightarrow> NameOidEntry"
    using new_entry_ok [of t "map f atts" j] by simp
  then have "(\<exists>ce. cache (cache_key (Some schema) table) = Some (Some ce) \<and> entry = Some ce \<and> cache' = cache)
    \<or> (entry = None \<and> cache' = cache(cache_key (Some schema) table \<mapsto> None))
    \<or> (\<exists>ce. entry_ok ce \<and> entry = Some ce \<and> cache' = cache(cache_key (Some schema) table \<mapsto> Some ce))"
    using assms(2) by (auto simp: olr_cached_table_def Let_def split: option.split_asm if_split_asm)
  then show ?thesis using assms(1) unfolding cache_ok_def by (metis fun_upd_apply option.distinct(1) option.inject)
qed

abbreviation in_table :: "DataCacheEntry \<Rightarrow> DBZ_DML_COLUMN_VALUE \<Rightarrow> bool" where
  "in_table ce c \<equiv> 1 \<le> cv_position c \<and> cv_position c \<le> int (de_natts ce)"

lemma olr_column_position:
  assumes "olr_column L cfg cs objid ce key v = Inr c" and "entry_ok ce"
  shows "in_table ce c"
proof -
  obtain name where n: "column_attname L cfg cs objid key = Inr name"
    using assms(1) by (cases "column_attname L cfg cs objid key") (auto simp: olr_column_def)
  obtain e where e: "de_typeidhash ce (strlcpy NAMEDATALEN name) = Some e"
    using assms(1) n by (cases "de_typeidhash ce (strlcpy NAMEDATALEN name)") (auto simp: olr_column_def)
  then have "cv_position c = ne_position e" using assms(1) n by (auto simp: olr_column_def split: option.split_asm)
  then show ?thesis using assms(2) e by (auto simp: entry_ok_def ran_def)
qed

lemma olr_switch_cols: "olr_switch L p sec d t st = Inr st0 \<Longrightarrow> ms_cols st0 = ms_cols st"
  by (auto simp: olr_switch_def olr_nested_value_def olr_scalar_def split: jsonb_token.splits option.splits if_splits)

lemma olr_image_position:
  assumes "olr_image L cfg cs payload objid ce sec d st = Inr st'" and "entry_ok ce"
  shows "\<forall>c \<in> set (ms_cols st'). in_table ce c"
proof (cases "jsonb_get_element L payload [sec]")
  case None
  then show ?thesis using assms(1) by (auto simp: olr_image_def)
next
  case (Some p)
  have step: "\<forall>c \<in> set (ms_cols y). in_table ce c"
    if t: "olr_token L cfg cs payload objid ce sec d t x = Inr y" and x: "\<forall>c \<in> set (ms_cols x). in_table ce c" for t x y
  proof -
    obtain x0 where sw: "olr_switch L payload sec d t x = Inr x0" using t by (auto simp: olr_token_def)
    then show ?thesis using t x olr_switch_cols [OF sw] olr_column_position [OF _ assms(2)]
      by (fastforce simp: olr_token_def split: option.splits)
  qed
  have "rfold (olr_token L cfg cs payload objid ce sec d) (JsonbIterator L p) (st\<lparr>ms_pause := False, ms_cols := []\<rparr>) = Inr st'"
    using assms(1) Some by (simp add: olr_image_def)
  then show ?thesis
    by (rule rfold_invariant [where P = "\<lambda>st. \<forall>c \<in> set (ms_cols st). in_table ce c"]) (simp, rule step)
qed

text \<open>The parser keeps the cache well formed, and the positions it reports lie inside the table it names.\<close>

lemma olr_images_position:
  assumes "olr_images L cfg cs payload objid ce op = Inr (before, after)" and "entry_ok ce" and "c \<in> set before \<union> set after"
  shows "in_table ce c"
proof -
  consider "op = CHR ''c''" | "op = CHR ''u''" | "op = CHR ''d''" | "before = []" "after = []"
    using assms(1) by (auto simp: olr_images_def olr_rows_defs split: if_split_asm)
  then show ?thesis
  proof cases
    case 1
    then obtain a where "olr_image L cfg cs payload objid ce ''after'' False no_scan = Inr a" "before = []" "after = ms_cols a"
      using assms(1) by (auto simp: olr_images_def olr_rows_defs)
    then show ?thesis using olr_image_position [OF _ assms(2)] assms(3) by fastforce
  next
    case 2
    then obtain b a where "olr_image L cfg cs payload objid ce ''before'' False no_scan = Inr b"
      "olr_image L cfg cs payload objid ce ''after'' False b = Inr a" "before = ms_cols b" "after = ms_cols a"
      using assms(1) by (auto simp: olr_images_def olr_rows_defs)
    then show ?thesis using olr_image_position [OF _ assms(2)] assms(3) by fastforce
  next
    case 3
    then obtain b where "olr_image L cfg cs payload objid ce ''before'' True no_scan = Inr b" "before = ms_cols b" "after = []"
      using assms(1) by (auto simp: olr_images_def olr_rows_defs)
    then show ?thesis using olr_image_position [OF _ assms(2)] assms(3) by fastforce
  qed (use assms(3) in simp)
qed

lemma parseOLRDML_stages:
  assumes "parseOLRDML L cfg cs cat strategy C jb op payload isf isla cache = Inr (r, pos, cache', msg)"
  shows "\<exists>complete. event_position L jb = Inr (complete, pos)
    \<and> ((r = None \<and> cache' = cache \<and> msg = None)
      \<or> (\<exists>jbschema schema tbl entry objid ce before after. olr_cached_table L cat strategy (oc_stale C) jbschema schema tbl cache = Inr (entry, cache', msg)
          \<and> (entry = None \<and> r = None \<or> entry = Some ce \<and> olr_images L cfg cs payload objid ce op = Inr (before, after)
              \<and> (\<exists>dml. r = Some dml \<and> dm_natts dml = de_natts ce \<and> set (dm_columnValuesBefore dml) = set before
                   \<and> set (dm_columnValuesAfter dml) = set after))))"
proof -
  obtain complete pos0 where p: "event_position L jb = Inr (complete, pos0)"
    using assms by (cases "event_position L jb") (auto simp: parseOLRDML_def)
  show ?thesis
  proof (cases complete)
    case False
    then show ?thesis using assms p by (auto simp: parseOLRDML_def)
  next
    case complete: True
    obtain d where d: "json_text jb ''db'' = Inr d" using assms p complete by (cases "json_text jb ''db''") (auto simp: parseOLRDML_def)
    show ?thesis
    proof (cases d)
      case None
      then show ?thesis using assms p complete d by (auto simp: parseOLRDML_def)
    next
      case (Some db)
      obtain tm where t: "event_tm L jb (isf \<or> isla) = Inr tm"
        using assms p complete d Some by (cases "event_tm L jb (isf \<or> isla)") (auto simp: parseOLRDML_def)
      obtain src where sr: "olr_source L db payload = Inr src"
        using assms p complete d Some t by (cases "olr_source L db payload") (auto simp: parseOLRDML_def)
      show ?thesis
      proof (cases src)
        case None
        then show ?thesis using assms p complete d Some t sr by (auto simp: parseOLRDML_def)
      next
        case src: (Some x)
        obtain jbschema table objid where x: "x = (jbschema, table, objid)" by (cases x) auto
        obtain schema tbl mapped where rt: "resolve_dml_table L cfg cs objid db table = Inr (schema, tbl, mapped)"
          using assms p complete d Some t sr src x by (cases "resolve_dml_table L cfg cs objid db table") (auto simp: parseOLRDML_def)
        let ?ct = "olr_cached_table L cat strategy (oc_stale C) jbschema schema tbl cache"
        obtain entry cache1 msg1 where ct: "?ct = Inr (entry, cache1, msg1)"
          using assms p complete d Some t sr src x rt by (cases ?ct) (auto simp: parseOLRDML_def)
        note facts = p complete d Some t sr src x rt ct
        show ?thesis
        proof (cases entry)
          case None
          then show ?thesis using assms facts by (auto simp: parseOLRDML_def)
        next
          case e: (Some ce)
          obtain before after where im: "olr_images L cfg cs payload objid ce op = Inr (before, after)"
            using assms facts e by (cases "olr_images L cfg cs payload objid ce op") (auto simp: parseOLRDML_def)
          show ?thesis using assms facts e im
            by (intro exI [of _ complete] conjI disjI2 exI [of _ jbschema] exI [of _ schema] exI [of _ tbl] exI [of _ entry] exI [of _ objid]
                exI [of _ ce] exI [of _ before] exI [of _ after]) (auto simp: parseOLRDML_def)
        qed
      qed
    qed
  qed
qed

lemma parseOLRDML_positions:
  assumes "cache_ok cache" and "parseOLRDML L cfg cs cat strategy C jb op payload isf isla cache = Inr (r, pos, cache', msg)"
  shows "cache_ok cache'"
    and "r = Some dml \<Longrightarrow> c \<in> set (dm_columnValuesBefore dml) \<union> set (dm_columnValuesAfter dml)
      \<Longrightarrow> 1 \<le> cv_position c \<and> cv_position c \<le> int (dm_natts dml)"
  using parseOLRDML_stages [OF assms(2)] olr_cached_table_ok [OF assms(1)] olr_images_position assms(1) by (blast, fastforce)

section \<open>Rows of scalars\<close>

definition olr_idle :: "DBZ_DML_COLUMN_VALUE list \<Rightarrow> dml_scan" where
  "olr_idle cols = \<lparr>ms_key = None, ms_value = None, ms_pause = False, ms_cols = cols\<rparr>"

lemma olr_scalar_tokens:
  assumes "is_scalar v"
  shows "rfold (olr_token L cfg cs payload objid ce sec d) (WJB_KEY k # value_tokens v) (olr_idle cols) =
    rbind (olr_column L cfg cs objid ce k (member_text L v)) (\<lambda>c. Inr (olr_idle (cols @ [c])))"
proof -
  have "value_tokens v = [WJB_VALUE v]" "scalar_text v = Some (member_text L v)" using assms by (cases v; simp add: scalar_text_def)+
  then show ?thesis by (simp add: olr_token_def olr_switch_def olr_scalar_def olr_idle_def rbind_assoc)
qed

lemma olr_members_tokens:
  assumes "\<forall>m \<in> set ms. is_scalar (snd m)"
  shows "rfold (olr_token L cfg cs payload objid ce sec d) (concat (map (\<lambda>(k, v). WJB_KEY k # value_tokens v) ms) @ [WJB_END_OBJECT]) (olr_idle cols) =
    rbind (rmap (\<lambda>(k, v). olr_column L cfg cs objid ce k (member_text L v)) ms) (\<lambda>new. Inr (olr_idle (cols @ new)))"
  using assms
proof (induction ms arbitrary: cols)
  case Nil
  show ?case by (simp add: olr_token_def olr_switch_def olr_nested_value_def olr_idle_def)
next
  case (Cons m ms)
  obtain k v where m: "m = (k, v)" by (cases m)
  then have v: "is_scalar v" using Cons.prems by simp
  have IH: "rfold (olr_token L cfg cs payload objid ce sec d) (concat (map (\<lambda>(k, v). WJB_KEY k # value_tokens v) ms) @ [WJB_END_OBJECT]) (olr_idle cs') =
    rbind (rmap (\<lambda>(k, v). olr_column L cfg cs objid ce k (member_text L v)) ms) (\<lambda>new. Inr (olr_idle (cs' @ new)))" for cs'
    using Cons by simp
  show ?case
    unfolding m list.map concat.simps append_assoc prod.case rfold_append [of _ "WJB_KEY _ # _"] olr_scalar_tokens [OF v] rbind_assoc rbind_Inr IH
    by (simp add: rbind_assoc)
qed

lemma olr_image_scalars:
  assumes "jsonb_get_element L payload [sec] = Some (JObject ms)" and "JsonbIterator L (JObject ms) = row_tokens ms"
    and "\<forall>m \<in> set ms. is_scalar (snd m)"
  shows "olr_image L cfg cs payload objid ce sec d (olr_idle cols) =
    rbind (rmap (\<lambda>(k, v). olr_column L cfg cs objid ce k (member_text L v)) ms) (\<lambda>new. Inr (olr_idle new))"
proof -
  have "olr_token L cfg cs payload objid ce sec d WJB_BEGIN_OBJECT (olr_idle []) = Inr (olr_idle [])"
    by (simp add: olr_token_def olr_switch_def olr_idle_def)
  moreover have "(olr_idle cols)\<lparr>ms_pause := False, ms_cols := []\<rparr> = olr_idle []" by (simp add: olr_idle_def)
  ultimately show ?thesis using assms olr_members_tokens [OF assms(3), of L cfg cs payload objid ce sec d "[]"]
    by (simp add: olr_image_def row_tokens_def)
qed


section \<open>Cutting the statement\<close>

text \<open>Text with matching parentheses.\<close>

inductive balanced :: "string \<Rightarrow> bool" where
  Nil: "balanced []"
| Char: "c \<noteq> CHR ''('' \<Longrightarrow> c \<noteq> CHR '')'' \<Longrightarrow> balanced s \<Longrightarrow> balanced (c # s)"
| Paren: "balanced s \<Longrightarrow> balanced t \<Longrightarrow> balanced (CHR ''('' # s @ CHR '')'' # t)"

lemma strip_balanced: "balanced s \<Longrightarrow> 0 < k \<Longrightarrow> strip_from k (s @ rest) = s @ strip_from k rest"
proof (induction arbitrary: k rest rule: balanced.induct)
  case (Paren s t)
  have "strip_from (k + 1) (s @ CHR '')'' # t @ rest) = s @ strip_from (k + 1) (CHR '')'' # t @ rest)" using Paren by simp
  then show ?case using Paren by simp
qed simp_all

lemma strip_prefix: "list_all (\<lambda>c. c \<noteq> CHR ''('' \<and> c \<noteq> CHR '')'') p \<Longrightarrow> strip_from 0 (p @ rest) = p @ strip_from 0 rest"
  by (induction p) auto

text \<open>
  What the Oracle parser sees of a CREATE TABLE is the statement up to the parenthesis that closes the column
  list: storage clauses and everything else behind it is dropped, while nested parentheses of types and defaults are kept. Any text
  with the words CREATE and TABLE in any letter case is taken.
\<close>

theorem create_statement_cut:
  assumes "sql = head @ ''('' @ cols @ '')'' @ rest" and "list_all (\<lambda>c. c \<noteq> CHR ''('' \<and> c \<noteq> CHR '')'') head" and "balanced cols"
    and "strstr (strtoupper L sql) ''CREATE'' \<noteq> None" and "strstr (strtoupper L sql) ''TABLE'' \<noteq> None"
    and "strstr (strtoupper L sql) ''DROP'' = None"
  shows "is_whitelist_sql L sql = Some (head @ ''('' @ cols @ '')'')"
proof -
  have "strip_after_column_def sql = head @ ''('' @ cols @ '')''"
    using assms(1-3) strip_prefix [OF assms(2)] strip_balanced [OF assms(3), of 1 "CHR '')'' # rest"]
    by (simp add: strip_after_column_def_def)
  then show ?thesis using assms(4-6) by (simp add: is_whitelist_sql_def Let_def)
qed

lemma c_toupper_Char:
  "c_toupper (Char b0 b1 b2 b3 b4 b5 b6 b7) =
     (if \<not> b7 \<and> b6 \<and> b5 \<and> (b0 \<or> b1 \<or> b2 \<or> b3 \<or> b4) \<and> \<not> (b4 \<and> b3 \<and> (b2 \<or> b1 \<and> b0)) then Char b0 b1 b2 b3 b4 False b6 b7
      else Char b0 b1 b2 b3 b4 b5 b6 b7)"
  by (cases b0; cases b1; cases b2; cases b3; cases b4; cases b5; cases b6; cases b7;
      simp add: c_toupper_def char_of_def bit_0)

lemma balanced_plain: "list_all (\<lambda>c. c \<noteq> CHR ''('' \<and> c \<noteq> CHR '')'') s \<Longrightarrow> balanced s"
  by (induction s) (auto intro: balanced.intros)

lemma balanced_append: "balanced s \<Longrightarrow> balanced t \<Longrightarrow> balanced (s @ t)"
  by (induction rule: balanced.induct) (auto intro: balanced.intros)

definition olr_example_entry :: DataCacheEntry where
  "olr_example_entry = example_entry\<lparr>de_namejsonposhash := (\<lambda>n. Some \<lparr>nj_name = n, nj_jsonpos = 0, nj_dbztype = OLRTYPE_STRING,
     nj_timerep = TIME_UNDEF, nj_scale = 0\<rparr>)\<rparr>"

lemma olr_example_column:
  assumes "synchdb_letter_casing_strategy cfg = LCS_NORMALIZE_LOWERCASE"
  shows "olr_column object_lib cfg conv_state0 ''db.t'' olr_example_entry ''id'' v = Inr ((image_value ''id'' 1 v)\<lparr>cv_dbztype := OLRTYPE_STRING\<rparr>)"
  using assms by (simp add: olr_column_def column_attname_def transform_object_name_def conv_state0_def olr_example_entry_def
      fc_normalize_name_def object_lib_def ascii_lib_def c_simps example_entry_def typeid_hash_def numbered_attributes_def
      example_attr_def image_value_def strlcpy_def NAMEDATALEN_def)


theorem create_statement_cut_witness:
  "is_whitelist_sql ascii_lib ''create table t (a number(3)) tablespace x'' = Some ''create table t (a number(3))''"
proof -
  have "balanced (''a number'' @ ''('' @ ''3'' @ '')'' @ [])"
    using balanced_append [OF balanced_plain balanced.Paren [OF balanced_plain balanced.Nil, of "''3''"], of "''a number''"] by simp
  moreover have "strtoupper ascii_lib ''create table t (a number(3)) tablespace x'' = ''CREATE TABLE T (A NUMBER(3)) TABLESPACE X''"
    by (simp add: strtoupper_def ascii_lib_def c_toupper_Char)
  ultimately show ?thesis
    using create_statement_cut [of "''create table t (a number(3)) tablespace x''" "''create table t ''" "''a number(3)''" "'' tablespace x''" ascii_lib]
    by simp
qed

lemma toupper_as: "c_tolower c = CHR ''a'' \<Longrightarrow> c_toupper c = CHR ''A''" "c_tolower c = CHR ''s'' \<Longrightarrow> c_toupper c = CHR ''S''"
proof -
  assume "c_tolower c = CHR ''a''"
  then have "c = CHR ''a'' \<or> c = CHR ''A''" by (cases c) (auto simp: c_tolower_Char split: if_split_asm)
  then show "c_toupper c = CHR ''A''" by (auto simp: c_toupper_Char)
next
  assume "c_tolower c = CHR ''s''"
  then have "c = CHR ''s'' \<or> c = CHR ''S''" by (cases c) (auto simp: c_tolower_Char split: if_split_asm)
  then show "c_toupper c = CHR ''S''" by (auto simp: c_toupper_Char)
qed

lemma as_upper: "before_caseless s ''AS'' = Some p \<Longrightarrow> strstr (map c_toupper s) ''AS'' \<noteq> None"
proof (induction s arbitrary: p)
  case (Cons c cs)
  show ?case
  proof (cases "strcaseeq (take (length ''AS'') (c # cs)) ''AS''")
    case True
    then obtain d ds where "cs = d # ds" "c_tolower c = CHR ''a''" "c_tolower d = CHR ''s''"
      by (cases cs) (auto simp: strcaseeq_def c_simps)
    then show ?thesis by (simp add: toupper_as)
  next
    case False
    then show ?thesis using Cons by auto
  qed
qed simp

lemma before_caseless_prefix: "before_caseless s n = Some p \<Longrightarrow> set p \<subseteq> set s"
  by (induction s n arbitrary: p rule: before_caseless.induct) (auto split: if_split_asm)

text \<open>
  A DROP TABLE is cut at the first \<^verbatim>\<open>AS\<close> in any letter case, meant for the \<^verbatim>\<open>AS\<close> clause that Oracle adds for its recycle
  bin, also when these letters are part of the table's name: the statement that is parsed and applied names another table.
\<close>

theorem drop_statement_cut:
  assumes "before_caseless table ''AS'' = Some p" and "list_all (\<lambda>c. c \<noteq> CHR ''('' \<and> c \<noteq> CHR '')'') table"
  shows "is_whitelist_sql ascii_lib (''DROP TABLE '' @ table) = Some (''DROP TABLE '' @ p)"
proof -
  let ?sql = "''DROP TABLE '' @ table"
  have up: "strtoupper ascii_lib ?sql = ''DROP TABLE '' @ map c_toupper table"
    by (simp add: strtoupper_def ascii_lib_def c_toupper_Char)
  have has: "strstr (strtoupper ascii_lib ?sql) ''DROP'' \<noteq> None" "strstr (strtoupper ascii_lib ?sql) ''TABLE'' \<noteq> None"
    "strstr (strtoupper ascii_lib ?sql) ''AS'' \<noteq> None"
    unfolding up using as_upper [OF assms(1)] by simp_all
  have cut: "before_caseless ?sql ''AS'' = Some (''DROP TABLE '' @ p)" using assms(1) by (simp add: strcaseeq_def c_simps)
  have "list_all (\<lambda>c. c \<noteq> CHR ''('' \<and> c \<noteq> CHR '')'') (''DROP TABLE '' @ p)"
    using assms(2) before_caseless_prefix [OF assms(1)] by (auto simp: list_all_iff)
  from strip_prefix [OF this, of "[]"] have strip: "strip_after_column_def (''DROP TABLE '' @ p) = ''DROP TABLE '' @ p"
    by (simp add: strip_after_column_def_def)
  show ?thesis unfolding is_whitelist_sql_def Let_def cut using has strip by (simp only: option.case) simp
qed

theorem drop_statement_cut_witness:
  "is_whitelist_sql ascii_lib ''DROP TABLE basket'' = Some ''DROP TABLE b''"
  using drop_statement_cut [of "''basket''" "''b''"] by (simp add: strcaseeq_def c_simps)

end
