(* ===== verification/OLR_Flow.thy ===== *)
theory OLR_Flow
  imports Event_Flow OLR_Parse
begin

text \<open>
  The processing of one Openlog Replicator event (\<^verbatim>\<open>fc_processOLRChangeEvent\<close> of
  \<^verbatim>\<open>src/backend/converter/olr_event_handler.c\<close>): transaction boundaries, DML and DDL events through parsing, conversion and
  execution, the position in the redo log that is confirmed to the server, and \<^verbatim>\<open>sendconfirm\<close>.
\<close>

section \<open>Outcomes\<close>

text \<open>
  The result of an event: the return value, the statistics of the batch, \<^verbatim>\<open>sendconfirm\<close> and the worker's state. Loading
  the Oracle parser may fail with the message in \<open>oe_load\<close>; \<open>oe_in_transaction\<close> is \<^verbatim>\<open>IsTransactionState\<close>.
\<close>

type_synonym 'db olr_result = "(int \<times> SynchdbStatistics \<times> bool \<times> 'db flow) res"

record olr_event_env =
  oe_conf :: olr_conf
  oe_load :: "string option"
  oe_in_transaction :: bool

definition olr_bad :: "SynchdbStatistics \<Rightarrow> bool \<Rightarrow> 'db flow \<Rightarrow> 'db olr_result" where
  "olr_bad st confirm s = Inr (-1, increment_connector_statistics st STATS_BAD_CHANGE_EVENT 1, confirm, s)"

definition record_position :: "olr_position \<Rightarrow> 'db flow \<Rightarrow> 'db flow" where
  "record_position pos s = s\<lparr>fl_olr := olr_client_set_scns (op_scn pos) (op_c_scn pos) (op_c_idx pos) (fl_olr s)\<rparr>"

section \<open>Transaction boundaries\<close>

text \<open>The source timestamp is kept when the event has none.\<close>

definition olr_boundary ::
  "('db, 'd, 'tid) flow_env \<Rightarrow> jsonb \<Rightarrow> bool \<Rightarrow> bool \<Rightarrow> SynchdbStatistics \<Rightarrow> bool \<Rightarrow> 'db flow \<Rightarrow> 'db olr_result" where
  "olr_boundary E jb isfirst islast st confirm s =
     rbind (event_position (fe_lib E) jb) (\<lambda>(complete, pos).
       if \<not> complete then olr_bad st confirm s
       else let st1 = increment_connector_statistics st STATS_TX 1; s1 = set_state E STATE_SYNCING s; g = genstats st1;
                or_old = (\<lambda>t old. case t of None \<Rightarrow> old | Some w \<Rightarrow> w)
            in rbind (event_tm (fe_lib E) jb islast) (\<lambda>tl. rbind (event_tm (fe_lib E) jb isfirst) (\<lambda>tf.
                 let g1 = (if islast then g\<lparr>stats_last_src_ts := or_old tl (stats_last_src_ts g), stats_last_pg_ts := fe_now E\<rparr> else g);
                     g2 = (if isfirst then g1\<lparr>stats_first_src_ts := or_old tf (stats_first_src_ts g1), stats_first_pg_ts := fe_now E\<rparr> else g1)
                 in Inr (0, st1\<lparr>genstats := g2\<rparr>, True, record_position pos s1))))"

section \<open>DML events\<close>

definition olr_execute_dml ::
  "('db, 'd, 'tid) flow_env \<Rightarrow> DBZ_DML \<Rightarrow> PG_DML \<Rightarrow> olr_position \<Rightarrow> bool \<Rightarrow> bool \<Rightarrow> SynchdbStatistics \<Rightarrow> bool \<Rightarrow> 'db flow \<Rightarrow> 'db olr_result" where
  "olr_execute_dml E dml pg pos isfirst islast st confirm s =
     rbind (ra_executePGDML (fe_exec E) (fe_cfg E) (fe_strategy E) pg False st (fl_db s)) (\<lambda>(ret, msg, st1, db).
       let s1 = (set_errmsg E msg s)\<lparr>fl_db := db\<rparr>
       in if ret \<noteq> 0 then olr_bad st1 confirm (set_state E STATE_SYNCING s1)
          else Inr (0, stamp E isfirst islast (dm_src_ts_ms dml) st1, True, set_state E STATE_SYNCING (record_position pos s1)))"

definition olr_convert_dml ::
  "('db, 'd, 'tid) flow_env \<Rightarrow> DBZ_DML \<Rightarrow> olr_position \<Rightarrow> bool \<Rightarrow> bool \<Rightarrow> SynchdbStatistics \<Rightarrow> bool \<Rightarrow> 'db flow \<Rightarrow> 'db olr_result" where
  "olr_convert_dml E dml pos isfirst islast st confirm s =
     rbind (convert2PGDML (fe_lib E) (fe_cfg E) (fe_conv E) dml TYPE_OLR) (\<lambda>pgdml. case pgdml of
       None \<Rightarrow> olr_bad st confirm (set_state E STATE_SYNCING s)
     | Some pg \<Rightarrow> olr_execute_dml E dml pg pos isfirst islast st confirm (set_state E STATE_EXECUTING s))"

definition olr_process_dml ::
  "('db, 'd, 'tid) flow_env \<Rightarrow> olr_event_env \<Rightarrow> jsonb \<Rightarrow> jsonb \<Rightarrow> char \<Rightarrow> bool \<Rightarrow> bool \<Rightarrow> SynchdbStatistics \<Rightarrow> bool \<Rightarrow> 'db flow \<Rightarrow> 'db olr_result" where
  "olr_process_dml E X jb payload op isfirst islast st confirm s =
     (let st1 = increment_connector_statistics st STATS_DML 1; s1 = set_state E STATE_PARSING s in
      if \<not> oe_in_transaction X then Inr (-1, st1, confirm, s)
      else rbind (parseOLRDML (fe_lib E) (fe_cfg E) (fe_conv E) (fe_dml_catalog E (fl_db s1)) (fe_strategy E) (oe_conf X) jb op payload
                    isfirst islast (fl_cache s1)) (\<lambda>(olrdml, pos, cache, msg).
        let s2 = (set_errmsg E msg s1)\<lparr>fl_cache := cache\<rparr>
        in case olrdml of
          None \<Rightarrow> olr_bad st1 confirm (set_state E STATE_SYNCING s2)
        | Some dml \<Rightarrow> olr_convert_dml E dml pos isfirst islast st1 confirm (set_state E STATE_CONVERTING s2)))"

section \<open>DDL events\<close>

definition olr_execute_ddl ::
  "('db, 'd, 'tid) flow_env \<Rightarrow> DBZ_DDL \<Rightarrow> PG_DDL \<Rightarrow> olr_position \<Rightarrow> bool \<Rightarrow> bool \<Rightarrow> SynchdbStatistics \<Rightarrow> bool \<Rightarrow> 'db flow \<Rightarrow> 'db olr_result" where
  "olr_execute_ddl E ddl pg pos isfirst islast st confirm s =
     rbind (ra_executePGDDL (fe_exec E) pg (fl_db s)) (\<lambda>(ret, db).
       let s1 = s\<lparr>fl_db := db\<rparr>
       in if ret \<noteq> 0 then olr_bad st confirm (set_state E STATE_SYNCING s1)
          else rbind (updateSynchdbAttribute (fe_catalog E db) (fe_relation_oid E db) (fe_strategy E) ddl pg TYPE_OLR (fe_name E)) (\<lambda>(stmt, msg).
               rbind (case stmt of None \<Rightarrow> Inr (0, db) | Some q \<Rightarrow> ra_executeCommand (fe_exec E) q db) (\<lambda>(_, db').
                 let s2 = (set_errmsg E msg (record_position pos s1))\<lparr>fl_db := db'\<rparr>
                 in Inr (0, stamp E isfirst islast (dd_src_ts_ms ddl) st, True, set_state E STATE_SYNCING s2))))"

definition olr_convert_ddl ::
  "('db, 'd, 'tid) flow_env \<Rightarrow> DBZ_DDL \<Rightarrow> olr_position \<Rightarrow> bool \<Rightarrow> bool \<Rightarrow> SynchdbStatistics \<Rightarrow> bool \<Rightarrow> 'db flow \<Rightarrow> 'db olr_result" where
  "olr_convert_ddl E ddl pos isfirst islast st confirm s =
     rbind (convert2PGDDL (fe_lib E) (fe_cfg E) (fe_conv E) (fe_catalog E (fl_db s)) ddl TYPE_OLR) (\<lambda>(pgddl, key).
       let s1 = (case key of None \<Rightarrow> s | Some k \<Rightarrow> s\<lparr>fl_cache := (fl_cache s)(k := None)\<rparr>)
       in case pgddl of
            None \<Rightarrow> olr_bad st confirm (set_state E STATE_SYNCING s1)
          | Some pg \<Rightarrow> olr_execute_ddl E ddl pg pos isfirst islast st confirm (set_state E STATE_EXECUTING s1))"

definition olr_process_ddl ::
  "('db, 'd, 'tid) flow_env \<Rightarrow> olr_event_env \<Rightarrow> jsonb \<Rightarrow> jsonb \<Rightarrow> bool \<Rightarrow> bool \<Rightarrow> SynchdbStatistics \<Rightarrow> bool \<Rightarrow> 'db flow \<Rightarrow> 'db olr_result" where
  "olr_process_ddl E X jb payload isfirst islast st confirm s =
     (let st1 = increment_connector_statistics st STATS_DDL 1; s1 = set_state E STATE_PARSING s in
      case oe_load X of Some m \<Rightarrow> Inl (PgError (Some m) m)
      | None \<Rightarrow> rbind (parseOLRDDL (fe_lib E) (fe_cfg E) ((oe_conf X)\<lparr>oc_user := get_shm_connector_user_by_id (fl_shm s1) (fe_id E)\<rparr>) jb payload
                    isfirst islast) (\<lambda>(olrddl, pos). case olrddl of
          None \<Rightarrow> olr_bad st1 True (record_position pos (set_state E STATE_SYNCING s1))
        | Some ddl \<Rightarrow> olr_convert_ddl E ddl pos isfirst islast st1 confirm (set_state E STATE_CONVERTING s1)))"

section \<open>One event\<close>

definition fc_processOLRChangeEvent ::
  "('db, 'd, 'tid) flow_env \<Rightarrow> olr_event_env \<Rightarrow> string \<Rightarrow> bool \<Rightarrow> bool \<Rightarrow> SynchdbStatistics \<times> bool \<times> 'db flow \<Rightarrow> 'db olr_result" where
  "fc_processOLRChangeEvent E X event isfirst islast sf = (case sf of (st, confirm, s) \<Rightarrow>
     (case jsonb_in (fe_lib E) event of None \<Rightarrow> olr_bad st confirm s
      | Some jb \<Rightarrow> (case jsonb_get_element (fe_lib E) jb [''payload'', ''0''] of None \<Rightarrow> olr_bad st confirm s
        | Some payload \<Rightarrow> rbind (json_text payload ''op'') (\<lambda>opt. case opt of None \<Rightarrow> olr_bad st confirm s
          | Some op \<Rightarrow>
              (let s1 = s\<lparr>fl_shm := ensure_stage (fe_id E) STAGE_CHANGE_DATA_CAPTURE (fl_shm s)\<rparr>
               in if strcaseeq op ''begin'' \<or> strcaseeq op ''commit'' then olr_boundary E jb isfirst islast st confirm s1
                  else if strcaseeq op ''c'' \<or> strcaseeq op ''u'' \<or> strcaseeq op ''d''
                  then olr_process_dml E X jb payload (hd op) isfirst islast st confirm s1
                  else if strcaseeq op ''ddl'' then olr_process_ddl E X jb payload isfirst islast st confirm s1
                  else Inr (0, st, confirm, s1))))))"

definition olr_handler ::
  "('db, 'd, 'tid) flow_env \<Rightarrow> olr_event_env \<Rightarrow> byte list \<Rightarrow> bool \<Rightarrow> bool \<Rightarrow> SynchdbStatistics \<times> bool \<times> 'db flow \<Rightarrow> 'db olr_result" where
  "olr_handler E X event = fc_processOLRChangeEvent E X (c_string event)"

section \<open>Outcomes of an event\<close>

text \<open>
  A stage of an event ends well, with the event's position recorded and to be confirmed, or badly, with neither; in both cases
  the connector is polling again and only its progress has changed in the shared memory.
\<close>

definition olr_outcome ::
  "('db, 'd, 'tid) flow_env \<Rightarrow> olr_position \<Rightarrow> bool \<Rightarrow> 'db flow \<Rightarrow> int \<Rightarrow> bool \<Rightarrow> 'db flow \<Rightarrow> bool" where
  "olr_outcome E pos confirm s ret confirm' s' \<longleftrightarrow> flow_step E s s' \<and> flow_state E s' = STATE_SYNCING
     \<and> (ret = 0 \<and> confirm' \<and> fl_olr s' = olr_client_set_scns (op_scn pos) (op_c_scn pos) (op_c_idx pos) (fl_olr s)
        \<or> ret = -1 \<and> confirm' = confirm \<and> fl_olr s' = fl_olr s \<and> fl_isInSnapshot s' = fl_isInSnapshot s)"

lemma olr_outcome_from:
  assumes "olr_outcome E pos confirm s1 ret confirm' s'" and "flow_step E s s1" and "fl_olr s1 = fl_olr s" and "fl_isInSnapshot s1 = fl_isInSnapshot s"
  shows "olr_outcome E pos confirm s ret confirm' s'"
  using assms flow_step_trans [of E s s1 s'] by (auto simp: olr_outcome_def)

lemma set_state_olr [simp]: "fl_olr (set_state E st s) = fl_olr s" "fl_olr (set_errmsg E m s) = fl_olr s"
  by (simp_all add: set_state_def set_errmsg_def split: option.split)

lemma record_position_simps [simp]:
  "fl_shm (record_position pos s) = fl_shm s" "fl_cache (record_position pos s) = fl_cache s" "fl_isInSnapshot (record_position pos s) = fl_isInSnapshot s"
  "fl_olr (record_position pos s) = olr_client_set_scns (op_scn pos) (op_c_scn pos) (op_c_idx pos) (fl_olr s)"
  "flow_step E s (record_position pos s)"
  by (simp_all add: record_position_def)

lemma olr_bad_outcome:
  assumes "olr_bad st confirm (set_state E STATE_SYNCING s) = Inr (ret, st', confirm', s')" and "flow_valid E s"
  shows "olr_outcome E pos confirm s ret confirm' s'"
  using assms by (auto simp: olr_bad_def olr_outcome_def)

lemma olr_execute_dml_outcome:
  assumes "olr_execute_dml E dml pg pos isf isla st confirm s = Inr (ret, st', confirm', s')" and "flow_valid E s"
  shows "olr_outcome E pos confirm s ret confirm' s'"
proof -
  let ?x = "ra_executePGDML (fe_exec E) (fe_cfg E) (fe_strategy E) pg False st (fl_db s)"
  obtain r msg st1 db where x: "?x = Inr (r, msg, st1, db)" using assms(1) by (cases ?x) (auto simp: olr_execute_dml_def)
  define s1 where "s1 = (set_errmsg E msg s)\<lparr>fl_db := db\<rparr>"
  have s1: "flow_valid E s1" "fl_olr s1 = fl_olr s" "fl_isInSnapshot s1 = fl_isInSnapshot s" using assms(2) by (simp_all add: s1_def)
  have step: "flow_step E s s1" unfolding s1_def by (rule flow_step_trans [OF flow_step_set(2) [OF assms(2)] flow_step_db(1)])
  have "olr_outcome E pos confirm s1 ret confirm' s'"
  proof (cases "r = 0")
    case True
    then have "ret = 0" "confirm'" "s' = set_state E STATE_SYNCING (record_position pos s1)"
      using assms(1) x by (simp_all add: olr_execute_dml_def Let_def flip: s1_def)
    then show ?thesis using s1(1) flow_step_trans [OF record_position_simps(5) flow_step_set(1)] by (simp add: olr_outcome_def)
  next
    case False
    then have "olr_bad st1 confirm (set_state E STATE_SYNCING s1) = Inr (ret, st', confirm', s')"
      using assms(1) x by (simp add: olr_execute_dml_def Let_def flip: s1_def)
    then show ?thesis using olr_bad_outcome s1(1) by blast
  qed
  then show ?thesis using olr_outcome_from step s1(2,3) by blast
qed

lemma olr_enter:
  assumes "olr_outcome E pos confirm (set_state E st0 s) ret confirm' s'" and "flow_valid E s"
  shows "olr_outcome E pos confirm s ret confirm' s'"
  using olr_outcome_from [OF assms(1)] assms(2) by simp

lemma olr_convert_dml_outcome:
  assumes "olr_convert_dml E dml pos isf isla st confirm s = Inr (ret, st', confirm', s')" and "flow_valid E s"
  shows "olr_outcome E pos confirm s ret confirm' s'"
proof -
  let ?c = "convert2PGDML (fe_lib E) (fe_cfg E) (fe_conv E) dml TYPE_OLR"
  obtain q where q: "?c = Inr q" using assms(1) by (cases ?c) (auto simp: olr_convert_dml_def)
  show ?thesis
  proof (cases q)
    case None
    then show ?thesis using assms q olr_bad_outcome by (simp add: olr_convert_dml_def)
  next
    case (Some pg)
    then have "olr_execute_dml E dml pg pos isf isla st confirm (set_state E STATE_EXECUTING s) = Inr (ret, st', confirm', s')"
      using assms(1) q by (simp add: olr_convert_dml_def)
    from olr_execute_dml_outcome [OF this] show ?thesis using olr_enter assms(2) by simp
  qed
qed

lemma olr_process_dml_outcome:
  assumes "olr_process_dml E X jb payload op isf isla st confirm s = Inr (ret, st', confirm', s')" and "flow_valid E s" and "oe_in_transaction X"
  shows "\<exists>complete pos. event_position (fe_lib E) jb = Inr (complete, pos) \<and> olr_outcome E pos confirm s ret confirm' s'"
proof -
  define s1 where "s1 = set_state E STATE_PARSING s"
  let ?p = "parseOLRDML (fe_lib E) (fe_cfg E) (fe_conv E) (fe_dml_catalog E (fl_db s1)) (fe_strategy E) (oe_conf X) jb op payload isf isla (fl_cache s1)"
  obtain d pos cache msg where p: "?p = Inr (d, pos, cache, msg)"
    using assms(1,3) by (cases ?p) (auto simp: olr_process_dml_def simp flip: s1_def)
  define s2 where "s2 = (set_errmsg E msg s1)\<lparr>fl_cache := cache\<rparr>"
  have s1: "flow_valid E s1" "flow_step E s s1" using assms(2) by (simp_all add: s1_def)
  have "flow_step E (set_errmsg E msg s1) s2" unfolding s2_def using parseOLRDML_positions(1) [OF _ p] by (intro flow_step_cache) simp
  then have step: "flow_step E s s2" using flow_step_trans [OF s1(2) flow_step_trans [OF flow_step_set(2) [OF s1(1)]]] by blast
  have s2: "flow_valid E s2" "fl_olr s2 = fl_olr s" "fl_isInSnapshot s2 = fl_isInSnapshot s" using assms(2) by (simp_all add: s2_def s1_def)
  have "olr_outcome E pos confirm s2 ret confirm' s'"
  proof (cases d)
    case None
    then show ?thesis using assms(1,3) p olr_bad_outcome s2(1) by (fastforce simp: olr_process_dml_def Let_def s2_def simp flip: s1_def)
  next
    case (Some dml)
    then have "olr_convert_dml E dml pos isf isla (increment_connector_statistics st STATS_DML 1) confirm (set_state E STATE_CONVERTING s2)
        = Inr (ret, st', confirm', s')"
      using assms(1,3) p by (simp add: olr_process_dml_def Let_def s2_def flip: s1_def)
    from olr_convert_dml_outcome [OF this] show ?thesis using olr_enter s2(1) by simp
  qed
  then have "olr_outcome E pos confirm s ret confirm' s'" using olr_outcome_from step s2(2,3) by blast
  then show ?thesis using parseOLRDML_stages [OF p] by blast
qed

lemma olr_execute_ddl_outcome:
  assumes "olr_execute_ddl E ddl pg pos isf isla st confirm s = Inr (ret, st', confirm', s')" and "flow_valid E s"
  shows "olr_outcome E pos confirm s ret confirm' s'"
proof -
  let ?x = "ra_executePGDDL (fe_exec E) pg (fl_db s)"
  obtain r db where x: "?x = Inr (r, db)" using assms(1) by (cases ?x) (auto simp: olr_execute_ddl_def)
  define s1 where "s1 = s\<lparr>fl_db := db\<rparr>"
  have s1: "flow_valid E s1" "fl_olr s1 = fl_olr s" "fl_isInSnapshot s1 = fl_isInSnapshot s" "flow_step E s s1"
    using assms(2) by (simp_all add: s1_def)
  have "olr_outcome E pos confirm s1 ret confirm' s'"
  proof (cases "r = 0")
    case True
    let ?u = "updateSynchdbAttribute (fe_catalog E db) (fe_relation_oid E db) (fe_strategy E) ddl pg TYPE_OLR (fe_name E)"
    obtain stmt msg where u: "?u = Inr (stmt, msg)" using assms(1) x True by (cases ?u) (auto simp: olr_execute_ddl_def)
    let ?q = "case stmt of None \<Rightarrow> Inr (0, db) | Some q \<Rightarrow> ra_executeCommand (fe_exec E) q db"
    obtain rq db' where q: "?q = Inr (rq, db')" using assms(1) x True u by (cases ?q) (auto simp: olr_execute_ddl_def)
    define s2 where "s2 = (set_errmsg E msg (record_position pos s1))\<lparr>fl_db := db'\<rparr>"
    have out: "ret = 0" "confirm'" "s' = set_state E STATE_SYNCING s2"
      using assms(1) x True u q by (simp_all add: olr_execute_ddl_def Let_def s2_def flip: s1_def)
    have v: "flow_valid E (record_position pos s1)" using s1(1) by simp
    have "flow_step E s1 s2" unfolding s2_def
      by (rule flow_step_trans [OF record_position_simps(5) flow_step_trans [OF flow_step_set(2) [OF v] flow_step_db(1)]])
    moreover have "flow_valid E s2" "fl_olr s2 = olr_client_set_scns (op_scn pos) (op_c_scn pos) (op_c_idx pos) (fl_olr s1)"
      using s1(1) by (simp_all add: s2_def)
    ultimately show ?thesis using out flow_step_trans [OF _ flow_step_set(1)] by (simp add: olr_outcome_def)
  next
    case False
    then have "olr_bad st confirm (set_state E STATE_SYNCING s1) = Inr (ret, st', confirm', s')"
      using assms(1) x by (simp add: olr_execute_ddl_def Let_def flip: s1_def)
    then show ?thesis using olr_bad_outcome s1(1) by blast
  qed
  then show ?thesis using olr_outcome_from s1 by blast
qed

lemma olr_convert_ddl_outcome:
  assumes "olr_convert_ddl E ddl pos isf isla st confirm s = Inr (ret, st', confirm', s')" and "flow_valid E s"
  shows "olr_outcome E pos confirm s ret confirm' s'"
proof -
  let ?c = "convert2PGDDL (fe_lib E) (fe_cfg E) (fe_conv E) (fe_catalog E (fl_db s)) ddl TYPE_OLR"
  obtain q key where q: "?c = Inr (q, key)" using assms(1) by (cases ?c) (auto simp: olr_convert_ddl_def)
  define s1 where "s1 = (case key of None \<Rightarrow> s | Some k \<Rightarrow> s\<lparr>fl_cache := (fl_cache s)(k := None)\<rparr>)"
  have s1: "flow_valid E s1" "fl_olr s1 = fl_olr s" "fl_isInSnapshot s1 = fl_isInSnapshot s" "flow_step E s s1"
    using assms(2) by (auto simp: s1_def intro: flow_step_cache convert2PGDDL_cache split: option.split)
  have "olr_outcome E pos confirm s1 ret confirm' s'"
  proof (cases q)
    case None
    then have "olr_bad st confirm (set_state E STATE_SYNCING s1) = Inr (ret, st', confirm', s')"
      using assms(1) q by (simp add: olr_convert_ddl_def Let_def flip: s1_def)
    then show ?thesis using olr_bad_outcome s1(1) by blast
  next
    case (Some pg)
    then have "olr_execute_ddl E ddl pg pos isf isla st confirm (set_state E STATE_EXECUTING s1) = Inr (ret, st', confirm', s')"
      using assms(1) q by (simp add: olr_convert_ddl_def Let_def flip: s1_def)
    from olr_execute_ddl_outcome [OF this] show ?thesis using olr_enter s1(1) by simp
  qed
  then show ?thesis using olr_outcome_from s1 by blast
qed

lemma parseOLRDDL_position:
  assumes "parseOLRDDL L cfg C jb payload isf isla = Inr (r, pos)"
  shows "\<exists>complete. event_position L jb = Inr (complete, pos)"
proof -
  obtain complete pos0 where p: "event_position L jb = Inr (complete, pos0)"
    using assms by (cases "event_position L jb") (auto simp: parseOLRDDL_def)
  then show ?thesis using assms by (auto simp: parseOLRDDL_def rbind_eq_Inr split: if_split_asm option.split_asm)
qed

text \<open>A DDL event that is not understood is skipped: nothing is applied, but the position moves on.\<close>

definition olr_skipped ::
  "('db, 'd, 'tid) flow_env \<Rightarrow> olr_position \<Rightarrow> 'db flow \<Rightarrow> int \<Rightarrow> bool \<Rightarrow> 'db flow \<Rightarrow> bool" where
  "olr_skipped E pos s ret confirm' s' \<longleftrightarrow> ret = -1 \<and> confirm' \<and> s' = record_position pos (set_state E STATE_SYNCING (set_state E STATE_PARSING s))"

lemma olr_process_ddl_outcome:
  assumes "olr_process_ddl E X jb payload isf isla st confirm s = Inr (ret, st', confirm', s')" and "flow_valid E s"
  shows "\<exists>complete pos. event_position (fe_lib E) jb = Inr (complete, pos)
    \<and> (olr_outcome E pos confirm s ret confirm' s' \<or> olr_skipped E pos s ret confirm' s')"
proof -
  define s1 where "s1 = set_state E STATE_PARSING s"
  have s1: "flow_valid E s1" using assms(2) by (simp add: s1_def)
  have load: "oe_load X = None" using assms(1) by (cases "oe_load X") (simp_all add: olr_process_ddl_def Let_def)
  let ?p = "parseOLRDDL (fe_lib E) (fe_cfg E) ((oe_conf X)\<lparr>oc_user := get_shm_connector_user_by_id (fl_shm s1) (fe_id E)\<rparr>) jb payload isf isla"
  obtain d pos where p: "?p = Inr (d, pos)" using assms(1) load by (cases ?p) (auto simp: olr_process_ddl_def simp flip: s1_def)
  have "olr_outcome E pos confirm s ret confirm' s' \<or> olr_skipped E pos s ret confirm' s'"
  proof (cases d)
    case None
    then show ?thesis using assms(1) load p by (simp add: olr_process_ddl_def olr_bad_def olr_skipped_def Let_def s1_def)
  next
    case (Some ddl)
    then have "olr_convert_ddl E ddl pos isf isla (increment_connector_statistics st STATS_DDL 1) confirm (set_state E STATE_CONVERTING s1)
        = Inr (ret, st', confirm', s')"
      using assms(1) load p by (simp add: olr_process_ddl_def Let_def flip: s1_def)
    from olr_convert_ddl_outcome [OF this] have "olr_outcome E pos confirm s1 ret confirm' s'" using olr_enter s1 by simp
    then show ?thesis using olr_enter assms(2) unfolding s1_def by blast
  qed
  then show ?thesis using parseOLRDDL_position [OF p] by blast
qed

lemma olr_boundary_outcome:
  assumes "olr_boundary E jb isf isla st confirm s = Inr (ret, st', confirm', s')" and "flow_valid E s" and "flow_state E s = STATE_SYNCING"
  shows "\<exists>complete pos. event_position (fe_lib E) jb = Inr (complete, pos) \<and> olr_outcome E pos confirm s ret confirm' s'"
proof -
  obtain complete pos where p: "event_position (fe_lib E) jb = Inr (complete, pos)"
    using assms(1) by (cases "event_position (fe_lib E) jb") (auto simp: olr_boundary_def)
  have "olr_outcome E pos confirm s ret confirm' s'"
  proof (cases complete)
    case True
    then have "ret = 0" "confirm'" "s' = record_position pos (set_state E STATE_SYNCING s)"
      using assms(1) p by (auto simp: olr_boundary_def Let_def rbind_eq_Inr)
    then show ?thesis using assms(2) flow_step_trans [OF flow_step_set(1) [OF assms(2)] record_position_simps(5)] by (simp add: olr_outcome_def)
  next
    case False
    then show ?thesis using assms p by (auto simp: olr_boundary_def olr_bad_def olr_outcome_def)
  qed
  with p show ?thesis by blast
qed

text \<open>The operation that an event names: \<open>None\<close> when the event is malformed before that.\<close>

definition olr_op :: "pg_lib \<Rightarrow> string \<Rightarrow> string option" where
  "olr_op L event = Option.bind (jsonb_in L event) (\<lambda>jb. Option.bind (jsonb_get_element L jb [''payload'', ''0'']) (\<lambda>payload.
     case json_text payload ''op'' of Inr r \<Rightarrow> r | Inl _ \<Rightarrow> None))"

lemma ensure_stage_flow:
  assumes "flow_valid E s"
  shows "flow_step E s (s\<lparr>fl_shm := ensure_stage (fe_id E) st (fl_shm s)\<rparr>)"
    and "flow_valid E (s\<lparr>fl_shm := ensure_stage (fe_id E) st (fl_shm s)\<rparr>)"
    and "flow_state E (s\<lparr>fl_shm := ensure_stage (fe_id E) st (fl_shm s)\<rparr>) = flow_state E s"
  using assms by (auto simp: flow_step_def ensure_stage_def progress_only_def connector_frame_def set_shm_connector_stage_def)

text \<open>An event ends in one of three ways: nothing about the position changes, it is recorded, or a DDL is skipped.\<close>

lemma olr_event_cases:
  assumes "fc_processOLRChangeEvent E X event isf isla (st, confirm, s) = Inr (ret, st', confirm', s')"
    and "flow_valid E s" and "flow_state E s = STATE_SYNCING"
  shows "flow_step E s s' \<and> flow_state E s' = STATE_SYNCING
    \<and> (fl_olr s' = fl_olr s \<and> confirm' = confirm \<and> (ret = -1 \<or> ret = 0 \<and> fl_db s' = fl_db s)
       \<or> (\<exists>jb complete pos. jsonb_in (fe_lib E) event = Some jb \<and> event_position (fe_lib E) jb = Inr (complete, pos) \<and> confirm'
            \<and> fl_olr s' = olr_client_set_scns (op_scn pos) (op_c_scn pos) (op_c_idx pos) (fl_olr s)
            \<and> (ret = 0 \<or> ret = -1 \<and> fl_db s' = fl_db s \<and> (\<exists>op. olr_op (fe_lib E) event = Some op \<and> strcaseeq op ''ddl''))))"
proof (cases "olr_op (fe_lib E) event")
  case None
  then have "s' = s" "confirm' = confirm" "ret = -1" using assms(1)
    by (auto simp: fc_processOLRChangeEvent_def olr_op_def olr_bad_def rbind_eq_Inr split: option.split_asm)
  then show ?thesis using assms(3) by simp
next
  case (Some op)
  then obtain jb payload where jb12: "jsonb_in (fe_lib E) event = Some jb" "jsonb_get_element (fe_lib E) jb [''payload'', ''0''] = Some payload"
    and "(case json_text payload ''op'' of Inr r \<Rightarrow> r | Inl _ \<Rightarrow> None) = Some op" by (auto simp: olr_op_def Option.bind_eq_Some_conv)
  then have "json_text payload ''op'' = Inr (Some op)" by (cases "json_text payload ''op''") simp_all
  note jb = jb12 this
  define s1 where "s1 = s\<lparr>fl_shm := ensure_stage (fe_id E) STAGE_CHANGE_DATA_CAPTURE (fl_shm s)\<rparr>"
  have v: "flow_valid E s1" and step: "flow_step E s s1" and sy: "flow_state E s1 = STATE_SYNCING"
    using ensure_stage_flow [OF assms(2)] assms(3) by (simp_all add: s1_def)
  have same: "fl_olr s1 = fl_olr s" "fl_isInSnapshot s1 = fl_isInSnapshot s" "fl_db s1 = fl_db s" by (simp_all add: s1_def)
  have good: ?thesis if "\<exists>complete pos. event_position (fe_lib E) jb = Inr (complete, pos) \<and> olr_outcome E pos confirm s1 ret confirm' s'"
    using that jb(1) same flow_step_trans [OF step] by (auto simp: olr_outcome_def)
  have skip: ?thesis if "event_position (fe_lib E) jb = Inr (complete, pos)" "olr_skipped E pos s1 ret confirm' s'" "strcaseeq op ''ddl''" for complete pos
  proof -
    let ?s2 = "set_state E STATE_SYNCING (set_state E STATE_PARSING s1)"
    have "flow_step E s ?s2" using flow_step_trans [OF step flow_step_trans [OF flow_step_set(1) [OF v] flow_step_set(1)]] v by simp
    then have "flow_step E s s'" using that(2) flow_step_trans record_position_simps(5) unfolding olr_skipped_def by blast
    moreover have "fl_db s' = fl_db s" using that(2) same by (simp add: olr_skipped_def record_position_def)
    ultimately show ?thesis using that jb(1) Some v same by (auto simp: olr_skipped_def)
  qed
  note unf = assms(1) [unfolded fc_processOLRChangeEvent_def prod.case jb(1,2) option.case jb(3) rbind_Inr Let_def, folded s1_def]
  consider (boundary) "olr_boundary E jb isf isla st confirm s1 = Inr (ret, st', confirm', s')"
    | (dml) "olr_process_dml E X jb payload (hd op) isf isla st confirm s1 = Inr (ret, st', confirm', s')"
    | (ddl) "strcaseeq op ''ddl''" "olr_process_ddl E X jb payload isf isla st confirm s1 = Inr (ret, st', confirm', s')"
    | (other) "ret = 0" "confirm' = confirm" "s' = s1"
    using unf by (auto split: if_split_asm)
  then show ?thesis
  proof cases
    case boundary
    then show ?thesis using good olr_boundary_outcome [OF _ v sy] by blast
  next
    case dml
    show ?thesis
    proof (cases "oe_in_transaction X")
      case True
      then show ?thesis using good olr_process_dml_outcome [OF dml v] by blast
    next
      case False
      then have "s' = s1" "ret = -1" "confirm' = confirm" using dml by (simp_all add: olr_process_dml_def)
      then show ?thesis using step sy same by simp
    qed
  next
    case ddl
    then show ?thesis using good skip olr_process_ddl_outcome [OF ddl(2) v] by blast
  next
    case other
    then show ?thesis using step sy same by simp
  qed
qed

section \<open>The events of one read\<close>

lemma olr_events_invariant:
  assumes "\<And>p f l s r s'. handler p f l s = Inr (r, s') \<Longrightarrow> P s \<Longrightarrow> P s'"
  shows "olr_events handler buf offset cnt ret s = Inr (o', c', r', s') \<Longrightarrow> P s \<Longrightarrow> P s'"
  using assms
proof (induction handler buf offset cnt ret s rule: olr_events.induct)
  case (1 h buf offset cnt ret s)
  define len where "len = int32_le (take 4 (drop offset buf))"
  define nx where "nx = offset + 4 + nat len"
  note unf = "1.prems"(1) [unfolded olr_events.simps [of h buf offset cnt ret s] Let_def, folded len_def, folded nx_def]
  consider "s' = s"
    | r1 s1 where "offset + 4 \<le> length buf" "\<not> (len < 0 \<or> 2 ^ 31 \<le> int offset + 4 + len)" "\<not> length buf < nx"
      "h (take (nat len) (drop (offset + 4) buf)) (cnt = 0) (nx = length buf \<or> length buf < nx + 4) s = Inr (r1, s1)"
      "olr_events h buf nx (cnt + 1) r1 s1 = Inr (o', c', r', s')"
    using unf by (auto simp: rbind_eq_Inr split: if_split_asm)
  then show ?case
  proof cases
    case (2 r1 s1)
    have "P s1" using "1.prems"(2,3) 2(4) by blast
    then show ?thesis using "1.IH" [folded len_def, OF 2(1) refl, folded nx_def, OF refl 2(2,3) 2(5)] "1.prems"(3) by blast
  qed (use "1.prems"(2) in simp)
qed

lemma olr_batch_step:
  assumes "olr_events (olr_handler E X) buf offset cnt ret0 (st, confirm, s) = Inr (o', c', ret, st', confirm', s')"
    and "flow_valid E s" and "flow_state E s = STATE_SYNCING"
  shows "flow_step E s s' \<and> flow_state E s' = STATE_SYNCING"
proof -
  let ?P = "\<lambda>(_, _, s'). flow_step E s s' \<and> flow_state E s' = STATE_SYNCING"
  have inv: "?P y" if h: "olr_handler E X p f l x = Inr (r, y)" and px: "?P x" for p f l x r y
  proof -
    obtain st1 b1 s1 st2 b2 s2 where xy: "x = (st1, b1, s1)" "y = (st2, b2, s2)" by (metis prod_cases3)
    have "flow_valid E s1" using px xy assms(2) flow_step_valid [of E s s1] by simp
    from olr_event_cases [OF h [unfolded olr_handler_def xy] this] show ?thesis using px xy flow_step_trans [of E s s1 s2] by simp
  qed
  from olr_events_invariant [of "olr_handler E X" ?P, OF inv assms(1)] show ?thesis using assms(3) by simp
qed

text \<open>The parser of the row events keeps the contract of the row parsers.\<close>

interpretation olr_rows: row_parser "\<lambda>cache r cache'. \<exists>L cfg cs cat strategy C jb op payload isf isla pos msg.
    parseOLRDML L cfg cs cat strategy C jb op payload isf isla cache = Inr (r, pos, cache', msg)"
  by unfold_locales (blast dest: parseOLRDML_positions(1), blast dest: parseOLRDML_positions(2))

section \<open>The position follows the events\<close>


definition example_olr_event :: jsonb where
  "example_olr_event = JObject [(''scn'', JNumeric ''10''), (''c_scn'', JNumeric ''12''), (''c_idx'', JNumeric ''3''),
     (''payload'', JArray [JObject [(''op'', JString ''commit'')]])]"

definition example_olr_env :: "(string option list list, string, nat) flow_env" where
  "example_olr_env = example_env\<lparr>fe_lib := object_lib\<lparr>jsonb_in := (\<lambda>_. Some example_olr_event),
     jsonb_get_element := (\<lambda>j ks. if ks = [''payload'', ''0'']
        then (case json_key j ''payload'' of Some (JArray (v # _)) \<Rightarrow> Some v | _ \<Rightarrow> None) else json_path j ks)\<rparr>\<rparr>"

definition example_olr_conf :: olr_event_env where
  "example_olr_conf = \<lparr>oe_conf = \<lparr>oc_parser = (\<lambda>_. None), oc_skipped_operations = [], oc_user = ''U'', oc_stale = (\<lambda>_. False)\<rparr>, oe_load = None,
     oe_in_transaction = True\<rparr>"

lemma example_olr_position: "event_position (fe_lib example_olr_env) example_olr_event = Inr (True, \<lparr>op_scn = 10, op_c_scn = 12, op_c_idx = 3\<rparr>)"
proof -
  have "atoll ''10'' = 10" "atoll ''12'' = 12" "atoll ''3'' = 3" by code_simp+
  then show ?thesis
    by (simp add: event_position_def json_number_def json_key_def json_numeric_def example_olr_event_def example_olr_env_def object_lib_def ascii_lib_def)
qed


section \<open>From the row event to the tuple\<close>

definition example_olr_row_event :: jsonb where
  "example_olr_row_event = JObject [(''scn'', JNumeric ''10''), (''c_scn'', JNumeric ''12''), (''c_idx'', JNumeric ''3''), (''db'', JString ''db'')]"

definition example_olr_payload :: jsonb where
  "example_olr_payload = JObject [(''op'', JString ''c''), (''schema'', JObject [(''table'', JString ''t'')]), (''after'', JObject [(''id'', JString ''7'')])]"

definition example_olr_cache :: data_cache where
  "example_olr_cache = [(''db'', ''t'') \<mapsto> Some olr_example_entry]"

lemma example_olr_cache_ok: "cache_ok example_olr_cache"
proof -
  have "entry_ok example_entry" using example_cache_ok by (simp add: example_cache_def cache_ok_def)
  then show ?thesis by (simp add: cache_ok_def example_olr_cache_def olr_example_entry_def entry_ok_def)
qed

lemma example_olr_parse:
  "parseOLRDML object_lib heap_lower_config conv_state0 cat STRAT_SKIP_ON_ERROR C example_olr_row_event CHR ''c'' example_olr_payload isf isla example_olr_cache
   = Inr (Some (example_parsed\<lparr>dm_columnValuesAfter := [(image_value ''id'' 1 ''7'')\<lparr>cv_dbztype := OLRTYPE_STRING\<rparr>]\<rparr>),
       \<lparr>op_scn = 10, op_c_scn = 12, op_c_idx = 3\<rparr>, example_olr_cache, None)"
proof -
  have "olr_column object_lib heap_lower_config conv_state0 ''db.t'' olr_example_entry ''id'' v = Inr ((image_value ''id'' 1 v)\<lparr>cv_dbztype := OLRTYPE_STRING\<rparr>)" for v
    using olr_example_column [of heap_lower_config] by (simp add: heap_lower_config_def lower_config_def)
  then have image: "olr_image object_lib heap_lower_config conv_state0 example_olr_payload ''db.t'' olr_example_entry ''after'' False (olr_idle [])
      = Inr (olr_idle [(image_value ''id'' 1 ''7'')\<lparr>cv_dbztype := OLRTYPE_STRING\<rparr>])"
    using olr_image_scalars [of object_lib example_olr_payload "''after''" "[(''id'', JString ''7'')]" heap_lower_config conv_state0 "''db.t''"
        olr_example_entry False "[]"] by (simp add: example_olr_payload_def)
  have res: "resolve_dml_table object_lib heap_lower_config conv_state0 ''db.t'' ''db'' ''t'' = Inr (''db'', ''t'', ''db.t'')"
    by (simp add: resolve_dml_table_def transform_object_name_def conv_state0_def lower_config_def heap_lower_config_def Let_def fc_normalize_name_def object_lib_def
        ascii_lib_def c_simps)
  have tab: "olr_cached_table object_lib cat STRAT_SKIP_ON_ERROR stale j ''db'' ''t'' example_olr_cache = Inr (Some olr_example_entry, example_olr_cache, None)" for stale j
    by (simp add: olr_cached_table_def Let_def example_olr_cache_def cache_key_def schema_name_def strlcpy_def SYNCHDB_CONNINFO_DB_NAME_SIZE_def)
  have "atoll ''10'' = 10" "atoll ''12'' = 12" "atoll ''3'' = 3" by code_simp+
  then have pos: "event_position object_lib example_olr_row_event = Inr (True, \<lparr>op_scn = 10, op_c_scn = 12, op_c_idx = 3\<rparr>)"
    by (simp add: event_position_def json_number_def json_key_def json_numeric_def example_olr_row_event_def object_lib_def ascii_lib_def)
  have src: "olr_source object_lib ''db'' example_olr_payload = Inr (Some (JObject [(''table'', JString ''t'')], ''t'', ''db.t''))"
    by (simp add: olr_source_def example_olr_payload_def json_text_def json_key_def json_string_def is_whitelist_table_def DBZ_LOG_MINING_FLUSH_TABLE_def
        strcaseeq_def c_simps)
  have tm: "event_tm object_lib example_olr_row_event w = Inr None" for w
    by (simp add: event_tm_def json_number_def json_key_def example_olr_row_event_def)
  have db: "json_text example_olr_row_event ''db'' = Inr (Some ''db'')"
    by (simp add: json_text_def json_key_def json_string_def example_olr_row_event_def)
  have "no_scan = olr_idle []" by (simp add: no_scan_def olr_idle_def)
  then show ?thesis using image
    by (simp add: parseOLRDML_def pos db tm src res tab olr_images_def olr_rows_defs olr_idle_def example_parsed_def olr_example_entry_def example_entry_def)
qed

lemma example_olr_convert:
  "convert2PGDML object_lib heap_lower_config conv_state0
     (example_parsed\<lparr>dm_columnValuesAfter := [(image_value ''id'' 1 ''7'')\<lparr>cv_dbztype := OLRTYPE_STRING\<rparr>]\<rparr>) TYPE_OLR = Inr (Some example_row)"
  by (simp add: convert2PGDML_def example_parsed_def heap_lower_config_def Let_def heap_value_def to_pg_value_def processDataByType_def
      image_value_def convert_by_oid_def quote_text_def transform_data_expression_def conv_state0_def strcaseeq_def c_simps example_row_def)

text \<open>
  C17: The rows of Openlog events fit their tables: the values that \<^verbatim>\<open>parseOLRDML\<close> and \<^verbatim>\<open>convert2PGDML\<close> produce fill a slot of
  the table's width without a position outside it, whatever the event contains, and the data cache stays well formed. It is the same
  contract of the row parsers that Debezium's parser keeps.
\<close>

theorem olr_values_fit_table:
  assumes "cache_ok cache" and "parseOLRDML L cfg cs cat strategy C jb op payload isfirst islast cache = Inr (Some dml, pos, cache', msg)"
    and "convert2PGDML L cfg cs dml TYPE_OLR = Inr (Some pg)" and "length typmods = dm_natts dml"
  shows "cache_ok cache'
    \<and> (\<forall>w. fill_slot X typmods (pm_natts pg) (pm_columnValuesBefore pg) \<noteq> Inl (Outside w)
        \<and> fill_slot X typmods (pm_natts pg) (pm_columnValuesAfter pg) \<noteq> Inl (Outside w))"
  using assms by (intro olr_rows.values_fit) blast+

theorem olr_values_fit_table_witness:
  "cache_ok example_olr_cache \<and> (\<forall>w. fill_slot unit_executor [-1, -1] 2 (pm_columnValuesAfter example_row) \<noteq> Inl (Outside w))"
  using olr_values_fit_table [OF example_olr_cache_ok example_olr_parse [of _ _ False False] example_olr_convert, of "[-1, -1]" unit_executor]
  by (simp add: example_parsed_def example_row_def)

end
