(* ===== verification/OLR_Stream.thy ===== *)
theory OLR_Stream
  imports OLR_Flow
begin

text \<open>
  The stream of Openlog events as a whole: what an event does to the worker does not depend on its place in a read, only the batch
  statistics do, so the events of a stream have the same effect however the network delivers them.
\<close>

section \<open>Timestamps and statistics do not matter\<close>

abbreviation dml_at :: "DBZ_DML \<Rightarrow> 64 word \<Rightarrow> DBZ_DML" where
  "dml_at dml t \<equiv> dml\<lparr>dm_src_ts_ms := t\<rparr>"

lemma dml_at_fields:
  "dm_op (dml_at dml t) = dm_op dml" "dm_tableoid (dml_at dml t) = dm_tableoid dml" "dm_natts (dml_at dml t) = dm_natts dml"
  "dm_remoteObjectId (dml_at dml t) = dm_remoteObjectId dml" "dm_mappedObjectId (dml_at dml t) = dm_mappedObjectId dml"
  "dm_columnValuesBefore (dml_at dml t) = dm_columnValuesBefore dml" "dm_columnValuesAfter (dml_at dml t) = dm_columnValuesAfter dml"
  by simp_all

lemma convert2PGDML_src_ts: "convert2PGDML L cfg cs (dml_at dml t) type = convert2PGDML L cfg cs dml type"
  unfolding convert2PGDML_def heap_update_def insert_query_def update_query_def delete_query_def key_conditions_def dml_at_fields ..

abbreviation ddl_at :: "DBZ_DDL \<Rightarrow> 64 word \<Rightarrow> DBZ_DDL" where
  "ddl_at ddl t \<equiv> ddl\<lparr>dd_src_ts_ms := t\<rparr>"

lemma ddl_at_fields:
  "dd_id (ddl_at ddl t) = dd_id ddl" "dd_type (ddl_at ddl t) = dd_type ddl" "dd_subtype (ddl_at ddl t) = dd_subtype ddl"
  "dd_primaryKeyColumnNames (ddl_at ddl t) = dd_primaryKeyColumnNames ddl" "dd_constraintName (ddl_at ddl t) = dd_constraintName ddl"
  "dd_columns (ddl_at ddl t) = dd_columns ddl"
  by simp_all

lemma olr_alter_column_src_ts: "olr_alter_column L cfg cs (ddl_at ddl t) = olr_alter_column L cfg cs ddl"
  unfolding olr_alter_column_def [abs_def] ddl_at_fields ..

lemma convert2PGDDL_src_ts: "convert2PGDDL L cfg cs cat (ddl_at ddl t) type = convert2PGDDL L cfg cs cat ddl type"
  unfolding convert2PGDDL_def convert_create_table_def convert_alter_table_def convert_drop_table_def convert_truncate_table_def
    alter_olr_def alter_add_columns_def alter_drop_columns_def alter_alter_columns_def olr_alter_column_src_ts ddl_at_fields ..

lemma updateSynchdbAttribute_src_ts:
  "updateSynchdbAttribute cat oid strategy (ddl_at ddl t) pg type name = updateSynchdbAttribute cat oid strategy ddl pg type name"
  unfolding updateSynchdbAttribute_def attribute_insert_def attribute_row_def [abs_def] attribute_dropped_def [abs_def] ddl_at_fields ..

lemma ra_executePGDML_stats:
  assumes "ra_executePGDML X cfg strategy pg b st db = Inr (ret, msg, st', db')"
  shows "\<exists>st''. ra_executePGDML X cfg strategy pg b st2 db = Inr (ret, msg, st'', db')"
  using assms by (auto simp: ra_executePGDML_def Let_def split: if_split_asm)

section \<open>The place of an event in a read\<close>

text \<open>Where one computation returns, another one returns a related result.\<close>

definition runs_like :: "('a \<Rightarrow> 'b \<Rightarrow> bool) \<Rightarrow> 'a res \<Rightarrow> 'b res \<Rightarrow> bool" where
  "runs_like R x y \<longleftrightarrow> (\<forall>a. x = Inr a \<longrightarrow> (\<exists>b. y = Inr b \<and> R a b))"

lemma runs_like_simps [simp]: "runs_like R (Inl e) y" "runs_like R (Inr a) (Inr b) \<longleftrightarrow> R a b"
  by (simp_all add: runs_like_def)

lemma runs_like_bind:
  assumes "runs_like R x y" and "\<And>a b. x = Inr a \<Longrightarrow> R a b \<Longrightarrow> runs_like S (f a) (g b)"
  shows "runs_like S (rbind x f) (rbind y g)"
  using assms by (cases x) (auto simp: runs_like_def)

lemma runs_like_same:
  assumes "\<And>a. x = Inr a \<Longrightarrow> runs_like S (f a) (g a)"
  shows "runs_like S (rbind x f) (rbind x g)"
  using assms by (cases x) simp_all

text \<open>
  Two runs of a stage end alike for the worker when only the statistics differ; two parsers agree when only the source timestamp
  does. A place that asks for the event's time is the stricter one.
\<close>

fun same_end :: "int \<times> SynchdbStatistics \<times> 'w \<Rightarrow> int \<times> SynchdbStatistics \<times> 'w \<Rightarrow> bool" where
  "same_end (ret, st, w) (ret2, st2, w2) \<longleftrightarrow> ret = ret2 \<and> w = w2"

fun same_parse :: "('a \<Rightarrow> 64 word \<Rightarrow> 'a) \<Rightarrow> 'a option \<times> 'x \<Rightarrow> 'a option \<times> 'x \<Rightarrow> bool" where
  "same_parse at (d, x) (d2, x2) \<longleftrightarrow> x = x2 \<and> (\<exists>t. d2 = map_option (\<lambda>a. at a t) d)"

fun same_exec :: "int \<times> string option \<times> SynchdbStatistics \<times> 'db \<Rightarrow> int \<times> string option \<times> SynchdbStatistics \<times> 'db \<Rightarrow> bool" where
  "same_exec (ret, msg, st, db) (ret2, msg2, st2, db2) \<longleftrightarrow> ret = ret2 \<and> msg = msg2 \<and> db = db2"

abbreviation same_effect :: "'db olr_result \<Rightarrow> 'db olr_result \<Rightarrow> bool" where
  "same_effect \<equiv> runs_like same_end"

lemma same_effect_bad [simp]: "same_effect (olr_bad st c s) (olr_bad st2 c s)"
  by (simp add: olr_bad_def)

lemma event_tm_place: "runs_like (\<lambda>_ _. True) (event_tm L jb True) (event_tm L jb w)"
  by (auto simp: runs_like_def event_tm_def)

lemma parse_dml_place:
  "runs_like (same_parse dml_at)
     (parseOLRDML L cfg cs cat strategy C jb op payload True True cache) (parseOLRDML L cfg cs cat strategy C jb op payload isf isla cache)"
  unfolding parseOLRDML_def
  by (auto intro!: runs_like_same runs_like_bind [OF event_tm_place] split: option.split)

definition scan_at :: "64 word \<Rightarrow> olr_scan \<Rightarrow> olr_scan" where
  "scan_at t st = st\<lparr>os_ddl := ddl_at (os_ddl st) t\<rparr>"

lemma scan_at_simps:
  "os_col (scan_at t st) = os_col st" "(scan_at t st)\<lparr>os_table := n\<rparr> = scan_at t (st\<lparr>os_table := n\<rparr>)"
  "(scan_at t st)\<lparr>os_col := c\<rparr> = scan_at t (st\<lparr>os_col := c\<rparr>)" "add_ddl_column col (scan_at t st) = scan_at t (add_ddl_column col st)"
  "set_pk pk (scan_at t st) = scan_at t (set_pk pk st)" "set_subtype u (scan_at t st) = scan_at t (set_subtype u st)"
  "set_type y (scan_at t st) = scan_at t (set_type y st)"
  "(scan_at t st)\<lparr>os_ddl := (os_ddl (scan_at t st))\<lparr>dd_constraintName := k\<rparr>\<rparr> = scan_at t (st\<lparr>os_ddl := (os_ddl st)\<lparr>dd_constraintName := k\<rparr>\<rparr>)"
  "(scan_at t st)\<lparr>os_ddl := (os_ddl (scan_at t st))\<lparr>dd_type := y\<rparr>\<rparr> = scan_at t (st\<lparr>os_ddl := (os_ddl st)\<lparr>dd_type := y\<rparr>\<rparr>)"
  by (simp_all add: scan_at_def add_ddl_column_def set_pk_def set_subtype_def set_type_def split: option.split)

abbreviation same_scan :: "64 word \<Rightarrow> olr_scan option \<Rightarrow> olr_scan option \<Rightarrow> bool" where
  "same_scan t r r2 \<equiv> r2 = map_option (scan_at t) r"

lemma create_elt_at:
  "runs_like (\<lambda>x y. y = apfst (scan_at t) x) (create_elt L cfg elt st) (create_elt L cfg elt (apfst (scan_at t) st))"
  by (auto simp: create_elt_def scan_at_simps intro!: runs_like_same split: table_elt.split constr.split)

lemma create_elts_at:
  "runs_like (\<lambda>x y. y = apfst (scan_at t) x) (rfold (create_elt L cfg) elts st) (rfold (create_elt L cfg) elts (apfst (scan_at t) st))"
  by (induction elts arbitrary: st) (auto intro!: runs_like_bind [OF create_elt_at])

lemma create_stmt_at: "runs_like (\<lambda>x y. y = scan_at t x) (create_stmt L cfg relname elts st) (create_stmt L cfg relname elts (scan_at t st))"
proof -
  let ?st = "st\<lparr>os_ddl := (os_ddl st)\<lparr>dd_type := DDL_CREATE_TABLE\<rparr>\<rparr>"
  have "runs_like (\<lambda>x y. y = apfst (scan_at t) x) (rfold (create_elt L cfg) elts (?st, [])) (rfold (create_elt L cfg) elts (scan_at t ?st, []))"
    using create_elts_at [of t L cfg elts "(?st, [])"] by simp
  then show ?thesis unfolding create_stmt_def scan_at_simps(9) by (rule runs_like_bind) (auto simp: scan_at_simps)
qed

lemma alter_subcommand_at: "runs_like (same_scan t) (alter_subcommand L cfg cmd st) (alter_subcommand L cfg cmd (scan_at t st))"
  by (auto simp: alter_subcommand_def alter_cmd_add_column_def alter_cmd_drop_column_def alter_cmd_column_type_def alter_cmd_add_constraint_def
      alter_cmd_drop_constraint_def scan_at_simps Let_def rbind_assoc intro!: runs_like_same split: alter_cmd.split constr.split option.split)

lemma alter_subcommands_at: "runs_like (same_scan t) (alter_subcommands L cfg cmds st) (alter_subcommands L cfg cmds (scan_at t st))"
proof (induction cmds arbitrary: st)
  case (Cons cmd cmds)
  show ?case unfolding alter_subcommands.simps
    by (rule runs_like_bind [OF alter_subcommand_at])
      (auto simp: scan_at_simps intro: Cons.IH split: option.split)
qed simp

lemma olr_stmt_at: "runs_like (same_scan t) (olr_stmt L cfg skipped stmt st) (olr_stmt L cfg skipped stmt (scan_at t st))"
proof -
  have "map_option (os_table_update (\<lambda>_. n)) (map_option (scan_at t) r) = map_option (scan_at t) (map_option (os_table_update (\<lambda>_. n)) r)" for n r
    by (cases r) (simp_all add: scan_at_simps)
  then show ?thesis
    by (cases stmt) (auto simp: olr_stmt_def scan_at_simps Let_def intro!: runs_like_bind [OF create_stmt_at] runs_like_bind [OF alter_subcommands_at]
        split: list.split)
qed

lemma olr_stmts_at: "runs_like (same_scan t) (olr_stmts L cfg skipped stmts st) (olr_stmts L cfg skipped stmts (scan_at t st))"
proof (induction stmts arbitrary: st)
  case (Cons stmt stmts)
  show ?case unfolding olr_stmts.simps
    by (rule runs_like_bind [OF olr_stmt_at]) (auto intro: Cons.IH split: option.split)
qed simp

lemma parse_ddl_place:
  "runs_like (same_parse ddl_at) (parseOLRDDL L cfg C jb payload True True) (parseOLRDDL L cfg C jb payload isf isla)"
proof -
  have fin: "finish_ddl L cfg db schema (scan_at t st) = ddl_at (finish_ddl L cfg db schema st) t" for db schema t st
    by (simp add: finish_ddl_def scan_at_def Let_def)
  have st: "\<lparr>os_ddl = new_ddl\<lparr>dd_src_ts_ms := t\<rparr>, os_col = None, os_table = table\<rparr> = scan_at t \<lparr>os_ddl = new_ddl\<lparr>dd_src_ts_ms := t0\<rparr>, os_col = None, os_table = table\<rparr>"
    for t t0 table by (simp add: scan_at_def)
  have leaf: "runs_like (same_parse ddl_at)
      (rbind (olr_stmts L cfg sk ptree \<lparr>os_ddl = new_ddl\<lparr>dd_src_ts_ms := t0\<rparr>, os_col = None, os_table = table\<rparr>)
         (\<lambda>r. Inr (map_option (finish_ddl L cfg db schema) r, pos)))
      (rbind (olr_stmts L cfg sk ptree \<lparr>os_ddl = new_ddl\<lparr>dd_src_ts_ms := t\<rparr>, os_col = None, os_table = table\<rparr>)
         (\<lambda>r. Inr (map_option (finish_ddl L cfg db schema) r, pos)))" for sk ptree table db schema pos t t0
    unfolding st [of t table t0] by (rule runs_like_bind [OF olr_stmts_at]) (auto simp: fin option.map_comp comp_def)
  show ?thesis unfolding parseOLRDDL_def
    by (auto intro!: runs_like_same runs_like_bind [OF event_tm_place] leaf split: option.split)
qed

lemma execute_dml_place:
  "same_effect (olr_execute_dml E dml pg pos isf isla st c s) (olr_execute_dml E (dml_at dml t) pg pos isf2 isla2 st2 c s)"
proof -
  have "runs_like same_exec
      (ra_executePGDML (fe_exec E) (fe_cfg E) (fe_strategy E) pg False st (fl_db s))
      (ra_executePGDML (fe_exec E) (fe_cfg E) (fe_strategy E) pg False st2 (fl_db s))"
    using ra_executePGDML_stats by (fastforce simp: runs_like_def)
  then show ?thesis unfolding olr_execute_dml_def by (rule runs_like_bind) (auto simp: Let_def)
qed

lemma convert_dml_place:
  "same_effect (olr_convert_dml E dml pos isf isla st c s) (olr_convert_dml E (dml_at dml t) pos isf2 isla2 st2 c s)"
  unfolding olr_convert_dml_def convert2PGDML_src_ts
  by (rule runs_like_same) (simp add: execute_dml_place split: option.split)

lemma execute_ddl_place:
  "same_effect (olr_execute_ddl E ddl pg pos isf isla st c s) (olr_execute_ddl E (ddl_at ddl t) pg pos isf2 isla2 st2 c s)"
  unfolding olr_execute_ddl_def updateSynchdbAttribute_src_ts
  by (rule runs_like_same) (auto simp: Let_def intro!: runs_like_same)

lemma convert_ddl_place:
  "same_effect (olr_convert_ddl E ddl pos isf isla st c s) (olr_convert_ddl E (ddl_at ddl t) pos isf2 isla2 st2 c s)"
  unfolding olr_convert_ddl_def convert2PGDDL_src_ts
  by (rule runs_like_same) (auto simp: Let_def execute_ddl_place split: option.split)

lemma boundary_place: "same_effect (olr_boundary E jb True True st c s) (olr_boundary E jb isf isla st2 c s)"
  unfolding olr_boundary_def Let_def
  by (rule runs_like_same) (auto intro!: runs_like_bind [OF event_tm_place])

lemma process_dml_place:
  "same_effect (olr_process_dml E X jb payload op True True st c s) (olr_process_dml E X jb payload op isf isla st2 c s)"
proof (cases "oe_in_transaction X")
  case True
  show ?thesis unfolding olr_process_dml_def Let_def using True
    by (simp, intro runs_like_bind [OF parse_dml_place]) (auto simp: convert_dml_place split: option.split)
qed (simp add: olr_process_dml_def)

lemma process_ddl_place:
  "same_effect (olr_process_ddl E X jb payload True True st c s) (olr_process_ddl E X jb payload isf isla st2 c s)"
proof (cases "oe_load X")
  case None
  show ?thesis unfolding olr_process_ddl_def Let_def None option.case
    by (rule runs_like_bind [OF parse_ddl_place]) (auto simp: convert_ddl_place split: option.split)
qed (simp add: olr_process_ddl_def Let_def)

lemma event_place:
  "same_effect (fc_processOLRChangeEvent E X event True True (st, c, s)) (fc_processOLRChangeEvent E X event isf isla (st2, c, s))"
proof (cases "jsonb_in (fe_lib E) event")
  case None
  then show ?thesis by (simp add: fc_processOLRChangeEvent_def)
next
  case jb: (Some jb)
  show ?thesis
  proof (cases "jsonb_get_element (fe_lib E) jb [''payload'', ''0'']")
    case None
    then show ?thesis using jb by (simp add: fc_processOLRChangeEvent_def)
  next
    case (Some payload)
    show ?thesis unfolding fc_processOLRChangeEvent_def prod.case jb option.case Some
      by (rule runs_like_same) (auto simp: Let_def boundary_place process_dml_place process_ddl_place split: option.split)
  qed
qed

section \<open>Streams\<close>

text \<open>
  The effect of one event on \<^verbatim>\<open>sendconfirm\<close> and the worker, and of a sequence of them. It is undefined when the event ends in an error.
\<close>

definition olr_effect :: "('db, 'd, 'tid) flow_env \<Rightarrow> olr_event_env \<Rightarrow> byte list \<Rightarrow> bool \<times> 'db flow \<Rightarrow> (bool \<times> 'db flow) option" where
  "olr_effect E X event w = (case olr_handler E X event True True (zero_stats, w) of Inl _ \<Rightarrow> None | Inr (ret, st, w') \<Rightarrow> Some w')"

text \<open>The handler of the code keeps the law of the framing.\<close>

interpretation olr_stream: event_handler "olr_handler E X" "olr_effect E X"
proof
  fix p w w' isfirst islast st
  assume "olr_effect E X p w = Some w'"
  then obtain ret st' where r: "olr_handler E X p True True (zero_stats, w) = Inr (ret, st', w')"
    by (auto simp: olr_effect_def split: sum.split_asm)
  obtain c s where w: "w = (c, s)" by (cases w)
  from r event_place [of E X "c_string p" zero_stats c s isfirst islast st]
  show "\<exists>r st'. olr_handler E X p isfirst islast (st, w) = Inr (r, st', w')"
    by (auto simp: olr_handler_def w runs_like_def)
qed

text \<open>
  C3: The stream of Openlog events is replayed faithfully: however the network cuts it into reads, the worker ends with the same
  database, data cache, connector state, position and \<^verbatim>\<open>sendconfirm\<close> as when the events are handed to the event
  processing one by one in their order, and the receive buffer is empty. The handler here is the one of the code, for any database
  and library behind it; the hypothesis is that no event ends in an error. Events are shorter than 256 MB and a read is bounded
  by the largest configurable buffer of 512 MB.
\<close>

theorem olr_stream_replayed:
  assumes "concat chunks = concat (map olr_frame ps)" and "\<forall>p \<in> set ps. length p < 2 ^ 28"
    and "\<forall>chunk \<in> set chunks. chunk \<noteq> [] \<and> int (length chunk) \<le> size_limit" and "size_limit \<le> 2 ^ 29"
    and "is_connected c" and "g_offset c = 0" and "g_strinfo c = []"
    and "apply_all (\<lambda>p w. case fc_processOLRChangeEvent E X (c_string p) True True (zero_stats, w) of
           Inl _ \<Rightarrow> None | Inr (ret, st, w') \<Rightarrow> Some w') ps w = Some w'"
  shows "\<exists>c' st'. olr_run size_limit (olr_handler E X) chunks c (st, w) = Inr (c', st', w')
    \<and> is_connected c' \<and> g_offset c' = 0 \<and> g_strinfo c' = []"
proof -
  have "apply_all (olr_effect E X) ps w = Some w'"
    using assms(8) by (simp add: olr_effect_def [abs_def] olr_handler_def)
  then show ?thesis using olr_stream.olr_run_frames [OF assms(5,6) _ _ assms(2-4)] assms(1,7) by simp
qed

lemma example_commit:
  "\<exists>st' s'. fc_processOLRChangeEvent example_olr_env example_olr_conf t True True (st, c, s) = Inr (0, st', True, s') \<and> g_scn (fl_olr s') = 10"
proof -
  have lib: "jsonb_in (fe_lib example_olr_env) t = Some example_olr_event" by (simp add: example_olr_env_def)
  have pl: "jsonb_get_element (fe_lib example_olr_env) example_olr_event [''payload'', ''0''] = Some (JObject [(''op'', JString ''commit'')])"
    by (simp add: example_olr_env_def example_olr_event_def json_key_def)
  have tm: "event_tm (fe_lib example_olr_env) example_olr_event w = Inr None" for w
    by (simp add: event_tm_def json_number_def json_key_def example_olr_event_def)
  show ?thesis
    by (simp add: fc_processOLRChangeEvent_def lib pl json_text_def json_key_def json_string_def strcaseeq_def c_simps olr_boundary_def
        example_olr_position tm Let_def olr_client_set_scns_def)
qed

theorem olr_stream_replayed_witness:
  "\<exists>c' st' s'. olr_run 100 (olr_handler example_olr_env example_olr_conf) [[2, 0], [0, 0, 65, 66, 1], [0, 0, 0, 67]]
       (olr_client0\<lparr>is_connected := True\<rparr>) (zero_stats, False, example_flow) = Inr (c', st', True, s')
     \<and> g_scn (fl_olr s') = 10 \<and> g_strinfo c' = []"
proof -
  let ?g = "\<lambda>p w. case fc_processOLRChangeEvent example_olr_env example_olr_conf (c_string p) True True (zero_stats, w) of
      Inl _ \<Rightarrow> None | Inr (ret, st, w') \<Rightarrow> Some w'"
  have f: "concat [[2, 0], [0, 0, 65, 66, 1], [0, 0, 0, 67]] = concat (map olr_frame [[65, 66], [67]])"
    by (simp add: olr_frame_def enc_int32_le_def enc_int32_be_def c_simps)
  have one: "\<exists>s'. ?g p (c, s) = Some (True, s') \<and> g_scn (fl_olr s') = 10" for p c s
    using example_commit [of "c_string p" zero_stats c s] by auto
  obtain s1 where s1: "?g [65, 66] (False, example_flow) = Some (True, s1)" using one by blast
  obtain s2 where s2: "?g [67] (True, s1) = Some (True, s2)" "g_scn (fl_olr s2) = 10" using one by blast
  have all: "apply_all ?g [[65, 66], [67]] (False, example_flow) = Some (True, s2)"
    by (simp only: apply_all.simps s1 s2 bind.bind_lunit)
  have client: "is_connected (olr_client0\<lparr>is_connected := True\<rparr>)" "g_offset (olr_client0\<lparr>is_connected := True\<rparr>) = 0"
    "g_strinfo (olr_client0\<lparr>is_connected := True\<rparr>) = []" by (simp_all add: olr_client0_def)
  obtain c' st' where "olr_run 100 (olr_handler example_olr_env example_olr_conf) [[2, 0], [0, 0, 65, 66, 1], [0, 0, 0, 67]]
      (olr_client0\<lparr>is_connected := True\<rparr>) (zero_stats, False, example_flow) = Inr (c', st', True, s2)" "g_strinfo c' = []"
    using olr_stream_replayed [OF f _ _ _ client all, of 100 zero_stats] by (auto simp del: olr_run.simps)
  with s2(2) show ?thesis by blast
qed

end
