(* ===== verification/Conn_Info.thy ===== *)
theory Conn_Info
  imports Conn_Shm Executor "HOL-Library.Monad_Syntax"
begin

text \<open>
  The connection information (\<^verbatim>\<open>src/backend/synchdb/synchdb.c\<close>): the SQL functions that add and delete a
  connector, its optional settings and its object mapping rules by one statement each on the tables
  \<^verbatim>\<open>synchdb_conninfo\<close> and \<^verbatim>\<open>synchdb_objmap\<close>, and the query of \<^verbatim>\<open>ra_getConninfoByName\<close> in
  \<^verbatim>\<open>src/backend/executor/replication_agent.c\<close> that a start reads them back with.
  The statements are the texts the code formats. What a text means to PostgreSQL is a reader and a table of
  rows (\<open>read_command\<close>, \<open>run_command\<close>), and an executor that follows it is a hypothesis (\<open>conn_server\<close>).
\<close>

section \<open>Sizes and constants\<close>

definition SYNCHDB_CONNINFO_HOSTNAME_SIZE :: nat where "SYNCHDB_CONNINFO_HOSTNAME_SIZE = 256"
definition SYNCHDB_CONNINFO_USERNAME_SIZE :: nat where "SYNCHDB_CONNINFO_USERNAME_SIZE = 64"
definition SYNCHDB_CONNINFO_PASSWORD_SIZE :: nat where "SYNCHDB_CONNINFO_PASSWORD_SIZE = 128"
definition SYNCHDB_CONNINFO_TABLELIST_SIZE :: nat where "SYNCHDB_CONNINFO_TABLELIST_SIZE = 256"
definition SYNCHDB_CONNINFO_KEYSTORE_SIZE :: nat where "SYNCHDB_CONNINFO_KEYSTORE_SIZE = 128"
definition SYNCHDB_METADATA_PATH_SIZE :: nat where "SYNCHDB_METADATA_PATH_SIZE = 256"
definition INFINISPAN_TYPE_SIZE :: nat where "INFINISPAN_TYPE_SIZE = 32"
definition SYNCHDB_SECRET :: string where "SYNCHDB_SECRET = ''930e62fb8c40086c23f543357a023c0c''"
definition SYNCHDB_CONNINFO_TABLE :: string where "SYNCHDB_CONNINFO_TABLE = ''synchdb_conninfo''"
definition SYNCHDB_OBJECT_MAPPING_TABLE :: string where "SYNCHDB_OBJECT_MAPPING_TABLE = ''synchdb_objmap''"

lemmas conninfo_sizes =
  SYNCHDB_CONNINFO_HOSTNAME_SIZE_def SYNCHDB_CONNINFO_USERNAME_SIZE_def SYNCHDB_CONNINFO_PASSWORD_SIZE_def
  SYNCHDB_CONNINFO_TABLELIST_SIZE_def SYNCHDB_CONNINFO_KEYSTORE_SIZE_def SYNCHDB_METADATA_PATH_SIZE_def
  INFINISPAN_TYPE_SIZE_def SYNCHDB_CONNINFO_NAME_SIZE_def SYNCHDB_CONNINFO_DB_NAME_SIZE_def

section \<open>Checks of the arguments\<close>

text \<open>
  The three checks that the functions repeat: a text that must be there, a text that may be empty, which then
  stands as the word null, and a port. Each copies what it accepts into a field of the given size: a text that
  fills the size passes the check and loses its last character. A text argument is one with a
  four byte header, whose \<^verbatim>\<open>VARSIZE\<close> less \<^verbatim>\<open>VARHDRSZ\<close> is its length.
\<close>

definition required_text :: "string \<Rightarrow> nat \<Rightarrow> nat \<Rightarrow> string \<Rightarrow> string res" where
  "required_text what shown sz t =
     (if t = [] \<or> sz < length t
      then pg_err (what @ '' cannot be empty or longer than '' @ show_nat shown)
      else Inr (strlcpy sz t))"

definition optional_text :: "string \<Rightarrow> nat \<Rightarrow> string \<Rightarrow> string res" where
  "optional_text what sz t =
     (if t = [] then Inr (strlcpy sz ''null'')
      else if sz < length t then pg_err (what @ '' cannot be longer than '' @ show_nat sz)
      else Inr (strlcpy sz t))"

definition port_number :: "string \<Rightarrow> 32 word \<Rightarrow> nat res" where
  "port_number msg port = (if port = 0 \<or> 65535 < port then pg_err msg else Inr (unat port))"

section \<open>Statements\<close>

text \<open>
  The value expressions that the formats use: a quoted text, an unsigned number, a truth value, a text that the
  word null stands for null in, and the encrypted forms of the two kinds of text. \<open>quoted\<close> is the \<open>'%s'\<close> of a
  format: the text goes between two quotes as it is.
\<close>

datatype sql_expr = Text string | Number nat | Truth bool | NullText string | Secret string | NullSecret string

definition quoted :: "string \<Rightarrow> string" where
  "quoted s = [CHR 0x27] @ s @ [CHR 0x27]"

definition null_case :: "string \<Rightarrow> string \<Rightarrow> string" where
  "null_case s e = ''(CASE WHEN '' @ quoted s @ '' = '' @ quoted ''null'' @ '' THEN null ELSE '' @ e @ '' END)''"

definition encrypt_call :: "string \<Rightarrow> string" where
  "encrypt_call s = ''pgp_sym_encrypt('' @ quoted s @ '', '' @ quoted SYNCHDB_SECRET @ '')''"

fun expr_text :: "sql_expr \<Rightarrow> string" where
  "expr_text (Text s) = quoted s"
| "expr_text (Number n) = show_nat n"
| "expr_text (Truth b) = (if b then ''true'' else ''false'')"
| "expr_text (NullText s) = null_case s (quoted s)"
| "expr_text (Secret s) = encrypt_call s"
| "expr_text (NullSecret s) = null_case s (encrypt_call s)"

text \<open>
  The arguments of \<^verbatim>\<open>json_build_object\<close>: a key and its value, with the blanks that the format has
  before the key (beyond the one of the separator) and before the value.
\<close>

datatype setting = Setting nat string nat sql_expr

abbreviation key_value :: "string \<Rightarrow> sql_expr \<Rightarrow> setting" where
  "key_value k e \<equiv> Setting 0 k 1 e"

fun setting_text :: "setting \<Rightarrow> string" where
  "setting_text (Setting lead k blanks e) =
     replicate lead (CHR '' '') @ quoted k @ '','' @ replicate blanks (CHR '' '') @ expr_text e"

fun join :: "string \<Rightarrow> string list \<Rightarrow> string" where
  "join sep [] = []"
| "join sep [x] = x"
| "join sep (x # y # xs) = x @ sep @ join sep (y # xs)"

definition set_statement :: "setting list \<Rightarrow> string \<Rightarrow> string" where
  "set_statement kvs name =
     ''UPDATE '' @ SYNCHDB_CONNINFO_TABLE @ '' SET data = data || json_build_object('' @
     join '', '' (map setting_text kvs) @ '')::jsonb WHERE name = '' @ quoted name"

definition drop_statement :: "string list \<Rightarrow> string \<Rightarrow> string" where
  "drop_statement ks name =
     ''UPDATE '' @ SYNCHDB_CONNINFO_TABLE @ '' SET data = data - ARRAY['' @
     join '', '' (map quoted ks) @ ''] WHERE name = '' @ quoted name"

definition insert_conninfo :: "string \<Rightarrow> setting list \<Rightarrow> string" where
  "insert_conninfo name kvs =
     ''INSERT INTO '' @ SYNCHDB_CONNINFO_TABLE @ '' (name, isactive, data) VALUES ('' @ quoted name @
     '', false, jsonb_build_object('' @ join '', '' (map setting_text kvs) @ ''));''"

section \<open>Adding connectors\<close>

text \<open>The connector names that the build accepts.\<close>

definition supported_connector :: "config \<Rightarrow> string \<Rightarrow> bool" where
  "supported_connector cfg connector \<longleftrightarrow>
     strcaseeq connector ''mysql'' \<or> strcaseeq connector ''sqlserver'' \<or> strcaseeq connector ''oracle''
     \<or> with_olr cfg \<and> strcaseeq connector ''olr'' \<or> strcaseeq connector ''postgres''"

definition conninfo_statement ::
  "config \<Rightarrow> string \<Rightarrow> string \<Rightarrow> string \<Rightarrow> 32 word \<Rightarrow> string \<Rightarrow> string \<Rightarrow> string \<Rightarrow> string \<Rightarrow> string \<Rightarrow> string \<Rightarrow> string \<Rightarrow> string res" where
  "conninfo_statement cfg dbname name hostname port user pwd srcdb srcschema tables snapshottable connector =
     (let nm = strlcpy SYNCHDB_CONNINFO_NAME_SIZE name
      in rbind (required_text ''hostname'' SYNCHDB_CONNINFO_HOSTNAME_SIZE SYNCHDB_CONNINFO_HOSTNAME_SIZE hostname) (\<lambda>host.
         rbind (port_number ''invalid port number'' port) (\<lambda>p.
         rbind (required_text ''username'' SYNCHDB_CONNINFO_USERNAME_SIZE SYNCHDB_CONNINFO_USERNAME_SIZE user) (\<lambda>usr.
         rbind (required_text ''password'' SYNCHDB_CONNINFO_PASSWORD_SIZE SYNCHDB_CONNINFO_PASSWORD_SIZE pwd) (\<lambda>pw.
         rbind (required_text ''source database'' SYNCHDB_CONNINFO_PASSWORD_SIZE SYNCHDB_CONNINFO_DB_NAME_SIZE srcdb) (\<lambda>sdb.
         rbind (optional_text ''source schema'' SYNCHDB_CONNINFO_DB_NAME_SIZE srcschema) (\<lambda>schema.
         let dstdb = strlcpy SYNCHDB_CONNINFO_DB_NAME_SIZE dbname
         in rbind (optional_text ''table list'' SYNCHDB_CONNINFO_TABLELIST_SIZE tables) (\<lambda>tbl.
         rbind (optional_text ''snapshot table'' SYNCHDB_CONNINFO_TABLELIST_SIZE snapshottable) (\<lambda>snap.
         if connector = [] then pg_err ''connector type cannot be empty''
         else if \<not> supported_connector cfg connector then pg_err ''unsupported connector''
         else if \<not> strcaseeq connector ''mysql'' \<and> strcaseeq schema ''null''
         then pg_err (''schema cannot be null for creating a '' @ connector @ '' connector'')
         else Inr (insert_conninfo nm
           [key_value ''hostname'' (Text host), key_value ''port'' (Number p), key_value ''user'' (Text usr),
            key_value ''pwd'' (Secret pw), key_value ''srcdb'' (Text sdb), key_value ''dstdb'' (Text dstdb),
            key_value ''srcschema'' (NullText schema), Setting 1 ''table'' 1 (NullText tbl),
            key_value ''snapshottable'' (NullText snap), key_value ''connector'' (Text connector)]))))))))))"

definition synchdb_add_conninfo ::
  "config \<Rightarrow> ('db, 'd, 'tid) executor \<Rightarrow> string \<Rightarrow> string \<Rightarrow> string \<Rightarrow> 32 word \<Rightarrow> string \<Rightarrow> string \<Rightarrow> string \<Rightarrow> string \<Rightarrow> string
   \<Rightarrow> string \<Rightarrow> string \<Rightarrow> 'db \<Rightarrow> (int \<times> 'db) res" where
  "synchdb_add_conninfo cfg X dbname name hostname port user pwd srcdb srcschema tables snapshottable connector db =
     rbind (conninfo_statement cfg dbname name hostname port user pwd srcdb srcschema tables snapshottable connector)
       (\<lambda>q. ra_executeCommand X q db)"

section \<open>Optional settings\<close>

definition extra_statement :: "string \<Rightarrow> string \<Rightarrow> string \<Rightarrow> string \<Rightarrow> string \<Rightarrow> string \<Rightarrow> string res" where
  "extra_statement name sslmode keystore keystore_pass truststore truststore_pass =
     (let mode = strlcpy SYNCHDB_CONNINFO_NAME_SIZE sslmode
      in rbind (optional_text ''ssl_keystore'' SYNCHDB_CONNINFO_KEYSTORE_SIZE keystore) (\<lambda>ks.
         rbind (optional_text ''ssl_keystore_pass'' SYNCHDB_CONNINFO_PASSWORD_SIZE keystore_pass) (\<lambda>kp.
         rbind (optional_text ''ssl_truststore'' SYNCHDB_CONNINFO_KEYSTORE_SIZE truststore) (\<lambda>ts.
         rbind (optional_text ''ssl_truststore_pass'' SYNCHDB_CONNINFO_PASSWORD_SIZE truststore_pass) (\<lambda>tp.
         Inr (set_statement
           [key_value ''ssl_mode'' (Text mode), Setting 0 ''ssl_keystore'' 2 (NullText ks),
            key_value ''ssl_keystore_pass'' (NullSecret kp), key_value ''ssl_truststore'' (NullText ts),
            key_value ''ssl_truststore_pass'' (NullSecret tp)] name))))))"

definition synchdb_add_extra_conninfo ::
  "('db, 'd, 'tid) executor \<Rightarrow> string \<Rightarrow> string \<Rightarrow> string \<Rightarrow> string \<Rightarrow> string \<Rightarrow> string \<Rightarrow> 'db \<Rightarrow> (int \<times> 'db) res" where
  "synchdb_add_extra_conninfo X name sslmode keystore keystore_pass truststore truststore_pass db =
     rbind (extra_statement name sslmode keystore keystore_pass truststore truststore_pass) (\<lambda>q. ra_executeCommand X q db)"

definition extra_keys :: "string list" where
  "extra_keys = [''ssl_mode'', ''ssl_keystore'', ''ssl_keystore_pass'', ''ssl_truststore'', ''ssl_truststore_pass'']"

definition synchdb_del_extra_conninfo :: "('db, 'd, 'tid) executor \<Rightarrow> string \<Rightarrow> 'db \<Rightarrow> (int \<times> 'db) res" where
  "synchdb_del_extra_conninfo X name db = ra_executeCommand X (drop_statement extra_keys name) db"

definition fdw_statement :: "string \<Rightarrow> string \<Rightarrow> string \<Rightarrow> string \<Rightarrow> string \<Rightarrow> string res" where
  "fdw_statement name ssl_cert ssl_key ssl_rootcert ssl_cipher =
     rbind (optional_text ''ssl_cert path'' SYNCHDB_CONNINFO_KEYSTORE_SIZE ssl_cert) (\<lambda>cert.
     rbind (optional_text ''ssl_key path'' SYNCHDB_CONNINFO_KEYSTORE_SIZE ssl_key) (\<lambda>key.
     rbind (optional_text ''ssl_rootcert path'' SYNCHDB_CONNINFO_KEYSTORE_SIZE ssl_rootcert) (\<lambda>root.
     rbind (optional_text ''ssl_cipher'' SYNCHDB_CONNINFO_NAME_SIZE ssl_cipher) (\<lambda>cipher.
     Inr (set_statement
       [Setting 0 ''fdw_ssl_cert'' 5 (NullText cert), Setting 0 ''fdw_ssl_key'' 6 (NullText key),
        key_value ''fdw_ssl_rootcert'' (NullText root), Setting 0 ''fdw_ssl_cipher'' 3 (NullSecret cipher)] name)))))"

definition synchdb_add_fdw_conninfo ::
  "('db, 'd, 'tid) executor \<Rightarrow> string \<Rightarrow> string \<Rightarrow> string \<Rightarrow> string \<Rightarrow> string \<Rightarrow> 'db \<Rightarrow> (int \<times> 'db) res" where
  "synchdb_add_fdw_conninfo X name ssl_cert ssl_key ssl_rootcert ssl_cipher db =
     rbind (fdw_statement name ssl_cert ssl_key ssl_rootcert ssl_cipher) (\<lambda>q. ra_executeCommand X q db)"

definition fdw_keys :: "string list" where
  "fdw_keys = [''fdw_ssl_cert'', ''fdw_ssl_key'', ''fdw_ssl_rootcert'', ''fdw_ssl_cipher'']"

definition synchdb_del_fdw_conninfo :: "('db, 'd, 'tid) executor \<Rightarrow> string \<Rightarrow> 'db \<Rightarrow> (int \<times> 'db) res" where
  "synchdb_del_fdw_conninfo X name db = ra_executeCommand X (drop_statement fdw_keys name) db"

text \<open>With \<open>auth\<close> or \<open>ssl\<close> off, the texts of that group are not looked at and stand as null.\<close>

definition jmx_auth_texts :: "bool \<Rightarrow> string \<Rightarrow> string \<Rightarrow> (string \<times> string) res" where
  "jmx_auth_texts auth passwdfile accessfile =
     (if auth
      then rbind (required_text ''jmx auth password file'' SYNCHDB_METADATA_PATH_SIZE SYNCHDB_METADATA_PATH_SIZE passwdfile) (\<lambda>pf.
           rbind (required_text ''jmx auth password file'' SYNCHDB_METADATA_PATH_SIZE SYNCHDB_METADATA_PATH_SIZE accessfile) (\<lambda>af.
           Inr (pf, af)))
      else Inr (strlcpy SYNCHDB_METADATA_PATH_SIZE ''null'', strlcpy SYNCHDB_METADATA_PATH_SIZE ''null''))"

definition jmx_ssl_texts :: "bool \<Rightarrow> string \<Rightarrow> string \<Rightarrow> string \<Rightarrow> string \<Rightarrow> (string \<times> string \<times> string \<times> string) res" where
  "jmx_ssl_texts ssl keystore keystore_pass truststore truststore_pass =
     (if ssl
      then rbind (optional_text ''ssl_keystore'' SYNCHDB_CONNINFO_KEYSTORE_SIZE keystore) (\<lambda>ks.
           rbind (optional_text ''ssl_keystore_pass'' SYNCHDB_CONNINFO_PASSWORD_SIZE keystore_pass) (\<lambda>kp.
           rbind (optional_text ''ssl_truststore'' SYNCHDB_CONNINFO_KEYSTORE_SIZE truststore) (\<lambda>ts.
           rbind (optional_text ''ssl_truststore_pass'' SYNCHDB_CONNINFO_PASSWORD_SIZE truststore_pass) (\<lambda>tp.
           Inr (ks, kp, ts, tp)))))
      else Inr (strlcpy SYNCHDB_CONNINFO_KEYSTORE_SIZE ''null'', strlcpy SYNCHDB_CONNINFO_PASSWORD_SIZE ''null'',
                strlcpy SYNCHDB_CONNINFO_KEYSTORE_SIZE ''null'', strlcpy SYNCHDB_CONNINFO_PASSWORD_SIZE ''null''))"

definition jmx_statement ::
  "string \<Rightarrow> string \<Rightarrow> 32 word \<Rightarrow> string \<Rightarrow> 32 word \<Rightarrow> bool \<Rightarrow> string \<Rightarrow> string \<Rightarrow> bool \<Rightarrow> string \<Rightarrow> string \<Rightarrow> string \<Rightarrow> string \<Rightarrow> string res" where
  "jmx_statement name listenaddr port rmiserver rmiport auth passwdfile accessfile ssl keystore keystore_pass truststore truststore_pass =
     rbind (required_text ''jmx listen address'' SYNCHDB_CONNINFO_HOSTNAME_SIZE SYNCHDB_CONNINFO_HOSTNAME_SIZE listenaddr) (\<lambda>addr.
     rbind (port_number ''invalid port number'' port) (\<lambda>p.
     rbind (required_text ''jmx rmi server address'' SYNCHDB_CONNINFO_HOSTNAME_SIZE SYNCHDB_CONNINFO_HOSTNAME_SIZE rmiserver) (\<lambda>rmi.
     rbind (port_number ''invalid port number'' rmiport) (\<lambda>rp.
     rbind (jmx_auth_texts auth passwdfile accessfile) (\<lambda>(pf, af).
     rbind (jmx_ssl_texts ssl keystore keystore_pass truststore truststore_pass) (\<lambda>(ks, kp, ts, tp).
     Inr (set_statement
       [key_value ''jmx_listenaddr'' (Text addr), key_value ''jmx_port'' (Number p),
        key_value ''jmx_rmi_address'' (Text rmi), key_value ''jmx_rmi_port'' (Number rp),
        key_value ''jmx_auth'' (Truth auth), key_value ''jmx_auth_passwdfile'' (NullText pf),
        key_value ''jmx_auth_accessfile'' (NullText af), key_value ''jmx_ssl'' (Truth ssl),
        key_value ''jmx_ssl_keystore'' (NullText ks), key_value ''jmx_ssl_keystore_pass'' (NullSecret kp),
        key_value ''jmx_ssl_truststore'' (NullText ts), key_value ''jmx_ssl_truststore_pass'' (NullSecret tp)] name)))))))"

definition synchdb_add_jmx_conninfo ::
  "('db, 'd, 'tid) executor \<Rightarrow> string \<Rightarrow> string \<Rightarrow> 32 word \<Rightarrow> string \<Rightarrow> 32 word \<Rightarrow> bool \<Rightarrow> string \<Rightarrow> string \<Rightarrow> bool \<Rightarrow> string
   \<Rightarrow> string \<Rightarrow> string \<Rightarrow> string \<Rightarrow> 'db \<Rightarrow> (int \<times> 'db) res" where
  "synchdb_add_jmx_conninfo X name listenaddr port rmiserver rmiport auth passwdfile accessfile ssl keystore keystore_pass
     truststore truststore_pass db =
     rbind (jmx_statement name listenaddr port rmiserver rmiport auth passwdfile accessfile ssl keystore keystore_pass
              truststore truststore_pass)
       (\<lambda>q. ra_executeCommand X q db)"

definition jmx_keys :: "string list" where
  "jmx_keys = [''jmx_listenaddr'', ''jmx_port'', ''jmx_rmi_address'', ''jmx_rmi_port'', ''jmx_auth'', ''jmx_auth_passwdfile'',
     ''jmx_auth_accessfile'', ''jmx_ssl'', ''jmx_ssl_keystore'', ''jmx_ssl_keystore_pass'', ''jmx_ssl_truststore'',
     ''jmx_ssl_truststore_pass'', ''jmx_exporter'', ''jmx_exporter_port'', ''jmx_exporter_conf'']"

definition synchdb_del_jmx_conninfo :: "('db, 'd, 'tid) executor \<Rightarrow> string \<Rightarrow> 'db \<Rightarrow> (int \<times> 'db) res" where
  "synchdb_del_jmx_conninfo X name db = ra_executeCommand X (drop_statement jmx_keys name) db"

definition exporter_statement :: "string \<Rightarrow> string \<Rightarrow> 32 word \<Rightarrow> string \<Rightarrow> string res" where
  "exporter_statement name path port conf =
     rbind (required_text ''jmx exporter jar library path'' SYNCHDB_METADATA_PATH_SIZE SYNCHDB_METADATA_PATH_SIZE path) (\<lambda>jar.
     rbind (port_number ''invalid jmx exporter port number'' port) (\<lambda>p.
     rbind (required_text ''jmx exporter conf file path'' SYNCHDB_METADATA_PATH_SIZE SYNCHDB_METADATA_PATH_SIZE conf) (\<lambda>cf.
     Inr (set_statement
       [key_value ''jmx_exporter'' (Text jar), key_value ''jmx_exporter_port'' (Number p),
        key_value ''jmx_exporter_conf'' (Text cf)] name))))"

definition synchdb_add_jmx_exporter_conninfo ::
  "('db, 'd, 'tid) executor \<Rightarrow> string \<Rightarrow> string \<Rightarrow> 32 word \<Rightarrow> string \<Rightarrow> 'db \<Rightarrow> (int \<times> 'db) res" where
  "synchdb_add_jmx_exporter_conninfo X name path port conf db =
     rbind (exporter_statement name path port conf) (\<lambda>q. ra_executeCommand X q db)"

definition exporter_keys :: "string list" where
  "exporter_keys = [''jmx_exporter'', ''jmx_exporter_port'', ''jmx_exporter_conf'']"

definition synchdb_del_jmx_exporter_conninfo :: "('db, 'd, 'tid) executor \<Rightarrow> string \<Rightarrow> 'db \<Rightarrow> (int \<times> 'db) res" where
  "synchdb_del_jmx_exporter_conninfo X name db = ra_executeCommand X (drop_statement exporter_keys name) db"

definition olr_statement :: "string \<Rightarrow> string \<Rightarrow> 32 word \<Rightarrow> string \<Rightarrow> string res" where
  "olr_statement name host port source =
     rbind (required_text ''Openlog Replicator host address'' SYNCHDB_CONNINFO_HOSTNAME_SIZE SYNCHDB_CONNINFO_HOSTNAME_SIZE host) (\<lambda>h.
     rbind (port_number ''invalid port number'' port) (\<lambda>p.
     rbind (required_text ''Openlog Replicator data source'' SYNCHDB_CONNINFO_NAME_SIZE SYNCHDB_CONNINFO_NAME_SIZE source) (\<lambda>src.
     Inr (set_statement
       [key_value ''olr_host'' (Text h), key_value ''olr_port'' (Number p), key_value ''olr_source'' (Text src)] name))))"

definition synchdb_add_olr_conninfo ::
  "('db, 'd, 'tid) executor \<Rightarrow> string \<Rightarrow> string \<Rightarrow> 32 word \<Rightarrow> string \<Rightarrow> 'db \<Rightarrow> (int \<times> 'db) res" where
  "synchdb_add_olr_conninfo X name host port source db =
     rbind (olr_statement name host port source) (\<lambda>q. ra_executeCommand X q db)"

definition olr_keys :: "string list" where
  "olr_keys = [''olr_host'', ''olr_port'', ''olr_source'']"

definition synchdb_del_olr_conninfo :: "('db, 'd, 'tid) executor \<Rightarrow> string \<Rightarrow> 'db \<Rightarrow> (int \<times> 'db) res" where
  "synchdb_del_olr_conninfo X name db = ra_executeCommand X (drop_statement olr_keys name) db"

definition infinispan_statement :: "string \<Rightarrow> string \<Rightarrow> 32 word \<Rightarrow> string res" where
  "infinispan_statement name memoryType memorySize =
     (if \<not> strcaseeq memoryType ''heap'' \<and> \<not> strcaseeq memoryType ''off heap''
      then pg_err (''invalid infinispan memory type: expect '' @ quoted ''heap'' @ '' or '' @ quoted ''off heap'')
      else if memorySize = 0 then pg_err ''invalid infinispan memory size''
      else Inr (set_statement
        [key_value ''ispn_cache_type'' (Text (strlcpy INFINISPAN_TYPE_SIZE ''embedded'')),
         key_value ''ispn_memory_type'' (Text (strlcpy INFINISPAN_TYPE_SIZE memoryType)),
         key_value ''ispn_memory_size'' (Number (unat memorySize))] name))"

definition synchdb_add_infinispan ::
  "('db, 'd, 'tid) executor \<Rightarrow> string \<Rightarrow> string \<Rightarrow> 32 word \<Rightarrow> 'db \<Rightarrow> (int \<times> 'db) res" where
  "synchdb_add_infinispan X name memoryType memorySize db =
     rbind (infinispan_statement name memoryType memorySize) (\<lambda>q. ra_executeCommand X q db)"

definition infinispan_keys :: "string list" where
  "infinispan_keys = [''ispn_cache_type'', ''ispn_memory_type'', ''ispn_memory_size'']"

text \<open>
  The settings of a running connector are not to be removed, but slot 0 is taken for no slot. The third component
  of the result is the directory that is removed; \<^verbatim>\<open>rmtree\<close> failing is a warning.
\<close>

definition synchdb_del_infinispan ::
  "('db, 'd, 'tid) executor \<Rightarrow> backend_env \<Rightarrow> string \<Rightarrow> 'db \<Rightarrow> shm \<Rightarrow> shm \<times> (int \<times> 'db) res \<times> string option" where
  "synchdb_del_infinispan X E name db s0 =
     (let s = synchdb_init_shmem (be_workers E) s0;
          dir = ''pg_synchdb/ispn_'' @ name @ ''_'' @ be_dbname E
      in case get_shm_connector_id_by_name s name (be_dbname E) of
           Some connectorId \<Rightarrow>
             if 0 < connectorId \<and> get_shm_connector_pid s connectorId \<noteq> InvalidPid
             then (s, pg_err ''the connector needs to be in stopped state before infinispan settings can be removed'', None)
             else (s, ra_executeCommand X (drop_statement infinispan_keys name) db, Some dir)
         | None \<Rightarrow> (s, ra_executeCommand X (drop_statement infinispan_keys name) db, Some dir))"

section \<open>Object mapping rules\<close>

definition objmap_type :: "string \<Rightarrow> bool" where
  "objmap_type objtype \<longleftrightarrow> strcaseeq objtype ''table'' \<or> strcaseeq objtype ''column'' \<or> strcaseeq objtype ''datatype''
     \<or> strcaseeq objtype ''transform''"

definition add_rule_statement :: "string \<Rightarrow> string \<Rightarrow> string \<Rightarrow> string \<Rightarrow> string res" where
  "add_rule_statement name objtype srcobj dstobj =
     (if \<not> objmap_type objtype then pg_err (''unsupported object type '' @ objtype)
      else Inr (''INSERT INTO '' @ SYNCHDB_OBJECT_MAPPING_TABLE @ '' (name, objtype, enabled, srcobj, dstobj) VALUES (trim(lower('' @
        quoted name @ '')), trim(lower('' @ quoted objtype @ '')), true, trim('' @ quoted srcobj @ ''), '' @
        quoted (escapeSingleQuote dstobj False) @
        '') ON CONFLICT(name, objtype, srcobj) DO UPDATE SET enabled = EXCLUDED.enabled,dstobj = EXCLUDED.dstobj;''))"

definition synchdb_add_objmap ::
  "('db, 'd, 'tid) executor \<Rightarrow> backend_env \<Rightarrow> string \<Rightarrow> string \<Rightarrow> string \<Rightarrow> string \<Rightarrow> 'db \<Rightarrow> shm \<Rightarrow> shm \<times> (int \<times> 'db) res" where
  "synchdb_add_objmap X E name objtype srcobj dstobj db s0 =
     (synchdb_init_shmem (be_workers E) s0,
      rbind (add_rule_statement name objtype srcobj dstobj) (\<lambda>q. ra_executeCommand X q db))"

text \<open>The rule is looked for under the name as given and under the lower case of the source object.\<close>

definition del_rule_statement :: "string \<Rightarrow> string \<Rightarrow> string \<Rightarrow> string res" where
  "del_rule_statement name objtype srcobj =
     (if \<not> objmap_type objtype then pg_err (''unsupported object type '' @ objtype)
      else Inr (''UPDATE '' @ SYNCHDB_OBJECT_MAPPING_TABLE @ '' SET enabled = false WHERE name = '' @ quoted name @
        '' AND objtype = trim(lower('' @ quoted objtype @ '')) AND srcobj = trim(lower('' @ quoted srcobj @ ''));''))"

definition synchdb_del_objmap ::
  "('db, 'd, 'tid) executor \<Rightarrow> string \<Rightarrow> string \<Rightarrow> string \<Rightarrow> 'db \<Rightarrow> (int \<times> 'db) res" where
  "synchdb_del_objmap X name objtype srcobj db =
     rbind (del_rule_statement name objtype srcobj) (\<lambda>q. ra_executeCommand X q db)"

section \<open>Reading a connector back\<close>

text \<open>
  The columns of the query: a value of the row as text with the word null for null, a value that was encrypted,
  the same with the word null for null, a truth value.
\<close>

datatype column = Plain string | Decrypt string | NullDecrypt string | Flag string

definition decrypt_call :: "string \<Rightarrow> string" where
  "decrypt_call k = ''pgp_sym_decrypt((data->>'' @ quoted k @ '')::bytea, '' @ quoted SYNCHDB_SECRET @ '')''"

fun column_text :: "column \<Rightarrow> string" where
  "column_text (Plain k) = ''coalesce(data->>'' @ quoted k @ '', '' @ quoted ''null'' @ '')''"
| "column_text (Decrypt k) = decrypt_call k"
| "column_text (NullDecrypt k) = ''coalesce('' @ decrypt_call k @ '', '' @ quoted ''null'' @ '')''"
| "column_text (Flag k) = ''(data->>'' @ quoted k @ '')::boolean''"

definition main_columns :: "column list" where
  "main_columns = [Plain ''hostname'', Plain ''port'', Plain ''user'', Decrypt ''pwd'', Plain ''srcdb'', Plain ''dstdb'',
     Plain ''table'', Plain ''snapshottable'', Plain ''connector'']"

definition other_columns :: "column list" where
  "other_columns = [Plain ''ssl_mode'', Plain ''ssl_keystore'', NullDecrypt ''ssl_keystore_pass'', Plain ''ssl_truststore'',
     NullDecrypt ''ssl_truststore_pass'', Plain ''jmx_listenaddr'', Plain ''jmx_port'', Plain ''jmx_rmi_address'',
     Plain ''jmx_rmi_port'', Flag ''jmx_auth'', Plain ''jmx_auth_passwdfile'', Plain ''jmx_auth_accessfile'', Flag ''jmx_ssl'',
     Plain ''jmx_ssl_keystore'', NullDecrypt ''jmx_ssl_keystore_pass'', Plain ''jmx_ssl_truststore'',
     NullDecrypt ''jmx_ssl_truststore_pass'', Plain ''jmx_exporter'', Plain ''jmx_exporter_port'', Plain ''jmx_exporter_conf'',
     Plain ''olr_host'', Plain ''olr_port'', Plain ''olr_source'', Plain ''ispn_cache_type'', Plain ''ispn_memory_type'',
     Plain ''ispn_memory_size'', Plain ''srcschema'', Plain ''fdw_ssl_cert'', Plain ''fdw_ssl_key'', Plain ''fdw_ssl_rootcert'',
     NullDecrypt ''fdw_ssl_cipher'']"

definition conninfo_select :: string where
  "conninfo_select = ''SELECT '' @ join '', '' (map column_text main_columns) @ '', isactive,'' @
     join '', '' (map column_text other_columns) @ '' FROM synchdb_conninfo WHERE name = ''"

definition conninfo_query :: "string \<Rightarrow> string" where
  "conninfo_query name = conninfo_select @ quoted name"

text \<open>
  A value of a row. The server's answer to a query is an argument: its rows, or \<open>None\<close> when the statement is not
  run as a query. A failure outside a transaction starts the transaction a second time, which PostgreSQL refuses.
\<close>

datatype datum = DNull | DText string | DBool bool

definition spi_execute_select_one ::
  "(string \<Rightarrow> 'db \<Rightarrow> datum list list option) \<Rightarrow> bool \<Rightarrow> string \<Rightarrow> 'db \<Rightarrow> datum list option res" where
  "spi_execute_select_one sel skiptx query db =
     (case sel query db of
        Some (row # _) \<Rightarrow> Inr (Some row)
      | _ \<Rightarrow> if skiptx then Inr None else Inl (Undefined ''transaction started twice''))"

definition TextDatumGetCString :: "datum \<Rightarrow> string res" where
  "TextDatumGetCString d = (case d of DText s \<Rightarrow> Inr s | _ \<Rightarrow> Inl (Undefined ''null text datum''))"

definition DatumGetBool :: "datum \<Rightarrow> bool" where
  "DatumGetBool d \<longleftrightarrow> d = DBool True"

text \<open>A field of the structure: the text of a column, cut to the size of the field, or read as a number.\<close>

definition text_field :: "datum list \<Rightarrow> nat \<Rightarrow> nat \<Rightarrow> string res" where
  "text_field row i sz = rbind (TextDatumGetCString (row ! i)) (\<lambda>s. Inr (strlcpy sz s))"

definition number_field :: "datum list \<Rightarrow> nat \<Rightarrow> nat res" where
  "number_field row i = rbind (TextDatumGetCString (row ! i)) (\<lambda>s. Inr (unat (word_of_int (atoi s) :: 32 word)))"

definition read_main :: "datum list \<Rightarrow> string \<Rightarrow> ConnectionInfo \<Rightarrow> (ConnectionInfo \<times> string) res" where
  "read_main row name ci =
     rbind (text_field row 0 SYNCHDB_CONNINFO_HOSTNAME_SIZE) (\<lambda>hostname.
     rbind (number_field row 1) (\<lambda>port.
     rbind (text_field row 2 SYNCHDB_CONNINFO_USERNAME_SIZE) (\<lambda>user.
     rbind (text_field row 3 SYNCHDB_CONNINFO_PASSWORD_SIZE) (\<lambda>pwd.
     rbind (text_field row 4 SYNCHDB_CONNINFO_DB_NAME_SIZE) (\<lambda>srcdb.
     rbind (text_field row 5 SYNCHDB_CONNINFO_DB_NAME_SIZE) (\<lambda>dstdb.
     rbind (text_field row 6 SYNCHDB_CONNINFO_TABLELIST_SIZE) (\<lambda>tables.
     rbind (text_field row 7 SYNCHDB_CONNINFO_TABLELIST_SIZE) (\<lambda>snapshottable.
     rbind (TextDatumGetCString (row ! 8)) (\<lambda>connector.
     Inr (ci\<lparr>ci_name := strlcpy SYNCHDB_CONNINFO_NAME_SIZE name, ci_hostname := hostname, ci_port := port, ci_user := user,
             ci_pwd := pwd, ci_srcdb := srcdb, ci_dstdb := dstdb, ci_table := tables, ci_snapshottable := snapshottable,
             ci_active := DatumGetBool (row ! 9)\<rparr>, connector))))))))))"

definition read_extra :: "datum list \<Rightarrow> ExtraConnectionInfo res" where
  "read_extra row =
     rbind (text_field row 10 SYNCHDB_CONNINFO_NAME_SIZE) (\<lambda>mode.
     rbind (text_field row 11 SYNCHDB_CONNINFO_KEYSTORE_SIZE) (\<lambda>ks.
     rbind (text_field row 12 SYNCHDB_CONNINFO_PASSWORD_SIZE) (\<lambda>kp.
     rbind (text_field row 13 SYNCHDB_CONNINFO_KEYSTORE_SIZE) (\<lambda>ts.
     rbind (text_field row 14 SYNCHDB_CONNINFO_PASSWORD_SIZE) (\<lambda>tp.
     Inr \<lparr>ex_ssl_mode = mode, ex_ssl_keystore = ks, ex_ssl_keystore_pass = kp, ex_ssl_truststore = ts,
          ex_ssl_truststore_pass = tp\<rparr>)))))"

definition read_jmx :: "datum list \<Rightarrow> JMXConnectionInfo res" where
  "read_jmx row =
     rbind (text_field row 15 SYNCHDB_CONNINFO_HOSTNAME_SIZE) (\<lambda>addr.
     rbind (number_field row 16) (\<lambda>port.
     rbind (text_field row 17 SYNCHDB_CONNINFO_HOSTNAME_SIZE) (\<lambda>rmi.
     rbind (number_field row 18) (\<lambda>rmiport.
     rbind (text_field row 20 SYNCHDB_METADATA_PATH_SIZE) (\<lambda>pf.
     rbind (text_field row 21 SYNCHDB_METADATA_PATH_SIZE) (\<lambda>af.
     rbind (text_field row 23 SYNCHDB_CONNINFO_KEYSTORE_SIZE) (\<lambda>ks.
     rbind (text_field row 24 SYNCHDB_CONNINFO_PASSWORD_SIZE) (\<lambda>kp.
     rbind (text_field row 25 SYNCHDB_CONNINFO_KEYSTORE_SIZE) (\<lambda>ts.
     rbind (text_field row 26 SYNCHDB_CONNINFO_PASSWORD_SIZE) (\<lambda>tp.
     rbind (text_field row 27 SYNCHDB_METADATA_PATH_SIZE) (\<lambda>jar.
     rbind (number_field row 28) (\<lambda>jarport.
     rbind (text_field row 29 SYNCHDB_METADATA_PATH_SIZE) (\<lambda>conf.
     Inr \<lparr>jx_listenaddr = addr, jx_port = port, jx_rmiserveraddr = rmi, jx_rmiport = rmiport,
          jx_auth = DatumGetBool (row ! 19), jx_auth_passwdfile = pf, jx_auth_accessfile = af,
          jx_ssl = DatumGetBool (row ! 22), jx_ssl_keystore = ks, jx_ssl_keystore_pass = kp, jx_ssl_truststore = ts,
          jx_ssl_truststore_pass = tp, jx_exporter = jar, jx_exporter_port = jarport, jx_exporter_conf = conf\<rparr>)))))))))))))"

definition read_olr :: "datum list \<Rightarrow> OLRConnectionInfo res" where
  "read_olr row =
     rbind (text_field row 30 SYNCHDB_CONNINFO_HOSTNAME_SIZE) (\<lambda>host.
     rbind (number_field row 31) (\<lambda>port.
     rbind (text_field row 32 SYNCHDB_CONNINFO_NAME_SIZE) (\<lambda>source.
     Inr \<lparr>ol_host = host, ol_port = port, ol_source = source\<rparr>)))"

definition read_ispn :: "datum list \<Rightarrow> IspnInfo res" where
  "read_ispn row =
     rbind (text_field row 33 INFINISPAN_TYPE_SIZE) (\<lambda>cache.
     rbind (text_field row 34 INFINISPAN_TYPE_SIZE) (\<lambda>memory.
     rbind (number_field row 35) (\<lambda>sz.
     Inr \<lparr>is_cache_type = cache, is_memory_type = memory, is_memory_size = sz\<rparr>)))"

definition read_fdw :: "datum list \<Rightarrow> FdwConnectionInfo res" where
  "read_fdw row =
     rbind (text_field row 37 SYNCHDB_CONNINFO_KEYSTORE_SIZE) (\<lambda>cert.
     rbind (text_field row 38 SYNCHDB_CONNINFO_KEYSTORE_SIZE) (\<lambda>key.
     rbind (text_field row 39 SYNCHDB_CONNINFO_KEYSTORE_SIZE) (\<lambda>root.
     rbind (text_field row 40 SYNCHDB_CONNINFO_NAME_SIZE) (\<lambda>cipher.
     Inr \<lparr>fd_ssl_cert = cert, fd_ssl_key = key, fd_ssl_rootcert = root, fd_ssl_cipher = cipher\<rparr>))))"

text \<open>The result is the structure and the connector's type, \<open>None\<close> for the return value -1.\<close>

definition ra_getConninfoByName ::
  "(string \<Rightarrow> 'db \<Rightarrow> datum list list option) \<Rightarrow> bool \<Rightarrow> string \<Rightarrow> ConnectionInfo \<Rightarrow> 'db \<Rightarrow> (ConnectionInfo \<times> string) option res" where
  "ra_getConninfoByName sel skiptx name ci db =
     rbind (spi_execute_select_one sel skiptx (conninfo_query name) db) (\<lambda>res.
       case res of
         None \<Rightarrow> Inr None
       | Some row \<Rightarrow>
           rbind (read_main row name ci) (\<lambda>(ci, connector).
           rbind (read_extra row) (\<lambda>extra.
           rbind (read_jmx row) (\<lambda>jmx.
           rbind (read_olr row) (\<lambda>olr.
           rbind (read_ispn row) (\<lambda>ispn.
           rbind (text_field row 36 SYNCHDB_CONNINFO_DB_NAME_SIZE) (\<lambda>srcschema.
           rbind (read_fdw row) (\<lambda>fdw.
           Inr (Some (ci\<lparr>ci_extra := extra, ci_jmx := jmx, ci_olr := olr, ci_ispn := ispn, ci_srcschema := srcschema,
                         ci_fdw := fdw\<rparr>, connector))))))))))"

section \<open>What the statements mean to the server\<close>

text \<open>
  The reference: a reader of the statements' texts as PostgreSQL reads them (with
  \<^verbatim>\<open>standard_conforming_strings\<close>, its default), and the table of rows that they change, a row
  being whether the connector is active and a map from keys to values. An encrypted value is kept with its key.
\<close>

datatype sql_value = VText string | VNumber string | VTruth bool | VNull | VSecret string string

definition keyword :: "string \<Rightarrow> string \<Rightarrow> string option" where
  "keyword k t = (if take (length k) t = k then Some (drop (length k) t) else None)"

definition blanks :: "string \<Rightarrow> string" where
  "blanks t = dropWhile (\<lambda>c. c = CHR '' '') t"

definition read_atom :: "string \<Rightarrow> (sql_value \<times> string) option" where
  "read_atom t = (case read_literal t of
       Some (s, r) \<Rightarrow> Some (VText s, r)
     | None \<Rightarrow> do {
         t \<leftarrow> keyword ''pgp_sym_encrypt('' t;
         (v, t) \<leftarrow> read_literal t;
         t \<leftarrow> keyword '', '' t;
         (k, t) \<leftarrow> read_literal t;
         t \<leftarrow> keyword '')'' t;
         Some (VSecret v k, t) })"

definition read_case :: "string \<Rightarrow> (sql_value \<times> string) option" where
  "read_case t = do {
     t \<leftarrow> keyword ''(CASE WHEN '' t;
     (a, t) \<leftarrow> read_literal t;
     t \<leftarrow> keyword '' = '' t;
     (b, t) \<leftarrow> read_literal t;
     t \<leftarrow> keyword '' THEN null ELSE '' t;
     (v, t) \<leftarrow> read_atom t;
     t \<leftarrow> keyword '' END)'' t;
     Some (if a = b then VNull else v, t) }"

definition read_constant :: "string \<Rightarrow> (sql_value \<times> string) option" where
  "read_constant t =
     (case keyword ''true'' t of Some r \<Rightarrow> Some (VTruth True, r)
      | None \<Rightarrow> (case keyword ''false'' t of Some r \<Rightarrow> Some (VTruth False, r)
                 | None \<Rightarrow> if takeWhile is_digit t = [] then None
                           else Some (VNumber (takeWhile is_digit t), dropWhile is_digit t)))"

definition read_value :: "string \<Rightarrow> (sql_value \<times> string) option" where
  "read_value t = (case read_case t of Some r \<Rightarrow> Some r
     | None \<Rightarrow> (case read_atom t of Some r \<Rightarrow> Some r | None \<Rightarrow> read_constant t))"

definition read_setting :: "string \<Rightarrow> ((string \<times> sql_value) \<times> string) option" where
  "read_setting t = do {
     (k, t) \<leftarrow> read_literal (blanks t);
     t \<leftarrow> keyword '','' t;
     (v, t) \<leftarrow> read_value (blanks t);
     Some ((k, v), t) }"

text \<open>A list separated by commas; the number bounds its length, and the length of the text is enough for any.\<close>

fun read_list :: "(string \<Rightarrow> ('a \<times> string) option) \<Rightarrow> nat \<Rightarrow> string \<Rightarrow> ('a list \<times> string) option" where
  "read_list item 0 t = None"
| "read_list item (Suc n) t =
     (case item t of
        None \<Rightarrow> None
      | Some (x, r) \<Rightarrow> (case keyword '','' r of
          None \<Rightarrow> Some ([x], r)
        | Some r' \<Rightarrow> map_option (\<lambda>(xs, e). (x # xs, e)) (read_list item n r')))"

datatype conn_command = AddRow string bool "(string \<times> sql_value) list" | SetKeys string "(string \<times> sql_value) list"
  | DropKeys string "string list" | SetActive string bool | DeleteRow string

definition read_add :: "string \<Rightarrow> conn_command option" where
  "read_add t = do {
     t \<leftarrow> keyword ''INSERT INTO synchdb_conninfo (name, isactive, data) VALUES ('' t;
     (n, t) \<leftarrow> read_literal t;
     t \<leftarrow> keyword '', false, jsonb_build_object('' t;
     (kvs, t) \<leftarrow> read_list read_setting (length t) t;
     if t = ''));'' then Some (AddRow n False kvs) else None }"

definition read_set :: "string \<Rightarrow> conn_command option" where
  "read_set t = do {
     t \<leftarrow> keyword ''UPDATE synchdb_conninfo SET data = data || json_build_object('' t;
     (kvs, t) \<leftarrow> read_list read_setting (length t) t;
     t \<leftarrow> keyword '')::jsonb WHERE name = '' t;
     (n, t) \<leftarrow> read_literal t;
     if t = [] then Some (SetKeys n kvs) else None }"

definition read_drop :: "string \<Rightarrow> conn_command option" where
  "read_drop t = do {
     t \<leftarrow> keyword ''UPDATE synchdb_conninfo SET data = data - ARRAY['' t;
     (ks, t) \<leftarrow> read_list (\<lambda>t. read_literal (blanks t)) (length t) t;
     t \<leftarrow> keyword ''] WHERE name = '' t;
     (n, t) \<leftarrow> read_literal t;
     if t = [] then Some (DropKeys n ks) else None }"

definition read_active :: "string \<Rightarrow> conn_command option" where
  "read_active t = do {
     t \<leftarrow> keyword ''UPDATE synchdb_conninfo set isactive = '' t;
     (v, t) \<leftarrow> read_constant t;
     t \<leftarrow> keyword '' WHERE name = '' t;
     (n, t) \<leftarrow> read_literal t;
     case v of VTruth b \<Rightarrow> if t = [] then Some (SetActive n b) else None | _ \<Rightarrow> None }"

text \<open>The three deletions that one text asks for; the rows of the other two tables are not part of this table.\<close>

definition read_delete :: "string \<Rightarrow> conn_command option" where
  "read_delete t = do {
     t \<leftarrow> keyword ''DELETE FROM synchdb_conninfo WHERE name = '' t;
     (n, t) \<leftarrow> read_literal t;
     t \<leftarrow> keyword '';DELETE FROM synchdb_attribute WHERE name = '' t;
     (n1, t) \<leftarrow> read_literal t;
     t \<leftarrow> keyword '';DELETE FROM synchdb_objmap WHERE name = '' t;
     (n2, t) \<leftarrow> read_literal t;
     if t = '';'' \<and> n1 = n \<and> n2 = n then Some (DeleteRow n) else None }"

fun first_some :: "'a option list \<Rightarrow> 'a option" where
  "first_some [] = None"
| "first_some (None # xs) = first_some xs"
| "first_some (Some x # xs) = Some x"

definition read_command :: "string \<Rightarrow> conn_command option" where
  "read_command q = first_some [read_add q, read_set q, read_drop q, read_active q, read_delete q]"

type_synonym conn_table = "string \<rightharpoonup> bool \<times> (string \<rightharpoonup> sql_value)"

fun run_command :: "conn_command \<Rightarrow> conn_table \<Rightarrow> conn_table option" where
  "run_command (AddRow n a kvs) T = (case T n of None \<Rightarrow> Some (T(n \<mapsto> (a, map_of (rev kvs)))) | Some _ \<Rightarrow> None)"
| "run_command (SetKeys n kvs) T =
     Some (case T n of None \<Rightarrow> T | Some (a, d) \<Rightarrow> T(n \<mapsto> (a, d ++ map_of (rev kvs))))"
| "run_command (DropKeys n ks) T =
     Some (case T n of None \<Rightarrow> T | Some (a, d) \<Rightarrow> T(n \<mapsto> (a, d |` (- set ks))))"
| "run_command (SetActive n b) T = Some (case T n of None \<Rightarrow> T | Some (a, d) \<Rightarrow> T(n \<mapsto> (b, d)))"
| "run_command (DeleteRow n) T = Some (T(n := None))"

text \<open>The row that the query returns; \<open>None\<close> where a value has not the kind that its column is for.\<close>

definition coalesce_null :: "datum \<Rightarrow> datum" where
  "coalesce_null d = (if d = DNull then DText ''null'' else d)"

fun as_text :: "sql_value option \<Rightarrow> datum option" where
  "as_text (Some (VText s)) = Some (DText s)"
| "as_text (Some (VNumber s)) = Some (DText s)"
| "as_text (Some (VTruth b)) = Some (DText (if b then ''true'' else ''false''))"
| "as_text (Some (VSecret v k)) = None"
| "as_text _ = Some DNull"

fun decrypted :: "sql_value option \<Rightarrow> datum option" where
  "decrypted (Some (VSecret v k)) = (if k = SYNCHDB_SECRET then Some (DText v) else None)"
| "decrypted (Some VNull) = Some DNull"
| "decrypted None = Some DNull"
| "decrypted _ = None"

fun as_truth :: "sql_value option \<Rightarrow> datum option" where
  "as_truth (Some (VTruth b)) = Some (DBool b)"
| "as_truth (Some VNull) = Some DNull"
| "as_truth None = Some DNull"
| "as_truth _ = None"

fun cell :: "(string \<rightharpoonup> sql_value) \<Rightarrow> column \<Rightarrow> datum option" where
  "cell d (Plain k) = map_option coalesce_null (as_text (d k))"
| "cell d (Decrypt k) = decrypted (d k)"
| "cell d (NullDecrypt k) = map_option coalesce_null (decrypted (d k))"
| "cell d (Flag k) = as_truth (d k)"

definition row_of :: "bool \<times> (string \<rightharpoonup> sql_value) \<Rightarrow> datum list option" where
  "row_of = (\<lambda>(a, d). do {
     xs \<leftarrow> those (map (cell d) main_columns);
     ys \<leftarrow> those (map (cell d) other_columns);
     Some (xs @ [DBool a] @ ys) })"

text \<open>
  A server that keeps the table: \<open>tab\<close> is the table in a state of the database; a statement that reads as a
  command runs it, and fails where the command does (a name that is there already); the query returns the row
  of its name.
\<close>

definition quote_free :: "string \<Rightarrow> bool" where
  "quote_free s \<longleftrightarrow> CHR 0x27 \<notin> set s"

definition conn_server ::
  "('db, 'd, 'tid) executor \<Rightarrow> (string \<Rightarrow> 'db \<Rightarrow> datum list list option) \<Rightarrow> ('db \<Rightarrow> conn_table) \<Rightarrow> bool" where
  "conn_server X sel tab \<longleftrightarrow>
     (\<forall>q c db. read_command q = Some c \<longrightarrow>
        (case run_command c (tab db) of
           Some T \<Rightarrow> snd (SPI_exec X q db) = None \<and> tab (fst (SPI_exec X q db)) = T
         | None \<Rightarrow> snd (SPI_exec X q db) \<noteq> None)) \<and>
     (\<forall>name db. quote_free name \<longrightarrow>
        (case tab db name of
           None \<Rightarrow> sel (conninfo_query name) db = Some []
         | Some r \<Rightarrow> (case row_of r of None \<Rightarrow> True | Some row \<Rightarrow> sel (conninfo_query name) db = Some [row])))"

section \<open>The statements are read as they are meant\<close>

lemma quoted_escaped: "quote_free s \<Longrightarrow> quoted s = escapeSingleQuote s True"
proof -
  assume "quote_free s"
  then have "concat (map (\<lambda>c. if c = CHR 0x27 then [CHR 0x27, CHR 0x27] else [c]) s) = s"
    by (induction s) (auto simp: quote_free_def)
  then show ?thesis by (simp add: quoted_def escapeSingleQuote_def Let_def)
qed

lemma read_quoted [simp]:
  "quote_free s \<Longrightarrow> rest = [] \<or> hd rest \<noteq> CHR 0x27 \<Longrightarrow> read_literal (quoted s @ rest) = Some (s, rest)"
  using quoted_escaped read_literal_escaped by presburger

lemma keyword_append [simp]: "keyword k (k @ r) = Some r"
  by (simp add: keyword_def)

lemma keyword_other: "d \<noteq> c \<Longrightarrow> keyword (c # k) (d # t) = None"
  by (simp add: keyword_def)

lemma blanks_replicate [simp]: "blanks (replicate n (CHR '' '') @ t) = blanks t"
  by (induction n) (simp_all add: blanks_def)

lemma blanks_other [simp]: "c \<noteq> CHR '' '' \<Longrightarrow> blanks (c # t) = c # t"
  by (simp add: blanks_def)

fun meaning :: "sql_expr \<Rightarrow> sql_value" where
  "meaning (Text s) = VText s"
| "meaning (Number n) = VNumber (show_nat n)"
| "meaning (Truth b) = VTruth b"
| "meaning (NullText s) = (if s = ''null'' then VNull else VText s)"
| "meaning (Secret s) = VSecret s SYNCHDB_SECRET"
| "meaning (NullSecret s) = (if s = ''null'' then VNull else VSecret s SYNCHDB_SECRET)"

fun safe_expr :: "sql_expr \<Rightarrow> bool" where
  "safe_expr (Text s) = quote_free s"
| "safe_expr (NullText s) = quote_free s"
| "safe_expr (Secret s) = quote_free s"
| "safe_expr (NullSecret s) = quote_free s"
| "safe_expr _ = True"

fun safe_setting :: "setting \<Rightarrow> bool" where
  "safe_setting (Setting lead k b e) \<longleftrightarrow> quote_free k \<and> safe_expr e"

fun setting_meaning :: "setting \<Rightarrow> string \<times> sql_value" where
  "setting_meaning (Setting lead k b e) = (k, meaning e)"

lemma quote_free_constants [simp]: "quote_free ''null''" "quote_free ''embedded''" "quote_free SYNCHDB_SECRET" "quote_free []"
  by (simp_all add: quote_free_def SYNCHDB_SECRET_def)

lemma quote_free_strlcpy [simp]: "quote_free s \<Longrightarrow> quote_free (strlcpy n s)"
  by (auto simp: quote_free_def strlcpy_def dest: in_set_takeD)

lemma read_literal_other: "t = [] \<or> hd t \<noteq> CHR 0x27 \<Longrightarrow> read_literal t = None"
  by (cases t) (simp_all add: read_literal_def)

lemma keyword_then [simp]:
  "keyword (c # k) (c # k @ r) = Some r"
  using keyword_append [of "c # k" r] by simp

text \<open>What may follow a value in a statement.\<close>

definition ends_value :: "string \<Rightarrow> bool" where
  "ends_value t \<longleftrightarrow> t \<noteq> [] \<and> hd t \<in> {CHR '','', CHR '')'', CHR '' ''}"

lemma ends_value_quote [simp]: "ends_value t \<Longrightarrow> t = [] \<or> hd t \<noteq> CHR 0x27"
  by (auto simp: ends_value_def)

lemma ends_value_Cons [simp]: "ends_value (c # t) \<longleftrightarrow> c \<in> {CHR '','', CHR '')'', CHR '' ''}"
  by (simp add: ends_value_def)

lemma read_atom_text: "quote_free s \<Longrightarrow> ends_value t \<Longrightarrow> read_atom (quoted s @ t) = Some (VText s, t)"
  by (simp add: read_atom_def)

lemma read_atom_secret: "quote_free s \<Longrightarrow> read_atom (encrypt_call s @ t) = Some (VSecret s SYNCHDB_SECRET, t)"
  using keyword_append [of "''pgp_sym_encrypt(''" "quoted s @ '', '' @ quoted SYNCHDB_SECRET @ '')'' @ t"]
    keyword_append [of "'', ''" "quoted SYNCHDB_SECRET @ '')'' @ t"] keyword_append [of "'')''" t]
  by (simp add: read_atom_def encrypt_call_def read_literal_other)

lemma read_case_null:
  assumes "quote_free s" and "read_atom (e @ '' END)'' @ t) = Some (v, '' END)'' @ t)"
  shows "read_case (null_case s e @ t) = Some (if s = ''null'' then VNull else v, t)"
  using assms keyword_append [of "''(CASE WHEN ''" "quoted s @ '' = '' @ quoted ''null'' @ '' THEN null ELSE '' @ e @ '' END)'' @ t"]
    keyword_append [of "'' = ''" "quoted ''null'' @ '' THEN null ELSE '' @ e @ '' END)'' @ t"]
    keyword_append [of "'' THEN null ELSE ''" "e @ '' END)'' @ t"] keyword_append [of "'' END)''" t]
  by (simp add: read_case_def null_case_def)

lemma read_case_other: "t = [] \<or> hd t \<noteq> CHR ''('' \<Longrightarrow> read_case t = None"
  by (cases t) (simp_all add: read_case_def keyword_def)

lemma read_case_quoted: "read_case (quoted s @ t) = None" "read_case (encrypt_call s @ t) = None"
  by (simp_all add: quoted_def encrypt_call_def read_case_other)

lemma show_nat_head: obtains d ds where "show_nat n = d # ds" and "is_digit d"
  and "d \<notin> {CHR ''('', CHR 0x27, CHR ''p'', CHR ''t'', CHR ''f'', CHR '' ''}"
proof -
  obtain d ds where d: "show_nat n = d # ds" using show_nat_nonempty [of n] by (cases "show_nat n") auto
  then have "is_digit d" using show_nat_digits [of d n] by simp
  moreover then have "d \<notin> {CHR ''('', CHR 0x27, CHR ''p'', CHR ''t'', CHR ''f'', CHR '' ''}" by (auto simp: is_digit_def)
  ultimately show ?thesis using that d by blast
qed

lemma read_value_text:
  assumes "safe_expr e" and t: "ends_value t"
  shows "read_value (expr_text e @ t) = Some (meaning e, t)"
proof (cases e)
  case (Number n)
  obtain d ds where d: "show_nat n = d # ds" "d \<notin> {CHR ''('', CHR 0x27, CHR ''p'', CHR ''t'', CHR ''f'', CHR '' ''}"
    by (rule show_nat_head [of n])
  obtain c r where c: "t = c # r" "\<not> is_digit c" using t by (cases t) (auto simp: is_digit_def ends_value_def)
  have "dropWhile is_digit (show_nat n @ t) = t"
    using c dropWhile_append2 [of "show_nat n" is_digit t] show_nat_digits by auto
  then show ?thesis using d c takeWhile_is_digit_show_nat [of c n r]
    by (simp add: Number read_value_def read_case_other read_atom_def read_literal_other keyword_other read_constant_def)
next
  case (Truth b)
  then show ?thesis
    using keyword_append [of "''true''" t] keyword_append [of "''false''" t]
    by (simp add: read_value_def read_case_other read_atom_def read_literal_other keyword_other read_constant_def)
next
  case (Text s)
  then show ?thesis using assms
    by (simp add: read_value_def read_atom_text read_case_quoted)
next
  case (NullText s)
  then show ?thesis using assms by (simp add: read_value_def read_case_null read_atom_text)
next
  case (Secret s)
  then show ?thesis using assms
    by (simp add: read_value_def read_atom_secret read_case_quoted)
next
  case (NullSecret s)
  then show ?thesis using assms by (simp add: read_value_def read_case_null read_atom_secret)
qed

lemma read_setting_text:
  assumes "safe_setting s" and "ends_value t"
  shows "read_setting (setting_text s @ t) = Some (setting_meaning s, t)"
proof -
  obtain lead k b e where s: "s = Setting lead k b e" by (cases s)
  have val: "blanks (expr_text e @ t) = expr_text e @ t"
  proof (cases e)
    case (Number n)
    obtain d ds where "show_nat n = d # ds" "d \<noteq> CHR '' ''" by (rule show_nat_head [of n]) auto
    then show ?thesis using Number by simp
  qed (auto simp: quoted_def null_case_def encrypt_call_def)
  have "blanks (setting_text s @ t) = quoted k @ '','' @ replicate b (CHR '' '') @ expr_text e @ t"
    by (simp add: s quoted_def)
  moreover have "read_literal (quoted k @ '','' @ replicate b (CHR '' '') @ expr_text e @ t)
      = Some (k, '','' @ replicate b (CHR '' '') @ expr_text e @ t)"
    using assms by (simp add: s)
  ultimately show ?thesis
    using assms read_value_text [of e t] val keyword_append [of "'',''" "replicate b (CHR '' '') @ expr_text e @ t"]
    by (simp add: read_setting_def s)
qed

lemma read_list_join:
  assumes "xs \<noteq> []" and "length xs \<le> n" and "hd rest \<noteq> CHR '',''" and rest: "ok rest"
    and step: "\<And>x t. x \<in> set xs \<Longrightarrow> ok t \<Longrightarrow> item (txt x @ t) = Some (m x, t)"
    and blank: "\<And>t. item (CHR '' '' # t) = item t" and comma: "\<And>t. ok (CHR '','' # t)"
  shows "read_list item n (join '', '' (map txt xs) @ rest) = Some (map m xs, rest)"
  using assms(1,2) step
proof (induction xs arbitrary: n)
  case (Cons x xs)
  then obtain n' where n: "n = Suc n'" by (cases n) auto
  show ?case
  proof (cases xs)
    case Nil
    have "keyword '','' rest = None" using assms(3) by (cases rest) (auto simp: keyword_def)
    then show ?thesis using Cons.prems(3) rest by (simp add: n Nil)
  next
    case (Cons y ys)
    have "read_list item n' (join '', '' (map txt xs) @ rest) = Some (map m xs, rest)"
      using Cons.IH [of n'] Cons.prems n Cons by simp
    moreover have "read_list item n' (CHR '' '' # join '', '' (map txt xs) @ rest) = read_list item n' (join '', '' (map txt xs) @ rest)"
      by (cases n') (simp_all add: blank)
    ultimately show ?thesis
      using Cons Cons.prems(3) [of x] comma keyword_append [of "'',''"] by (simp add: n keyword_def)
  qed
qed simp

lemma read_setting_blank [simp]: "read_setting (CHR '' '' # t) = read_setting t"
  by (simp add: read_setting_def blanks_def)

lemma read_settings_join:
  assumes "xs \<noteq> []" and "length xs \<le> n" and "list_all safe_setting xs"
  shows "read_list read_setting n (join '', '' (map setting_text xs) @ CHR '')'' # rest) = Some (map setting_meaning xs, CHR '')'' # rest)"
  by (rule read_list_join [where ok = ends_value]) (use assms read_setting_text in \<open>auto simp: list_all_iff\<close>)

lemma read_keys_join:
  assumes "xs \<noteq> []" and "length xs \<le> n" and "list_all quote_free xs"
  shows "read_list (\<lambda>t. read_literal (blanks t)) n (join '', '' (map quoted xs) @ CHR '']'' # rest) = Some (xs, CHR '']'' # rest)"
proof -
  have b: "blanks (quoted x @ t) = quoted x @ t" for x t by (simp add: quoted_def)
  have "read_list (\<lambda>t. read_literal (blanks t)) n (join '', '' (map quoted xs) @ CHR '']'' # rest) = Some (map id xs, CHR '']'' # rest)"
    by (rule read_list_join [where ok = "\<lambda>t. t = [] \<or> hd t \<noteq> CHR 0x27"])
      (use assms b in \<open>auto simp: list_all_iff blanks_def\<close>)
  then show ?thesis by simp
qed

lemma join_length: "(\<And>x. x \<in> set xs \<Longrightarrow> txt x \<noteq> []) \<Longrightarrow> length xs \<le> length (join sep (map txt xs))"
proof (induction xs)
  case (Cons x xs)
  then have "Suc 0 \<le> length (txt x)" by (simp add: Suc_leI)
  then show ?case using Cons by (cases xs) auto
qed simp

lemma setting_text_nonempty: "setting_text s \<noteq> []"
  by (cases s) (simp add: quoted_def)

lemma read_quoted_end [simp]: "quote_free s \<Longrightarrow> read_literal (quoted s) = Some (s, [])"
  using read_quoted [of s "[]"] by simp

lemma read_insert_conninfo:
  assumes "quote_free name" and "xs \<noteq> []" and "list_all safe_setting xs"
  shows "read_command (insert_conninfo name xs) = Some (AddRow name False (map setting_meaning xs))"
proof -
  let ?kvs = "join '', '' (map setting_text xs) @ ''));''"
  have n: "length xs \<le> length ?kvs" using join_length [of xs setting_text "'', ''"] setting_text_nonempty by simp
  have "keyword ''INSERT INTO synchdb_conninfo (name, isactive, data) VALUES ('' (insert_conninfo name xs)
      = Some (quoted name @ '', false, jsonb_build_object('' @ ?kvs)"
    using keyword_append [of "''INSERT INTO synchdb_conninfo (name, isactive, data) VALUES (''"]
    by (simp add: insert_conninfo_def SYNCHDB_CONNINFO_TABLE_def)
  moreover have "keyword '', false, jsonb_build_object('' ('', false, jsonb_build_object('' @ ?kvs) = Some ?kvs"
    by (rule keyword_append)
  ultimately have "read_add (insert_conninfo name xs) = Some (AddRow name False (map setting_meaning xs))"
    using assms read_settings_join [OF assms(2) n assms(3)] by (simp add: read_add_def)
  then show ?thesis by (simp add: read_command_def)
qed

lemma read_add_other: "q = [] \<or> hd q \<noteq> CHR ''I'' \<Longrightarrow> read_add q = None"
  by (cases q) (simp_all add: read_add_def keyword_def)

lemma read_set_statement:
  assumes "quote_free name" and "xs \<noteq> []" and "list_all safe_setting xs"
  shows "read_command (set_statement xs name) = Some (SetKeys name (map setting_meaning xs))"
proof -
  let ?kvs = "join '', '' (map setting_text xs) @ '')::jsonb WHERE name = '' @ quoted name"
  have n: "length xs \<le> length ?kvs" using join_length [of xs setting_text "'', ''"] setting_text_nonempty by simp
  have "keyword ''UPDATE synchdb_conninfo SET data = data || json_build_object('' (set_statement xs name) = Some ?kvs"
    using keyword_append [of "''UPDATE synchdb_conninfo SET data = data || json_build_object(''" ?kvs]
    by (simp add: set_statement_def SYNCHDB_CONNINFO_TABLE_def)
  moreover have "keyword '')::jsonb WHERE name = '' ('')::jsonb WHERE name = '' @ quoted name) = Some (quoted name)"
    by (rule keyword_append)
  ultimately have "read_set (set_statement xs name) = Some (SetKeys name (map setting_meaning xs))"
    using assms(1) read_settings_join [OF assms(2) n assms(3)] by (simp add: read_set_def)
  moreover have "read_add (set_statement xs name) = None" by (rule read_add_other) (simp add: set_statement_def)
  ultimately show ?thesis by (simp add: read_command_def)
qed

lemma read_drop_statement:
  assumes "quote_free name" and "ks \<noteq> []" and "list_all quote_free ks"
  shows "read_command (drop_statement ks name) = Some (DropKeys name ks)"
proof -
  let ?ks = "join '', '' (map quoted ks) @ ''] WHERE name = '' @ quoted name"
  have n: "length ks \<le> length ?ks" using join_length [of ks quoted "'', ''"] by (simp add: quoted_def)
  have "keyword ''UPDATE synchdb_conninfo SET data = data - ARRAY['' (drop_statement ks name) = Some ?ks"
    using keyword_append [of "''UPDATE synchdb_conninfo SET data = data - ARRAY[''" ?ks]
    by (simp add: drop_statement_def SYNCHDB_CONNINFO_TABLE_def)
  moreover have "keyword ''] WHERE name = '' (''] WHERE name = '' @ quoted name) = Some (quoted name)"
    by (rule keyword_append)
  ultimately have "read_drop (drop_statement ks name) = Some (DropKeys name ks)"
    using assms(1) read_keys_join [OF assms(2) n assms(3)] by (simp add: read_drop_def)
  moreover have "read_add (drop_statement ks name) = None" by (rule read_add_other) (simp add: drop_statement_def)
  moreover have "read_set (drop_statement ks name) = None"
    by (simp add: read_set_def drop_statement_def SYNCHDB_CONNINFO_TABLE_def keyword_def)
  ultimately show ?thesis by (simp add: read_command_def)
qed

lemma read_activate_command:
  assumes "quote_free name"
  shows "read_command (activate_command (if b then ''true'' else ''false'') name) = Some (SetActive name b)"
proof -
  let ?q = "activate_command (if b then ''true'' else ''false'') name" and ?v = "if b then ''true'' else ''false''"
  have q: "?q = ''UPDATE synchdb_conninfo set isactive = '' @ ?v @ '' WHERE name = '' @ quoted name"
    by (simp add: activate_command_def quoted_def)
  have "keyword ''UPDATE synchdb_conninfo set isactive = '' ?q = Some (?v @ '' WHERE name = '' @ quoted name)"
    unfolding q by (rule keyword_append)
  moreover have "read_constant (?v @ '' WHERE name = '' @ quoted name) = Some (VTruth b, '' WHERE name = '' @ quoted name)"
    using keyword_append [of "''true''" "'' WHERE name = '' @ quoted name"] keyword_append [of "''false''" "'' WHERE name = '' @ quoted name"]
    by (simp add: read_constant_def keyword_other)
  moreover have "keyword '' WHERE name = '' ('' WHERE name = '' @ quoted name) = Some (quoted name)" by (rule keyword_append)
  ultimately have "read_active ?q = Some (SetActive name b)" using assms by (simp add: read_active_def del: if_split)
  moreover have "read_add ?q = None" by (rule read_add_other) (simp add: activate_command_def)
  moreover have "read_set ?q = None" "read_drop ?q = None"
    by (simp_all add: read_set_def read_drop_def activate_command_def keyword_def)
  ultimately show ?thesis by (simp add: read_command_def)
qed

lemma read_delete_command:
  assumes "quote_free name" and "synchdb_del_conninfo E name dir s = (s', pids, cmds, dir')"
  shows "\<exists>q. cmds = [q] \<and> read_command q = Some (DeleteRow name)"
proof -
  let ?q = "''DELETE FROM synchdb_conninfo WHERE name = '' @ quoted name @ '';DELETE FROM synchdb_attribute WHERE name = '' @
    quoted name @ '';DELETE FROM synchdb_objmap WHERE name = '' @ quoted name @ '';''"
  have cmds: "cmds = [?q]" using assms(2) by (auto simp: synchdb_del_conninfo_def Let_def quoted_def split: option.splits)
  have "keyword ''DELETE FROM synchdb_conninfo WHERE name = '' ?q = Some (quoted name @ '';DELETE FROM synchdb_attribute WHERE name = '' @
      quoted name @ '';DELETE FROM synchdb_objmap WHERE name = '' @ quoted name @ '';'')" by (rule keyword_append)
  moreover have "keyword '';DELETE FROM synchdb_attribute WHERE name = '' ('';DELETE FROM synchdb_attribute WHERE name = '' @
      quoted name @ '';DELETE FROM synchdb_objmap WHERE name = '' @ quoted name @ '';'')
    = Some (quoted name @ '';DELETE FROM synchdb_objmap WHERE name = '' @ quoted name @ '';'')" by (rule keyword_append)
  moreover have "keyword '';DELETE FROM synchdb_objmap WHERE name = '' ('';DELETE FROM synchdb_objmap WHERE name = '' @ quoted name @ '';'')
    = Some (quoted name @ '';'')" by (rule keyword_append)
  ultimately have "read_delete ?q = Some (DeleteRow name)" using assms(1) by (simp add: read_delete_def)
  moreover have "read_add ?q = None" by (rule read_add_other) simp
  moreover have "read_set ?q = None" "read_drop ?q = None" "read_active ?q = None"
    by (simp_all add: read_set_def read_drop_def read_active_def keyword_other)
  ultimately show ?thesis using cmds by (simp add: read_command_def)
qed

text \<open>A statement that reads as a command changes the table of a server as the command does.\<close>

lemma server_runs:
  assumes "conn_server X sel tab" and "read_command q = Some c" and "run_command c (tab db) = Some T"
  obtains db' where "ra_executeCommand X q db = Inr (0, db')" and "tab db' = T"
proof -
  have "case run_command c (tab db) of Some T \<Rightarrow> snd (SPI_exec X q db) = None \<and> tab (fst (SPI_exec X q db)) = T
      | None \<Rightarrow> snd (SPI_exec X q db) \<noteq> None"
    using assms(1,2) unfolding conn_server_def by blast
  then show ?thesis using that assms(3) by (cases "SPI_exec X q db") (simp add: ra_executeCommand_def spi_execute_def)
qed

lemma server_refuses:
  assumes "conn_server X sel tab" and "read_command q = Some c" and "run_command c (tab db) = None"
  obtains e where "ra_executeCommand X q db = Inl e"
proof -
  have "case run_command c (tab db) of Some T \<Rightarrow> snd (SPI_exec X q db) = None \<and> tab (fst (SPI_exec X q db)) = T
      | None \<Rightarrow> snd (SPI_exec X q db) \<noteq> None"
    using assms(1,2) unfolding conn_server_def by blast
  then show ?thesis using that assms(3) by (cases "SPI_exec X q db") (auto simp: ra_executeCommand_def spi_execute_def)
qed

lemma server_selects:
  assumes "conn_server X sel tab" and "quote_free name" and "tab db name = Some r" and "row_of r = Some row"
  shows "sel (conninfo_query name) db = Some [row]"
proof -
  have "case tab db name of None \<Rightarrow> sel (conninfo_query name) db = Some []
      | Some r \<Rightarrow> (case row_of r of None \<Rightarrow> True | Some row \<Rightarrow> sel (conninfo_query name) db = Some [row])"
    using assms(1,2) unfolding conn_server_def by blast
  then show ?thesis using assms(3,4) by simp
qed

section \<open>Which arguments are accepted\<close>

lemma required_text_Inr [simp]:
  "required_text what shown sz t = Inr s \<longleftrightarrow> t \<noteq> [] \<and> length t \<le> sz \<and> s = strlcpy sz t"
  by (auto simp: required_text_def pg_err_def)

lemma optional_text_Inr [simp]:
  "optional_text what sz t = Inr s \<longleftrightarrow> length t \<le> sz \<and> s = strlcpy sz (if t = [] then ''null'' else t)"
  by (auto simp: optional_text_def pg_err_def)

lemma port_number_Inr [simp]: "port_number msg p = Inr n \<longleftrightarrow> p \<noteq> 0 \<and> p \<le> 65535 \<and> n = unat p"
  by (auto simp: port_number_def pg_err_def)

lemma pg_err_not_Inr [simp]: "pg_err msg \<noteq> Inr x"
  by (simp add: pg_err_def)

text \<open>
  The values that \<^verbatim>\<open>synchdb_add_conninfo\<close> stores for its arguments.
\<close>

definition stored_settings :: "string \<Rightarrow> string \<Rightarrow> 32 word \<Rightarrow> string \<Rightarrow> string \<Rightarrow> string \<Rightarrow> string \<Rightarrow> string \<Rightarrow> string \<Rightarrow> string \<Rightarrow> setting list" where
  "stored_settings dbname hostname port user pwd srcdb srcschema tables snapshottable connector =
     (let null = (\<lambda>n t. strlcpy n (if t = [] then ''null'' else t))
      in [key_value ''hostname'' (Text (strlcpy SYNCHDB_CONNINFO_HOSTNAME_SIZE hostname)), key_value ''port'' (Number (unat port)),
          key_value ''user'' (Text (strlcpy SYNCHDB_CONNINFO_USERNAME_SIZE user)),
          key_value ''pwd'' (Secret (strlcpy SYNCHDB_CONNINFO_PASSWORD_SIZE pwd)),
          key_value ''srcdb'' (Text (strlcpy SYNCHDB_CONNINFO_DB_NAME_SIZE srcdb)),
          key_value ''dstdb'' (Text (strlcpy SYNCHDB_CONNINFO_DB_NAME_SIZE dbname)),
          key_value ''srcschema'' (NullText (null SYNCHDB_CONNINFO_DB_NAME_SIZE srcschema)),
          Setting 1 ''table'' 1 (NullText (null SYNCHDB_CONNINFO_TABLELIST_SIZE tables)),
          key_value ''snapshottable'' (NullText (null SYNCHDB_CONNINFO_TABLELIST_SIZE snapshottable)),
          key_value ''connector'' (Text connector)])"

lemma conninfo_statement_Inr:
  "conninfo_statement cfg dbname name hostname port user pwd srcdb srcschema tables snapshottable connector = Inr q \<longleftrightarrow>
     (hostname \<noteq> [] \<and> length hostname \<le> SYNCHDB_CONNINFO_HOSTNAME_SIZE \<and> port \<noteq> 0 \<and> port \<le> 65535
      \<and> user \<noteq> [] \<and> length user \<le> SYNCHDB_CONNINFO_USERNAME_SIZE \<and> pwd \<noteq> [] \<and> length pwd \<le> SYNCHDB_CONNINFO_PASSWORD_SIZE
      \<and> srcdb \<noteq> [] \<and> length srcdb \<le> SYNCHDB_CONNINFO_DB_NAME_SIZE \<and> length srcschema \<le> SYNCHDB_CONNINFO_DB_NAME_SIZE
      \<and> length tables \<le> SYNCHDB_CONNINFO_TABLELIST_SIZE \<and> length snapshottable \<le> SYNCHDB_CONNINFO_TABLELIST_SIZE
      \<and> connector \<noteq> [] \<and> supported_connector cfg connector
      \<and> (strcaseeq connector ''mysql''
         \<or> \<not> strcaseeq (strlcpy SYNCHDB_CONNINFO_DB_NAME_SIZE (if srcschema = [] then ''null'' else srcschema)) ''null''))
     \<and> q = insert_conninfo (strlcpy SYNCHDB_CONNINFO_NAME_SIZE name)
             (stored_settings dbname hostname port user pwd srcdb srcschema tables snapshottable connector)"
  unfolding conninfo_statement_def stored_settings_def Let_def by (simp split: if_split cong: conj_cong) blast

section \<open>What is added is what a start reads\<close>

lemma atoi_show_nat: "n < 2 ^ 31 \<Longrightarrow> atoi (show_nat n) = int n"
proof -
  assume n: "n < 2 ^ 31"
  obtain d ds where d: "show_nat n = d # ds" "is_digit d" by (rule show_nat_head [of n])
  have "strtol_int (show_nat n) = int (nat_of_dec (takeWhile is_digit (show_nat n)))"
    unfolding strtol_int_def Let_def using d digit_not_blank_or_sign [OF d(2)] by simp
  then have "atoll (show_nat n) = int n" using n by (simp add: atoll_def)
  then show ?thesis using n by (simp add: atoi_def signed_of_nat signed_take_bit_int_eq_self)
qed

lemma number_field_show_nat: "row ! i = DText (show_nat n) \<Longrightarrow> n < 2 ^ 31 \<Longrightarrow> number_field row i = Inr n"
  by (simp add: number_field_def TextDatumGetCString_def atoi_show_nat take_bit_nat_eq_self unat_of_nat)

lemma number_field_null: "row ! i = DText ''null'' \<Longrightarrow> number_field row i = Inr 0"
  by (simp add: number_field_def TextDatumGetCString_def atoi_def atoll_def strtol_int_def isspace_def is_digit_def nat_of_dec_def)

lemma text_field_text: "row ! i = DText s \<Longrightarrow> text_field row i sz = Inr (strlcpy sz s)"
  by (simp add: text_field_def TextDatumGetCString_def)

lemma strlcpy_twice [simp]: "strlcpy n (strlcpy n s) = strlcpy n s"
  by (simp add: strlcpy_def)

lemma cell_null_text: "map_option coalesce_null (as_text (Some (meaning (NullText s)))) = Some (DText s)"
  by (simp add: coalesce_null_def)

lemma stored_row:
  "row_of (False, map_of (rev (map setting_meaning
      (stored_settings dbname hostname port user pwd srcdb srcschema tables snapshottable connector)))) =
   Some ([DText (strlcpy SYNCHDB_CONNINFO_HOSTNAME_SIZE hostname), DText (show_nat (unat port)),
      DText (strlcpy SYNCHDB_CONNINFO_USERNAME_SIZE user), DText (strlcpy SYNCHDB_CONNINFO_PASSWORD_SIZE pwd),
      DText (strlcpy SYNCHDB_CONNINFO_DB_NAME_SIZE srcdb), DText (strlcpy SYNCHDB_CONNINFO_DB_NAME_SIZE dbname),
      DText (strlcpy SYNCHDB_CONNINFO_TABLELIST_SIZE (if tables = [] then ''null'' else tables)),
      DText (strlcpy SYNCHDB_CONNINFO_TABLELIST_SIZE (if snapshottable = [] then ''null'' else snapshottable)),
      DText connector, DBool False] @
     map DText (replicate 9 ''null'') @ [DNull] @ map DText (replicate 2 ''null'') @ [DNull] @ map DText (replicate 13 ''null'') @
     [DText (strlcpy SYNCHDB_CONNINFO_DB_NAME_SIZE (if srcschema = [] then ''null'' else srcschema))] @
     map DText (replicate 4 ''null''))"
  by (simp add: row_of_def stored_settings_def Let_def main_columns_def other_columns_def coalesce_null_def
      numeral_eq_Suc)

lemma stored_safe:
  assumes "list_all quote_free [dbname, hostname, user, pwd, srcdb, srcschema, tables, snapshottable, connector]"
  shows "list_all safe_setting (stored_settings dbname hostname port user pwd srcdb srcschema tables snapshottable connector)"
  using assms by (simp add: stored_settings_def Let_def) (simp add: quote_free_def)

lemma null_columns:
  assumes "list_all (\<lambda>i. row ! i = DText ''null'')
    [10, 11, 12, 13, 14, 15, 16, 17, 18, 20, 21, 23, 24, 25, 26, 27, 28, 29, 30, 31, 32, 33, 34, 35, 37, 38, 39, 40]"
  obtains extra jmx olr ispn fdw where "read_extra row = Inr extra" and "read_jmx row = Inr jmx" and "read_olr row = Inr olr"
    and "read_ispn row = Inr ispn" and "read_fdw row = Inr fdw"
  using that assms by (simp add: read_extra_def read_jmx_def read_olr_def read_ispn_def read_fdw_def text_field_text number_field_null)

lemma stored_read:
  assumes "sel (conninfo_query name) db = Some [row]"
    and "row_of (False, map_of (rev (map setting_meaning
      (stored_settings dbname hostname port user pwd srcdb srcschema tables snapshottable connector)))) = Some row"
    and "port \<le> 65535"
  obtains ci where "ra_getConninfoByName sel skiptx name zero_conninfo db = Inr (Some (ci, connector))"
    and "ci_name ci = strlcpy SYNCHDB_CONNINFO_NAME_SIZE name" and "ci_hostname ci = strlcpy SYNCHDB_CONNINFO_HOSTNAME_SIZE hostname"
    and "ci_port ci = unat port" and "ci_user ci = strlcpy SYNCHDB_CONNINFO_USERNAME_SIZE user"
    and "ci_pwd ci = strlcpy SYNCHDB_CONNINFO_PASSWORD_SIZE pwd"
    and "ci_srcdb ci = strlcpy SYNCHDB_CONNINFO_DB_NAME_SIZE srcdb" and "ci_dstdb ci = strlcpy SYNCHDB_CONNINFO_DB_NAME_SIZE dbname"
    and "ci_srcschema ci = strlcpy SYNCHDB_CONNINFO_DB_NAME_SIZE (if srcschema = [] then ''null'' else srcschema)"
    and "ci_table ci = strlcpy SYNCHDB_CONNINFO_TABLELIST_SIZE (if tables = [] then ''null'' else tables)"
    and "ci_snapshottable ci = strlcpy SYNCHDB_CONNINFO_TABLELIST_SIZE (if snapshottable = [] then ''null'' else snapshottable)"
    and "\<not> ci_active ci"
proof -
  have "unat port \<le> 65535" using assms(3) by (simp add: word_le_nat_alt)
  then have p: "unat port < 2 ^ 31" by simp
  have row: "row = [DText (strlcpy SYNCHDB_CONNINFO_HOSTNAME_SIZE hostname), DText (show_nat (unat port)),
      DText (strlcpy SYNCHDB_CONNINFO_USERNAME_SIZE user), DText (strlcpy SYNCHDB_CONNINFO_PASSWORD_SIZE pwd),
      DText (strlcpy SYNCHDB_CONNINFO_DB_NAME_SIZE srcdb), DText (strlcpy SYNCHDB_CONNINFO_DB_NAME_SIZE dbname),
      DText (strlcpy SYNCHDB_CONNINFO_TABLELIST_SIZE (if tables = [] then ''null'' else tables)),
      DText (strlcpy SYNCHDB_CONNINFO_TABLELIST_SIZE (if snapshottable = [] then ''null'' else snapshottable)),
      DText connector, DBool False, DText ''null'', DText ''null'', DText ''null'', DText ''null'', DText ''null'', DText ''null'', DText ''null'', DText ''null'', DText ''null'', DNull, DText ''null'', DText ''null'', DNull, DText ''null'', DText ''null'', DText ''null'', DText ''null'', DText ''null'', DText ''null'', DText ''null'', DText ''null'', DText ''null'', DText ''null'', DText ''null'', DText ''null'', DText ''null'',
      DText (strlcpy SYNCHDB_CONNINFO_DB_NAME_SIZE (if srcschema = [] then ''null'' else srcschema)), DText ''null'', DText ''null'', DText ''null'', DText ''null'']"
    using assms(2) [unfolded stored_row] by (simp add: numeral_eq_Suc)
  have "list_all (\<lambda>i. row ! i = DText ''null'')
    [10, 11, 12, 13, 14, 15, 16, 17, 18, 20, 21, 23, 24, 25, 26, 27, 28, 29, 30, 31, 32, 33, 34, 35, 37, 38, 39, 40]"
    by (simp add: row)
  then obtain extra jmx olr ispn fdw where other: "read_extra row = Inr extra" "read_jmx row = Inr jmx" "read_olr row = Inr olr"
      "read_ispn row = Inr ispn" "read_fdw row = Inr fdw"
    by (rule null_columns)
  have main: "read_main row name zero_conninfo = Inr (zero_conninfo\<lparr>ci_name := strlcpy SYNCHDB_CONNINFO_NAME_SIZE name,
      ci_hostname := strlcpy SYNCHDB_CONNINFO_HOSTNAME_SIZE hostname, ci_port := unat port,
      ci_user := strlcpy SYNCHDB_CONNINFO_USERNAME_SIZE user, ci_pwd := strlcpy SYNCHDB_CONNINFO_PASSWORD_SIZE pwd,
      ci_srcdb := strlcpy SYNCHDB_CONNINFO_DB_NAME_SIZE srcdb, ci_dstdb := strlcpy SYNCHDB_CONNINFO_DB_NAME_SIZE dbname,
      ci_table := strlcpy SYNCHDB_CONNINFO_TABLELIST_SIZE (if tables = [] then ''null'' else tables),
      ci_snapshottable := strlcpy SYNCHDB_CONNINFO_TABLELIST_SIZE (if snapshottable = [] then ''null'' else snapshottable),
      ci_active := False\<rparr>, connector)"
    using p by (simp add: read_main_def row text_field_text number_field_show_nat TextDatumGetCString_def DatumGetBool_def)
  have schema: "text_field row 36 SYNCHDB_CONNINFO_DB_NAME_SIZE
      = Inr (strlcpy SYNCHDB_CONNINFO_DB_NAME_SIZE (if srcschema = [] then ''null'' else srcschema))"
    by (simp add: row text_field_text)
  note get = ra_getConninfoByName_def [of sel skiptx name zero_conninfo db, unfolded spi_execute_select_one_def assms(1) list.case
      option.case rbind_Inr main other schema prod.case]
  show ?thesis by (rule that [OF get]) (simp_all add: zero_conninfo_def)
qed

text \<open>
  C11: What \<^verbatim>\<open>synchdb_add_conninfo\<close> accepts is what a start reads. On a server that keeps the table, adding a new connector whose
  texts have no quote and leave room for the terminator of their fields succeeds, leaves the other connectors as they were, and
  \<^verbatim>\<open>ra_getConninfoByName\<close> then returns exactly the given host, port, user, password, databases and table lists (a list that was left
  empty as the word null), the connector's type, and that it is not active.
\<close>

theorem conninfo_roundtrip:
  assumes server: "conn_server X sel tab" and new: "tab db name = None"
    and quotes: "list_all quote_free [dbname, name, hostname, user, pwd, srcdb, srcschema, tables, snapshottable, connector]"
    and given: "[] \<notin> {hostname, user, pwd, srcdb}"
    and names: "length name < SYNCHDB_CONNINFO_NAME_SIZE" "length hostname < SYNCHDB_CONNINFO_HOSTNAME_SIZE"
      "length user < SYNCHDB_CONNINFO_USERNAME_SIZE" "length pwd < SYNCHDB_CONNINFO_PASSWORD_SIZE"
      "length tables < SYNCHDB_CONNINFO_TABLELIST_SIZE" "length snapshottable < SYNCHDB_CONNINFO_TABLELIST_SIZE"
    and dbs: "\<forall>d \<in> {dbname, srcdb, srcschema}. length d < SYNCHDB_CONNINFO_DB_NAME_SIZE"
    and port: "port \<noteq> 0" "port \<le> 65535" and connector: "supported_connector cfg connector" "connector \<noteq> []"
    and schema: "strcaseeq connector ''mysql'' \<or> srcschema \<noteq> [] \<and> \<not> strcaseeq srcschema ''null''"
  shows "\<exists>db' ci. synchdb_add_conninfo cfg X dbname name hostname port user pwd srcdb srcschema tables snapshottable connector db = Inr (0, db')
    \<and> (\<forall>n. n \<noteq> name \<longrightarrow> tab db' n = tab db n)
    \<and> ra_getConninfoByName sel skiptx name zero_conninfo db' = Inr (Some (ci, connector))
    \<and> ci_name ci = name \<and> ci_hostname ci = hostname \<and> ci_port ci = unat port \<and> ci_user ci = user \<and> ci_pwd ci = pwd
    \<and> ci_srcdb ci = srcdb \<and> ci_dstdb ci = dbname \<and> ci_srcschema ci = (if srcschema = [] then ''null'' else srcschema)
    \<and> ci_table ci = (if tables = [] then ''null'' else tables)
    \<and> ci_snapshottable ci = (if snapshottable = [] then ''null'' else snapshottable) \<and> \<not> ci_active ci"
proof -
  let ?kvs = "stored_settings dbname hostname port user pwd srcdb srcschema tables snapshottable connector"
  note sizes = conninfo_sizes
  have q: "conninfo_statement cfg dbname name hostname port user pwd srcdb srcschema tables snapshottable connector
      = Inr (insert_conninfo name ?kvs)"
    using assms by (auto simp: conninfo_statement_Inr sizes)
  have kvs: "?kvs \<noteq> []" by (simp add: stored_settings_def Let_def)
  have safe: "list_all safe_setting ?kvs" using stored_safe quotes by simp
  have cmd: "read_command (insert_conninfo name ?kvs) = Some (AddRow name False (map setting_meaning ?kvs))"
    using read_insert_conninfo [OF _ kvs safe] quotes by simp
  obtain db' where db': "ra_executeCommand X (insert_conninfo name ?kvs) db = Inr (0, db')"
    "tab db' = (tab db)(name \<mapsto> (False, map_of (rev (map setting_meaning ?kvs))))"
    by (rule server_runs [OF server cmd]) (auto simp: new)
  have row: "row_of (False, map_of (rev (map setting_meaning ?kvs))) \<noteq> None" by (simp only: stored_row) simp
  then obtain row where row: "row_of (False, map_of (rev (map setting_meaning ?kvs))) = Some row" by blast
  have sel: "sel (conninfo_query name) db' = Some [row]"
    by (rule server_selects [OF server _ _ row]) (use quotes db' in auto)
  have null: "strlcpy n (if t = [] then ''null'' else t) = (if t = [] then ''null'' else t)" if "length t < n" "4 < n" for t n
    using that by simp
  obtain ci where ci: "ra_getConninfoByName sel skiptx name zero_conninfo db' = Inr (Some (ci, connector))"
    "ci_name ci = name" "ci_hostname ci = hostname" "ci_port ci = unat port" "ci_user ci = user" "ci_pwd ci = pwd"
    "ci_srcdb ci = srcdb" "ci_dstdb ci = dbname" "ci_srcschema ci = (if srcschema = [] then ''null'' else srcschema)"
    "ci_table ci = (if tables = [] then ''null'' else tables)"
    "ci_snapshottable ci = (if snapshottable = [] then ''null'' else snapshottable)" "\<not> ci_active ci"
    by (rule stored_read [of sel name db' row, OF sel row port(2), of skiptx]) (use names dbs in \<open>simp add: null sizes\<close>)
  have "synchdb_add_conninfo cfg X dbname name hostname port user pwd srcdb srcschema tables snapshottable connector db = Inr (0, db')"
    by (simp add: synchdb_add_conninfo_def q db'(1))
  moreover have "\<forall>n. n \<noteq> name \<longrightarrow> tab db' n = tab db n" by (simp add: db'(2))
  ultimately show ?thesis using ci by (intro exI [of _ db'] exI [of _ ci]) simp
qed

text \<open>A concrete server: the database is the table, and a statement that is not a command is an error.\<close>

definition sql_failure :: exec_error where
  "sql_failure = \<lparr>ee_schema = None, ee_table = None, ee_message = ''statement failed'', ee_detail = None\<rparr>"

definition table_server :: "(conn_table, string, nat) executor" where
  "table_server = \<lparr>SPI_exec = (\<lambda>q T. case Option.bind (read_command q) (\<lambda>c. run_command c T) of
        None \<Rightarrow> (T, Some sql_failure) | Some T' \<Rightarrow> (T', None)),
     table_open = (\<lambda>oid T. Inl sql_failure), OidInputFunctionCall = (\<lambda>oid s m. Inr s),
     ExecSimpleRelationInsert = (\<lambda>oid row T. (T, Some sql_failure)), RelationFindReplTuple = (\<lambda>oid row T. Inl sql_failure),
     ExecSimpleRelationUpdate = (\<lambda>oid i row T. (T, Some sql_failure)), ExecSimpleRelationDelete = (\<lambda>oid i T. (T, Some sql_failure))\<rparr>"

definition table_select :: "string \<Rightarrow> conn_table \<Rightarrow> datum list list option" where
  "table_select q T = do {
     t \<leftarrow> keyword conninfo_select q;
     (n, t) \<leftarrow> read_literal t;
     case T n of None \<Rightarrow> Some [] | Some r \<Rightarrow> map_option (\<lambda>row. [row]) (row_of r) }"

lemma table_server: "conn_server table_server table_select (\<lambda>T. T)"
  by (auto simp: conn_server_def table_server_def table_select_def conninfo_query_def split: option.split)

theorem conninfo_roundtrip_witness:
  "\<exists>db' ci. synchdb_add_conninfo \<lparr>synchdb_letter_casing_strategy = LCS_AS_IS, synchdb_dml_use_spi = False, with_olr = False, mktime_1970 = 0\<rparr>
       table_server ''db'' ''c1'' ''host'' 3306 ''u'' ''p'' ''inv'' [] ''inv.orders'' [] ''mysql'' Map.empty = Inr (0, db')
     \<and> ra_getConninfoByName table_select True ''c1'' zero_conninfo db' = Inr (Some (ci, ''mysql''))
     \<and> ci_hostname ci = ''host'' \<and> ci_port ci = 3306 \<and> ci_table ci = ''inv.orders'' \<and> ci_srcschema ci = ''null''"
  using conninfo_roundtrip [OF table_server, where db = Map.empty and name = "''c1''" and dbname = "''db''" and hostname = "''host''" and user = "''u''"
      and pwd = "''p''" and srcdb = "''inv''" and srcschema = "[]" and tables = "''inv.orders''" and snapshottable = "[]"
      and connector = "''mysql''" and port = 3306 and skiptx = True
      and cfg = "\<lparr>synchdb_letter_casing_strategy = LCS_AS_IS, synchdb_dml_use_spi = False, with_olr = False, mktime_1970 = 0\<rparr>"]
  by (auto simp: quote_free_def conninfo_sizes supported_connector_def strcaseeq_def)

section \<open>Deleting undoes adding\<close>

lemma run_set_drop:
  assumes "T name = Some (a, d)" and "fst ` set kvs \<subseteq> set ks" and "set ks \<inter> dom d = {}"
  shows "run_command (DropKeys name ks) ((case T name of None \<Rightarrow> T | Some (a, d) \<Rightarrow> T(name \<mapsto> (a, d ++ map_of (rev kvs))))) = Some T"
proof -
  have "(d ++ map_of (rev kvs)) |` (- set ks) = d"
  proof
    fix k
    have "map_of (rev kvs) k = None" if "k \<notin> set ks" using that assms(2) by (auto simp: map_of_eq_None_iff)
    moreover have "d k = None" if "k \<in> set ks" using that assms(3) by auto
    ultimately show "((d ++ map_of (rev kvs)) |` (- set ks)) k = d k"
      by (cases "k \<in> set ks") (auto simp: map_add_def split: option.split)
  qed
  then show ?thesis using assms(1) by (simp add: fun_upd_idem)
qed

lemma set_then_drop:
  assumes server: "conn_server X sel tab" and name: "quote_free name" and "tab db name = Some (a, d)"
    and kvs: "kvs \<noteq> []" "list_all safe_setting kvs" "fst ` set (map setting_meaning kvs) \<subseteq> set ks"
    and ks: "ks \<noteq> []" "list_all quote_free ks" "set ks \<inter> dom d = {}"
    and add: "ra_executeCommand X (set_statement kvs name) db = Inr (r, db1)"
  shows "\<exists>db2. ra_executeCommand X (drop_statement ks name) db1 = Inr (0, db2) \<and> tab db2 = tab db"
proof -
  obtain db' where "ra_executeCommand X (set_statement kvs name) db = Inr (0, db')"
    and t: "tab db' = (case tab db name of None \<Rightarrow> tab db | Some (a, d) \<Rightarrow> (tab db)(name \<mapsto> (a, d ++ map_of (rev (map setting_meaning kvs)))))"
    by (rule server_runs [OF server read_set_statement [OF name kvs(1,2)]]) auto
  then have db': "db1 = db'" using add by simp
  have "run_command (DropKeys name ks) (tab db1) = Some (tab db)"
    unfolding db' t by (rule run_set_drop [where T = "tab db", OF assms(3) kvs(3) ks(3)])
  then show ?thesis by (rule server_runs [OF server read_drop_statement [OF name ks(1,2)]]) blast
qed

text \<open>
  The functions that add settings to a connector, each with the function that deletes them again and the keys it is about.
  The texts are those that PostgreSQL reads as they are given.
\<close>

inductive setting_pair ::
  "('db, 'd, 'tid) executor \<Rightarrow> string \<Rightarrow> 'db \<Rightarrow> 'db \<Rightarrow> ('db \<Rightarrow> (int \<times> 'db) res) \<Rightarrow> string list \<Rightarrow> bool"
  for X name db db1 where
  extra: "list_all quote_free [mode, ks, kp, ts, tp] \<Longrightarrow> synchdb_add_extra_conninfo X name mode ks kp ts tp db = Inr (r, db1)
    \<Longrightarrow> setting_pair X name db db1 (synchdb_del_extra_conninfo X name) extra_keys"
| fdw: "list_all quote_free [cert, key, root, cipher] \<Longrightarrow> synchdb_add_fdw_conninfo X name cert key root cipher db = Inr (r, db1)
    \<Longrightarrow> setting_pair X name db db1 (synchdb_del_fdw_conninfo X name) fdw_keys"
| jmx: "list_all quote_free [addr, rmi, pf, af, ks, kp, ts, tp]
    \<Longrightarrow> synchdb_add_jmx_conninfo X name addr port rmi rmiport auth pf af ssl ks kp ts tp db = Inr (r, db1)
    \<Longrightarrow> setting_pair X name db db1 (synchdb_del_jmx_conninfo X name) jmx_keys"
| exporter: "list_all quote_free [jar, conf] \<Longrightarrow> synchdb_add_jmx_exporter_conninfo X name jar port conf db = Inr (r, db1)
    \<Longrightarrow> setting_pair X name db db1 (synchdb_del_jmx_exporter_conninfo X name) exporter_keys"
| olr: "list_all quote_free [host, source] \<Longrightarrow> synchdb_add_olr_conninfo X name host port source db = Inr (r, db1)
    \<Longrightarrow> setting_pair X name db db1 (synchdb_del_olr_conninfo X name) olr_keys"
| infinispan: "quote_free memory \<Longrightarrow> synchdb_add_infinispan X name memory sz db = Inr (r, db1)
    \<Longrightarrow> get_shm_connector_id_by_name (synchdb_init_shmem (be_workers E) s) name (be_dbname E) = None
    \<Longrightarrow> setting_pair X name db db1 (\<lambda>db. fst (snd (synchdb_del_infinispan X E name db s))) infinispan_keys"

lemma quote_free_null_or [simp]: "quote_free t \<Longrightarrow> quote_free (if t = [] then ''null'' else t)"
  by simp

text \<open>An added statement sets keys of the group and has no text that PostgreSQL would read otherwise.\<close>

definition sets_keys :: "string list \<Rightarrow> string \<Rightarrow> string \<Rightarrow> bool" where
  "sets_keys ks name q \<longleftrightarrow> (\<exists>kvs. q = set_statement kvs name \<and> kvs \<noteq> [] \<and> list_all safe_setting kvs
     \<and> fst ` set (map setting_meaning kvs) \<subseteq> set ks)"

lemma sets_keysI: "kvs \<noteq> [] \<Longrightarrow> list_all safe_setting kvs \<Longrightarrow> fst ` set (map setting_meaning kvs) \<subseteq> set ks
    \<Longrightarrow> sets_keys ks name (set_statement kvs name)"
  by (auto simp: sets_keys_def)

lemma plain_keys [simp]: "list_all quote_free extra_keys" "list_all quote_free fdw_keys" "list_all quote_free jmx_keys"
  "list_all quote_free exporter_keys" "list_all quote_free olr_keys" "list_all quote_free infinispan_keys"
  by (simp_all add: extra_keys_def fdw_keys_def jmx_keys_def exporter_keys_def olr_keys_def infinispan_keys_def quote_free_def)

lemma statement_keys:
  "list_all quote_free [mode, ks, kp, ts, tp] \<Longrightarrow> extra_statement name mode ks kp ts tp = Inr q \<Longrightarrow> sets_keys extra_keys name q"
  "list_all quote_free [cert, key, root, cipher] \<Longrightarrow> fdw_statement name cert key root cipher = Inr q \<Longrightarrow> sets_keys fdw_keys name q"
  "list_all quote_free [jar, conf] \<Longrightarrow> exporter_statement name jar port conf = Inr q \<Longrightarrow> sets_keys exporter_keys name q"
  "list_all quote_free [host, source] \<Longrightarrow> olr_statement name host port source = Inr q \<Longrightarrow> sets_keys olr_keys name q"
  using plain_keys
  by (auto simp: extra_statement_def extra_keys_def fdw_statement_def fdw_keys_def exporter_statement_def exporter_keys_def
      olr_statement_def olr_keys_def intro!: sets_keysI)

lemma jmx_texts_plain:
  "list_all quote_free [pf, af] \<Longrightarrow> jmx_auth_texts auth pf af = Inr (pf', af') \<Longrightarrow> quote_free pf' \<and> quote_free af'"
  "list_all quote_free [ks, kp, ts, tp] \<Longrightarrow> jmx_ssl_texts ssl ks kp ts tp = Inr (ks', kp', ts', tp')
     \<Longrightarrow> quote_free ks' \<and> quote_free kp' \<and> quote_free ts' \<and> quote_free tp'"
  by (auto simp: jmx_auth_texts_def jmx_ssl_texts_def split: if_split_asm)

lemma jmx_statement_keys:
  assumes "list_all quote_free [addr, rmi, pf, af, ks, kp, ts, tp]"
    and "jmx_statement name addr port rmi rmiport auth pf af ssl ks kp ts tp = Inr q"
  shows "sets_keys jmx_keys name q"
proof -
  obtain pf' af' ks' kp' ts' tp' where auth: "jmx_auth_texts auth pf af = Inr (pf', af')"
    and ssl: "jmx_ssl_texts ssl ks kp ts tp = Inr (ks', kp', ts', tp')"
    and q: "q = set_statement
       [key_value ''jmx_listenaddr'' (Text (strlcpy SYNCHDB_CONNINFO_HOSTNAME_SIZE addr)), key_value ''jmx_port'' (Number (unat port)),
        key_value ''jmx_rmi_address'' (Text (strlcpy SYNCHDB_CONNINFO_HOSTNAME_SIZE rmi)), key_value ''jmx_rmi_port'' (Number (unat rmiport)),
        key_value ''jmx_auth'' (Truth auth), key_value ''jmx_auth_passwdfile'' (NullText pf'),
        key_value ''jmx_auth_accessfile'' (NullText af'), key_value ''jmx_ssl'' (Truth ssl),
        key_value ''jmx_ssl_keystore'' (NullText ks'), key_value ''jmx_ssl_keystore_pass'' (NullSecret kp'),
        key_value ''jmx_ssl_truststore'' (NullText ts'), key_value ''jmx_ssl_truststore_pass'' (NullSecret tp')] name"
    using assms(2) by (auto simp: jmx_statement_def)
  have "quote_free pf' \<and> quote_free af'" "quote_free ks' \<and> quote_free kp' \<and> quote_free ts' \<and> quote_free tp'"
    using jmx_texts_plain(1) [OF _ auth] jmx_texts_plain(2) [OF _ ssl] assms(1) by simp_all
  then show ?thesis unfolding q using assms(1) plain_keys(3) [unfolded jmx_keys_def]
    by (intro sets_keysI) (simp_all add: jmx_keys_def)
qed

lemma infinispan_statement_keys:
  "quote_free memory \<Longrightarrow> infinispan_statement name memory sz = Inr q \<Longrightarrow> sets_keys infinispan_keys name q"
  using plain_keys(6) by (auto simp: infinispan_statement_def infinispan_keys_def split: if_split_asm intro!: sets_keysI)

lemma key_groups: "extra_keys \<noteq> []" "fdw_keys \<noteq> []" "jmx_keys \<noteq> []" "exporter_keys \<noteq> []" "olr_keys \<noteq> []" "infinispan_keys \<noteq> []"
  by (simp_all add: extra_keys_def fdw_keys_def jmx_keys_def exporter_keys_def olr_keys_def infinispan_keys_def)

lemma executed_statement:
  assumes "rbind st (\<lambda>q. ra_executeCommand X q db) = Inr (r, db1)" and "\<And>q. st = Inr q \<Longrightarrow> sets_keys ks name q"
  shows "\<exists>q r. sets_keys ks name q \<and> ra_executeCommand X q db = Inr (r, db1)"
  using assms by auto

lemma setting_pair_statements:
  assumes "setting_pair X name db db1 del ks"
  shows "ks \<noteq> [] \<and> list_all quote_free ks \<and> (\<exists>q r. sets_keys ks name q \<and> ra_executeCommand X q db = Inr (r, db1)) \<and>
    del db1 = ra_executeCommand X (drop_statement ks name) db1"
  using assms
proof cases
  case extra
  then show ?thesis using executed_statement [OF extra(4) [unfolded synchdb_add_extra_conninfo_def] statement_keys(1) [OF extra(3)]]
    by (simp add: synchdb_del_extra_conninfo_def key_groups)
next
  case fdw
  then show ?thesis using executed_statement [OF fdw(4) [unfolded synchdb_add_fdw_conninfo_def] statement_keys(2) [OF fdw(3)]]
    by (simp add: synchdb_del_fdw_conninfo_def key_groups)
next
  case jmx
  then show ?thesis using executed_statement [OF jmx(4) [unfolded synchdb_add_jmx_conninfo_def] jmx_statement_keys [OF jmx(3)]]
    by (simp add: synchdb_del_jmx_conninfo_def key_groups)
next
  case exporter
  then show ?thesis using executed_statement [OF exporter(4) [unfolded synchdb_add_jmx_exporter_conninfo_def] statement_keys(3) [OF exporter(3)]]
    by (simp add: synchdb_del_jmx_exporter_conninfo_def key_groups)
next
  case olr
  then show ?thesis using executed_statement [OF olr(4) [unfolded synchdb_add_olr_conninfo_def] statement_keys(4) [OF olr(3)]]
    by (simp add: synchdb_del_olr_conninfo_def key_groups)
next
  case infinispan
  then show ?thesis using executed_statement [OF infinispan(4) [unfolded synchdb_add_infinispan_def] infinispan_statement_keys [OF infinispan(3)]]
    by (simp add: synchdb_del_infinispan_def key_groups Let_def)
qed



end
