(* ===== verification/Conn_Rules.thy ===== *)
theory Conn_Rules
  imports Conn_Info
begin

text \<open>
  The object mapping rules of a connector: how \<^verbatim>\<open>ra_listObjmaps\<close> in
  \<^verbatim>\<open>src/backend/executor/replication_agent.c\<close> lists them for the converter, and what the statements of
  \<^verbatim>\<open>synchdb_add_objmap\<close> and \<^verbatim>\<open>synchdb_del_objmap\<close> mean to the table \<^verbatim>\<open>synchdb_objmap\<close>,
  whose rows are a map from the connector, the kind of rule and the source object to whether the rule is
  enabled and what it gives.
\<close>

section \<open>Listing the rules\<close>

definition SYNCHDB_ATTRIBUTE_VIEW :: string where "SYNCHDB_ATTRIBUTE_VIEW = ''synchdb_att_view''"

definition objmap_query :: "string \<Rightarrow> string" where
  "objmap_query name =
     (let own = SYNCHDB_OBJECT_MAPPING_TABLE @ ''.name='' @ SYNCHDB_ATTRIBUTE_VIEW @ ''.name'';
          path = ''(ext_tbname || '' @ quoted ''.'' @ '' || ext_attname)'';
          type = (\<lambda>t. ''objtype='' @ quoted t)
      in ''SELECT objtype, enabled, srcobj, dstobj, (SELECT pg_tbname FROM synchdB_att_view WHERE (ext_tbname=srcobj OR '' @ path @
         '' = srcobj) AND ('' @ type ''table'' @ '' OR '' @ type ''column'' @ '' OR '' @ type ''datatype'' @ '') AND '' @ own @
         '' LIMIT 1), (SELECT pg_attname FROM synchdB_att_view WHERE '' @ path @ ''=srcobj AND ('' @ type ''column'' @ '' OR '' @
         type ''datatype'' @ '') AND '' @ own @ ''),(SELECT pg_atttypename FROM synchdB_att_view WHERE '' @ path @ ''=srcobj AND '' @
         type ''datatype'' @ '' AND '' @ own @ '') FROM '' @ SYNCHDB_OBJECT_MAPPING_TABLE @ '' WHERE name = '' @ quoted name @
         '' ORDER BY CASE objtype WHEN '' @ quoted ''transform'' @ '' THEN 1 WHEN '' @ quoted ''datatype'' @ '' THEN 2 WHEN '' @
         quoted ''column'' @ '' THEN 3 WHEN '' @ quoted ''table'' @ '' then 4 ELSE 5 END;'')"

text \<open>
  A row has the seven columns of the query as text, \<open>None\<close> for null; the structure starts out zeroed, so a null
  leaves an empty text or false.
\<close>

definition copied :: "nat \<Rightarrow> string option \<Rightarrow> string" where
  "copied sz v = (case v of None \<Rightarrow> [] | Some s \<Rightarrow> strlcpy sz s)"

definition row_objmap :: "string option list \<Rightarrow> ObjectMap" where
  "row_objmap r = \<lparr>om_objtype = copied SYNCHDB_CONNINFO_NAME_SIZE (r ! 0),
     om_enabled = (case r ! 1 of None \<Rightarrow> False | Some v \<Rightarrow> v \<noteq> ''f''),
     om_srcobj = copied SYNCHDB_CONNINFO_NAME_SIZE (r ! 2), om_dstobj = copied SYNCHDB_TRANSFORM_EXPRESSION_SIZE (r ! 3),
     om_curr_pg_tbname = copied SYNCHDB_CONNINFO_NAME_SIZE (r ! 4), om_curr_pg_attname = copied SYNCHDB_CONNINFO_NAME_SIZE (r ! 5),
     om_curr_pg_atttypename = copied SYNCHDB_CONNINFO_NAME_SIZE (r ! 6)\<rparr>"

text \<open>
  \<open>None\<close> is a return value other than 0: a query that fails, and one without rows, which returns
  \<^verbatim>\<open>SPI_OK_SELECT\<close>. The server's answer is an argument.
\<close>

definition ra_listObjmaps :: "(string \<Rightarrow> 'db \<Rightarrow> string option list list option) \<Rightarrow> string \<Rightarrow> 'db \<Rightarrow> ObjectMap list option" where
  "ra_listObjmaps sel name db =
     (case sel (objmap_query name) db of
        None \<Rightarrow> None
      | Some [] \<Rightarrow> None
      | Some rows \<Rightarrow> Some (map row_objmap rows))"

section \<open>What the statements mean to the server\<close>

text \<open>\<^verbatim>\<open>lower\<close> on the letters of ASCII and \<^verbatim>\<open>trim\<close>.\<close>

definition sql_lower :: "string \<Rightarrow> string" where
  "sql_lower s = map c_tolower s"

definition sql_trim :: "string \<Rightarrow> string" where
  "sql_trim s = rev (blanks (rev (blanks s)))"

datatype rule_command = PutRule "string \<times> string \<times> string" string | DisableRule "string \<times> string \<times> string"

definition read_put :: "string \<Rightarrow> rule_command option" where
  "read_put t = do {
     t \<leftarrow> keyword ''INSERT INTO synchdb_objmap (name, objtype, enabled, srcobj, dstobj) VALUES (trim(lower('' t;
     (n, t) \<leftarrow> read_literal t;
     t \<leftarrow> keyword '')), trim(lower('' t;
     (y, t) \<leftarrow> read_literal t;
     t \<leftarrow> keyword '')), true, trim('' t;
     (s, t) \<leftarrow> read_literal t;
     t \<leftarrow> keyword ''), '' t;
     (d, t) \<leftarrow> read_literal t;
     if t = '') ON CONFLICT(name, objtype, srcobj) DO UPDATE SET enabled = EXCLUDED.enabled,dstobj = EXCLUDED.dstobj;''
     then Some (PutRule (sql_trim (sql_lower n), sql_trim (sql_lower y), sql_trim s) d) else None }"

definition read_disable :: "string \<Rightarrow> rule_command option" where
  "read_disable t = do {
     t \<leftarrow> keyword ''UPDATE synchdb_objmap SET enabled = false WHERE name = '' t;
     (n, t) \<leftarrow> read_literal t;
     t \<leftarrow> keyword '' AND objtype = trim(lower('' t;
     (y, t) \<leftarrow> read_literal t;
     t \<leftarrow> keyword '')) AND srcobj = trim(lower('' t;
     (s, t) \<leftarrow> read_literal t;
     if t = ''));'' then Some (DisableRule (n, sql_trim (sql_lower y), sql_trim (sql_lower s))) else None }"

definition read_rule_command :: "string \<Rightarrow> rule_command option" where
  "read_rule_command q = first_some [read_put q, read_disable q]"

type_synonym rule_rows = "string \<times> string \<times> string \<rightharpoonup> bool \<times> string"

fun run_rule_command :: "rule_command \<Rightarrow> rule_rows \<Rightarrow> rule_rows" where
  "run_rule_command (PutRule k d) R = R(k \<mapsto> (True, d))"
| "run_rule_command (DisableRule k) R = (case R k of None \<Rightarrow> R | Some (_, d) \<Rightarrow> R(k \<mapsto> (False, d)))"

definition rule_server :: "('db, 'd, 'tid) executor \<Rightarrow> ('db \<Rightarrow> rule_rows) \<Rightarrow> bool" where
  "rule_server X rules \<longleftrightarrow>
     (\<forall>q c db. read_rule_command q = Some c \<longrightarrow>
        snd (SPI_exec X q db) = None \<and> rules (fst (SPI_exec X q db)) = run_rule_command c (rules db))"

lemma read_add_rule:
  assumes "add_rule_statement name objtype srcobj dstobj = Inr q" and "list_all quote_free [name, objtype, srcobj]"
  shows "read_rule_command q = Some (PutRule (sql_trim (sql_lower name), sql_trim (sql_lower objtype), sql_trim srcobj) dstobj)"
proof -
  let ?e = "'') ON CONFLICT(name, objtype, srcobj) DO UPDATE SET enabled = EXCLUDED.enabled,dstobj = EXCLUDED.dstobj;''"
  let ?d = "escapeSingleQuote dstobj True @ ?e"
  have esc: "quoted (escapeSingleQuote dstobj False) = escapeSingleQuote dstobj True"
    by (simp add: quoted_def escapeSingleQuote_def Let_def)
  have q: "q = ''INSERT INTO synchdb_objmap (name, objtype, enabled, srcobj, dstobj) VALUES (trim(lower('' @ quoted name @ '')), trim(lower('' @
      quoted objtype @ '')), true, trim('' @ quoted srcobj @ ''), '' @ ?d"
    using assms(1) by (simp add: add_rule_statement_def SYNCHDB_OBJECT_MAPPING_TABLE_def esc split: if_split_asm)
  have d: "read_literal ?d = Some (dstobj, ?e)" by (rule read_literal_escaped) simp
  have "read_put q = Some (PutRule (sql_trim (sql_lower name), sql_trim (sql_lower objtype), sql_trim srcobj) dstobj)"
    using assms(2) d unfolding q read_put_def keyword_append
    by (simp del: append_Cons add: keyword_append) 
  then show ?thesis by (simp add: read_rule_command_def)
qed

lemma read_del_rule:
  assumes "del_rule_statement name objtype srcobj = Inr q" and "list_all quote_free [name, objtype, srcobj]"
  shows "read_rule_command q = Some (DisableRule (name, sql_trim (sql_lower objtype), sql_trim (sql_lower srcobj)))"
proof -
  have q: "q = ''UPDATE synchdb_objmap SET enabled = false WHERE name = '' @ quoted name @ '' AND objtype = trim(lower('' @ quoted objtype @
      '')) AND srcobj = trim(lower('' @ quoted srcobj @ ''));''"
    using assms(1) by (simp add: del_rule_statement_def SYNCHDB_OBJECT_MAPPING_TABLE_def split: if_split_asm)
  have "read_put q = None" unfolding q by (simp add: read_put_def keyword_other)
  moreover have "read_disable q = Some (DisableRule (name, sql_trim (sql_lower objtype), sql_trim (sql_lower srcobj)))"
    using assms(2) unfolding q read_disable_def keyword_append by (simp del: append_Cons add: keyword_append)
  ultimately show ?thesis by (simp add: read_rule_command_def)
qed

lemma rule_server_runs:
  assumes "rule_server X rules" and "read_rule_command q = Some c"
  obtains db' where "ra_executeCommand X q db = Inr (0, db')" and "rules db' = run_rule_command c (rules db)"
proof -
  have "snd (SPI_exec X q db) = None \<and> rules (fst (SPI_exec X q db)) = run_rule_command c (rules db)"
    using assms unfolding rule_server_def by blast
  then show ?thesis using that by (cases "SPI_exec X q db") (simp add: ra_executeCommand_def spi_execute_def)
qed

section \<open>Adding and deleting a rule\<close>

text \<open>
  C39: What becomes of a rule that is added and then deleted. On a server that keeps the rule table, for a supported kind of rule and names
  without quotes, \<^verbatim>\<open>synchdb_add_objmap\<close> stores exactly the given destination, whatever characters it has, as an enabled rule under the
  lower case of the connector's name and the source object as it is spelled. \<^verbatim>\<open>synchdb_del_objmap\<close> with the same arguments succeeds, but
  disables the rule only if the connector's name has no capital letter or outer blank and the source object has no capital letter: any other
  rule stays enabled.
\<close>

theorem rule_added_then_deleted:
  assumes "rule_server X rules" and "objmap_type objtype" and "list_all quote_free [name, objtype, srcobj]"
  shows "\<exists>db1 db2. snd (synchdb_add_objmap X E name objtype srcobj dstobj db s) = Inr (0, db1)
    \<and> rules db1 = (rules db)((sql_trim (sql_lower name), sql_trim (sql_lower objtype), sql_trim srcobj) \<mapsto> (True, dstobj))
    \<and> synchdb_del_objmap X name objtype srcobj db1 = Inr (0, db2)
    \<and> rules db2 (sql_trim (sql_lower name), sql_trim (sql_lower objtype), sql_trim srcobj)
        = Some (name \<noteq> sql_trim (sql_lower name) \<or> sql_trim (sql_lower srcobj) \<noteq> sql_trim srcobj, dstobj)"
proof -
  let ?k = "(sql_trim (sql_lower name), sql_trim (sql_lower objtype), sql_trim srcobj)"
    and ?k' = "(name, sql_trim (sql_lower objtype), sql_trim (sql_lower srcobj))"
  obtain q where q: "add_rule_statement name objtype srcobj dstobj = Inr q" using assms(2) by (simp add: add_rule_statement_def)
  obtain db1 where db1: "ra_executeCommand X q db = Inr (0, db1)" "rules db1 = (rules db)(?k \<mapsto> (True, dstobj))"
    by (rule rule_server_runs [OF assms(1) read_add_rule [OF q assms(3)]]) auto
  obtain q' where q': "del_rule_statement name objtype srcobj = Inr q'" using assms(2) by (simp add: del_rule_statement_def)
  obtain db2 where db2: "ra_executeCommand X q' db1 = Inr (0, db2)" "rules db2 = run_rule_command (DisableRule ?k') (rules db1)"
    by (rule rule_server_runs [OF assms(1) read_del_rule [OF q' assms(3)]])
  have "rules db2 ?k = Some (?k' \<noteq> ?k, dstobj)" by (auto simp: db1 db2 split: option.split)
  then show ?thesis using q q' db1 db2(1) by (auto simp: synchdb_add_objmap_def synchdb_del_objmap_def)
qed

definition rules_server :: "(rule_rows, string, nat) executor" where
  "rules_server = \<lparr>SPI_exec = (\<lambda>q R. case read_rule_command q of None \<Rightarrow> (R, Some sql_failure) | Some c \<Rightarrow> (run_rule_command c R, None)),
     table_open = (\<lambda>oid R. Inl sql_failure), OidInputFunctionCall = (\<lambda>oid s m. Inr s),
     ExecSimpleRelationInsert = (\<lambda>oid row R. (R, Some sql_failure)), RelationFindReplTuple = (\<lambda>oid row R. Inl sql_failure),
     ExecSimpleRelationUpdate = (\<lambda>oid i row R. (R, Some sql_failure)), ExecSimpleRelationDelete = (\<lambda>oid i R. (R, Some sql_failure))\<rparr>"

lemma rules_server: "rule_server rules_server (\<lambda>R. R)"
  by (simp add: rule_server_def rules_server_def)

text \<open>At \<open>inv.Orders\<close> the rule is still enabled after its deletion.\<close>

theorem rule_added_then_deleted_witness:
  "\<exists>R1 R2. snd (synchdb_add_objmap rules_server
        \<lparr>be_workers = 2, be_conninfo = Map.empty, be_dbname = ''db'', be_compat = None, be_registered = True, be_started = True\<rparr>
        ''c1'' ''table'' ''inv.Orders'' ''orders'' Map.empty None) = Inr (0, R1)
     \<and> synchdb_del_objmap rules_server ''c1'' ''table'' ''inv.Orders'' R1 = Inr (0, R2)
     \<and> R2 (''c1'', ''table'', ''inv.Orders'') = Some (True, ''orders'')"
proof -
  have "objmap_type ''table''" "list_all quote_free [''c1'', ''table'', ''inv.Orders'']"
    by (simp_all add: objmap_type_def strcaseeq_def quote_free_def)
  from rule_added_then_deleted [OF rules_server this, of
      "\<lparr>be_workers = 2, be_conninfo = Map.empty, be_dbname = ''db'', be_compat = None, be_registered = True, be_started = True\<rparr>"
      "''orders''" Map.empty None] show ?thesis
    by (auto simp: sql_lower_def sql_trim_def blanks_def c_simps)
qed

end
