(* ===== verification/Conn_Worker.thy ===== *)
theory Conn_Worker
  imports OLR_Flow
begin

text \<open>
  A connector worker (\<^verbatim>\<open>src/backend/synchdb/synchdb.c\<close>): its start (\<^verbatim>\<open>synchdb_engine_main\<close>,
  \<^verbatim>\<open>setup_environment\<close>), the requests it takes (\<^verbatim>\<open>processRequestInterrupt\<close>), one iteration of its
  \<^verbatim>\<open>main_loop\<close> in every state, the snapshot through a foreign data wrapper, the switch from snapshot to change data
  capture, and its end (\<^verbatim>\<open>synchdb_detach_shmem\<close>). The Debezium runner is reached through JNI calls: what each returns is
  in the environment and each call is recorded. Sleeping and logging have no effect in the model.
\<close>

section \<open>State\<close>

datatype engine_call =
    Call_start ConnectionInfo ConnectorType string
  | Call_stop
  | Call_set_offset ConnectorType string string string
  | Call_create_offset string ConnectorType string string
  | Call_memory_dump
  | Call_set_loglevel int
  | Call_mark_complete int
  | Call_send "byte list"
  | Call_sql string
  | Call_destroy_jvm
  | Call_snapshot string string "string option" "string option"
  | Call_create_jvm "string list"

text \<open>How starting the Java virtual machine ends: no jar file, no machine, no runner object.\<close>

datatype jvm_result = JVM_OK | JVM_NO_JAR | JVM_NO_VM | JVM_NO_ENGINE

text \<open>
  The worker's own state beside the part that events change: the local copy of the connection information with its flags,
  the snapshot mode, the converter's rules, the socket, the metadata files, \<^verbatim>\<open>dbzExitSignal\<close>, whether \<^verbatim>\<open>jvm\<close> is set,
  and the calls made.
\<close>

record 'db worker =
  w_flow :: "'db flow"
  w_conn :: ConnectionInfo
  w_mode :: string
  w_conv :: conv_state
  w_net :: net_env
  w_files :: files
  w_exit :: bool
  w_jvm :: bool
  w_calls :: "engine_call list"

text \<open>
  The environment of one iteration. \<open>we_olr\<close> is what the handler of Openlog events finds around it. \<open>we_fdw_before\<close> and \<open>we_fdw_after\<close> are the failed tables and their offset that
  \<^verbatim>\<open>ra_get_fdw_snapshot_err_table_list\<close> finds before and after a snapshot, \<open>we_fdw_snapshot\<close> is what the PL/pgSQL snapshot
  function returned; \<open>we_create\<close> and \<open>we_dump\<close> say whether the two steps of writing Debezium's metadata succeed,
  \<open>we_session\<close> is the error of connecting to the database, if any, \<open>we_jar\<close> the path of the jar file, and \<open>we_heap\<close>,
  \<open>we_direct\<close> are the two settings of the Java virtual machine.
\<close>

record ('db, 'd, 'tid) worker_env =
  we_flow :: "('db, 'd, 'tid) flow_env"
  we_buffer :: "byte list option"
  we_olr :: olr_event_env
  we_stop :: int
  we_start :: int
  we_set_offset :: int
  we_offset :: "string option"
  we_objmaps :: "ObjectMap list option"
  we_reachable :: bool
  we_pack :: "redo_request \<Rightarrow> byte list"
  we_unpack :: "byte list \<Rightarrow> int option"
  we_read_buffer_size :: int
  we_writable :: bool
  we_clock :: int
  we_flush_interval_ms :: int
  we_fdw_before :: "string option \<times> string option"
  we_fdw_after :: "string option \<times> string option"
  we_fdw_snapshot :: "string option res"
  we_create :: bool
  we_dump :: bool
  we_snapshot_engine :: SnapshotEngine
  we_jvm :: jvm_result
  we_session :: "pg_error option"
  we_workers :: nat
  we_jar :: string
  we_heap :: int
  we_direct :: int

abbreviation we_id :: "('db, 'd, 'tid) worker_env \<Rightarrow> nat" where
  "we_id E \<equiv> fe_id (we_flow E)"

abbreviation w_shm :: "'db worker \<Rightarrow> shm" where
  "w_shm w \<equiv> fl_shm (w_flow w)"

definition upd_shm :: "(shm \<Rightarrow> shm) \<Rightarrow> 'db worker \<Rightarrow> 'db worker" where
  "upd_shm f w = w\<lparr>w_flow := (w_flow w)\<lparr>fl_shm := f (w_shm w)\<rparr>\<rparr>"

definition upd_olr :: "(olr_client \<Rightarrow> olr_client) \<Rightarrow> 'db worker \<Rightarrow> 'db worker" where
  "upd_olr f w = w\<lparr>w_flow := (w_flow w)\<lparr>fl_olr := f (fl_olr (w_flow w))\<rparr>\<rparr>"

definition call :: "engine_call \<Rightarrow> 'db worker \<Rightarrow> 'db worker" where
  "call c w = w\<lparr>w_calls := w_calls w @ [c]\<rparr>"

definition upd_flag :: "(32 word \<Rightarrow> 32 word) \<Rightarrow> 'db worker \<Rightarrow> 'db worker" where
  "upd_flag f w = w\<lparr>w_conn := (w_conn w)\<lparr>ci_flag := f (ci_flag (w_conn w))\<rparr>\<rparr>"

definition go_state :: "('db, 'd, 'tid) worker_env \<Rightarrow> ConnectorState \<Rightarrow> 'db worker \<Rightarrow> 'db worker" where
  "go_state E st = upd_shm (set_shm_connector_state (we_id E) st)"

text \<open>The result of code that may raise: the worker's state up to then, and the error if there is one.\<close>

type_synonym 'db outcome = "'db worker \<times> pg_error option"

definition raise_with :: "('db, 'd, 'tid) worker_env \<Rightarrow> string \<Rightarrow> string \<Rightarrow> 'db worker \<Rightarrow> 'db outcome" where
  "raise_with E errmsg msg w = (upd_shm (set_shm_connector_errmsg (we_id E) (Some errmsg)) w, Some (PgError (Some errmsg) msg))"

definition then_do :: "'db outcome \<Rightarrow> ('db worker \<Rightarrow> 'db outcome) \<Rightarrow> 'db outcome" where
  "then_do r f = (case r of (w, None) \<Rightarrow> f w | (w, Some e) \<Rightarrow> (w, Some e))"

definition has_any_snapshot_flag :: "ConnectionInfo \<Rightarrow> bool" where
  "has_any_snapshot_flag ci \<longleftrightarrow> ci_flag ci AND (CONNFLAG_SCHEMA_SYNC_MODE OR CONNFLAG_INITIAL_SNAPSHOT_MODE) \<noteq> 0"

definition refresh_offset :: "('db, 'd, 'tid) worker_env \<Rightarrow> 'db worker \<Rightarrow> 'db worker" where
  "refresh_offset E w = upd_shm (set_shm_dbz_offset (fe_cfg (we_flow E)) (we_offset E) (fl_olr (w_flow w)) (we_id E)) w"

section \<open>Requests\<close>

definition replication_request ::
  "('db, 'd, 'tid) worker_env \<Rightarrow> string \<Rightarrow> bool \<Rightarrow> 'db worker \<Rightarrow> int \<times> 'db worker" where
  "replication_request E source start w =
     (case olr_client_start_or_cont_replication (we_pack E) (we_unpack E) source start (w_net w) (fl_olr (w_flow w)) of
        (ret, sent, ne, c) \<Rightarrow> (ret, fold (\<lambda>m. call (Call_send m)) sent (upd_olr (\<lambda>_. c) (w\<lparr>w_net := ne\<rparr>))))"

text \<open>Requesting replication: a server that has started already is asked to continue.\<close>

definition request_replication :: "('db, 'd, 'tid) worker_env \<Rightarrow> string \<Rightarrow> 'db worker \<Rightarrow> int \<times> 'db outcome" where
  "request_replication E source w =
     (let no_start = raise_with E ''failed to start replication with olr server'' ''failed to start replication with olr server'';
          (ret, w1) = replication_request E source True w
      in if ret = -1 then (ret, no_start w1)
         else if ret = RES_ALREADY_STARTED \<or> ret = RES_STARTING
         then let (ret2, w2) = replication_request E source False w1
              in if ret2 = -1 then (ret2, no_start w2) else (ret2, (w2, None))
         else (ret, (w1, None)))"

definition try_reconnect_olr :: "('db, 'd, 'tid) worker_env \<Rightarrow> ConnectionInfo \<Rightarrow> 'db worker \<Rightarrow> 'db outcome" where
  "try_reconnect_olr E connInfo w =
     (if is_connected (fl_olr (w_flow w)) then (w, None)
      else let (ret, c) = olr_client_init (we_reachable E) (fl_olr (w_flow w)); w1 = upd_olr (\<lambda>_. c) w
           in if ret \<noteq> 0 then (w1, None)
              else case request_replication E (ol_source (ci_olr connInfo)) w1 of
                     (ret2, (w2, Some e)) \<Rightarrow> (w2, Some e)
                   | (ret2, (w2, None)) \<Rightarrow>
                       if ret2 = RES_REPLICATE then (w2, None)
                       else raise_with E ''openlog replicator is not ready to replicate after reconnection''
                              ''openlog replicator is not ready to replicate'' w2)"

definition clear_request :: "('db, 'd, 'tid) worker_env \<Rightarrow> 'db worker \<Rightarrow> 'db worker" where
  "clear_request E = upd_shm (reset_shm_request_state (we_id E))"

definition is_olr :: "('db, 'd, 'tid) worker_env \<Rightarrow> ConnectorType \<Rightarrow> bool" where
  "is_olr E type \<longleftrightarrow> with_olr (fe_cfg (we_flow E)) \<and> type = TYPE_OLR"

definition do_pause :: "('db, 'd, 'tid) worker_env \<Rightarrow> ConnectorType \<Rightarrow> 'db worker \<Rightarrow> 'db outcome" where
  "do_pause E type w =
     (if is_olr E type then (clear_request E (go_state E STATE_PAUSED (upd_olr olr_client_shutdown w)), None)
      else let w1 = call Call_stop w
           in if we_stop E \<noteq> 0 then (clear_request E w1, None)
              else (clear_request E (go_state E STATE_PAUSED w1), None))"

definition do_resume :: "('db, 'd, 'tid) worker_env \<Rightarrow> ConnectorType \<Rightarrow> 'db worker \<Rightarrow> 'db outcome" where
  "do_resume E type w =
     (if is_olr E type
      then then_do (if has_any_snapshot_flag (w_conn w) then (w, None) else try_reconnect_olr E (w_conn w) w)
             (\<lambda>w1. (clear_request E (go_state E STATE_SYNCING w1), None))
      else if ci_snapengine (w_conn w) = ENGINE_DEBEZIUM \<or> \<not> has_any_snapshot_flag (w_conn w)
      then let w1 = call (Call_start (w_conn w) type ''initial'') w
           in if we_start E < 0 then (clear_request E w1, None)
              else (clear_request E (go_state E STATE_SYNCING w1), None)
      else (clear_request E (go_state E STATE_SYNCING w), None))"

definition do_offset_update :: "('db, 'd, 'tid) worker_env \<Rightarrow> ConnectorType \<Rightarrow> SynchdbRequest \<Rightarrow> 'db worker \<Rightarrow> 'db outcome" where
  "do_offset_update E type req w =
     (let w1 = go_state E STATE_OFFSET_UPDATE w in
      if is_olr E type
      then let (ret, c) = olr_set_offset_from_raw (reqdata req) (fl_olr (w_flow w1))
           in if ret < 0 then (go_state E STATE_PAUSED (clear_request E w1), None)
              else (clear_request E (refresh_offset E (go_state E STATE_PAUSED (upd_olr (\<lambda>_. c) w1))), None)
      else let w2 = call (Call_set_offset type (ci_srcdb (ac_conninfo (slot (w_shm w) (we_id E)))) (reqdata req)
                          (offset_file type (ci_name (w_conn w)) (ci_dstdb (w_conn w)))) w1
           in if we_set_offset E < 0 then (go_state E STATE_PAUSED (clear_request E w2), None)
              else (clear_request E (refresh_offset E (go_state E STATE_PAUSED w2)), None))"

definition do_restart :: "('db, 'd, 'tid) worker_env \<Rightarrow> ConnectorType \<Rightarrow> SynchdbRequest \<Rightarrow> 'db worker \<Rightarrow> 'db outcome" where
  "do_restart E type req w =
     (let w1 = go_state E STATE_RESTARTING w in
      if is_olr E type
      then then_do (try_reconnect_olr E (reqconninfo req) (upd_olr olr_client_shutdown w1))
             (\<lambda>w2. (clear_request E (go_state E STATE_SYNCING w2), None))
      else let w2 = call Call_stop w1
           in if we_stop E \<noteq> 0 then (go_state E STATE_SYNCING (clear_request E w2), None)
              else let w3 = call (Call_start (reqconninfo req) type (reqdata req)) w2
                   in if we_start E < 0 then (go_state E STATE_STOPPED (clear_request E w3), None)
                      else (clear_request E (go_state E STATE_SYNCING w3), None))"

text \<open>The three requests that are served in any state put the old state back.\<close>

definition in_state :: "('db, 'd, 'tid) worker_env \<Rightarrow> ConnectorState \<Rightarrow> ('db worker \<Rightarrow> 'db outcome) \<Rightarrow> 'db worker \<Rightarrow> 'db outcome" where
  "in_state E st f w =
     (let oldstate = get_shm_connector_state_enum (w_shm w) (we_id E)
      in then_do (f (go_state E st w)) (\<lambda>w1. (clear_request E (go_state E oldstate w1), None)))"

definition reload_objmap :: "('db, 'd, 'tid) worker_env \<Rightarrow> ConnectorType \<Rightarrow> 'db worker \<Rightarrow> 'db outcome" where
  "reload_objmap E type w =
     (case fc_load_objmap (fe_lib (we_flow E)) (w_conv w) type (we_objmaps E) of
        Inl (PgError (Some m) t) \<Rightarrow> (upd_shm (set_shm_connector_errmsg (we_id E) (Some m)) w, Some (PgError (Some m) t))
      | Inl e \<Rightarrow> (w, Some e)
      | Inr (cs, cmds) \<Rightarrow> (fold (\<lambda>q. call (Call_sql q)) cmds (w\<lparr>w_conv := cs\<rparr>), None))"

definition processRequestInterrupt :: "('db, 'd, 'tid) worker_env \<Rightarrow> ConnectorType \<Rightarrow> 'db worker \<Rightarrow> 'db outcome" where
  "processRequestInterrupt E type w =
     (if w_shm w = None then (w, None)
      else let req = ac_req (slot (w_shm w) (we_id E)); currstate = ac_state (slot (w_shm w) (we_id E))
           in if reqstate req = STATE_UNDEF then (w, None)
              else if reqstate req = STATE_PAUSED \<and> currstate = STATE_SYNCING then do_pause E type w
              else if reqstate req = STATE_SYNCING \<and> currstate = STATE_PAUSED then do_resume E type w
              else if reqstate req = STATE_OFFSET_UPDATE \<and> currstate = STATE_PAUSED then do_offset_update E type req w
              else if reqstate req = STATE_RESTARTING \<and> currstate = STATE_SYNCING then do_restart E type req w
              else if reqstate req = STATE_MEMDUMP then in_state E STATE_MEMDUMP (\<lambda>w. (call Call_memory_dump w, None)) w
              else if reqstate req = STATE_RELOAD_OBJMAP then in_state E STATE_RELOAD_OBJMAP (reload_objmap E type) w
              else if reqstate req = STATE_DBZ_LOGLEVEL_UPDATE
              then in_state E STATE_DBZ_LOGLEVEL_UPDATE (\<lambda>w. (call (Call_set_loglevel (atoi (reqdata req))) w, None)) w
              else (clear_request E w, None))"

section \<open>Snapshot state and Debezium's metadata\<close>

definition start_debezium_engine :: "('db, 'd, 'tid) worker_env \<Rightarrow> ConnectorType \<Rightarrow> 'db worker \<Rightarrow> 'db outcome" where
  "start_debezium_engine E type w =
     (let w1 = call (Call_start (w_conn w) type (w_mode w)) w
      in if we_start E < 0 then raise_with E ''Failed to start dbz engine'' ''Failed to start Debezium engine for connector type'' w1
         else (go_state E STATE_SYNCING w1, None))"

text \<open>The offset text that resumes change data capture after a snapshot made through a foreign data wrapper.\<close>

definition debezium_offset_text :: "ConnectorType \<Rightarrow> OffsetData \<Rightarrow> string option" where
  "debezium_offset_text type od =
     (if type = TYPE_ORACLE then Some (''{\"commit_scn\":\"'' @ show_nat (unat (od_oracle_scn od + 1)) @ ''\",\"snapshot_scn\":\"''
         @ show_nat (unat (od_oracle_scn od)) @ ''\",\"scn\":\"'' @ show_nat (unat (od_oracle_scn od)) @ ''\"}'')
      else if type = TYPE_MYSQL then Some (''{\"file\":\"'' @ od_binlog_file od @ ''\",\"pos\":'' @ show_nat (unat (od_binlog_pos od))
         @ '',\"server_id\":\"'' @ od_server_id od @ ''\",\"snapshot_completed\":true}'')
      else if type = TYPE_POSTGRES then Some (''{\"lsn\":'' @ show_nat (unat (od_lsn od)) @ ''}'')
      else None)"

definition populate_debezium_metadata :: "('db, 'd, 'tid) worker_env \<Rightarrow> ConnectorType \<Rightarrow> 'db worker \<Rightarrow> 'db worker" where
  "populate_debezium_metadata E type w =
     (case debezium_offset_text type (ci_offsetdata (w_conn w)) of
        None \<Rightarrow> w
      | Some offsetstr \<Rightarrow>
          (let w1 = call (Call_create_offset (offset_file type (ci_name (w_conn w)) (ci_dstdb (w_conn w))) type (ci_srcdb (w_conn w)) offsetstr) w
           in if we_create E \<and> we_dump E then call (Call_sql (''DROP TABLE IF EXISTS schema_history_'' @ ci_name (w_conn w))) w1 else w1))"

definition mentions :: "string \<Rightarrow> string \<Rightarrow> bool" where
  "mentions text key \<longleftrightarrow> strstr text key \<noteq> None"

definition dbz_read_snapshot_state :: "ConnectorType \<Rightarrow> string \<Rightarrow> bool res" where
  "dbz_read_snapshot_state type offset =
     (if strcaseeq offset ''no offset'' \<or> strcaseeq offset ''offset file not flushed yet'' then Inr False
      else if type = TYPE_ORACLE
      then Inr (mentions offset ''commit_scn'' \<and> mentions offset ''snapshot_scn'' \<and> mentions offset ''scn''
             \<or> mentions offset ''\"snapshot_completed\":true'')
      else if type = TYPE_MYSQL
      then Inr (mentions offset ''ts_sec'' \<and> mentions offset ''file'' \<and> mentions offset ''pos'' \<and> mentions offset ''server_id''
             \<or> mentions offset ''\"snapshot_completed\":true'')
      else if type = TYPE_POSTGRES
      then Inr (\<not> mentions offset ''\"snapshot\":'' \<or> mentions offset ''\"last_snapshot_record\":true''
             \<or> mentions offset ''\"snapshot_completed\":true'')
      else Inl (PgError (Some ''unsupported connector type to read snapshot status'') ''unsupported connector type to read snapshot status''))"

text \<open>(is a snapshot needed, is change data capture needed)\<close>

definition is_snapshot_cdc_needed :: "string \<Rightarrow> bool \<Rightarrow> bool \<times> bool" where
  "is_snapshot_cdc_needed snapshotMode isSnapshotDone =
     (if strcaseeq snapshotMode ''initial'' then (\<not> isSnapshotDone, True)
      else if strcaseeq snapshotMode ''initial_only'' then (\<not> isSnapshotDone, False)
      else if strcaseeq snapshotMode ''no_data'' then (\<not> isSnapshotDone, True)
      else if strcaseeq snapshotMode ''always'' then (True, True)
      else if strcaseeq snapshotMode ''never'' then (False, True)
      else (\<not> isSnapshotDone, True))"

section \<open>The snapshot through a foreign data wrapper\<close>

text \<open>The position that the snapshot function returned; a missing part is a null pointer in the source.\<close>

definition snapshot_offset :: "ConnectorType \<Rightarrow> string \<Rightarrow> OffsetData \<Rightarrow> OffsetData res" where
  "snapshot_offset type snapshot_str od =
     (if type = TYPE_ORACLE \<or> type = TYPE_OLR then Inr (od\<lparr>od_type := type, od_oracle_scn := strtoull snapshot_str\<rparr>)
      else if type = TYPE_MYSQL
      then (case strtok_all (CHR '';'') snapshot_str of
              f # p # sid # _ \<Rightarrow> Inr (od\<lparr>od_type := type, od_binlog_file := strlcpy 128 f, od_binlog_pos := strtoull p,
                                        od_server_id := strlcpy 128 sid\<rparr>)
            | _ \<Rightarrow> Inl (Undefined ''null part of the snapshot position''))
      else if type = TYPE_POSTGRES then Inr (od\<lparr>od_type := type, od_lsn := strtoull snapshot_str\<rparr>)
      else Inl (PgError (Some ''unsupported connector type for fdw based snapshot'') ''unsupported connector type for fdw based snapshot''))"

text \<open>
  \<^verbatim>\<open>ra_run_orafdw_initial_snapshot_spi\<close>: the PL/pgSQL function that is called, with the schema it creates and the tables
  and offset of a retry. Of an Oracle name \<^verbatim>\<open>CDB/PDB\<close> only the second part names the schema.
\<close>

definition ra_run_orafdw_initial_snapshot_spi :: "('db, 'd, 'tid) worker_env \<Rightarrow> 'db worker \<Rightarrow> engine_call" where
  "ra_run_orafdw_initial_snapshot_spi E w =
     (let srcdb = ci_srcdb (w_conn w);
          dstdb = strlcpy SYNCHDB_CONNINFO_DB_NAME_SIZE (case strchr srcdb (CHR ''/'') of Some p \<Rightarrow> tl p | None \<Rightarrow> srcdb)
      in Call_snapshot
           (if has_flag (w_conn w) CONNFLAG_SCHEMA_SYNC_MODE \<or> strcaseeq (w_mode w) ''no_data''
            then ''synchdb_do_schema_sync'' else ''synchdb_do_initial_snapshot'')
           (fc_normalize_name (fe_lib (we_flow E)) (synchdb_letter_casing_strategy (fe_cfg (we_flow E))) dstdb (length dstdb))
           (fst (we_fdw_before E)) (snd (we_fdw_before E)))"

definition launch_fdw_based_snapshot :: "('db, 'd, 'tid) worker_env \<Rightarrow> ConnectorType \<Rightarrow> 'db worker \<Rightarrow> 'db outcome" where
  "launch_fdw_based_snapshot E type w =
     (if type = TYPE_SQLSERVER then (w, None)
      else let w1 = call (ra_run_orafdw_initial_snapshot_spi E w) (upd_shm (ensure_stage (we_id E)
                      (if has_flag (w_conn w) CONNFLAG_SCHEMA_SYNC_MODE then STAGE_SCHEMA_SYNC else STAGE_INITIAL_SNAPSHOT)) w)
           in case we_fdw_snapshot E of
                Inl (PgError e t) \<Rightarrow> raise_with E t t w1
              | Inl e \<Rightarrow> (w1, Some e)
              | Inr None \<Rightarrow> (upd_shm (set_shm_connector_errmsg (we_id E) (Some
                    (''FDW based snapshot is not successfully done - connector paused for troubleshooting. ''
                     @ ''Send resume command to try again''))) (go_state E STATE_PAUSED w1), None)
              | Inr (Some snapshot_str) \<Rightarrow>
                  (case snapshot_offset type snapshot_str (ci_offsetdata (w_conn w1)) of
                     Inl (PgError (Some m) t) \<Rightarrow> raise_with E m t w1
                   | Inl e \<Rightarrow> (w1, Some e)
                   | Inr od \<Rightarrow>
                       (let w2 = w1\<lparr>w_conn := (w_conn w1)\<lparr>ci_offsetdata := od\<rparr>\<rparr>
                        in if fst (we_fdw_after E) = None then (go_state E STATE_SCHEMA_SYNC_DONE w2, None)
                           else (upd_shm (set_shm_connector_errmsg (we_id E) (Some
                                   (''some tables have failed the snapshot. Check synchdb_fdw_snapshot_errors_x tables for datails. ''
                                    @ ''Resume connector to try again''))) (go_state E STATE_PAUSED w2), None))))"

section \<open>One iteration of the main loop\<close>

definition poll_env :: "('db, 'd, 'tid) worker_env \<Rightarrow> 'db worker \<Rightarrow> ('db, 'd, 'tid) flow_env" where
  "poll_env E w = (we_flow E)\<lparr>fe_conv := w_conv w, fe_flag := ci_flag (w_conn w), fe_name := get_shm_connector_name_by_id (w_shm w) (we_id E)\<rparr>"

text \<open>
  Polling Debezium. An error ends the worker; of what the failed batch did, only the stored message is kept, because its
  transaction is rolled back and the worker's end resets the connector's state.
\<close>

definition fail_with :: "('db, 'd, 'tid) worker_env \<Rightarrow> pg_error \<Rightarrow> 'db worker \<Rightarrow> 'db outcome" where
  "fail_with E e w = (case e of PgError (Some m) t \<Rightarrow> raise_with E m t w | _ \<Rightarrow> (w, Some e))"

definition poll_debezium :: "('db, 'd, 'tid) worker_env \<Rightarrow> ConnectorType \<Rightarrow> bool \<Rightarrow> 'db worker \<Rightarrow> 'db outcome" where
  "poll_debezium E type show_offset w =
     (case dbz_engine_get_change (dbz_handler (poll_env E w)) (we_buffer E) (zero_stats, w_flow w) of
        Inl e \<Rightarrow> fail_with E e w
      | Inr (ret, answer, st, fl) \<Rightarrow>
          (let w1 = w\<lparr>w_flow := fl, w_exit := (w_exit w \<or> da_exit answer)\<rparr>;
               w2 = (case da_errmsg answer of None \<Rightarrow> w1 | Some m \<Rightarrow> upd_shm (set_shm_connector_errmsg (we_id E) (Some m)) w1);
               w3 = (if type = TYPE_POSTGRES \<and> has_flag (w_conn w2) CONNFLAG_SCHEMA_SYNC_MODE then go_state E STATE_SCHEMA_SYNC_DONE w2 else w2)
           in if da_batchId answer = SYNCHDB_INVALID_BATCH_ID then (w3, None)
              else let w4 = upd_shm (set_shm_connector_statistics (we_id E) (increment_connector_statistics st STATS_BATCH_COMPLETION 1))
                              (call (Call_mark_complete (da_batchId answer)) w3)
                   in (if show_offset then refresh_offset E w4 else w4, None)))"

text \<open>Reading from the Openlog Replicator: the handler and the socket reader own different parts of the client's state.\<close>

definition poll_olr :: "('db, 'd, 'tid) worker_env \<Rightarrow> ConnectorType \<Rightarrow> 'db worker \<Rightarrow> 'db outcome" where
  "poll_olr E type w =
     (case olr_client_get_change (we_read_buffer_size E) (olr_handler (poll_env E w) (we_olr E)) (w_net w) (fl_olr (w_flow w)) (zero_stats, False, w_flow w) of
        Inl e \<Rightarrow> fail_with E e w
      | Inr (ret, ne, c, st, sendconfirm, fl) \<Rightarrow>
          (let c1 = c\<lparr>g_scn := g_scn (fl_olr fl), g_c_scn := g_c_scn (fl_olr fl), g_c_idx := g_c_idx (fl_olr fl)\<rparr>;
               w1 = w\<lparr>w_flow := fl\<lparr>fl_olr := c1\<rparr>, w_net := ne\<rparr>;
               confirmed = (if sendconfirm
                  then let (_, sent) = olr_client_confirm_scn (we_pack E) (ol_source (ci_olr (w_conn w1))) c1;
                           w2 = fold (\<lambda>m. call (Call_send m)) sent w1
                       in case olr_client_write_scn_state (we_writable E) (we_clock E) (we_flush_interval_ms E) type (ci_name (w_conn w2))
                                 (ci_dstdb (w_conn w2)) False c1 (w_files w2) of
                            Inl e \<Rightarrow> fail_with E e w2
                          | Inr (flushed, c2, fs) \<Rightarrow>
                              (let w3 = upd_olr (\<lambda>_. c2) (w2\<lparr>w_files := fs\<rparr>) in (if flushed then refresh_offset E w3 else w3, None))
                  else (w1, None))
           in then_do confirmed (\<lambda>w4. (if ret = -2 then w4
                else upd_shm (set_shm_connector_statistics (we_id E) (increment_connector_statistics st STATS_BATCH_COMPLETION 1)) w4, None))))"

definition loop_syncing :: "('db, 'd, 'tid) worker_env \<Rightarrow> ConnectorType \<Rightarrow> 'db worker \<Rightarrow> 'db outcome" where
  "loop_syncing E type w =
     (if type = TYPE_MYSQL \<or> type = TYPE_ORACLE \<or> type = TYPE_POSTGRES
      then (if has_any_snapshot_flag (w_conn w) \<and> ci_snapengine (w_conn w) = ENGINE_FDW then launch_fdw_based_snapshot E type w
            else poll_debezium E type True w)
      else if type = TYPE_SQLSERVER
      then poll_debezium E type True (w\<lparr>w_conn := (w_conn w)\<lparr>ci_snapengine := ENGINE_DEBEZIUM\<rparr>\<rparr>)
      else if type = TYPE_OLR
      then (if \<not> with_olr (fe_cfg (we_flow E))
            then raise_with E ''OLR connector is not enabled in this synchdb build'' ''OLR connector is not enabled in this synchdb build'' w
            else if has_any_snapshot_flag (w_conn w)
            then (if ci_snapengine (w_conn w) = ENGINE_DEBEZIUM then poll_debezium E type False w else launch_fdw_based_snapshot E type w)
            else if has_flag (w_conn w) CONNFLAG_NO_CDC_MODE
            then ((upd_shm (set_shm_connector_errmsg (we_id E) (Some ''CDC is not requested'')) w)\<lparr>w_exit := True\<rparr>, None)
            else if is_connected (fl_olr (w_flow w)) then poll_olr E type w
            else try_reconnect_olr E (w_conn w) w)
      else raise_with E ''unsupported connector type'' ''unsupported connector type'' w)"

text \<open>
  The end of a snapshot or schema sync. The complement of the snapshot flag clears the three lowest bits
  (see \<open>not_CONNFLAG_INITIAL_SNAPSHOT_MODE\<close>).
\<close>

definition leave_schema_sync :: "('db, 'd, 'tid) worker_env \<Rightarrow> 'db worker \<Rightarrow> 'db worker" where
  "leave_schema_sync E w =
     (let w1 = go_state E STATE_PAUSED (upd_flag (\<lambda>f. f AND not_CONNFLAG_SCHEMA_SYNC_MODE) w);
          w2 = (if has_flag (w_conn w1) CONNFLAG_INITIAL_SNAPSHOT_MODE then upd_flag (\<lambda>f. f AND not_CONNFLAG_INITIAL_SNAPSHOT_MODE) w1 else w1)
      in upd_shm (set_shm_connector_stage (we_id E) STAGE_CHANGE_DATA_CAPTURE) w2)"

definition finish_debezium :: "('db, 'd, 'tid) worker_env \<Rightarrow> ConnectorType \<Rightarrow> 'db worker \<Rightarrow> 'db outcome" where
  "finish_debezium E type w =
     (if has_flag (w_conn w) CONNFLAG_SCHEMA_SYNC_MODE
      then let w1 = call Call_stop (leave_schema_sync E w)
           in (if ci_snapengine (w_conn w1) = ENGINE_FDW then populate_debezium_metadata E type w1 else w1, None)
      else then_do
        (if has_flag (w_conn w) CONNFLAG_INITIAL_SNAPSHOT_MODE
         then let w1 = go_state E STATE_SYNCING (upd_flag (\<lambda>f. f AND not_CONNFLAG_INITIAL_SNAPSHOT_MODE) w);
                  w2 = (if ci_snapengine (w_conn w1) = ENGINE_FDW then populate_debezium_metadata E type w1 else w1);
                  w3 = upd_shm (set_shm_connector_errmsg (we_id E) None) (w2\<lparr>w_mode := ''initial''\<rparr>)
              in start_debezium_engine E type w3
         else (w, None))
        (\<lambda>w4. (upd_shm (set_shm_connector_stage (we_id E) STAGE_CHANGE_DATA_CAPTURE) w4, None)))"

definition finish_olr :: "('db, 'd, 'tid) worker_env \<Rightarrow> ConnectorType \<Rightarrow> 'db worker \<Rightarrow> 'db outcome" where
  "finish_olr E type w =
     (let w1 = (if has_flag (w_conn w) CONNFLAG_SCHEMA_SYNC_MODE then leave_schema_sync E w
                else upd_shm (set_shm_connector_stage (we_id E) STAGE_CHANGE_DATA_CAPTURE)
                  (if has_flag (w_conn w) CONNFLAG_INITIAL_SNAPSHOT_MODE
                   then go_state E STATE_SYNCING (upd_flag (\<lambda>f. f AND not_CONNFLAG_INITIAL_SNAPSHOT_MODE) w) else w));
          scn = od_oracle_scn (ci_offsetdata (w_conn w1));
          w2 = upd_olr (olr_client_set_scns scn scn 0) w1
      in case olr_client_write_scn_state (we_writable E) (we_clock E) (we_flush_interval_ms E) TYPE_OLR (ci_name (w_conn w2))
                (ci_dstdb (w_conn w2)) True (fl_olr (w_flow w2)) (w_files w2) of
           Inl e \<Rightarrow> fail_with E e w2
         | Inr (_, c, fs) \<Rightarrow>
             (case olr_client_write_snapshot_state (we_writable E) type (ci_name (w_conn w2)) (ci_dstdb (w_conn w2)) True fs of
                Inl e \<Rightarrow> fail_with E e w2
              | Inr (_, fs') \<Rightarrow>
                  (let w3 = upd_olr (\<lambda>_. c) (w2\<lparr>w_files := fs'\<rparr>);
                       w4 = (if ci_snapengine (w_conn w3) = ENGINE_DEBEZIUM
                             then (call Call_destroy_jvm (call Call_stop w3))\<lparr>w_flow := (w_flow w3)\<lparr>fl_cache := Map.empty\<rparr>\<rparr> else w3)
                   in (upd_shm (set_shm_connector_errmsg (we_id E) None) (w4\<lparr>w_mode := ''initial''\<rparr>), None))))"

definition loop_schema_sync_done :: "('db, 'd, 'tid) worker_env \<Rightarrow> ConnectorType \<Rightarrow> 'db worker \<Rightarrow> 'db outcome" where
  "loop_schema_sync_done E type w =
     (if type = TYPE_MYSQL \<or> type = TYPE_SQLSERVER \<or> type = TYPE_ORACLE \<or> type = TYPE_POSTGRES then finish_debezium E type w
      else if is_olr E type then finish_olr E type w
      else (w, None))"

text \<open>\<open>None\<close> in the result is the end of the loop.\<close>

definition main_loop_step :: "('db, 'd, 'tid) worker_env \<Rightarrow> ConnectorType \<Rightarrow> 'db worker \<Rightarrow> 'db outcome option" where
  "main_loop_step E type w =
     (if w_exit w then None
      else Some (then_do (processRequestInterrupt E type w) (\<lambda>w1.
        case get_shm_connector_state_enum (w_shm w1) (we_id E) of
          STATE_SYNCING \<Rightarrow> loop_syncing E type w1
        | STATE_SCHEMA_SYNC_DONE \<Rightarrow> loop_schema_sync_done E type w1
        | _ \<Rightarrow> (w1, None))))"

text \<open>
  The loop itself: one list entry per iteration, what other processes did to the shared memory before it and the environment
  it finds; the list ends where a shutdown is requested.
\<close>

fun main_loop :: "((shm \<Rightarrow> shm) \<times> ('db, 'd, 'tid) worker_env) list \<Rightarrow> ConnectorType \<Rightarrow> 'db worker \<Rightarrow> 'db outcome" where
  "main_loop [] type w = (w, None)"
| "main_loop ((others, E) # its) type w =
     (case main_loop_step E type (upd_shm others w) of
        None \<Rightarrow> (upd_shm others w, None)
      | Some r \<Rightarrow> then_do r (main_loop its type))"

section \<open>The start of a worker\<close>

definition setup_environment :: "('db, 'd, 'tid) worker_env \<Rightarrow> int \<Rightarrow> 'db worker \<Rightarrow> 'db outcome" where
  "setup_environment E MyProcPid w =
     (let w1 = upd_shm (synchdb_init_shmem (we_workers E)) w
      in if get_shm_connector_pid (w_shm w1) (we_id E) \<noteq> InvalidPid
         then (w1, Some (PgError None ''synchdb worker is already running''))
         else let c = slot (w_shm w1) (we_id E)
              in (upd_shm (set_shm_connector_pid (we_id E) MyProcPid) (w1\<lparr>w_conn := ac_conninfo c, w_mode := ac_snapshotMode c\<rparr>),
                  we_session E))"

definition is_null :: "string \<Rightarrow> bool" where
  "is_null s \<longleftrightarrow> strcaseeq s ''null''"

definition jvm_options :: "('db, 'd, 'tid) worker_env \<Rightarrow> JMXConnectionInfo \<Rightarrow> string list" where
  "jvm_options E jmx =
     [''-Djava.class.path='' @ we_jar E, ''-Xrs'', ''-Xmx'' @ show_int (we_heap E) @ ''m'',
      ''-XX:MaxDirectMemorySize='' @ show_int (we_direct E) @ ''m''] @
     (if \<not> is_null (jx_listenaddr jmx) \<and> \<not> is_null (jx_rmiserveraddr jmx)
      then [''-Dcom.sun.management.jmxremote'',
            ''-Dcom.sun.management.jmxremote.host='' @ jx_listenaddr jmx,
            ''-Dcom.sun.management.jmxremote.port='' @ show_nat (jx_port jmx),
            ''-Djava.rmi.server.hostname='' @ jx_rmiserveraddr jmx,
            ''-Dcom.sun.management.jmxremote.rmi.port='' @ show_nat (jx_rmiport jmx)]
         @ (if jx_auth jmx
            then [''-Dcom.sun.management.jmxremote.authenticate=true'',
                  ''-Dcom.sun.management.jmxremote.password.file='' @ jx_auth_passwdfile jmx,
                  ''-Dcom.sun.management.jmxremote.access.file='' @ jx_auth_accessfile jmx]
            else [''-Dcom.sun.management.jmxremote.authenticate=false''])
         @ (if jx_ssl jmx
            then [''-Dcom.sun.management.jmxremote.ssl=true'',
                  ''-Djavax.net.ssl.keyStore='' @ jx_ssl_keystore jmx,
                  ''-Djavax.net.ssl.keyStorePassword='' @ jx_ssl_keystore_pass jmx]
               @ (if is_null (jx_ssl_truststore jmx) then []
                  else [''-Djavax.net.ssl.trustStore='' @ jx_ssl_truststore jmx,
                        ''-Djavax.net.ssl.trustStorePassword='' @ jx_ssl_truststore_pass jmx])
            else [''-Dcom.sun.management.jmxremote.ssl=false''])
      else []) @
     (if \<not> is_null (jx_exporter_conf jmx) \<and> \<not> is_null (jx_exporter jmx)
      then [''-javaagent:'' @ jx_exporter jmx @ ''='' @ show_nat (jx_exporter_port jmx) @ '':'' @ jx_exporter_conf jmx] else [])"

definition initialize_jvm :: "('db, 'd, 'tid) worker_env \<Rightarrow> JMXConnectionInfo \<Rightarrow> 'db worker \<Rightarrow> 'db outcome" where
  "initialize_jvm E jmx w =
     (let w1 = call (Call_create_jvm (jvm_options E jmx)) w; w2 = w1\<lparr>w_jvm := True\<rparr>
      in case we_jvm E of
           JVM_NO_JAR \<Rightarrow> raise_with E ''Cannot find DBZ engine jar file'' (''Cannot find DBZ engine jar file at '' @ we_jar E) w
         | JVM_NO_VM \<Rightarrow> raise_with E ''Unable to Launch JVM'' ''Failed to create Java VM'' w1
         | JVM_NO_ENGINE \<Rightarrow> raise_with E ''Failed to initialize Debezium engine'' ''Failed to initialize Debezium engine'' w2
         | JVM_OK \<Rightarrow> (w2, None))"

definition clear_offset :: "('db, 'd, 'tid) worker_env \<Rightarrow> 'db worker \<Rightarrow> 'db worker" where
  "clear_offset E = upd_shm (upd_slot (we_id E) (\<lambda>c. c\<lparr>ac_dbzoffset := []\<rparr>))"

definition set_engine :: "('db, 'd, 'tid) worker_env \<Rightarrow> 'db worker \<Rightarrow> 'db worker" where
  "set_engine E w = w\<lparr>w_conn := (w_conn w)\<lparr>ci_snapengine := we_snapshot_engine E\<rparr>\<rparr>"

text \<open>How a start goes on: into the main loop, to a normal exit of the process, or to an error.\<close>

datatype start_result = Start_loop | Start_exit | Start_error pg_error

definition started :: "'db outcome \<Rightarrow> 'db worker \<times> start_result" where
  "started r = (case r of (w, None) \<Rightarrow> (w, Start_loop) | (w, Some e) \<Rightarrow> (w, Start_error e))"

definition start_debezium_connector :: "('db, 'd, 'tid) worker_env \<Rightarrow> ConnectorType \<Rightarrow> 'db worker \<Rightarrow> 'db outcome" where
  "start_debezium_connector E type w =
     then_do (initialize_jvm E (ci_jmx (w_conn w)) w) (\<lambda>w1.
       let w2 = set_engine E (refresh_offset E (clear_offset E w1))
       in if ci_snapengine (w_conn w2) = ENGINE_DEBEZIUM \<or> type = TYPE_SQLSERVER then start_debezium_engine E type w2
          else case dbz_read_snapshot_state type (get_shm_dbz_offset (w_shm w2) (we_id E)) of
                 Inl e \<Rightarrow> fail_with E e w2
               | Inr isSnapshotDone \<Rightarrow>
                   (let (snapshot, cdc) = is_snapshot_cdc_needed (w_mode w2) isSnapshotDone;
                        w3 = (if cdc then w2 else upd_flag (\<lambda>f. f OR CONNFLAG_NO_CDC_MODE) w2)
                    in if snapshot then (go_state E STATE_SYNCING (upd_flag (\<lambda>f. f OR CONNFLAG_INITIAL_SNAPSHOT_MODE) w3), None)
                       else start_debezium_engine E type w3))"

definition start_olr_replication :: "('db, 'd, 'tid) worker_env \<Rightarrow> ConnectorType \<Rightarrow> 'db worker \<Rightarrow> 'db outcome" where
  "start_olr_replication E type w =
     (case olr_client_init_scn_state type (ci_name (w_conn w)) (ci_dstdb (w_conn w)) (fl_olr (w_flow w)) (w_files w) of
        Inl e \<Rightarrow> fail_with E e w
      | Inr (found, c) \<Rightarrow>
          (let w1 = (if found then refresh_offset E (clear_offset E (upd_olr (\<lambda>_. c) w)) else w);
               (ret, c1) = olr_client_init (we_reachable E) (fl_olr (w_flow w1));
               w2 = upd_olr (\<lambda>_. c1) w1
           in if ret \<noteq> 0 then raise_with E ''failed to init and connect to olr server'' ''failed to init and connect to olr server'' w2
              else case request_replication E (ol_source (ci_olr (w_conn w2))) w2 of
                     (_, (w3, Some e)) \<Rightarrow> (w3, Some e)
                   | (ret, (w3, None)) \<Rightarrow>
                       if ret = RES_REPLICATE then (go_state E STATE_SYNCING w3, None)
                       else if ret = RES_INVALID_DATABASE then raise_with E ''invalid data source requested'' ''invalid data source requested'' w3
                       else if ret = RES_INVALID_COMMAND then raise_with E ''invalid OLR command'' ''invalid OLR command'' w3
                       else raise_with E ''openlog replicator is not ready to replicate'' ''openlog replicator is not ready to replicate'' w3))"

definition start_olr_connector :: "('db, 'd, 'tid) worker_env \<Rightarrow> ConnectorType \<Rightarrow> 'db worker \<Rightarrow> 'db worker \<times> start_result" where
  "start_olr_connector E type w =
     (let w1 = set_engine E w
      in case olr_client_read_snapshot_state type (ci_name (w_conn w1)) (ci_dstdb (w_conn w1)) (w_files w1) of
           Inl e \<Rightarrow> started (fail_with E e w1)
         | Inr state \<Rightarrow>
             (let (snapshot, cdc) = is_snapshot_cdc_needed (w_mode w1) (state = Some True);
                  w2 = (if cdc then w1 else upd_flag (\<lambda>f. f OR CONNFLAG_NO_CDC_MODE) w1)
              in if snapshot
                 then let w3 = upd_flag (\<lambda>f. f OR CONNFLAG_INITIAL_SNAPSHOT_MODE) w2
                      in started (if ci_snapengine (w_conn w3) = ENGINE_DEBEZIUM
                                  then then_do (initialize_jvm E (ci_jmx (w_conn w3)) w3) (start_debezium_engine E type)
                                  else (go_state E STATE_SYNCING w3, None))
                 else if has_flag (w_conn w2) CONNFLAG_NO_CDC_MODE
                 then (upd_shm (set_shm_connector_errmsg (we_id E) (Some ''CDC not requested'')) w2, Start_exit)
                 else started (start_olr_replication E type w2)))"

definition prepare_worker :: "('db, 'd, 'tid) worker_env \<Rightarrow> ConnectorType \<Rightarrow> 'db worker \<Rightarrow> 'db outcome" where
  "prepare_worker E type w =
     (let w1 = upd_shm (set_shm_connector_errmsg (we_id E) None)
                 (upd_shm (set_shm_connector_stage (we_id E) STAGE_CHANGE_DATA_CAPTURE) (go_state E STATE_INITIALIZING w))
      in case fc_initFormatConverter type (w_conv w1) of
           Inl e \<Rightarrow> fail_with E e w1
         | Inr cs \<Rightarrow> reload_objmap E type (w1\<lparr>w_conv := cs, w_flow := (w_flow w1)\<lparr>fl_cache := Map.empty\<rparr>\<rparr>))"

text \<open>The part of \<^verbatim>\<open>synchdb_engine_main\<close> before the main loop.\<close>

definition engine_start :: "('db, 'd, 'tid) worker_env \<Rightarrow> int \<Rightarrow> 'db worker \<Rightarrow> 'db worker \<times> start_result" where
  "engine_start E MyProcPid w =
     (case setup_environment E MyProcPid w of
        (w1, Some e) \<Rightarrow> (w1, Start_error e)
      | (w1, None) \<Rightarrow>
          (let type = get_shm_connector_type_enum (w_shm w1) (we_id E)
           in case prepare_worker E type w1 of
                (w2, Some e) \<Rightarrow> (w2, Start_error e)
              | (w2, None) \<Rightarrow>
                  if type = TYPE_MYSQL \<or> type = TYPE_SQLSERVER \<or> type = TYPE_ORACLE \<or> type = TYPE_POSTGRES
                  then started (start_debezium_connector E type w2)
                  else if type = TYPE_OLR \<and> with_olr (fe_cfg (we_flow E)) then start_olr_connector E type w2
                  else started (raise_with E (if type = TYPE_OLR then ''OLR connector is not enabled in this synchdb build.''
                                              else ''Unsupported connector type'')
                         (if type = TYPE_OLR then ''OLR connector is not enabled in this synchdb build.'' else ''Unsupported connector type'') w2)))"

section \<open>The end of a worker\<close>

definition cleanup :: "('db, 'd, 'tid) worker_env \<Rightarrow> ConnectorType \<Rightarrow> 'db worker \<Rightarrow> 'db outcome" where
  "cleanup E type w =
     then_do
       (if is_olr E type
        then let ci = ac_conninfo (slot (w_shm w) (we_id E))
             in case olr_client_write_scn_state (we_writable E) (we_clock E) (we_flush_interval_ms E) type (ci_name ci) (ci_dstdb ci) True
                       (fl_olr (w_flow w)) (w_files w) of
                  Inl e \<Rightarrow> fail_with E e w
                | Inr (_, c, fs) \<Rightarrow> (upd_olr (\<lambda>_. c) (w\<lparr>w_files := fs\<rparr>), None)
        else let w1 = call Call_stop w in (if w_jvm w1 then (call Call_destroy_jvm w1)\<lparr>w_jvm := False\<rparr> else w1, None))
       (\<lambda>w2. case fc_deinitFormatConverter type (w_conv w2) of
                Inl e \<Rightarrow> fail_with E e w2
              | Inr cs \<Rightarrow> (w2\<lparr>w_conv := cs, w_flow := (w_flow w2)\<lparr>fl_cache := Map.empty\<rparr>\<rparr>, None))"

definition synchdb_detach_shmem :: "('db, 'd, 'tid) worker_env \<Rightarrow> int \<Rightarrow> 'db worker \<Rightarrow> 'db outcome" where
  "synchdb_detach_shmem E MyProcPid w =
     (let w1 = (if get_shm_connector_pid (w_shm w) (we_id E) = MyProcPid
                then go_state E STATE_UNDEF (upd_shm (set_shm_connector_pid (we_id E) InvalidPid) w) else w)
      in cleanup E (ac_type (slot (w_shm w1) (we_id E))) w1)"

text \<open>
  A whole life of a worker: the exit callback runs after every end, also when the start failed. After the main loop of a
  connector that did not begin with a snapshot, an Openlog connection is shut down.
\<close>

definition synchdb_engine_main ::
  "('db, 'd, 'tid) worker_env \<Rightarrow> int \<Rightarrow> ((shm \<Rightarrow> shm) \<times> ('db, 'd, 'tid) worker_env) list \<Rightarrow> 'db worker \<Rightarrow> 'db outcome" where
  "synchdb_engine_main E MyProcPid its w =
     (case engine_start E MyProcPid w of
        (w1, Start_loop) \<Rightarrow>
          (let type = get_shm_connector_type_enum (w_shm w1) (we_id E)
           in case main_loop its type w1 of
                (w2, Some e) \<Rightarrow> synchdb_detach_shmem E MyProcPid w2
              | (w2, None) \<Rightarrow> synchdb_detach_shmem E MyProcPid
                  (if is_olr E type \<and> \<not> has_flag (w_conn w1) CONNFLAG_INITIAL_SNAPSHOT_MODE then upd_olr olr_client_shutdown w2 else w2))
      | (w1, _) \<Rightarrow> synchdb_detach_shmem E MyProcPid w1)"

text \<open>The state of the process that the server starts for a connector.\<close>

definition new_worker :: "shm \<Rightarrow> files \<Rightarrow> net_env \<Rightarrow> 'db \<Rightarrow> 'db worker" where
  "new_worker s fs ne db =
     \<lparr>w_flow = \<lparr>fl_shm = s, fl_isInSnapshot = False, fl_cache = Map.empty, fl_olr = olr_client0, fl_db = db\<rparr>,
      w_conn = zero_conninfo, w_mode = [], w_conv = conv_state0, w_net = ne, w_files = fs, w_exit = False, w_jvm = False, w_calls = []\<rparr>"

end
