(* ===== verification/Conn_System.thy ===== *)
theory Conn_System
  imports Conn_Worker
begin

text \<open>
  The connectors as a system: what a worker may change of the shared memory, the state machine of its requests, and the invariant
  of the slots under every interleaving of the SQL functions with the workers.
\<close>

section \<open>What a worker may change\<close>

text \<open>The part of a slot that belongs to the function that started the connector.\<close>

definition identity :: "ActiveConnectors \<Rightarrow> int \<times> ConnectorType \<times> string \<times> ConnectionInfo" where
  "identity c = (ac_pid c, ac_type c, ac_snapshotMode c, ac_conninfo c)"

definition own_slot_only :: "nat \<Rightarrow> shm \<Rightarrow> shm \<Rightarrow> bool" where
  "own_slot_only i s s' \<longleftrightarrow> (\<forall>j. valid_slot s' j = valid_slot s j) \<and> (\<forall>j. j \<noteq> i \<longrightarrow> slot s' j = slot s j)
     \<and> identity (slot s' i) = identity (slot s i)"

lemma own_slot_only_refl [simp]: "own_slot_only i s s"
  by (simp add: own_slot_only_def)

lemma own_slot_only_trans: "own_slot_only i s s1 \<Longrightarrow> own_slot_only i s1 s2 \<Longrightarrow> own_slot_only i s s2"
  by (simp add: own_slot_only_def)

lemma own_slot_only_valid: "own_slot_only i s s' \<Longrightarrow> valid_slot s' j = valid_slot s j"
  by (simp add: own_slot_only_def)

lemma progress_own_slot_only: "progress_only i s s' \<Longrightarrow> own_slot_only i s s'"
  by (simp add: progress_only_def own_slot_only_def connector_frame_def identity_def)

lemma upd_slot_invalid: "\<not> valid_slot s i \<Longrightarrow> upd_slot i f s = s"
  by (cases s) (simp_all add: upd_slot_def valid_slot_def list_update_beyond)

lemma own_slot_only_upd:
  assumes "own_slot_only i s s1" and "\<And>c. identity (f c) = identity c"
  shows "own_slot_only i s (upd_slot i f s1)"
proof (cases "valid_slot s1 i")
  case True
  then show ?thesis using assms by (simp add: own_slot_only_def)
next
  case False
  then show ?thesis using assms(1) by (simp add: upd_slot_invalid)
qed

lemma own_slot_only_set [intro!]:
  assumes "own_slot_only i s s1"
  shows "own_slot_only i s (set_shm_connector_state i st s1)" "own_slot_only i s (set_shm_connector_stage i sg s1)"
    "own_slot_only i s (set_shm_connector_errmsg i msg s1)" "own_slot_only i s (reset_shm_request_state i s1)"
    "own_slot_only i s (set_shm_connector_statistics i stats s1)" "own_slot_only i s (set_shm_dbz_offset cfg off c i s1)"
    "own_slot_only i s (ensure_stage i sg s1)"
  using assms own_slot_only_upd [OF assms]
  by (auto simp: set_shm_connector_state_def set_shm_connector_stage_def set_shm_connector_errmsg_def reset_shm_request_state_def
      set_shm_connector_statistics_def set_shm_dbz_offset_def ensure_stage_def identity_def split: option.split)

text \<open>How the worker's helpers act on the shared memory.\<close>

lemma w_shm_simps [simp]:
  "w_shm (upd_shm f w) = f (w_shm w)" "w_shm (upd_olr g w) = w_shm w" "w_shm (call c w) = w_shm w" "w_shm (upd_flag h w) = w_shm w"
  "w_shm (go_state E st w) = set_shm_connector_state (we_id E) st (w_shm w)"
  "w_shm (clear_request E w) = reset_shm_request_state (we_id E) (w_shm w)"
  "w_shm (refresh_offset E w) = set_shm_dbz_offset (fe_cfg (we_flow E)) (we_offset E) (fl_olr (w_flow w)) (we_id E) (w_shm w)"
  by (simp_all add: upd_shm_def upd_olr_def call_def upd_flag_def go_state_def clear_request_def refresh_offset_def)

lemma w_shm_calls [simp]: "w_shm (fold (\<lambda>m. call (f m)) ms w) = w_shm w"
  by (induction ms arbitrary: w) simp_all

abbreviation keeps :: "('db, 'd, 'tid) worker_env \<Rightarrow> shm \<Rightarrow> 'db worker \<times> 'b \<Rightarrow> bool" where
  "keeps E s r \<equiv> own_slot_only (we_id E) s (w_shm (fst r))"

lemma keeps_raise [intro!]: "own_slot_only (we_id E) s (w_shm w) \<Longrightarrow> keeps E s (raise_with E m t w)"
  by (auto simp: raise_with_def)

lemma keeps_fail [intro!]: "own_slot_only (we_id E) s (w_shm w) \<Longrightarrow> keeps E s (fail_with E e w)"
  by (auto simp: fail_with_def split: pg_error.split option.split)

lemma keeps_then_do [intro!]:
  assumes "keeps E s r" and "\<And>w. own_slot_only (we_id E) s (w_shm w) \<Longrightarrow> keeps E s (f w)"
  shows "keeps E s (then_do r f)"
proof -
  obtain w e where "r = (w, e)" by (cases r)
  then show ?thesis using assms(1) assms(2) [of w] by (cases e) (simp_all add: then_do_def)
qed

lemma replication_request_shm: "replication_request E src start w = (ret, w') \<Longrightarrow> w_shm w' = w_shm w"
  by (auto simp: replication_request_def split: prod.splits)

lemma keeps_request_replication:
  assumes "own_slot_only (we_id E) s (w_shm w)"
  shows "keeps E s (snd (request_replication E src w))"
  using assms by (auto simp: request_replication_def Let_def split: prod.split dest!: replication_request_shm)

lemma keeps_try_reconnect [intro!]:
  assumes "own_slot_only (we_id E) s (w_shm w)"
  shows "keeps E s (try_reconnect_olr E ci w)"
proof -
  obtain ret c where i: "olr_client_init (we_reachable E) (fl_olr (w_flow w)) = (ret, c)" by fastforce
  obtain ret2 w2 e where r: "request_replication E (ol_source (ci_olr ci)) (upd_olr (\<lambda>_. c) w) = (ret2, w2, e)" by (metis prod_cases3)
  have "own_slot_only (we_id E) s (w_shm w2)"
    using keeps_request_replication [of E s "upd_olr (\<lambda>_. c) w" "ol_source (ci_olr ci)"] assms r by simp
  then show ?thesis using assms by (cases e) (auto simp: try_reconnect_olr_def i r Let_def)
qed

lemma keeps_in_state:
  assumes "\<And>w. own_slot_only (we_id E) s (w_shm w) \<Longrightarrow> keeps E s (f w)" and "own_slot_only (we_id E) s (w_shm w)"
  shows "keeps E s (in_state E st f w)"
  unfolding in_state_def Let_def using assms by (intro keeps_then_do assms(1)) auto

lemma keeps_reload [intro!]: "own_slot_only (we_id E) s (w_shm w) \<Longrightarrow> keeps E s (reload_objmap E type w)"
  by (auto simp: reload_objmap_def split: sum.split pg_error.split option.split prod.split)

lemma keeps_requests:
  assumes "own_slot_only (we_id E) s (w_shm w)"
  shows "keeps E s (do_pause E type w)" "keeps E s (do_resume E type w)" "keeps E s (do_offset_update E type req w)"
    "keeps E s (do_restart E type req w)"
proof -
  show "keeps E s (do_pause E type w)" using assms by (auto simp: do_pause_def Let_def)
  show "keeps E s (do_resume E type w)" using assms by (auto simp: do_resume_def Let_def)
  show "keeps E s (do_offset_update E type req w)" using assms by (auto simp: do_offset_update_def Let_def split: prod.split)
  show "keeps E s (do_restart E type req w)" using assms by (auto simp: do_restart_def Let_def)
qed

lemma keeps_processRequestInterrupt [intro!]:
  assumes "own_slot_only (we_id E) s (w_shm w)"
  shows "keeps E s (processRequestInterrupt E type w)"
  using assms keeps_requests [OF assms] keeps_in_state [OF keeps_reload assms]
    keeps_in_state [OF _ assms, where f = "\<lambda>w. (call c w, None)" for c]
  by (auto simp: processRequestInterrupt_def Let_def)

lemma w_shm_populate [simp]: "w_shm (populate_debezium_metadata E type w) = w_shm w"
  by (simp add: populate_debezium_metadata_def Let_def split: option.split)

lemma keeps_start_engine [intro!]: "own_slot_only (we_id E) s (w_shm w) \<Longrightarrow> keeps E s (start_debezium_engine E type w)"
  by (auto simp: start_debezium_engine_def Let_def)

lemma keeps_fdw [intro!]:
  assumes "own_slot_only (we_id E) s (w_shm w)"
  shows "keeps E s (launch_fdw_based_snapshot E type w)"
  using assms by (auto simp: launch_fdw_based_snapshot_def Let_def split: sum.split pg_error.split option.split)

lemma keeps_poll_debezium:
  assumes "own_slot_only (we_id E) s (w_shm w)" and "valid_slot (w_shm w) (we_id E)" and "ac_state (slot (w_shm w) (we_id E)) = STATE_SYNCING"
  shows "keeps E s (poll_debezium E type b w)"
proof (cases "dbz_engine_get_change (dbz_handler (poll_env E w)) (we_buffer E) (zero_stats, w_flow w)")
  case (Inl e)
  then show ?thesis using assms(1) by (auto simp: poll_debezium_def)
next
  case (Inr r)
  then obtain ret answer st fl where r: "dbz_engine_get_change (dbz_handler (poll_env E w)) (we_buffer E) (zero_stats, w_flow w)
      = Inr (ret, answer, st, fl)" by (cases r) auto
  have "flow_step (poll_env E w) (w_flow w) fl"
    using batch_flow_step [OF r] assms(2,3) by (simp add: poll_env_def)
  then have "own_slot_only (we_id E) (w_shm w) (fl_shm fl)"
    by (auto simp: flow_step_def poll_env_def intro: progress_own_slot_only)
  from own_slot_only_trans [OF assms(1) this] show ?thesis
    by (auto simp: poll_debezium_def r Let_def split: option.split)
qed

lemma keeps_poll_olr:
  assumes "own_slot_only (we_id E) s (w_shm w)" and "valid_slot (w_shm w) (we_id E)" and "ac_state (slot (w_shm w) (we_id E)) = STATE_SYNCING"
  shows "keeps E s (poll_olr E type w)"
proof (cases "olr_client_get_change (we_read_buffer_size E) (olr_handler (poll_env E w) (we_olr E)) (w_net w) (fl_olr (w_flow w)) (zero_stats, False, w_flow w)")
  case (Inl e)
  then show ?thesis using assms(1) by (auto simp: poll_olr_def)
next
  case (Inr r)
  define h where "h = olr_handler (poll_env E w) (we_olr E)"
  from Inr obtain ret ne c st b fl where r: "olr_client_get_change (we_read_buffer_size E) h (w_net w) (fl_olr (w_flow w))
      (zero_stats, False, w_flow w) = Inr (ret, ne, c, st, b, fl)" by (cases r) (auto simp: h_def)
  obtain nb buf conn ne' where n: "netio_read (is_connected (fl_olr (w_flow w))) (w_net w) (g_strinfo (fl_olr (w_flow w)))
      (we_read_buffer_size E) = (nb, buf, conn, ne')" by (metis prod_cases4)
  have "own_slot_only (we_id E) s (fl_shm fl)"
  proof (cases "is_connected (fl_olr (w_flow w)) \<and> 0 < nb")
    case True
    then obtain o' c' r' st' where ev: "olr_events h buf (g_offset (fl_olr (w_flow w))) 0 (-1) (zero_stats, False, w_flow w)
        = Inr (o', c', r', st', b, fl)"
      using r n by (cases "olr_events h buf (g_offset (fl_olr (w_flow w))) 0 (-1) (zero_stats, False, w_flow w)")
        (auto simp: olr_client_get_change_def Let_def)
    from olr_batch_step [OF ev [unfolded h_def]] assms(2,3) have "flow_step (poll_env E w) (w_flow w) fl" by (simp add: poll_env_def)
    then have "own_slot_only (we_id E) (w_shm w) (fl_shm fl)"
      by (auto simp: flow_step_def poll_env_def intro: progress_own_slot_only)
    with assms(1) show ?thesis by (rule own_slot_only_trans)
  next
    case False
    then have "fl = w_flow w" using r n by (auto simp: olr_client_get_change_def Let_def split: if_split_asm)
    then show ?thesis using assms(1) by simp
  qed
  then show ?thesis
    by (auto simp: poll_olr_def r [unfolded h_def] Let_def split: prod.split sum.split)
qed

lemma keeps_loop_syncing:
  assumes "own_slot_only (we_id E) s (w_shm w)" and "valid_slot (w_shm w) (we_id E)" and "ac_state (slot (w_shm w) (we_id E)) = STATE_SYNCING"
  shows "keeps E s (loop_syncing E type w)"
  using assms keeps_poll_debezium [OF assms(1-3)] keeps_poll_olr [OF assms(1-3)]
    keeps_poll_debezium [of E s "w\<lparr>w_conn := (w_conn w)\<lparr>ci_snapengine := ENGINE_DEBEZIUM\<rparr>\<rparr>"]
  by (auto simp: loop_syncing_def)

lemma keeps_leave [intro!]:
  "own_slot_only (we_id E) s (w_shm w) \<Longrightarrow> own_slot_only (we_id E) s (w_shm (leave_schema_sync E w))"
  by (auto simp: leave_schema_sync_def Let_def)

lemma keeps_finish_debezium [intro!]:
  "own_slot_only (we_id E) s (w_shm w) \<Longrightarrow> keeps E s (finish_debezium E type w)"
  by (auto simp: finish_debezium_def Let_def)

lemma keeps_finish_olr [intro!]:
  assumes "own_slot_only (we_id E) s (w_shm w)"
  shows "keeps E s (finish_olr E type w)"
  using assms by (auto simp: finish_olr_def Let_def split: sum.split prod.split)

lemma keeps_schema_sync_done [intro!]:
  "own_slot_only (we_id E) s (w_shm w) \<Longrightarrow> keeps E s (loop_schema_sync_done E type w)"
  by (auto simp: loop_schema_sync_done_def)

lemma main_loop_step_keeps:
  assumes "main_loop_step E type w = Some r" and "valid_slot (w_shm w) (we_id E)"
  shows "keeps E (w_shm w) r"
proof -
  have loop: "keeps E (w_shm w) (case get_shm_connector_state_enum (w_shm w1) (we_id E) of STATE_SYNCING \<Rightarrow> loop_syncing E type w1
      | STATE_SCHEMA_SYNC_DONE \<Rightarrow> loop_schema_sync_done E type w1 | _ \<Rightarrow> (w1, None))"
    if "own_slot_only (we_id E) (w_shm w) (w_shm w1)" for w1
    using that assms(2) own_slot_only_valid [OF that] keeps_loop_syncing [OF that]
    by (auto simp: get_shm_connector_state_enum_def valid_slot_def split: ConnectorState.split)
  then show ?thesis using assms(1) by (auto simp: main_loop_step_def split: if_split_asm)
qed

section \<open>The state machine of the requests\<close>

text \<open>
  The states in which a request may leave a connector, and the one it aims at. A request that does not fit the current state
  is dropped.
\<close>

definition request_targets :: "ConnectorState \<Rightarrow> ConnectorState \<Rightarrow> ConnectorState set" where
  "request_targets req currstate =
     (if req = STATE_PAUSED \<and> currstate = STATE_SYNCING then {STATE_PAUSED, STATE_SYNCING}
      else if req = STATE_SYNCING \<and> currstate = STATE_PAUSED then {STATE_SYNCING, STATE_PAUSED}
      else if req = STATE_OFFSET_UPDATE \<and> currstate = STATE_PAUSED then {STATE_PAUSED}
      else if req = STATE_RESTARTING \<and> currstate = STATE_SYNCING then {STATE_SYNCING, STATE_STOPPED}
      else {currstate})"

definition request_goal :: "ConnectorState \<Rightarrow> ConnectorState \<Rightarrow> ConnectorState" where
  "request_goal req currstate =
     (if req = STATE_PAUSED \<and> currstate = STATE_SYNCING then STATE_PAUSED
      else if req = STATE_SYNCING \<and> currstate = STATE_PAUSED then STATE_SYNCING
      else currstate)"

abbreviation w_slot :: "('db, 'd, 'tid) worker_env \<Rightarrow> 'db worker \<Rightarrow> ActiveConnectors" where
  "w_slot E w \<equiv> slot (w_shm w) (we_id E)"

abbreviation w_valid :: "('db, 'd, 'tid) worker_env \<Rightarrow> 'db worker \<Rightarrow> bool" where
  "w_valid E w \<equiv> valid_slot (w_shm w) (we_id E)"

lemma slot_set [simp]:
  assumes "valid_slot s i"
  shows "slot (set_shm_connector_state i st s) i = (slot s i)\<lparr>ac_state := st\<rparr>"
    "slot (reset_shm_request_state i s) i = (slot s i)\<lparr>ac_req := (ac_req (slot s i))\<lparr>reqstate := STATE_UNDEF, reqdata := []\<rparr>\<rparr>"
    "ac_state (slot (set_shm_dbz_offset cfg off c i s) i) = ac_state (slot s i)"
    "ac_req (slot (set_shm_dbz_offset cfg off c i s) i) = ac_req (slot s i)"
    "ac_state (slot (set_shm_connector_errmsg i m s) i) = ac_state (slot s i)"
    "ac_req (slot (set_shm_connector_errmsg i m s) i) = ac_req (slot s i)"
    "ac_state (slot (set_shm_connector_stage i sg s) i) = ac_state (slot s i)"
    "ac_stage (slot (set_shm_connector_stage i sg s) i) = sg"
    "ac_stage (slot (set_shm_connector_errmsg i m s) i) = ac_stage (slot s i)"
  using assms
  by (auto simp: set_shm_connector_state_def reset_shm_request_state_def set_shm_dbz_offset_def set_shm_connector_errmsg_def
      set_shm_connector_stage_def split: option.split)

lemma valid_set [simp]:
  "valid_slot (set_shm_connector_state i st s) j = valid_slot s j" "valid_slot (reset_shm_request_state i s) j = valid_slot s j"
  "valid_slot (set_shm_dbz_offset cfg off c i s) j = valid_slot s j" "valid_slot (set_shm_connector_errmsg i m s) j = valid_slot s j"
  "valid_slot (set_shm_connector_stage i sg s) j = valid_slot s j"
  by (auto simp: set_shm_connector_state_def reset_shm_request_state_def set_shm_dbz_offset_def set_shm_connector_errmsg_def
      set_shm_connector_stage_def split: option.split)

text \<open>Serving a request touches neither the database nor the data cache.\<close>

definition data_of :: "'db worker \<Rightarrow> 'db \<times> data_cache" where
  "data_of w = (fl_db (w_flow w), fl_cache (w_flow w))"

lemma data_of_simps [simp]:
  "data_of (upd_shm f w) = data_of w" "data_of (upd_olr g w) = data_of w" "data_of (call c w) = data_of w" "data_of (upd_flag h w) = data_of w"
  "data_of (go_state E st w) = data_of w" "data_of (clear_request E w) = data_of w" "data_of (refresh_offset E w) = data_of w"
  "data_of (w\<lparr>w_net := ne\<rparr>) = data_of w" "data_of (w\<lparr>w_conv := cs\<rparr>) = data_of w" "data_of (fold (\<lambda>m. call (k m)) ms w) = data_of w"
proof -
  show "data_of (fold (\<lambda>m. call (k m)) ms w) = data_of w" by (induction ms arbitrary: w) (simp_all add: data_of_def call_def)
qed (simp_all add: data_of_def upd_shm_def upd_olr_def call_def upd_flag_def go_state_def clear_request_def refresh_offset_def)

lemma replication_request_data: "replication_request E src start w = (ret, w') \<Longrightarrow> data_of w' = data_of w"
  by (auto simp: replication_request_def split: prod.splits)

lemma request_replication_ok:
  assumes "request_replication E src w = (ret, w', None)"
  shows "w_shm w' = w_shm w" and "data_of w' = data_of w"
  using assms replication_request_shm [of E src] replication_request_data [of E src]
  by (auto simp: request_replication_def raise_with_def Let_def split: prod.splits if_split_asm)

lemma try_reconnect_ok:
  assumes "try_reconnect_olr E ci w = (w', None)"
  shows "w_shm w' = w_shm w \<and> data_of w' = data_of w"
proof -
  obtain ret c where i: "olr_client_init (we_reachable E) (fl_olr (w_flow w)) = (ret, c)" by fastforce
  obtain ret2 w2 e where r: "request_replication E (ol_source (ci_olr ci)) (upd_olr (\<lambda>_. c) w) = (ret2, w2, e)" by (metis prod_cases3)
  then show ?thesis using assms request_replication_ok [of E "ol_source (ci_olr ci)" "upd_olr (\<lambda>_. c) w" ret2 w2]
    by (cases e) (auto simp: try_reconnect_olr_def i Let_def raise_with_def split: if_split_asm)
qed

lemma then_do_None: "then_do r f = (w', None) \<longleftrightarrow> (\<exists>w1. r = (w1, None) \<and> f w1 = (w', None))"
  by (auto simp: then_do_def split: prod.split option.split)

definition served :: "('db, 'd, 'tid) worker_env \<Rightarrow> ConnectorState set \<Rightarrow> 'db worker \<Rightarrow> 'db worker \<Rightarrow> bool" where
  "served E sts w w' \<longleftrightarrow> reqstate (ac_req (w_slot E w')) = STATE_UNDEF \<and> reqdata (ac_req (w_slot E w')) = []
     \<and> ac_state (w_slot E w') \<in> sts \<and> data_of w' = data_of w"

lemma served_mono: "served E A w w' \<Longrightarrow> A \<subseteq> B \<Longrightarrow> served E B w w'"
  by (auto simp: served_def)

lemma pause_served:
  assumes "w_valid E w" and "ac_state (w_slot E w) = STATE_SYNCING" and "do_pause E type w = (w', None)"
  shows "served E (if we_stop E = 0 then {STATE_PAUSED} else {STATE_PAUSED, STATE_SYNCING}) w w'"
  using assms by (auto simp: do_pause_def served_def Let_def split: if_split_asm)

lemma resume_served:
  assumes "w_valid E w" and "ac_state (w_slot E w) = STATE_PAUSED" and "do_resume E type w = (w', None)"
  shows "served E (if 0 \<le> we_start E then {STATE_SYNCING} else {STATE_SYNCING, STATE_PAUSED}) w w'"
proof (cases "is_olr E type")
  case True
  then obtain w1 where "w1 = w \<or> try_reconnect_olr E (w_conn w) w = (w1, None)" and "w' = clear_request E (go_state E STATE_SYNCING w1)"
    using assms(3) by (auto simp: do_resume_def then_do_None split: if_split_asm)
  moreover from this have "w_shm w1 = w_shm w \<and> data_of w1 = data_of w" using try_reconnect_ok by blast
  ultimately show ?thesis using assms(1) by (simp add: served_def)
qed (use assms in \<open>auto simp: do_resume_def served_def Let_def split: if_split_asm\<close>)

lemma offset_served:
  assumes "w_valid E w" and "do_offset_update E type req w = (w', None)"
  shows "served E {STATE_PAUSED} w w'"
  using assms by (auto simp: do_offset_update_def served_def Let_def split: if_split_asm prod.splits)

lemma restart_served:
  assumes "w_valid E w" and "do_restart E type req w = (w', None)"
  shows "served E (if 0 \<le> we_start E then {STATE_SYNCING} else {STATE_SYNCING, STATE_STOPPED}) w w'"
proof (cases "is_olr E type")
  case True
  then obtain w1 where t: "try_reconnect_olr E (reqconninfo req) (upd_olr olr_client_shutdown (go_state E STATE_RESTARTING w)) = (w1, None)"
    and w': "w' = clear_request E (go_state E STATE_SYNCING w1)"
    using assms(2) by (auto simp: do_restart_def then_do_None Let_def)
  show ?thesis using try_reconnect_ok [OF t] w' assms(1) by (simp add: served_def)
qed (use assms in \<open>auto simp: do_restart_def served_def Let_def split: if_split_asm\<close>)

lemma in_state_served:
  assumes "w_valid E w" and "in_state E st f w = (w', None)"
    and "\<And>w1 w2. f w1 = (w2, None) \<Longrightarrow> w_shm w2 = w_shm w1 \<and> data_of w2 = data_of w1"
  shows "served E {ac_state (w_slot E w)} w w'"
proof -
  obtain w2 where f: "f (go_state E st w) = (w2, None)" and w': "w' = clear_request E (go_state E (ac_state (w_slot E w)) w2)"
    using assms(1,2) by (auto simp: in_state_def then_do_None get_shm_connector_state_enum_def valid_slot_def)
  show ?thesis using assms(3) [OF f] w' assms(1) by (simp add: served_def)
qed

lemma reload_ok: "reload_objmap E type w1 = (w2, None) \<Longrightarrow> w_shm w2 = w_shm w1 \<and> data_of w2 = data_of w1"
  by (auto simp: reload_objmap_def split: sum.splits pg_error.splits option.splits)

text \<open>The request dispatch when a request is pending.\<close>

lemma pending_request:
  assumes "w_valid E w" and "reqstate (ac_req (w_slot E w)) \<noteq> STATE_UNDEF"
  shows "processRequestInterrupt E type w =
     (let req = reqstate (ac_req (w_slot E w)); cur = ac_state (w_slot E w) in
      if req = STATE_PAUSED \<and> cur = STATE_SYNCING then do_pause E type w
      else if req = STATE_SYNCING \<and> cur = STATE_PAUSED then do_resume E type w
      else if req = STATE_OFFSET_UPDATE \<and> cur = STATE_PAUSED then do_offset_update E type (ac_req (w_slot E w)) w
      else if req = STATE_RESTARTING \<and> cur = STATE_SYNCING then do_restart E type (ac_req (w_slot E w)) w
      else if req = STATE_MEMDUMP then in_state E STATE_MEMDUMP (\<lambda>w. (call Call_memory_dump w, None)) w
      else if req = STATE_RELOAD_OBJMAP then in_state E STATE_RELOAD_OBJMAP (reload_objmap E type) w
      else if req = STATE_DBZ_LOGLEVEL_UPDATE
      then in_state E STATE_DBZ_LOGLEVEL_UPDATE (\<lambda>w'. (call (Call_set_loglevel (atoi (reqdata (ac_req (w_slot E w))))) w', None)) w
      else (clear_request E w, None))"
  unfolding processRequestInterrupt_def Let_def by (simp only: if_not_P [OF assms(2)] if_not_P [OF valid_slotD [OF assms(1)]])

lemma request_served:
  assumes "processRequestInterrupt E type w = (w', None)" and v: "w_valid E w" and "reqstate (ac_req (w_slot E w)) \<noteq> STATE_UNDEF"
  shows "served E (if we_stop E = 0 \<and> 0 \<le> we_start E then {request_goal (reqstate (ac_req (w_slot E w))) (ac_state (w_slot E w))}
                   else request_targets (reqstate (ac_req (w_slot E w))) (ac_state (w_slot E w))) w w'"
proof -
  define req where "req = reqstate (ac_req (w_slot E w))"
  define cur where "cur = ac_state (w_slot E w)"
  note p = pending_request [OF v assms(3), of type, unfolded Let_def, folded req_def cur_def]
  have other: "served E {cur} w w'" if "\<not> (req = STATE_PAUSED \<and> cur = STATE_SYNCING)" "\<not> (req = STATE_SYNCING \<and> cur = STATE_PAUSED)"
    "\<not> (req = STATE_OFFSET_UPDATE \<and> cur = STATE_PAUSED)" "\<not> (req = STATE_RESTARTING \<and> cur = STATE_SYNCING)"
  proof -
    have "served E {cur} w (clear_request E w)" using v by (simp add: served_def cur_def)
    moreover have "served E {cur} w w'" if "in_state E st (\<lambda>w. (call c w, None)) w = (w', None)" for st c
      using in_state_served [OF v that] by (simp add: cur_def)
    moreover have "served E {cur} w w'" if "in_state E st (reload_objmap E type) w = (w', None)" for st
      using in_state_served [OF v that reload_ok] by (simp add: cur_def)
    ultimately show ?thesis using assms(1) that unfolding p by (simp only: if_False split: if_split_asm) blast+
  qed
  consider "req = STATE_PAUSED" "cur = STATE_SYNCING" | "req = STATE_SYNCING" "cur = STATE_PAUSED"
    | "req = STATE_OFFSET_UPDATE" "cur = STATE_PAUSED" | "req = STATE_RESTARTING" "cur = STATE_SYNCING"
    | "\<not> (req = STATE_PAUSED \<and> cur = STATE_SYNCING)" "\<not> (req = STATE_SYNCING \<and> cur = STATE_PAUSED)"
      "\<not> (req = STATE_OFFSET_UPDATE \<and> cur = STATE_PAUSED)" "\<not> (req = STATE_RESTARTING \<and> cur = STATE_SYNCING)"
    by blast
  then have "served E (if we_stop E = 0 \<and> 0 \<le> we_start E then {request_goal req cur} else request_targets req cur) w w'"
  proof cases
    case 1
    then have "served E (if we_stop E = 0 then {STATE_PAUSED} else {STATE_PAUSED, STATE_SYNCING}) w w'"
      using pause_served [OF v, of type w'] p assms(1) by (simp add: cur_def)
    then show ?thesis by (rule served_mono) (simp add: 1 request_goal_def request_targets_def)
  next
    case 2
    then have "served E (if 0 \<le> we_start E then {STATE_SYNCING} else {STATE_SYNCING, STATE_PAUSED}) w w'"
      using resume_served [OF v, of type w'] p assms(1) by (simp add: cur_def)
    then show ?thesis by (rule served_mono) (simp add: 2 request_goal_def request_targets_def)
  next
    case 3
    then have "served E {STATE_PAUSED} w w'" using offset_served [OF v, of type _ w'] p assms(1) by simp
    then show ?thesis by (rule served_mono) (simp add: 3 request_goal_def request_targets_def)
  next
    case 4
    then have "served E (if 0 \<le> we_start E then {STATE_SYNCING} else {STATE_SYNCING, STATE_STOPPED}) w w'"
      using restart_served [OF v, of type _ w'] p assms(1) by simp
    then show ?thesis by (rule served_mono) (simp add: 4 request_goal_def request_targets_def)
  next
    case 5
    then have "request_goal req cur = cur" "request_targets req cur = {cur}" by (simp_all only: request_goal_def request_targets_def if_False)
    then show ?thesis using other [OF 5] by simp
  qed
  then show ?thesis by (simp only: req_def cur_def)
qed

lemma idle_step:
  assumes "w_valid E w" and "\<not> w_exit w" and "reqstate (ac_req (w_slot E w)) = STATE_UNDEF" and "ac_state (w_slot E w) = STATE_PAUSED"
  shows "main_loop_step E type w = Some (w, None)"
  using assms by (auto simp: main_loop_step_def processRequestInterrupt_def then_do_def get_shm_connector_state_enum_def valid_slot_def)

definition example_worker_env :: "(string option list list, string, nat) worker_env" where
  "example_worker_env = \<lparr>we_flow = example_env, we_buffer = None, we_olr = example_olr_conf, we_stop = 0, we_start = 0,
     we_set_offset = 0, we_offset = None, we_objmaps = None, we_reachable = True, we_pack = (\<lambda>_. []), we_unpack = (\<lambda>_. Some 4),
     we_read_buffer_size = 100, we_writable = True, we_clock = 1, we_flush_interval_ms = 1000, we_fdw_before = (None, None),
     we_fdw_after = (None, None), we_fdw_snapshot = Inr (Some ''42''), we_create = True, we_dump = True, we_snapshot_engine = ENGINE_FDW,
     we_jvm = JVM_OK, we_session = None, we_workers = 2, we_jar = ''/dbz.jar'', we_heap = 1024, we_direct = 1024\<rparr>"

definition example_conninfo :: ConnectionInfo where
  "example_conninfo = zero_conninfo\<lparr>ci_name := ''c1'', ci_dstdb := ''db'', ci_srcdb := ''src''\<rparr>"

definition example_backend :: backend_env where
  "example_backend = \<lparr>be_workers = 2, be_conninfo = (\<lambda>n. if n = ''c1'' then Some (example_conninfo, ''mysql'') else None), be_dbname = ''db'',
     be_compat = None, be_registered = True, be_started = True\<rparr>"

definition example_slot :: ActiveConnectors where
  "example_slot = free_slot\<lparr>ac_pid := 100, ac_state := STATE_SYNCING, ac_type := TYPE_MYSQL, ac_conninfo := example_conninfo\<rparr>"

definition example_worker :: "string option list list worker" where
  "example_worker = (new_worker (Some [example_slot, free_slot]) Map.empty \<lparr>select_queue = [], recv_queue = []\<rparr> [])\<lparr>w_conn := example_conninfo\<rparr>"

lemmas example_defs = example_worker_env_def example_env_def example_backend_def example_slot_def example_worker_def new_worker_def free_slot_def

section \<open>Properties of a worker\<close>

text \<open>
  C7: A worker keeps to itself. One iteration of its main loop, whatever its state, its requests and the events it reads, and
  also when it ends in an error, leaves every slot of another connector as it was, and of its own slot the process, the type,
  the snapshot mode and the connection information.
\<close>

theorem worker_isolated:
  assumes "main_loop_step E type w = Some (w', err)" and "valid_slot (fl_shm (w_flow w)) (fe_id (we_flow E))"
  shows "(\<forall>j. j \<noteq> fe_id (we_flow E) \<longrightarrow> slot (fl_shm (w_flow w')) j = slot (fl_shm (w_flow w)) j)
    \<and> identity (slot (fl_shm (w_flow w')) (fe_id (we_flow E))) = identity (slot (fl_shm (w_flow w)) (fe_id (we_flow E)))
    \<and> map_option length (fl_shm (w_flow w')) = map_option length (fl_shm (w_flow w))"
proof -
  have own: "own_slot_only (we_id E) (w_shm w) (w_shm w')" using main_loop_step_keeps [OF assms(1,2)] by simp
  have v: "valid_slot (w_shm w') j = valid_slot (w_shm w) j" for j using own_slot_only_valid [OF own] .
  obtain cs where cs: "w_shm w = Some cs" using assms(2) by (auto simp: valid_slot_def)
  obtain cs' where cs': "w_shm w' = Some cs'" using v [of "we_id E"] assms(2) by (auto simp: valid_slot_def)
  have "length cs' = length cs" using v [of "length cs"] v [of "length cs'"] by (simp add: cs cs' valid_slot_def)
  then show ?thesis using own cs cs' by (simp add: own_slot_only_def)
qed

theorem worker_isolated_witness:
  "\<exists>w' err. main_loop_step example_worker_env TYPE_MYSQL example_worker = Some (w', err) \<and> slot (fl_shm (w_flow w')) 1 = free_slot
     \<and> identity (slot (fl_shm (w_flow w')) 0) = identity example_slot"
proof -
  obtain w' err where r: "main_loop_step example_worker_env TYPE_MYSQL example_worker = Some (w', err)"
    by (cases "the (main_loop_step example_worker_env TYPE_MYSQL example_worker)") (simp add: main_loop_step_def example_defs)
  have "valid_slot (fl_shm (w_flow example_worker)) (fe_id (we_flow example_worker_env))" by (simp add: example_defs valid_slot_def)
  from worker_isolated [OF r this] r show ?thesis by (simp add: example_defs slot_def)
qed



end
