(* ===== verification/Conn_Invariant.thy ===== *)
theory Conn_Invariant
  imports Conn_System
begin

text \<open>
  All backends and workers together: every SQL function and every step of a worker as an action on the shared memory, in any
  interleaving; the invariant that a connector has one slot; what a successful start promises; and where the invariant
  ends, because a start chooses its slot before it takes the lock.
\<close>

section \<open>Connector names\<close>

abbreviation slot_name :: "shm \<Rightarrow> nat \<Rightarrow> string" where
  "slot_name s i \<equiv> ci_name (ac_conninfo (slot s i))"

abbreviation slot_db :: "shm \<Rightarrow> nat \<Rightarrow> string" where
  "slot_db s i \<equiv> ci_dstdb (ac_conninfo (slot s i))"

definition unique_names :: "shm \<Rightarrow> bool" where
  "unique_names s \<longleftrightarrow> (\<forall>i j. valid_slot s i \<and> valid_slot s j \<and> slot_name s i \<noteq> [] \<and> same_connector (ac_conninfo (slot s i)) (slot_name s j) (slot_db s j)
     \<longrightarrow> i = j)"

text \<open>The steps that leave every connection information alone.\<close>

definition names_kept :: "shm \<Rightarrow> shm \<Rightarrow> bool" where
  "names_kept s s' \<longleftrightarrow> (\<forall>j. valid_slot s' j = valid_slot s j) \<and> (\<forall>j. valid_slot s j \<longrightarrow> ac_conninfo (slot s' j) = ac_conninfo (slot s j))"

lemma names_kept_unique: "names_kept s s' \<Longrightarrow> unique_names s \<Longrightarrow> unique_names s'"
  unfolding names_kept_def unique_names_def by auto

lemma names_kept_refl [simp, intro]: "names_kept s s"
  by (simp add: names_kept_def)

lemma names_kept_trans: "names_kept s s1 \<Longrightarrow> names_kept s1 s2 \<Longrightarrow> names_kept s s2"
  by (simp add: names_kept_def)

lemma own_slot_names: "own_slot_only i s s' \<Longrightarrow> names_kept s s'"
  by (auto simp: own_slot_only_def names_kept_def identity_def)

lemma names_kept_upd:
  assumes "\<And>c. ac_conninfo (f c) = ac_conninfo c"
  shows "names_kept s (upd_slot i f s)"
proof (cases "valid_slot s i")
  case True
  then show ?thesis using assms by (simp add: names_kept_def)
qed (simp add: upd_slot_invalid)

lemma unique_names_init: "unique_names (synchdb_init_shmem n s) = unique_names s" if "s \<noteq> None"
  using that by (auto simp: synchdb_init_shmem_def)

lemma slot_replicate [simp]: "i < n \<Longrightarrow> slot (Some (replicate n c)) i = c"
  by (simp add: slot_def)

lemma init_unique [simp]: "unique_names s \<Longrightarrow> unique_names (synchdb_init_shmem n s)"
proof (cases s)
  case None
  then show ?thesis by (auto simp: synchdb_init_shmem_def unique_names_def valid_slot_def free_slot_def zero_conninfo_def)
qed (simp add: synchdb_init_shmem_def)

lemma unique_None [simp]: "unique_names None"
  by (simp add: unique_names_def valid_slot_def)

section \<open>The SQL functions\<close>

lemma same_connector_trans:
  "same_connector a (ci_name b) (ci_dstdb b) \<Longrightarrow> same_connector b n d \<Longrightarrow> same_connector a n d"
  by (auto simp: same_connector_def intro: strcaseeq_trans)

lemma same_connector_sym: "same_connector a (ci_name b) (ci_dstdb b) \<longleftrightarrow> same_connector b (ci_name a) (ci_dstdb a)"
  by (auto simp: same_connector_def strcaseeq_sym)

lemma slot_the: "s \<noteq> None \<Longrightarrow> slot s i = the s ! i"
  by (auto simp: slot_def)

text \<open>Writing connection information into the slot that was assigned to its name.\<close>

lemma write_assigned:
  assumes "unique_names s" and "s \<noteq> None" and "assign_connector_id (the s) name dstdb = Some i"
    and "\<And>c. ci_name (ac_conninfo (f c)) = name \<and> ci_dstdb (ac_conninfo (f c)) = dstdb"
  shows "unique_names (upd_slot i f s)"
proof -
  note assigned = assign_connector_id_Some [OF assms(3)]
  have i: "valid_slot s i" using assigned(1) assms(2) by (simp add: valid_slot_def)
  have other: "j = i" if "valid_slot s j" "same_connector (ac_conninfo (slot s j)) name dstdb" "slot_name s j \<noteq> []" for j
  proof -
    have "j < length (the s)" using that(1) by (simp add: valid_slot_def)
    then have "same_connector (ac_conninfo (slot s i)) name dstdb"
      using assigned(2) that(2) slot_the [OF assms(2)] by metis
    then have "same_connector (ac_conninfo (slot s j)) (slot_name s i) (slot_db s i)"
      using that(2) by (auto simp: same_connector_def intro: strcaseeq_trans strcaseeq_sym [THEN iffD1])
    then show ?thesis using assms(1) that(1,3) i unfolding unique_names_def by blast
  qed
  show ?thesis unfolding unique_names_def
  proof (intro allI impI)
    fix a b
    let ?t = "upd_slot i f s"
    assume p: "valid_slot ?t a \<and> valid_slot ?t b \<and> slot_name ?t a \<noteq> [] \<and> same_connector (ac_conninfo (slot ?t a)) (slot_name ?t b) (slot_db ?t b)"
    consider "a = i" "b = i" | "a = i" "b \<noteq> i" | "a \<noteq> i" "b = i" | "a \<noteq> i" "b \<noteq> i" by blast
    then show "a = b"
    proof cases
      case 2
      then have "same_connector (ac_conninfo (slot s b)) name dstdb" "name \<noteq> []" "strcaseeq name (slot_name s b)"
        using p i assms(4) [of "slot s i"] by (auto simp: same_connector_def strcaseeq_sym)
      moreover from this(2,3) have "slot_name s b \<noteq> []" by (auto simp: strcaseeq_def)
      ultimately show ?thesis using other [of b] p 2 by auto
    next
      case 3
      then show ?thesis using other [of a] p i assms(4) [of "slot s i"] by simp
    next
      case 4
      then show ?thesis using p i assms(1) unfolding unique_names_def by auto
    qed simp
  qed
qed

lemma start_engine_unique:
  assumes "unique_names s"
  shows "unique_names (fst (start_engine cfg B name ci connector mode s))"
proof -
  let ?s = "synchdb_init_shmem (be_workers B) s"
  have u: "unique_names ?s" using assms by (rule init_unique)
  have ne: "?s \<noteq> None" by (simp add: synchdb_init_shmem_def split: option.split)
  have "unique_names (fst (prepare_bgw B ci connector i mode ?s))"
    if "assign_connector_id (the ?s) (ci_name ci) (ci_dstdb ci) = Some i" for i
    using write_assigned [OF u ne that] u by (auto simp: prepare_bgw_def split: sum.split)
  then show ?thesis using assms u by (auto simp: start_engine_def Let_def split: option.split prod.split sum.split)
qed

lemma free_unique:
  assumes "unique_names s"
  shows "unique_names (upd_slot i (\<lambda>_. free_slot) s)"
proof (cases "valid_slot s i")
  case True
  then show ?thesis using assms unfolding unique_names_def by (auto simp: free_slot_def zero_conninfo_def same_connector_def)
qed (use assms in \<open>simp add: upd_slot_invalid\<close>)

lemma send_request_unique: "unique_names s \<Longrightarrow> unique_names (fst (send_request B name guard f s))"
  by (auto simp: send_request_def post_request_def Let_def split: sum.split intro!: names_kept_unique [OF names_kept_upd])

section \<open>The life of a worker\<close>

lemma keeps_initialize_jvm [intro!]: "own_slot_only (we_id E) s (w_shm w) \<Longrightarrow> keeps E s (initialize_jvm E jmx w)"
  by (auto simp: initialize_jvm_def Let_def split: jvm_result.split)

lemma w_shm_engine [simp]: "w_shm (set_engine E w) = w_shm w" "w_shm (clear_offset E w) = upd_slot (we_id E) (\<lambda>c. c\<lparr>ac_dbzoffset := []\<rparr>) (w_shm w)"
  by (simp_all add: set_engine_def clear_offset_def)

lemma own_slot_offset [intro!]: "own_slot_only i s s1 \<Longrightarrow> own_slot_only i s (upd_slot i (\<lambda>c. c\<lparr>ac_dbzoffset := []\<rparr>) s1)"
  by (rule own_slot_only_upd) (simp_all add: identity_def)

lemma keeps_start_debezium_connector [intro!]:
  "own_slot_only (we_id E) s (w_shm w) \<Longrightarrow> keeps E s (start_debezium_connector E type w)"
  by (auto simp: start_debezium_connector_def Let_def split: sum.split prod.split)

lemma keeps_start_olr_replication [intro!]:
  assumes "own_slot_only (we_id E) s (w_shm w)"
  shows "keeps E s (start_olr_replication E type w)"
proof (cases "olr_client_init_scn_state type (ci_name (w_conn w)) (ci_dstdb (w_conn w)) (fl_olr (w_flow w)) (w_files w)")
  case (Inl e)
  then show ?thesis using assms by (auto simp: start_olr_replication_def)
next
  case (Inr r)
  obtain found c where r: "r = (found, c)" by (cases r)
  define w1 where "w1 = (if found then refresh_offset E (clear_offset E (upd_olr (\<lambda>_. c) w)) else w)"
  obtain ret c1 where i: "olr_client_init (we_reachable E) (fl_olr (w_flow w1)) = (ret, c1)" by fastforce
  define w2 where "w2 = upd_olr (\<lambda>_. c1) w1"
  obtain ret2 w3 e where q: "request_replication E (ol_source (ci_olr (w_conn w2))) w2 = (ret2, w3, e)" by (metis prod_cases3)
  have w2: "own_slot_only (we_id E) s (w_shm w2)" using assms by (auto simp: w2_def w1_def)
  have w3: "own_slot_only (we_id E) s (w_shm w3)"
    using keeps_request_replication [OF w2, of "ol_source (ci_olr (w_conn w2))"] q by simp
  have "start_olr_replication E type w = (if ret \<noteq> 0 then raise_with E ''failed to init and connect to olr server'' ''failed to init and connect to olr server'' w2
      else case (ret2, w3, e) of (_, (w3, Some e)) \<Rightarrow> (w3, Some e)
       | (ret, (w3, None)) \<Rightarrow>
           if ret = RES_REPLICATE then (go_state E STATE_SYNCING w3, None)
           else if ret = RES_INVALID_DATABASE then raise_with E ''invalid data source requested'' ''invalid data source requested'' w3
           else if ret = RES_INVALID_COMMAND then raise_with E ''invalid OLR command'' ''invalid OLR command'' w3
           else raise_with E ''openlog replicator is not ready to replicate'' ''openlog replicator is not ready to replicate'' w3)"
    unfolding start_olr_replication_def Inr r sum.case prod.case Let_def w1_def [symmetric] i w2_def [symmetric] q ..
  then show ?thesis using w2 w3 by (cases e) auto
qed

lemma keeps_started: "keeps E s (started r) \<longleftrightarrow> keeps E s r"
  by (cases r; cases "snd r") (auto simp: started_def)

lemma w_shm_flag [simp]: "w_shm (if b then w else upd_flag f w) = w_shm w"
  by simp

lemma keeps_start_olr_connector [intro!]:
  assumes "own_slot_only (we_id E) s (w_shm w)"
  shows "keeps E s (start_olr_connector E type w)"
  using assms by (auto simp: start_olr_connector_def Let_def keeps_started split: sum.split prod.split)

lemma keeps_prepare_worker [intro!]:
  assumes "own_slot_only (we_id E) s (w_shm w)"
  shows "keeps E s (prepare_worker E type w)"
  using assms by (auto simp: prepare_worker_def Let_def split: sum.split)

lemma keeps_cleanup [intro!]:
  assumes "own_slot_only (we_id E) s (w_shm w)"
  shows "keeps E s (cleanup E type w)"
  using assms unfolding cleanup_def by (intro keeps_then_do) (auto simp: Let_def split: sum.split prod.split)

lemma names_kept_pid: "names_kept s (set_shm_connector_pid i p s)"
  by (auto simp: set_shm_connector_pid_def intro: names_kept_upd)

lemma engine_start_names:
  assumes "w_valid E w"
  shows "names_kept (w_shm w) (w_shm (fst (engine_start E pid w)))"
proof -
  obtain w1 e where se: "setup_environment E pid w = (w1, e)" by fastforce
  have "synchdb_init_shmem (we_workers E) (w_shm w) = w_shm w" using assms by (auto simp: valid_slot_def synchdb_init_shmem_def)
  then have n1: "names_kept (w_shm w) (w_shm w1)"
    using se names_kept_pid by (auto simp: setup_environment_def Let_def split: if_split_asm)
  have "own_slot_only (we_id E) (w_shm w1) (w_shm (fst (engine_start E pid w)))"
  proof (cases e)
    case None
    define type where "type = get_shm_connector_type_enum (w_shm w1) (we_id E)"
    obtain w2 e2 where p: "prepare_worker E type w1 = (w2, e2)" by fastforce
    have w2: "own_slot_only (we_id E) (w_shm w1) (w_shm w2)" using keeps_prepare_worker [OF own_slot_only_refl, of E w1 type] p by simp
    show ?thesis
    proof (cases e2)
      case (Some x)
      then show ?thesis using w2 se p None by (simp add: engine_start_def flip: type_def)
    next
      case e2: None
      show ?thesis unfolding engine_start_def se None prod.case option.case Let_def type_def [symmetric] p e2
        using w2 by (auto simp: keeps_started)
    qed
  qed (use se in \<open>simp add: engine_start_def\<close>)
  then show ?thesis using n1 own_slot_names names_kept_trans by blast
qed

lemma detach_names: "names_kept (w_shm w) (w_shm (fst (synchdb_detach_shmem E pid w)))"
proof -
  define w1 where "w1 = (if get_shm_connector_pid (w_shm w) (we_id E) = pid
      then go_state E STATE_UNDEF (upd_shm (set_shm_connector_pid (we_id E) InvalidPid) w) else w)"
  have "names_kept (w_shm w) (w_shm w1)"
    using names_kept_trans [OF names_kept_pid own_slot_names [OF own_slot_only_set(1) [OF own_slot_only_refl]]] by (simp add: w1_def)
  moreover have "own_slot_only (we_id E) (w_shm w1) (w_shm (fst (synchdb_detach_shmem E pid w)))"
    using keeps_cleanup [OF own_slot_only_refl] by (simp add: synchdb_detach_shmem_def Let_def flip: w1_def)
  ultimately show ?thesis using own_slot_names names_kept_trans by blast
qed

section \<open>Interleavings\<close>

text \<open>
  An action of one process. A control function may be interrupted between its check and the writing of its request, so the
  writing is an action of its own with any slot and any request. The private state of a worker is part of its action: nothing
  is assumed of it.
\<close>

datatype ('db, 'd, 'tid) action =
    Start config backend_env string
  | Start_mode config backend_env string string
  | Stop backend_env string
  | Pause backend_env string
  | Resume backend_env string
  | Set_offset backend_env string string
  | Restart backend_env string string
  | Memory_info backend_env string
  | Reload backend_env string
  | Loglevel pg_lib backend_env string string
  | Reset_stats backend_env string
  | Set_snapstats backend_env string int int int int
  | Delete backend_env string "string list"
  | Post nat "SynchdbRequest \<Rightarrow> SynchdbRequest"
  | Launch "('db, 'd, 'tid) worker_env" int "'db worker"
  | Iterate "('db, 'd, 'tid) worker_env" ConnectorType "'db worker"
  | Detach "('db, 'd, 'tid) worker_env" int "'db worker"

definition with_shm :: "shm \<Rightarrow> 'db worker \<Rightarrow> 'db worker" where
  "with_shm s = upd_shm (\<lambda>_. s)"

fun perform :: "('db, 'd, 'tid) action \<Rightarrow> shm \<Rightarrow> shm" where
  "perform (Start cfg B name) s = fst (synchdb_start_engine_bgw cfg B name s)"
| "perform (Start_mode cfg B name mode) s = fst (synchdb_start_engine_bgw_snapshot_mode cfg B name mode s)"
| "perform (Stop B name) s = fst (synchdb_stop_engine_bgw B name s)"
| "perform (Pause B name) s = fst (synchdb_pause_engine B name s)"
| "perform (Resume B name) s = fst (synchdb_resume_engine B name s)"
| "perform (Set_offset B name off) s = fst (synchdb_set_offset B name off s)"
| "perform (Restart B name mode) s = fst (synchdb_restart_connector B name mode s)"
| "perform (Memory_info B name) s = fst (synchdb_log_jvm_meminfo B name s)"
| "perform (Reload B name) s = fst (synchdb_reload_objmap B name s)"
| "perform (Loglevel L B name level) s = fst (synchdb_set_dbz_loglevel L B name level s)"
| "perform (Reset_stats B name) s = fst (synchdb_reset_stats B name s)"
| "perform (Set_snapstats B name a b c d) s = fst (synchdb_set_snapstats B name a b c d s)"
| "perform (Delete B name dir) s = fst (synchdb_del_conninfo B name dir s)"
| "perform (Post i f) s = post_request i f s"
| "perform (Launch E pid w) s = w_shm (fst (engine_start E pid (with_shm s w)))"
| "perform (Iterate E type w) s = (case main_loop_step E type (with_shm s w) of None \<Rightarrow> s | Some r \<Rightarrow> w_shm (fst r))"
| "perform (Detach E pid w) s = w_shm (fst (synchdb_detach_shmem E pid (with_shm s w)))"

text \<open>A worker works on a slot of the array.\<close>

fun enabled :: "('db, 'd, 'tid) action \<Rightarrow> shm \<Rightarrow> bool" where
  "enabled (Launch E pid w) s = valid_slot s (we_id E)"
| "enabled (Iterate E type w) s = valid_slot s (we_id E)"
| "enabled _ s = True"

fun run_actions :: "('db, 'd, 'tid) action list \<Rightarrow> shm \<Rightarrow> shm option" where
  "run_actions [] s = Some s"
| "run_actions (a # as) s = (if enabled a s then run_actions as (perform a s) else None)"

lemma w_shm_with [simp]: "w_shm (with_shm s w) = s"
  by (simp add: with_shm_def)

lemma request_unique:
  assumes "unique_names s"
  shows "unique_names (perform (Pause B name) s)" "unique_names (perform (Resume B name) s)" "unique_names (perform (Set_offset B name off) s)"
    "unique_names (perform (Restart B name mode) s)" "unique_names (perform (Memory_info B name) s)" "unique_names (perform (Reload B name) s)"
    "unique_names (perform (Loglevel L B name level) s)" "unique_names (perform (Post i f) s)"
  using assms send_request_unique
  by (auto simp: synchdb_pause_engine_def synchdb_resume_engine_def synchdb_set_offset_def synchdb_restart_connector_def synchdb_log_jvm_meminfo_def
      synchdb_reload_objmap_def synchdb_set_dbz_loglevel_def post_request_def split: option.split intro!: names_kept_unique [OF names_kept_upd])

lemma control_unique:
  assumes "unique_names s"
  shows "unique_names (perform (Start cfg B name) s)" "unique_names (perform (Start_mode cfg B name mode) s)" "unique_names (perform (Stop B name) s)"
    "unique_names (perform (Reset_stats B name) s)" "unique_names (perform (Set_snapstats B name a b c d) s)" "unique_names (perform (Delete B name dir) s)"
proof -
  have i: "unique_names (synchdb_init_shmem n s)" for n using assms by (rule init_unique)
  show "unique_names (perform (Start cfg B name) s)" "unique_names (perform (Start_mode cfg B name mode) s)"
    using assms by (auto simp: synchdb_start_engine_bgw_def synchdb_start_engine_bgw_snapshot_mode_def start_engine_unique split: option.split)
  show "unique_names (perform (Stop B name) s)"
    using i by (auto simp: synchdb_stop_engine_bgw_def Let_def split: sum.split intro: names_kept_unique [OF names_kept_pid])
  show "unique_names (perform (Reset_stats B name) s)"
    using i by (auto simp: synchdb_reset_stats_def Let_def split: sum.split intro!: names_kept_unique [OF names_kept_upd])
  show "unique_names (perform (Set_snapstats B name a b c d) s)"
    using i by (auto simp: synchdb_set_snapstats_def set_shm_connector_snapshot_statistics_def Let_def split: option.split
        intro!: names_kept_unique [OF names_kept_upd])
  show "unique_names (perform (Delete B name dir) s)"
    using i free_unique by (auto simp: synchdb_del_conninfo_def Let_def split: option.split)
qed

lemma worker_unique:
  assumes "unique_names s"
  shows "valid_slot s (we_id E) \<Longrightarrow> unique_names (perform (Launch E pid w) s)" "valid_slot s (we_id E) \<Longrightarrow> unique_names (perform (Iterate E type w) s)"
    "unique_names (perform (Detach E pid w) s)"
proof -
  assume v: "valid_slot s (we_id E)"
  show "unique_names (perform (Launch E pid w) s)"
    using names_kept_unique [OF engine_start_names [of "with_shm s w" E pid]] v assms by simp
  show "unique_names (perform (Iterate E type w) s)"
  proof (cases "main_loop_step E type (with_shm s w)")
    case (Some r)
    then have "own_slot_only (we_id E) s (w_shm (fst r))" using main_loop_step_keeps [OF Some] v by simp
    then show ?thesis using Some names_kept_unique [OF own_slot_names] assms by simp
  qed (use assms in simp)
qed (use names_kept_unique [OF detach_names [of "with_shm s w" E pid]] assms in simp)

text \<open>The interleavings as a transition system, and its invariant.\<close>

interpretation connectors: invariant_system "\<lambda>s. s = None" "\<lambda>s t. \<exists>a :: ('db, 'd, 'tid) action. enabled a s \<and> t = perform a s" unique_names
proof
  fix s t
  assume "unique_names s" and "\<exists>a :: ('db, 'd, 'tid) action. enabled a s \<and> t = perform a s"
  then obtain a :: "('db, 'd, 'tid) action" where "enabled a s" and "t = perform a s" by blast
  then show "unique_names t" using \<open>unique_names s\<close>
    by (cases a) (simp_all only: request_unique control_unique worker_unique enabled.simps)
qed simp

lemma run_actions_reach:
  assumes "reach (\<lambda>s. s = None) (\<lambda>s t. \<exists>a :: ('db, 'd, 'tid) action. enabled a s \<and> t = perform a s) s"
    and "run_actions (as :: ('db, 'd, 'tid) action list) s = Some t"
  shows "reach (\<lambda>s. s = None) (\<lambda>s t. \<exists>a :: ('db, 'd, 'tid) action. enabled a s \<and> t = perform a s) t"
  using assms
proof (induction as arbitrary: s)
  case (Cons a as)
  then have "enabled a s" "run_actions as (perform a s) = Some t" by (simp_all split: if_split_asm)
  then show ?case using Cons.IH [OF reach_step [OF Cons.prems(1)]] by blast
qed simp

section \<open>Properties of the system\<close>

text \<open>
  C4: A connector has one slot: in every state that the SQL functions and the workers can reach from the uninitialised shared memory,
  in any order and with any private state of the workers, no two slots carry the same connector name (in any letter case) for
  the same database. Each call of an SQL function is one action, except that a request may be written long after its check.
\<close>

theorem connector_names_unique:
  assumes "run_actions as None = Some s" and "valid_slot s i" and "valid_slot s j"
    and "ci_name (ac_conninfo (slot s i)) \<noteq> []"
    and "strcaseeq (ci_name (ac_conninfo (slot s i))) (ci_name (ac_conninfo (slot s j)))"
    and "strcaseeq (ci_dstdb (ac_conninfo (slot s i))) (ci_dstdb (ac_conninfo (slot s j)))"
  shows "i = j"
proof -
  have "unique_names s" using connectors.reach_inv [OF run_actions_reach [OF reach_init assms(1)]] by simp
  then show ?thesis using assms(2-6) by (simp add: unique_names_def same_connector_def)
qed

lemma example_start:
  "synchdb_start_engine_bgw lower_config example_backend ''c1'' s =
     start_engine lower_config example_backend ''c1'' example_conninfo ''mysql'' ''initial'' s"
  by (simp add: synchdb_start_engine_bgw_def example_backend_def)

lemma free_fields:
  "ac_state free_slot = STATE_UNDEF" "ac_conninfo free_slot = zero_conninfo" "ac_pid free_slot = InvalidPid" "reqstate (ac_req free_slot) = STATE_UNDEF"
  "ci_name zero_conninfo = []" "ci_dstdb zero_conninfo = []" "ci_name example_conninfo = ''c1''" "ci_dstdb example_conninfo = ''db''"
  by (simp_all add: free_slot_def zero_conninfo_def example_conninfo_def)

definition example_started_slot :: ActiveConnectors where
  "example_started_slot = free_slot\<lparr>ac_type := TYPE_MYSQL, ac_snapshotMode := ''initial'', ac_conninfo := example_conninfo\<rparr>"

lemma example_started:
  assumes "s = None \<or> s = Some [free_slot, free_slot]"
  shows "synchdb_start_engine_bgw lower_config example_backend ''c1'' s =
     (Some [example_started_slot, free_slot], Inr [activate_command ''true'' ''c1''])"
proof -
  have "assign_connector_id [free_slot, free_slot] ''c1'' ''db'' = Some 0"
    by (simp add: assign_connector_id_def first_slot_def same_connector_def free_fields upt_rec)
  moreover have "fc_get_connector_type ''mysql'' = Inr TYPE_MYSQL" by (simp add: fc_get_connector_type_def strcaseeq_def c_simps)
  moreover have "synchdb_init_shmem (be_workers example_backend) s = Some [free_slot, free_slot]"
    using assms by (auto simp: synchdb_init_shmem_def example_backend_def numeral_2_eq_2)
  moreover have "be_registered example_backend" "be_started example_backend" "be_compat example_backend = None" by (simp_all add: example_backend_def)
  moreover have "upd_slot 0 (\<lambda>c. c\<lparr>ac_type := TYPE_MYSQL, ac_snapshotMode := ''initial'', ac_conninfo := example_conninfo\<rparr>) (Some [free_slot, free_slot])
      = Some [example_started_slot, free_slot]" by (simp add: upd_slot_def example_started_slot_def)
  ultimately show ?thesis
    unfolding example_start start_engine_def prepare_bgw_def by (simp add: free_fields SYNCHDB_SNAPSHOT_MODE_SIZE_def)
qed

theorem connector_names_unique_witness:
  "\<exists>s. run_actions [Start lower_config example_backend ''c1'' :: (string option list list, string, nat) action] None = Some s
     \<and> ci_name (ac_conninfo (slot s 0)) = ''c1''
     \<and> (\<forall>j. valid_slot s j \<and> strcaseeq ''c1'' (ci_name (ac_conninfo (slot s j))) \<and> strcaseeq ''db'' (ci_dstdb (ac_conninfo (slot s j))) \<longrightarrow> 0 = j)"
proof -
  let ?s = "Some [example_started_slot, free_slot]"
  have r: "run_actions [Start lower_config example_backend ''c1'' :: (string option list list, string, nat) action] None = Some ?s"
    by (simp add: example_started)
  have 0: "ac_conninfo (slot ?s 0) = example_conninfo" by (simp add: slot_def example_started_slot_def)
  have "0 = j" if "valid_slot ?s j" "strcaseeq ''c1'' (slot_name ?s j)" "strcaseeq ''db'' (slot_db ?s j)" for j
    using connector_names_unique [OF r _ that(1), of 0] that(2,3) 0 by (simp add: valid_slot_def free_fields)
  then show ?thesis using r 0 by (auto simp: free_fields)
qed

section \<open>Starting\<close>

lemma start_engine_ok:
  assumes "start_engine cfg B name ci connector mode s0 = (s, Inr cmds)"
  shows "\<exists>i type. fc_get_connector_type connector = Inr type
    \<and> assign_connector_id (the (synchdb_init_shmem (be_workers B) s0)) (ci_name ci) (ci_dstdb ci) = Some i
    \<and> s = upd_slot i (\<lambda>c. c\<lparr>ac_type := type, ac_snapshotMode := mode, ac_conninfo := (if be_compat B \<noteq> None \<and> strcaseeq (the (be_compat B)) ''oracle''
          then ci\<lparr>ci_isOraCompat := True\<rparr> else ci)\<rparr>) (synchdb_init_shmem (be_workers B) s0)"
  using assms by (auto simp: start_engine_def prepare_bgw_def pg_err_def Let_def split: if_split_asm option.split_asm sum.split_asm prod.split_asm)

text \<open>
  C10: A started connector is found again. In every reachable state, when \<^verbatim>\<open>synchdb_start_engine_bgw\<close> succeeds for a
  connector, the control functions that look up its name and database find the slot that the start filled with the connection
  information, the type and the snapshot mode, for the worker to pick up; every other slot is as it was.
\<close>

theorem started_connector_found:
  assumes "run_actions as None = Some (Some cs)" and "be_conninfo B name = Some (ci, connector)" and "ci_name ci \<noteq> []"
    and "synchdb_start_engine_bgw cfg B name (Some cs) = (s, Inr cmds)"
  shows "\<exists>i. get_shm_connector_id_by_name s (ci_name ci) (ci_dstdb ci) = Some i \<and> fc_get_connector_type connector = Inr (ac_type (slot s i))
    \<and> ac_snapshotMode (slot s i) = ''initial'' \<and> (ac_conninfo (slot s i))\<lparr>ci_isOraCompat := x\<rparr> = ci\<lparr>ci_isOraCompat := x\<rparr>
    \<and> (\<forall>j. j \<noteq> i \<longrightarrow> slot s j = slot (Some cs) j)"
proof -
  have "start_engine cfg B name ci connector ''initial'' (Some cs) = (s, Inr cmds)" using assms(2,4) by (simp add: synchdb_start_engine_bgw_def)
  from start_engine_ok [OF this] obtain i type where type: "fc_get_connector_type connector = Inr type"
    and i: "assign_connector_id cs (ci_name ci) (ci_dstdb ci) = Some i"
    and s: "s = upd_slot i (\<lambda>c. c\<lparr>ac_type := type, ac_snapshotMode := ''initial'', ac_conninfo := (if be_compat B \<noteq> None \<and> strcaseeq (the (be_compat B)) ''oracle''
          then ci\<lparr>ci_isOraCompat := True\<rparr> else ci)\<rparr>) (Some cs)" by (auto simp: synchdb_init_shmem_def)
  have v: "valid_slot (Some cs) i" using assign_connector_id_Some(1) [OF i] by (simp add: valid_slot_def)
  have u: "unique_names s" unfolding s
    by (rule write_assigned [where name = "ci_name ci" and dstdb = "ci_dstdb ci"], use i in \<open>simp_all\<close>)
      (use connectors.reach_inv [OF run_actions_reach [OF reach_init assms(1)]] in auto)
  have fields: "slot_name s i = ci_name ci" "slot_db s i = ci_dstdb ci" using v by (auto simp: s)
  have j: "j = i" if "valid_slot s j" "slot_name s j = ci_name ci" "slot_db s j = ci_dstdb ci" for j
  proof -
    have "valid_slot s i" using v by (simp add: s)
    moreover have "same_connector (ac_conninfo (slot s j)) (slot_name s i) (slot_db s i)"
      using that(2,3) fields by (simp add: same_connector_def strcaseeq_def)
    moreover have "slot_name s j \<noteq> []" using that(2) assms(3) by simp
    ultimately show ?thesis using u that(1) unfolding unique_names_def by blast
  qed
  obtain cs' where cs': "s = Some cs'" "length cs' = length cs" using s by (auto simp: upd_slot_def)
  have "get_shm_connector_id_by_name s (ci_name ci) (ci_dstdb ci) = Some i"
  proof -
    have sl: "cs' ! k = slot s k" and vs: "k < length cs' \<longleftrightarrow> valid_slot s k" for k by (simp_all add: cs'(1) slot_def valid_slot_def)
    have "first_slot (\<lambda>c. ci_name (ac_conninfo c) = ci_name ci \<and> ci_dstdb (ac_conninfo c) = ci_dstdb ci) cs' = Some i"
    proof (rule first_slot_unique)
      show "i < length cs'" using v unfolding vs s by simp
      show "ci_name (ac_conninfo (cs' ! i)) = ci_name ci \<and> ci_dstdb (ac_conninfo (cs' ! i)) = ci_dstdb ci" using fields by (simp add: sl)
      show "k = i" if "k < length cs'" "ci_name (ac_conninfo (cs' ! k)) = ci_name ci \<and> ci_dstdb (ac_conninfo (cs' ! k)) = ci_dstdb ci" for k
        using j [of k] that by (simp add: sl vs)
    qed
    then show ?thesis by (simp add: get_shm_connector_id_by_name_def cs'(1))
  qed
  then show ?thesis using v type shm.look_upd_other by (intro exI [of _ i]) (auto simp: s)
qed

theorem started_connector_found_witness:
  "\<exists>s cmds. run_actions [Reset_stats example_backend ''c1'' :: (string option list list, string, nat) action] None = Some (Some [free_slot, free_slot])
     \<and> synchdb_start_engine_bgw lower_config example_backend ''c1'' (Some [free_slot, free_slot]) = (s, Inr cmds)
     \<and> get_shm_connector_id_by_name s ''c1'' ''db'' = Some 0"
proof -
  let ?s = "Some [example_started_slot, free_slot]"
  have r: "run_actions [Reset_stats example_backend ''c1'' :: (string option list list, string, nat) action] None = Some (Some [free_slot, free_slot])"
    by (simp add: synchdb_reset_stats_def connector_slot_def get_shm_connector_id_by_name_def first_slot_def pg_err_def synchdb_init_shmem_def
        example_backend_def free_fields upt_rec numeral_2_eq_2)
  have b: "be_conninfo example_backend ''c1'' = Some (example_conninfo, ''mysql'')" by (simp add: example_backend_def)
  have st: "synchdb_start_engine_bgw lower_config example_backend ''c1'' (Some [free_slot, free_slot]) = (?s, Inr [activate_command ''true'' ''c1''])"
    by (rule example_started) simp
  obtain i where i: "get_shm_connector_id_by_name ?s ''c1'' ''db'' = Some i"
    using started_connector_found [OF r b _ st] by (auto simp: free_fields)
  then have "i = 0" by (simp add: get_shm_connector_id_by_name_def first_slot_def upt_rec example_started_slot_def free_fields)
  then show ?thesis using r st i by blast
qed



section \<open>Requests take effect\<close>

text \<open>
  C9: A pause takes effect and holds. When \<^verbatim>\<open>synchdb_pause_engine\<close> accepts the request for a connector that is polling and the
  engine can be stopped, the next iteration of the worker, whatever the connector's type, ends without an error with the
  connector PAUSED, the request gone and neither database nor data cache touched; and from then on an iteration changes nothing at
  all until another request arrives, whatever the environment offers.
\<close>

theorem pause_takes_effect:
  assumes "synchdb_pause_engine B name (fl_shm (w_flow w)) = (s1, Inr ())"
    and "connector_slot B name (fl_shm (w_flow w)) = Inr (fe_id (we_flow E))" and "valid_slot (fl_shm (w_flow w)) (fe_id (we_flow E))"
    and "ac_state (slot (fl_shm (w_flow w)) (fe_id (we_flow E))) = STATE_SYNCING" and "\<not> w_exit w" and "we_stop E = 0"
  shows "\<exists>w'. main_loop_step E type (with_shm s1 w) = Some (w', None)
    \<and> ac_state (slot (fl_shm (w_flow w')) (fe_id (we_flow E))) = STATE_PAUSED
    \<and> reqstate (ac_req (slot (fl_shm (w_flow w')) (fe_id (we_flow E)))) = STATE_UNDEF
    \<and> fl_db (w_flow w') = fl_db (w_flow w) \<and> fl_cache (w_flow w') = fl_cache (w_flow w)
    \<and> (\<forall>E'. fe_id (we_flow E') = fe_id (we_flow E) \<longrightarrow> main_loop_step (E' :: ('db, 'd, 'tid) worker_env) type w' = Some (w', None))"
proof -
  let ?i = "fe_id (we_flow E)" and ?w = "with_shm s1 w"
  have "synchdb_init_shmem (be_workers B) (w_shm w) = w_shm w" using assms(3) by (auto simp: valid_slot_def synchdb_init_shmem_def)
  then have s1: "s1 = post_request ?i (\<lambda>r. r\<lparr>reqstate := STATE_PAUSED\<rparr>) (w_shm w)"
    using assms(1,2) by (auto simp: synchdb_pause_engine_def send_request_def request_check_def no_guard_def pg_err_def Let_def split: sum.split_asm if_split_asm)
  have v: "w_valid E ?w" using assms(3) by (simp add: s1 post_request_def)
  have sl: "w_slot E ?w = (w_slot E w)\<lparr>ac_req := (ac_req (w_slot E w))\<lparr>reqstate := STATE_PAUSED\<rparr>\<rparr>"
    using assms(3) by (simp add: s1 post_request_def)
  have "processRequestInterrupt E type ?w = do_pause E type ?w"
    using pending_request [OF v, of type] sl assms(4) by (simp add: Let_def)
  moreover have "\<exists>w1. do_pause E type ?w = (w1, None)" using assms(6) by (auto simp: do_pause_def Let_def)
  ultimately obtain w1 where p: "processRequestInterrupt E type ?w = (w1, None)" and d: "do_pause E type ?w = (w1, None)" by auto
  have served: "served E {STATE_PAUSED} ?w w1"
    using pause_served [OF v _ d] sl assms(4,6) by simp
  have ex: "\<not> w_exit w1" using d assms(5)
    by (auto simp: do_pause_def Let_def clear_request_def go_state_def upd_shm_def upd_olr_def call_def with_shm_def split: if_split_asm)
  have v1: "w_valid E w1" using d v by (auto simp: do_pause_def Let_def split: if_split_asm)
  have pa: "ac_state (w_slot E w1) = STATE_PAUSED" "reqstate (ac_req (w_slot E w1)) = STATE_UNDEF" using served by (simp_all add: served_def)
  have "main_loop_step E type ?w = Some (w1, None)"
    using p pa v1 assms(5) by (auto simp: main_loop_step_def then_do_def get_shm_connector_state_enum_def valid_slot_def with_shm_def upd_shm_def)
  moreover have "fl_db (w_flow w1) = fl_db (w_flow w)" "fl_cache (w_flow w1) = fl_cache (w_flow w)"
    using served by (simp_all add: served_def data_of_def with_shm_def upd_shm_def)
  moreover have "main_loop_step E' type w1 = Some (w1, None)" if "we_id E' = ?i" for E' :: "('db, 'd, 'tid) worker_env"
    using idle_step [of w1 E' type] v1 ex pa that by simp
  ultimately show ?thesis using pa by blast
qed

theorem pause_takes_effect_witness:
  "\<exists>s1 w'. synchdb_pause_engine example_backend ''c1'' (fl_shm (w_flow example_worker)) = (s1, Inr ())
     \<and> main_loop_step example_worker_env TYPE_MYSQL (with_shm s1 example_worker) = Some (w', None)
     \<and> ac_state (slot (fl_shm (w_flow w')) 0) = STATE_PAUSED"
proof -
  have shm: "w_shm example_worker = Some [example_slot, free_slot]" by (simp add: example_worker_def new_worker_def)
  have slot: "ac_conninfo example_slot = example_conninfo" "ac_pid example_slot = 100" "ac_state example_slot = STATE_SYNCING"
    "reqstate (ac_req example_slot) = STATE_UNDEF" by (simp_all add: example_slot_def free_fields)
  have c: "connector_slot example_backend ''c1'' (w_shm example_worker) = Inr (fe_id (we_flow example_worker_env))"
    by (simp add: shm connector_slot_def get_shm_connector_id_by_name_def first_slot_def upt_rec slot free_fields)
      (simp add: example_backend_def example_worker_env_def example_env_def)
  have z: "fe_id (we_flow example_worker_env) = 0" by (simp add: example_worker_env_def example_env_def)
  have s0: "slot (w_shm example_worker) 0 = example_slot" by (simp add: shm slot_def)
  have i: "synchdb_init_shmem n (w_shm example_worker) = w_shm example_worker" for n by (simp add: shm synchdb_init_shmem_def)
  have "request_check example_backend ''c1'' no_guard (w_shm example_worker) = Inr 0"
    using c s0 slot by (simp add: request_check_def z get_shm_connector_pid_def no_guard_def InvalidPid_def shm)
  then obtain s1 where s1: "synchdb_pause_engine example_backend ''c1'' (w_shm example_worker) = (s1, Inr ())"
    by (simp add: synchdb_pause_engine_def send_request_def i)
  have "valid_slot (w_shm example_worker) (fe_id (we_flow example_worker_env))" "\<not> w_exit example_worker" "we_stop example_worker_env = 0"
    "ac_state (slot (w_shm example_worker) (fe_id (we_flow example_worker_env))) = STATE_SYNCING"
    using s0 slot by (simp_all add: z shm valid_slot_def) (simp_all add: example_worker_def new_worker_def example_worker_env_def)
  from pause_takes_effect [OF s1 c this(1,4,2,3), of TYPE_MYSQL] s1 z show ?thesis by auto
qed

lemma w_conn_simps:
  "w_conn (upd_shm f w) = w_conn w" "w_conn (go_state E st w) = w_conn w" "w_conn (upd_olr g w) = w_conn w" "w_conn (call c w) = w_conn w"
  "w_conn (upd_flag h w) = (w_conn w)\<lparr>ci_flag := h (ci_flag (w_conn w))\<rparr>"
  by (simp_all add: upd_shm_def go_state_def upd_olr_def call_def upd_flag_def)

lemma flag_bits:
  "has_flag ci CONNFLAG_SCHEMA_SYNC_MODE \<longleftrightarrow> bit (ci_flag ci) 0" "has_flag ci CONNFLAG_NO_CDC_MODE \<longleftrightarrow> bit (ci_flag ci) 1"
  "has_flag ci CONNFLAG_INITIAL_SNAPSHOT_MODE \<longleftrightarrow> bit (ci_flag ci) 2"
  unfolding has_flag_def CONNFLAG_SCHEMA_SYNC_MODE_def CONNFLAG_NO_CDC_MODE_def CONNFLAG_INITIAL_SNAPSHOT_MODE_def
  by (rule bit_iff_and_push_bit_not_eq_0 [symmetric])+

text \<open>The two complements: the first clears the lowest flag, the second the three lowest.\<close>

lemma flag_masks:
  "n < 32 \<Longrightarrow> bit not_CONNFLAG_SCHEMA_SYNC_MODE n \<longleftrightarrow> n \<noteq> 0" "n < 32 \<Longrightarrow> bit not_CONNFLAG_INITIAL_SNAPSHOT_MODE n \<longleftrightarrow> 2 < n"
  unfolding not_CONNFLAG_SCHEMA_SYNC_MODE_def not_CONNFLAG_INITIAL_SNAPSHOT_MODE_def bit_push_bit_iff bit_not_iff bit_1_iff by auto

lemma leave_schema_sync_flags:
  assumes "has_flag (w_conn w) CONNFLAG_INITIAL_SNAPSHOT_MODE"
  shows "\<not> has_flag (w_conn (leave_schema_sync E w)) CONNFLAG_NO_CDC_MODE"
  using assms by (simp add: leave_schema_sync_def Let_def w_conn_simps flag_bits flag_masks bit_and_iff)

text \<open>
  A connector that was asked for the initial snapshot only goes on capturing changes. \<^verbatim>\<open>~CONNFLAG_INITIAL_SNAPSHOT_MODE\<close> expands to
  \<^verbatim>\<open>~1 << 2\<close>, which clears the three lowest flags: when the snapshot of an Openlog connector is done, the flag that forbids change
  data capture is gone with it, so that the following iterations poll the server instead of ending the worker.
\<close>

theorem initial_only_not_kept:
  assumes "finish_olr E type w = (w', None)" and "has_flag (w_conn w) CONNFLAG_INITIAL_SNAPSHOT_MODE" and "has_flag (w_conn w) CONNFLAG_NO_CDC_MODE"
  shows "\<not> has_flag (w_conn w') CONNFLAG_NO_CDC_MODE"
proof -
  define w1 where "w1 = (if has_flag (w_conn w) CONNFLAG_SCHEMA_SYNC_MODE then leave_schema_sync E w
      else upd_shm (set_shm_connector_stage (we_id E) STAGE_CHANGE_DATA_CAPTURE)
        (if has_flag (w_conn w) CONNFLAG_INITIAL_SNAPSHOT_MODE
         then go_state E STATE_SYNCING (upd_flag (\<lambda>f. f AND not_CONNFLAG_INITIAL_SNAPSHOT_MODE) w) else w))"
  have "w_conn w' = w_conn w1"
    using assms(1) unfolding finish_olr_def Let_def w1_def [symmetric]
    by (auto simp: w_conn_simps fail_with_def raise_with_def split: sum.split_asm pg_error.split_asm option.split_asm)
  moreover have "\<not> has_flag (w_conn w1) CONNFLAG_NO_CDC_MODE"
    using leave_schema_sync_flags [OF assms(2), of E] assms(2) by (simp add: w1_def w_conn_simps flag_bits flag_masks bit_and_iff)
  ultimately show ?thesis by simp
qed

theorem initial_only_not_kept_witness:
  "\<exists>w'. finish_olr example_worker_env TYPE_OLR (example_worker\<lparr>w_conn := example_conninfo\<lparr>ci_flag := 6\<rparr>\<rparr>) = (w', None)
     \<and> \<not> has_flag (w_conn w') CONNFLAG_NO_CDC_MODE"
proof -
  let ?w = "example_worker\<lparr>w_conn := example_conninfo\<lparr>ci_flag := 6\<rparr>\<rparr>"
  have f: "has_flag (w_conn ?w) CONNFLAG_INITIAL_SNAPSHOT_MODE" "has_flag (w_conn ?w) CONNFLAG_NO_CDC_MODE" by (simp_all add: flag_bits)
  have e: "we_writable example_worker_env" by (simp add: example_worker_env_def)
  obtain w' where "finish_olr example_worker_env TYPE_OLR ?w = (w', None)"
    by (simp add: finish_olr_def Let_def e olr_client_write_scn_state_def olr_client_write_snapshot_state_def)
  with initial_only_not_kept [OF this f] show ?thesis by blast
qed

section \<open>The end of a worker\<close>

lemma cleanup_shm: "\<exists>m. w_shm (fst (cleanup E type w)) = w_shm w \<or> w_shm (fst (cleanup E type w)) = set_shm_connector_errmsg (we_id E) m (w_shm w)"
proof -
  have fail: "\<exists>m. w_shm (fst (fail_with E e v)) = w_shm v \<or> w_shm (fst (fail_with E e v)) = set_shm_connector_errmsg (we_id E) m (w_shm v)" for e v
    by (auto simp: fail_with_def raise_with_def split: pg_error.split option.split)
  define r where "r = (if is_olr E type
        then let ci = ac_conninfo (slot (w_shm w) (we_id E))
             in case olr_client_write_scn_state (we_writable E) (we_clock E) (we_flush_interval_ms E) type (ci_name ci) (ci_dstdb ci) True
                       (fl_olr (w_flow w)) (w_files w) of
                  Inl e \<Rightarrow> fail_with E e w
                | Inr (_, c, fs) \<Rightarrow> (upd_olr (\<lambda>_. c) (w\<lparr>w_files := fs\<rparr>), None)
        else let w1 = call Call_stop w in (if w_jvm w1 then (call Call_destroy_jvm w1)\<lparr>w_jvm := False\<rparr> else w1, None))"
  have r: "w_shm (fst r) = w_shm w \<or> snd r \<noteq> None \<and> (\<exists>m. w_shm (fst r) = set_shm_connector_errmsg (we_id E) m (w_shm w))"
    by (auto simp: r_def Let_def fail_with_def raise_with_def split: sum.split prod.split pg_error.split option.split)
  show ?thesis unfolding cleanup_def r_def [symmetric]
    using r fail [of _ "fst r"] by (cases r; cases "snd r") (auto simp: then_do_def split: sum.split)
qed



end
