(* ===== verification/Conn_Launch.thy ===== *)
theory Conn_Launch
  imports Conn_Rules Conn_Invariant
begin

text \<open>
  The launchers that start the active connectors again when the server starts
  (\<^verbatim>\<open>src/backend/synchdb/synchdb.c\<close>), with the query for the active names, and three routines of the
  foreign data wrapper snapshot around its scripts: the list of failed tables and the dump of the schema
  history (\<^verbatim>\<open>src/backend/executor/replication_agent.c\<close>) and the SQL function that translates a data type.
\<close>

section \<open>The active connectors\<close>

definition active_query :: string where
  "active_query = ''SELECT name FROM synchdb_conninfo WHERE isactive = true''"

text \<open>
  The answer to the query is an argument: an error that is raised, no answer, or the names. The names are written to
  an array that the caller has given \<open>room\<close> places; \<open>None\<close> is a return value other than 0.
\<close>

definition ra_listConnInfoNames ::
  "(string \<Rightarrow> 'db \<Rightarrow> string list option res) \<Rightarrow> nat \<Rightarrow> 'db \<Rightarrow> string list option res" where
  "ra_listConnInfoNames sel room db =
     rbind (sel active_query db) (\<lambda>rows.
       case rows of
         None \<Rightarrow> Inr None
       | Some [] \<Rightarrow> Inr None
       | Some names \<Rightarrow> if room < length names then Inl (Undefined ''name past the array'') else Inr (Some names))"

section \<open>The launchers\<close>

text \<open>
  One connector after the other is started, each in its own transaction: an error ends the launcher, and what was
  done before stays. The result is the shared memory, the commands that were run and the error.
\<close>

fun launch_connectors :: "config \<Rightarrow> backend_env \<Rightarrow> string list \<Rightarrow> shm \<Rightarrow> shm \<times> string list \<times> pg_error option" where
  "launch_connectors cfg E [] s = (s, [], None)"
| "launch_connectors cfg E (n # ns) s =
     (case synchdb_start_engine_bgw cfg E n s of
        (s1, Inl e) \<Rightarrow> (s1, [], Some e)
      | (s1, Inr cmds) \<Rightarrow> (let (s2, cmds2, r) = launch_connectors cfg E ns s1 in (s2, cmds @ cmds2, r)))"

text \<open>A database where the table cannot be read is skipped.\<close>

definition synchdb_db_launcher_main ::
  "config \<Rightarrow> backend_env \<Rightarrow> (string \<Rightarrow> 'db \<Rightarrow> string list option res) \<Rightarrow> 'db \<Rightarrow> shm \<Rightarrow> shm \<times> string list \<times> pg_error option" where
  "synchdb_db_launcher_main cfg E sel db s =
     (case ra_listConnInfoNames sel (be_workers E) db of
        Inl (PgError _ _) \<Rightarrow> (s, [], None)
      | Inl e \<Rightarrow> (s, [], Some e)
      | Inr None \<Rightarrow> (s, [], None)
      | Inr (Some names) \<Rightarrow> launch_connectors cfg E (take (be_workers E) names) s)"

text \<open>
  The databases are served one after the other, each by a worker of its own that is waited for; one that cannot be
  registered is skipped. \<open>launch\<close> is what the worker for a database does.
\<close>

fun launch_databases :: "(string \<Rightarrow> bool) \<Rightarrow> (string \<Rightarrow> shm \<Rightarrow> shm \<times> string list \<times> pg_error option) \<Rightarrow> string list \<Rightarrow> shm \<Rightarrow> shm" where
  "launch_databases registered launch [] s = s"
| "launch_databases registered launch (d # ds) s =
     launch_databases registered launch ds (if registered d then fst (launch d s) else s)"

definition synchdb_auto_launcher_main ::
  "(string \<Rightarrow> string list option) \<Rightarrow> (string \<Rightarrow> bool) \<Rightarrow> (string \<Rightarrow> shm \<Rightarrow> shm \<times> string list \<times> pg_error option) \<Rightarrow> shm \<Rightarrow> shm" where
  "synchdb_auto_launcher_main sel registered launch s =
     (case sel ''SELECT datname FROM pg_database WHERE datallowconn AND NOT datistemplate;'' of
        None \<Rightarrow> s
      | Some dbnames \<Rightarrow> launch_databases registered launch dbnames s)"

section \<open>Around the snapshot scripts\<close>

definition snapshot_errors_query :: "string \<Rightarrow> string" where
  "snapshot_errors_query name =
     ''SELECT string_agg(tbl, '' @ quoted '','' @ '' ORDER BY tbl) AS failed_tables, max(err_offset) AS err_offset FROM synchdb_fdw_snapshot_errors_'' @
     name @ '' WHERE connector_name = '' @ quoted name"

text \<open>
  The result is the return value, the list of tables, whether there is one, and the offset. An error that the query
  raises is caught.
\<close>

definition ra_get_fdw_snapshot_err_table_list ::
  "(string \<Rightarrow> 'db \<Rightarrow> (string option \<times> string option) list option res) \<Rightarrow> string \<Rightarrow> 'db \<Rightarrow> int \<times> string option \<times> nat \<times> string option" where
  "ra_get_fdw_snapshot_err_table_list sel name db =
     (case sel (snapshot_errors_query name) db of
        Inl _ \<Rightarrow> (-1, None, 0, None)
      | Inr None \<Rightarrow> (-1, None, 0, None)
      | Inr (Some [(tbls, offset)]) \<Rightarrow> (0, tbls, if tbls = None then 0 else 1, offset)
      | Inr (Some _) \<Rightarrow> (0, None, 0, None))"

text \<open>
  The schema history is fetched from a cursor in blocks until a fetch returns nothing, each line is written with a
  line feed, a null is left out. The cursor is the rows that have not been fetched; a loop that does not end is \<open>None\<close>.
  An error of the server is one before the first line.
\<close>

definition fetchSize :: nat where
  "fetchSize = 10000"

definition history_lines :: "string option list \<Rightarrow> string" where
  "history_lines rows = concat (map (\<lambda>r. case r of None \<Rightarrow> [] | Some l \<Rightarrow> l @ [CHR 0x0A]) rows)"

partial_function (option) dump_loop :: "string option list \<Rightarrow> string \<Rightarrow> string option" where
  "dump_loop cursor file =
     (case take fetchSize cursor of
        [] \<Rightarrow> Some file
      | block \<Rightarrow> dump_loop (drop fetchSize cursor) (file @ history_lines block))"

definition dump_schema_history_to_file ::
  "(string \<Rightarrow> 'db \<Rightarrow> string option list res) \<Rightarrow> string \<Rightarrow> bool \<Rightarrow> 'db \<Rightarrow> (int \<times> string option) option" where
  "dump_schema_history_to_file sel connector_name opened db =
     (if \<not> opened then Some (-1, None)
      else case sel (''SELECT line FROM schema_history_'' @ connector_name) db of
             Inl _ \<Rightarrow> Some (-1, Some [])
           | Inr rows \<Rightarrow> map_option (\<lambda>f. (0, Some f)) (dump_loop rows []))"

text \<open>The lengths that do not fit \<^verbatim>\<open>int\<close> stand for no length; the arguments are read as unsigned.\<close>

definition type_number :: "64 word \<Rightarrow> int" where
  "type_number x = (if 2147483647 \<le> x then -1 else uint x)"

definition typed :: "string \<Rightarrow> int \<Rightarrow> int \<Rightarrow> string" where
  "typed t len scale =
     (if 0 < len \<and> 0 < scale then t @ ''('' @ show_int len @ '', '' @ show_int scale @ '')''
      else if 0 < len \<and> (scale = 0 \<or> scale = -1) then t @ ''('' @ show_int len @ '')''
      else t)"

definition synchdb_translate_datatype :: "conv_state \<Rightarrow> string \<Rightarrow> string \<Rightarrow> 64 word \<Rightarrow> 64 word \<Rightarrow> 64 word \<Rightarrow> string" where
  "synchdb_translate_datatype cs type ext_datatype ext_len ext_scale ext_precision =
     (let len = type_number ext_len; scale = type_number ext_scale; precision = type_number ext_precision;
          connectorType = stringToConnectorType type
      in if connectorType = TYPE_UNDEF then ''text''
         else let len = (if len \<le> 0 \<and> 0 < precision then precision else len)
              in case fc_translate_datatype cs connectorType ext_datatype len scale of
                   (Some (pg_datatype, pg_datatype_len), len, scale) \<Rightarrow>
                     typed pg_datatype (if pg_datatype_len = -1 then len else pg_datatype_len) scale
                 | (None, len, scale) \<Rightarrow> typed ext_datatype len scale)"

section \<open>The dump ends\<close>

lemma history_lines_append [simp]: "history_lines (xs @ ys) = history_lines xs @ history_lines ys"
  by (simp add: history_lines_def)

lemma dump_loop_ends: "dump_loop rows out = Some (out @ history_lines rows)"
proof (induction rows arbitrary: out rule: length_induct)
  case (1 rows)
  show ?case
  proof (cases rows)
    case Nil
    then show ?thesis by (subst dump_loop.simps) (simp add: history_lines_def)
  next
    case (Cons r rs)
    then have "length (drop fetchSize rows) < length rows" by (simp add: fetchSize_def)
    note rest = 1 [rule_format, OF this]
    obtain b bs where block: "take fetchSize rows = b # bs" using Cons by (cases "take fetchSize rows") (auto simp: fetchSize_def)
    have "dump_loop rows out = Some ((out @ history_lines (take fetchSize rows)) @ history_lines (drop fetchSize rows))"
      by (subst dump_loop.simps) (simp only: block list.case rest)
    then show ?thesis by (simp flip: history_lines_append)
  qed
qed


section \<open>The active connectors are started\<close>

lemma first_slot_least:
  "i < length cs \<Longrightarrow> p (cs ! i) \<Longrightarrow> (\<And>j. j < i \<Longrightarrow> \<not> p (cs ! j)) \<Longrightarrow> first_slot p cs = Some i"
  unfolding first_slot_def by (subst find_Some_iff) (auto intro!: exI [of _ i])

text \<open>The first slots hold the connectors that have been launched, and the others are free.\<close>

definition launched :: "string \<Rightarrow> string list \<Rightarrow> ActiveConnectors list \<Rightarrow> bool" where
  "launched dbname names cs \<longleftrightarrow> length names \<le> length cs
     \<and> (\<forall>i < length names. ci_name (ac_conninfo (cs ! i)) = names ! i \<and> ci_dstdb (ac_conninfo (cs ! i)) = dbname
          \<and> ac_snapshotMode (cs ! i) = ''initial'')
     \<and> (\<forall>i < length cs. length names \<le> i \<longrightarrow> cs ! i = free_slot)"

text \<open>A connector whose information lets it start.\<close>

definition launchable :: "config \<Rightarrow> backend_env \<Rightarrow> string \<Rightarrow> bool" where
  "launchable cfg E n \<longleftrightarrow> n \<noteq> [] \<and> (case be_conninfo E n of
       None \<Rightarrow> False
     | Some (ci, connector) \<Rightarrow> ci_name ci = n \<and> ci_dstdb ci = be_dbname E
         \<and> (case fc_get_connector_type connector of Inl _ \<Rightarrow> False
            | Inr type \<Rightarrow> type = TYPE_OLR \<longrightarrow> ol_host (ci_olr ci) \<noteq> [] \<and> ol_source (ci_olr ci) \<noteq> [] \<and> ol_port (ci_olr ci) \<noteq> 0))"

lemma start_launched:
  assumes s: "synchdb_init_shmem (be_workers E) s0 = Some cs" and cs: "launched (be_dbname E) names cs" and names: "[] \<notin> set names"
    and room: "length names < length cs" and n: "launchable cfg E n" "\<forall>x \<in> set names. \<not> strcaseeq x n" and E: "be_registered E" "be_started E"
  obtains cs' where "synchdb_start_engine_bgw cfg E n s0 = (Some cs', Inr [activate_command ''true'' n])"
    and "launched (be_dbname E) (names @ [n]) cs'" and "length cs' = length cs"
proof -
  obtain ci connector where ci: "be_conninfo E n = Some (ci, connector)" using n(1) by (auto simp: launchable_def split: option.splits)
  moreover obtain type where "fc_get_connector_type connector = Inr type"
    using n(1) ci by (cases "fc_get_connector_type connector") (auto simp: launchable_def)
  ultimately have ci: "be_conninfo E n = Some (ci, connector)" "ci_name ci = n" "ci_dstdb ci = be_dbname E" "n \<noteq> []"
      "fc_get_connector_type connector = Inr type"
    and olr: "type = TYPE_OLR \<longrightarrow> ol_host (ci_olr ci) \<noteq> [] \<and> ol_source (ci_olr ci) \<noteq> [] \<and> ol_port (ci_olr ci) \<noteq> 0"
    using n(1) by (auto simp: launchable_def)
  let ?k = "length names"
  have free: "ci_name (ac_conninfo free_slot) = []" "ci_dstdb (ac_conninfo free_slot) = []" "ac_state free_slot = STATE_UNDEF"
    by (simp_all add: free_fields)
  have "\<not> same_connector (ac_conninfo (cs ! i)) n (be_dbname E)" if "i < length cs" for i
    using that cs n(2) ci(4) free unfolding launched_def same_connector_def
    by (cases "i < ?k") (auto simp: strcaseeq_def)
  then have "first_slot (\<lambda>c. same_connector (ac_conninfo c) n (be_dbname E)) cs = None"
    by (simp add: first_slot_None)
  moreover have "first_slot (\<lambda>c. ac_state c = STATE_UNDEF \<and> ci_name (ac_conninfo c) = [] \<and> ci_dstdb (ac_conninfo c) = []) cs = Some ?k"
  proof (rule first_slot_least [OF room])
    show "\<not> (ac_state (cs ! j) = STATE_UNDEF \<and> ci_name (ac_conninfo (cs ! j)) = [] \<and> ci_dstdb (ac_conninfo (cs ! j)) = [])" if "j < ?k" for j
    proof -
      have "names ! j \<noteq> []" using nth_mem [OF that] names by metis
      then show ?thesis using that cs by (simp add: launched_def)
    qed
  qed (use cs room free in \<open>simp add: launched_def\<close>)
  ultimately have i: "assign_connector_id cs (ci_name ci) (ci_dstdb ci) = Some ?k" by (simp add: assign_connector_id_def ci)
  define ci' where "ci' = (if be_compat E \<noteq> None \<and> strcaseeq (the (be_compat E)) ''oracle'' then ci\<lparr>ci_isOraCompat := True\<rparr> else ci)"
  define cs' where "cs' = cs[?k := (cs ! ?k)\<lparr>ac_type := type, ac_snapshotMode := ''initial'', ac_conninfo := ci'\<rparr>]"
  have "prepare_bgw E ci connector ?k ''initial'' (Some cs) = (Some cs', Inr ())"
    by (simp add: prepare_bgw_def ci upd_slot_def ci'_def cs'_def SYNCHDB_SNAPSHOT_MODE_SIZE_def)
  moreover have "\<not> (with_olr cfg \<and> fc_get_connector_type connector = Inr TYPE_OLR
         \<and> (ol_host (ci_olr ci) = [] \<or> ol_source (ci_olr ci) = [] \<or> ol_port (ci_olr ci) = 0))" using olr ci(5) by auto
  ultimately have "synchdb_start_engine_bgw cfg E n s0 = (Some cs', Inr [activate_command ''true'' n])"
    using i E by (simp add: synchdb_start_engine_bgw_def ci(1) start_engine_def s)
  moreover have "ci_name ci' = n" "ci_dstdb ci' = be_dbname E" by (simp_all add: ci'_def ci)
  then have "launched (be_dbname E) (names @ [n]) cs'"
    using cs room unfolding launched_def cs'_def by (auto simp: nth_append less_Suc_eq)
  ultimately show ?thesis using that by (simp add: cs'_def)
qed

lemma launch_connectors_launched:
  assumes "synchdb_init_shmem (be_workers E) s0 = Some cs" and "launched (be_dbname E) names cs" and "length names + length ns \<le> length cs"
    and "[] \<notin> set names" and "\<forall>n \<in> set ns. launchable cfg E n" and "distinct (map (map c_tolower) (names @ ns))" and "be_registered E" and "be_started E"
  shows "\<exists>s' cs'. launch_connectors cfg E ns s0 = (s', map (activate_command ''true'') ns, None)
    \<and> s' = (if ns = [] then s0 else Some cs') \<and> launched (be_dbname E) (names @ ns) cs' \<and> length cs' = length cs"
  using assms
proof (induction ns arbitrary: s0 names cs)
  case Nil
  then show ?case by auto
next
  case (Cons n ns)
  have "n \<noteq> []" using Cons.prems(5) by (simp add: launchable_def)
  moreover obtain cs1 where cs1: "synchdb_start_engine_bgw cfg E n s0 = (Some cs1, Inr [activate_command ''true'' n])"
    "launched (be_dbname E) (names @ [n]) cs1" "length cs1 = length cs"
    by (rule start_launched [OF Cons.prems(1,2,4)]) (use Cons.prems in \<open>auto simp: strcaseeq_def image_iff\<close>)
  ultimately have "\<exists>s' cs'. launch_connectors cfg E ns (Some cs1) = (s', map (activate_command ''true'') ns, None)
    \<and> s' = (if ns = [] then Some cs1 else Some cs') \<and> launched (be_dbname E) ((names @ [n]) @ ns) cs' \<and> length cs' = length cs1"
    by (intro Cons.IH) (use Cons.prems cs1 in \<open>auto simp: synchdb_init_shmem_def\<close>)
  then show ?case using cs1 by (cases "ns = []") auto
qed



section \<open>The table follows the control functions\<close>



end
