(* ===== verification/Dbz_Runner.thy ===== *)
theory Dbz_Runner
  imports Conn_Worker
begin

text \<open>
  The calls of the worker into the Debezium runner, through JNI (\<^verbatim>\<open>set_extra_dbz_parameters\<close>, \<^verbatim>\<open>dbz_engine_init\<close>,
  \<^verbatim>\<open>dbz_engine_start\<close>, \<^verbatim>\<open>dbz_engine_stop\<close>, \<^verbatim>\<open>dbz_engine_get_offset\<close>, \<^verbatim>\<open>dbz_engine_set_offset\<close>, \<^verbatim>\<open>dbz_engine_memory_dump\<close>,
  \<^verbatim>\<open>dbz_engine_set_loglevel\<close>, \<^verbatim>\<open>dbz_mark_batch_complete\<close> and the JNI part of \<^verbatim>\<open>populate_debezium_metadata\<close> of
  \<^verbatim>\<open>src/backend/synchdb/synchdb.c\<close>) and, on the Java side, the class \<^verbatim>\<open>MyParameters\<close> of \<^verbatim>\<open>DebeziumRunner.java\<close>
  that carries the settings. The Java virtual machine is an argument: which classes and methods it finds, whether it has
  memory for an object or a string, and what a method of the runner does. JNI leaves a call made while an exception is
  pending undefined, except the calls that inspect the exception or delete references: such a call is an error here.
\<close>

section \<open>The Java classes\<close>

datatype java_type = Java_void | Java_int | Java_boolean | Java_class string

definition String_class :: java_type where "String_class = Java_class ''java/lang/String''"
definition runner_class :: string where "runner_class = ''com/example/DebeziumRunner''"
definition params_class :: string where "params_class = ''com/example/DebeziumRunner$MyParameters''"

primrec type_descriptor :: "java_type \<Rightarrow> string" where
  "type_descriptor Java_void = ''V''"
| "type_descriptor Java_int = ''I''"
| "type_descriptor Java_boolean = ''Z''"
| "type_descriptor (Java_class c) = ''L'' @ c @ '';''"

definition method_descriptor :: "java_type list \<Rightarrow> java_type \<Rightarrow> string" where
  "method_descriptor args result = ''('' @ concat (map type_descriptor args) @ '')'' @ type_descriptor result"

text \<open>
  The methods the two classes declare, by name, parameter types and result. The constructor of the inner class takes
  the enclosing object first.
\<close>

definition setter_methods :: "(string \<times> java_type list) list" where
  "setter_methods =
     [(''setBatchSize'', [Java_int]), (''setQueueSize'', [Java_int]), (''setSkippedOperations'', [String_class]),
      (''setConnectTimeout'', [Java_int]), (''setQueryTimeout'', [Java_int]), (''setSnapshotThreadNum'', [Java_int]),
      (''setSnapshotFetchSize'', [Java_int]), (''setSnapshotMinRowToStreamResults'', [Java_int]),
      (''setIncrementalSnapshotChunkSize'', [Java_int]),
      (''setIncrementalSnapshotWatermarkingStrategy'', [String_class]),
      (''setOffsetFlushIntervalMs'', [Java_int]), (''setCaptureOnlySelectedTableDDL'', [Java_boolean]),
      (''setSslmode'', [String_class]), (''setSslKeystore'', [String_class]), (''setSslKeystorePass'', [String_class]),
      (''setSslTruststore'', [String_class]), (''setSslTruststorePass'', [String_class]),
      (''setLogLevel'', [Java_int]), (''setOlr'', [String_class, Java_int, String_class]),
      (''setIspn'', [String_class, String_class, Java_int]), (''setLogminerStreamMode'', [String_class]),
      (''setCdcDelay'', [Java_int])]"

definition params_methods :: "(string \<times> string) list" where
  "params_methods =
     (''<init>'', method_descriptor
        ([Java_class runner_class, String_class, Java_int, String_class, Java_int] @ replicate 8 String_class) Java_void)
     # map (\<lambda>(n, args). (n, method_descriptor args (Java_class params_class))) setter_methods"

definition runner_methods :: "(string \<times> string) list" where
  "runner_methods =
     [(''startEngine'', method_descriptor [Java_class params_class] Java_void),
      (''stopEngine'', method_descriptor [] Java_void),
      (''markBatchComplete'', method_descriptor [Java_int, Java_boolean, Java_int, Java_int] Java_void),
      (''getConnectorOffset'', method_descriptor [Java_int, String_class, String_class, String_class] String_class),
      (''setConnectorOffset'', method_descriptor [String_class, Java_int, String_class, String_class] Java_void),
      (''createOffsetFile'', method_descriptor [String_class, Java_int, String_class, String_class] Java_void),
      (''jvmMemDump'', method_descriptor [] Java_void),
      (''changeLogLevel'', method_descriptor [Java_int] Java_void)]"

text \<open>The fields of \<^verbatim>\<open>MyParameters\<close>; a string that was never set is null.\<close>

record MyParameters =
  connectorName :: string
  mp_connectorType :: int
  hostname :: string
  mp_port :: int
  user :: string
  password :: string
  database :: string
  mp_table :: string
  snapshottable :: string
  snapshotMode :: string
  dstdb :: string
  srcschema :: string
  batchSize :: int
  queueSize :: int
  skippedOperations :: "string option"
  connectTimeout :: int
  queryTimeout :: int
  snapshotThreadNum :: int
  snapshotFetchSize :: int
  snapshotMinRowToStreamResults :: int
  incrementalSnapshotChunkSize :: int
  incrementalSnapshotWatermarkingStrategy :: "string option"
  offsetFlushIntervalMs :: int
  captureOnlySelectedTableDDL :: bool
  sslmode :: "string option"
  sslKeystore :: "string option"
  sslKeystorePass :: "string option"
  sslTruststore :: "string option"
  sslTruststorePass :: "string option"
  logLevel :: int
  olrHost :: "string option"
  olrPort :: int
  olrSource :: "string option"
  ispnCacheType :: "string option"
  ispnMemoryType :: "string option"
  ispnMemorySize :: int
  logminerStreamMode :: "string option"
  cdcDelay :: int

definition new_MyParameters ::
  "string \<Rightarrow> int \<Rightarrow> string \<Rightarrow> int \<Rightarrow> string \<Rightarrow> string \<Rightarrow> string \<Rightarrow> string \<Rightarrow> string \<Rightarrow> string \<Rightarrow> string \<Rightarrow> string
   \<Rightarrow> MyParameters" where
  "new_MyParameters name type host p u pw db tab snaptab mode dst schema =
     \<lparr>connectorName = name, mp_connectorType = type, hostname = host, mp_port = p, user = u, password = pw,
      database = db, mp_table = tab, snapshottable = snaptab, snapshotMode = mode, dstdb = dst, srcschema = schema,
      batchSize = 0, queueSize = 0, skippedOperations = None, connectTimeout = 0, queryTimeout = 0,
      snapshotThreadNum = 0, snapshotFetchSize = 0, snapshotMinRowToStreamResults = 0,
      incrementalSnapshotChunkSize = 0, incrementalSnapshotWatermarkingStrategy = None, offsetFlushIntervalMs = 0,
      captureOnlySelectedTableDDL = False, sslmode = None, sslKeystore = None, sslKeystorePass = None,
      sslTruststore = None, sslTruststorePass = None, logLevel = 0, olrHost = None, olrPort = 0, olrSource = None,
      ispnCacheType = None, ispnMemoryType = None, ispnMemorySize = 0, logminerStreamMode = None, cdcDelay = 0\<rparr>"

datatype jvalue = JInt int | JBool bool | JString "string option"

text \<open>What a setter does to the object. No class of this program has a method that is not listed.\<close>

definition run_setter :: "string \<Rightarrow> jvalue list \<Rightarrow> MyParameters \<Rightarrow> MyParameters option" where
  "run_setter name args p =
     (case args of
        [JInt n] \<Rightarrow>
          (if name = ''setBatchSize'' then Some (p\<lparr>batchSize := n\<rparr>)
           else if name = ''setQueueSize'' then Some (p\<lparr>queueSize := n\<rparr>)
           else if name = ''setConnectTimeout'' then Some (p\<lparr>connectTimeout := n\<rparr>)
           else if name = ''setQueryTimeout'' then Some (p\<lparr>queryTimeout := n\<rparr>)
           else if name = ''setSnapshotThreadNum'' then Some (p\<lparr>snapshotThreadNum := n\<rparr>)
           else if name = ''setSnapshotFetchSize'' then Some (p\<lparr>snapshotFetchSize := n\<rparr>)
           else if name = ''setSnapshotMinRowToStreamResults'' then Some (p\<lparr>snapshotMinRowToStreamResults := n\<rparr>)
           else if name = ''setIncrementalSnapshotChunkSize'' then Some (p\<lparr>incrementalSnapshotChunkSize := n\<rparr>)
           else if name = ''setOffsetFlushIntervalMs'' then Some (p\<lparr>offsetFlushIntervalMs := n\<rparr>)
           else if name = ''setLogLevel'' then Some (p\<lparr>logLevel := n\<rparr>)
           else if name = ''setCdcDelay'' then Some (p\<lparr>cdcDelay := n\<rparr>)
           else None)
      | [JBool b] \<Rightarrow>
          (if name = ''setCaptureOnlySelectedTableDDL'' then Some (p\<lparr>captureOnlySelectedTableDDL := b\<rparr>) else None)
      | [JString s] \<Rightarrow>
          (if name = ''setSkippedOperations'' then Some (p\<lparr>skippedOperations := s\<rparr>)
           else if name = ''setIncrementalSnapshotWatermarkingStrategy''
           then Some (p\<lparr>incrementalSnapshotWatermarkingStrategy := s\<rparr>)
           else if name = ''setSslmode'' then Some (p\<lparr>sslmode := s\<rparr>)
           else if name = ''setSslKeystore'' then Some (p\<lparr>sslKeystore := s\<rparr>)
           else if name = ''setSslKeystorePass'' then Some (p\<lparr>sslKeystorePass := s\<rparr>)
           else if name = ''setSslTruststore'' then Some (p\<lparr>sslTruststore := s\<rparr>)
           else if name = ''setSslTruststorePass'' then Some (p\<lparr>sslTruststorePass := s\<rparr>)
           else if name = ''setLogminerStreamMode'' then Some (p\<lparr>logminerStreamMode := s\<rparr>)
           else None)
      | [JString s, JInt n, JString t] \<Rightarrow>
          (if name = ''setOlr'' then Some (p\<lparr>olrHost := s, olrPort := n, olrSource := t\<rparr>) else None)
      | [JString s, JString t, JInt n] \<Rightarrow>
          (if name = ''setIspn'' then Some (p\<lparr>ispnCacheType := s, ispnMemoryType := t, ispnMemorySize := n\<rparr>) else None)
      | _ \<Rightarrow> None)"

section \<open>JNI\<close>

text \<open>
  What the runner is asked to do, and how it ends: with a string or nothing, or with an exception. \<open>vm_run\<close> is what the
  runner does after the given earlier calls.
\<close>

datatype runner_call =
    Run_startEngine MyParameters
  | Run_stopEngine
  | Run_markBatchComplete int bool int int
  | Run_getConnectorOffset int string string string
  | Run_setConnectorOffset string int string string
  | Run_createOffsetFile string int string string
  | Run_jvmMemDump
  | Run_changeLogLevel int

datatype java_result = Returned "string option" | Thrown

record vm =
  vm_jvm :: bool
  vm_env :: bool
  vm_class :: "string \<Rightarrow> bool"
  vm_method :: "string \<Rightarrow> string \<Rightarrow> string \<Rightarrow> bool"
  vm_object :: "string \<Rightarrow> bool"
  vm_string :: "string \<Rightarrow> bool"
  vm_run :: "runner_call list \<Rightarrow> runner_call \<Rightarrow> java_result"

text \<open>
  The state: is an exception pending, the number of local references, the parameter object, the calls the runner has
  received, and the method identifiers the worker keeps.
\<close>

record jni_state =
  js_pending :: bool
  js_refs :: int
  js_params :: MyParameters
  js_calls :: "runner_call list"
  js_getoffsets :: bool
  js_markBatchComplete :: bool

definition no_exception :: "jni_state \<Rightarrow> 'a res \<Rightarrow> 'a res" where
  "no_exception st r = (if js_pending st then Inl (Undefined ''JNI call with a pending exception'') else r)"

definition jni_FindClass :: "vm \<Rightarrow> string \<Rightarrow> jni_state \<Rightarrow> (bool \<times> jni_state) res" where
  "jni_FindClass V c st = no_exception st
     (Inr (if vm_class V c then (True, st\<lparr>js_refs := js_refs st + 1\<rparr>) else (False, st\<lparr>js_pending := True\<rparr>)))"

definition jni_GetMethodID :: "vm \<Rightarrow> string \<Rightarrow> string \<Rightarrow> string \<Rightarrow> jni_state \<Rightarrow> (bool \<times> jni_state) res" where
  "jni_GetMethodID V c name descriptor st = no_exception st
     (Inr (if vm_method V c name descriptor then (True, st) else (False, st\<lparr>js_pending := True\<rparr>)))"

definition jni_NewStringUTF :: "vm \<Rightarrow> string \<Rightarrow> jni_state \<Rightarrow> (string option \<times> jni_state) res" where
  "jni_NewStringUTF V s st = no_exception st
     (Inr (if vm_string V s then (Some s, st\<lparr>js_refs := js_refs st + 1\<rparr>) else (None, st\<lparr>js_pending := True\<rparr>)))"

definition jni_DeleteLocalRef :: "jni_state \<Rightarrow> jni_state" where
  "jni_DeleteLocalRef st = st\<lparr>js_refs := js_refs st - 1\<rparr>"

text \<open>Each setter answers with the object itself, in a new local reference.\<close>

definition jni_call_setter :: "vm \<Rightarrow> string \<Rightarrow> jvalue list \<Rightarrow> jni_state \<Rightarrow> jni_state res" where
  "jni_call_setter V name args st = no_exception st
     (case run_setter name args (js_params st) of
        None \<Rightarrow> Inl (Undefined ''no such method'')
      | Some p \<Rightarrow> Inr (st\<lparr>js_params := p, js_refs := js_refs st + 1\<rparr>))"

text \<open>\<^verbatim>\<open>CallVoidMethod\<close> and \<^verbatim>\<open>CallObjectMethod\<close> on the runner.\<close>

definition jni_call_void :: "vm \<Rightarrow> runner_call \<Rightarrow> jni_state \<Rightarrow> jni_state res" where
  "jni_call_void V c st = no_exception st
     (Inr (st\<lparr>js_calls := js_calls st @ [c], js_pending := (vm_run V (js_calls st) c = Thrown)\<rparr>))"

definition jni_call_object :: "vm \<Rightarrow> runner_call \<Rightarrow> jni_state \<Rightarrow> (string option \<times> jni_state) res" where
  "jni_call_object V c st =
     rbind (jni_call_void V c st) (\<lambda>st1.
       Inr (case vm_run V (js_calls st) c of
              Returned (Some s) \<Rightarrow> (Some s, st1\<lparr>js_refs := js_refs st1 + 1\<rparr>)
            | _ \<Rightarrow> (None, st1)))"

text \<open>
  \<^verbatim>\<open>ExceptionOccurred\<close>, and where there is an exception \<^verbatim>\<open>ExceptionDescribe\<close>, \<^verbatim>\<open>ExceptionClear\<close> and
  \<^verbatim>\<open>DeleteLocalRef\<close>: the answer is whether there was one.
\<close>

definition jni_take_exception :: "jni_state \<Rightarrow> bool \<times> jni_state" where
  "jni_take_exception st = (js_pending st, st\<lparr>js_pending := False\<rparr>)"

fun new_strings :: "vm \<Rightarrow> string list \<Rightarrow> jni_state \<Rightarrow> (string option list \<times> jni_state) res" where
  "new_strings V [] st = Inr ([], st)"
| "new_strings V (s # ss) st =
     rbind (jni_NewStringUTF V s st) (\<lambda>(js, st1). rbind (new_strings V ss st1) (\<lambda>(jss, st2). Inr (js # jss, st2)))"

definition delete_refs :: "string option list \<Rightarrow> jni_state \<Rightarrow> jni_state" where
  "delete_refs jss = fold (\<lambda>js. if js = None then id else jni_DeleteLocalRef) jss"

text \<open>The two static pointers to the virtual machine and its environment, which every operation checks first.\<close>

definition vm_up :: "vm \<Rightarrow> bool" where
  "vm_up V \<longleftrightarrow> vm_jvm V \<and> vm_env V"

section \<open>Settings\<close>

datatype logminer_mode = LOGMINER_MODE_UNDEF | LOGMINER_MODE_UNCOMMITTED | LOGMINER_MODE_COMMITTED

record dbz_settings =
  dbz_batch_size :: int
  dbz_queue_size :: int
  dbz_connect_timeout_ms :: int
  dbz_query_timeout_ms :: int
  dbz_skipped_operations :: string
  dbz_snapshot_thread_num :: int
  dbz_snapshot_fetch_size :: int
  dbz_snapshot_min_row_to_stream_results :: int
  dbz_incremental_snapshot_chunk_size :: int
  dbz_incremental_snapshot_watermarking_strategy :: string
  dbz_offset_flush_interval_ms :: int
  dbz_capture_only_selected_table_ddl :: bool
  dbz_log_level :: int
  dbz_logminer_stream_mode :: logminer_mode
  cdc_start_delay_ms :: int

text \<open>An unsigned number of the C program, read as a Java \<^verbatim>\<open>int\<close>.\<close>

definition jint :: "nat \<Rightarrow> int" where
  "jint n = (int n + 2 ^ 31) mod 2 ^ 32 - 2 ^ 31"

text \<open>
  One block of \<^verbatim>\<open>set_extra_dbz_parameters\<close>: make the Java strings, look the setter up, call it if it is there, delete the
  strings that were made. \<open>args\<close> builds the arguments from them.
\<close>

definition apply_setter ::
  "vm \<Rightarrow> string \<Rightarrow> string \<Rightarrow> string list \<Rightarrow> (string option list \<Rightarrow> jvalue list) \<Rightarrow> jni_state \<Rightarrow> jni_state res" where
  "apply_setter V name descriptor ss args st =
     rbind (new_strings V ss st) (\<lambda>(jss, st1).
     rbind (jni_GetMethodID V params_class name descriptor st1) (\<lambda>(found, st2).
     rbind (if found then jni_call_setter V name (args jss) st2 else Inr st2) (\<lambda>st3.
       Inr (delete_refs jss st3))))"

definition set_int :: "vm \<Rightarrow> string \<Rightarrow> int \<Rightarrow> jni_state \<Rightarrow> jni_state res" where
  "set_int V name n = apply_setter V name ''(I)Lcom/example/DebeziumRunner$MyParameters;'' [] (\<lambda>_. [JInt n])"

definition set_string :: "vm \<Rightarrow> string \<Rightarrow> string \<Rightarrow> jni_state \<Rightarrow> jni_state res" where
  "set_string V name s =
     apply_setter V name ''(Ljava/lang/String;)Lcom/example/DebeziumRunner$MyParameters;'' [s] (\<lambda>jss. [JString (hd jss)])"

definition set_given :: "vm \<Rightarrow> string \<Rightarrow> string \<Rightarrow> jni_state \<Rightarrow> jni_state res" where
  "set_given V name s st = (if strcaseeq s ''null'' then Inr st else set_string V name s st)"

definition set_engine_parameters :: "vm \<Rightarrow> dbz_settings \<Rightarrow> jni_state \<Rightarrow> jni_state res" where
  "set_engine_parameters V G st0 =
     rbind (set_int V ''setBatchSize'' (dbz_batch_size G) st0) (\<lambda>st.
     rbind (set_int V ''setQueueSize'' (dbz_queue_size G) st) (\<lambda>st.
     rbind (set_int V ''setConnectTimeout'' (dbz_connect_timeout_ms G) st) (\<lambda>st.
     rbind (set_int V ''setQueryTimeout'' (dbz_query_timeout_ms G) st) (\<lambda>st.
     rbind (set_string V ''setSkippedOperations'' (dbz_skipped_operations G) st) (\<lambda>st.
     rbind (set_int V ''setSnapshotThreadNum'' (dbz_snapshot_thread_num G) st) (\<lambda>st.
     rbind (set_int V ''setSnapshotFetchSize'' (dbz_snapshot_fetch_size G) st) (\<lambda>st.
     rbind (set_int V ''setSnapshotMinRowToStreamResults'' (dbz_snapshot_min_row_to_stream_results G) st) (\<lambda>st.
     rbind (set_int V ''setIncrementalSnapshotChunkSize'' (dbz_incremental_snapshot_chunk_size G) st) (\<lambda>st.
     rbind (set_string V ''setIncrementalSnapshotWatermarkingStrategy'' (dbz_incremental_snapshot_watermarking_strategy G) st) (\<lambda>st.
     rbind (set_int V ''setOffsetFlushIntervalMs'' (dbz_offset_flush_interval_ms G) st) (\<lambda>st.
     rbind (apply_setter V ''setCaptureOnlySelectedTableDDL'' ''(Z)Lcom/example/DebeziumRunner$MyParameters;'' []
              (\<lambda>_. [JBool (dbz_capture_only_selected_table_ddl G)]) st) (\<lambda>st.
       set_string V ''setIncrementalSnapshotWatermarkingStrategy'' (dbz_incremental_snapshot_watermarking_strategy G) st))))))))))))"

definition set_ssl_parameters :: "vm \<Rightarrow> ExtraConnectionInfo \<Rightarrow> jni_state \<Rightarrow> jni_state res" where
  "set_ssl_parameters V extra st0 =
     rbind (set_given V ''setSslmode'' (ex_ssl_mode extra) st0) (\<lambda>st.
     rbind (set_given V ''setSslKeystore'' (ex_ssl_keystore extra) st) (\<lambda>st.
     rbind (set_given V ''setSslKeystorePass'' (ex_ssl_keystore_pass extra) st) (\<lambda>st.
     rbind (set_given V ''setSslTruststore'' (ex_ssl_truststore extra) st) (\<lambda>st.
       set_given V ''setSslTruststorePass'' (ex_ssl_truststore_pass extra) st))))"

definition set_oracle_parameters :: "vm \<Rightarrow> dbz_settings \<Rightarrow> OLRConnectionInfo \<Rightarrow> IspnInfo \<Rightarrow> jni_state \<Rightarrow> jni_state res" where
  "set_oracle_parameters V G olr ispn st0 =
     rbind (set_int V ''setLogLevel'' (dbz_log_level G) st0) (\<lambda>st.
     rbind (if \<not> strcaseeq (ol_host olr) ''null'' \<and> ol_port olr \<noteq> 0
            then apply_setter V ''setOlr'' ''(Ljava/lang/String;ILjava/lang/String;)Lcom/example/DebeziumRunner$MyParameters;''
                   [ol_host olr, ol_source olr] (\<lambda>jss. [JString (jss ! 0), JInt (jint (ol_port olr)), JString (jss ! 1)]) st
            else Inr st) (\<lambda>st.
     rbind (if \<not> strcaseeq (is_cache_type ispn) ''null''
            then apply_setter V ''setIspn'' ''(Ljava/lang/String;Ljava/lang/String;I)Lcom/example/DebeziumRunner$MyParameters;''
                   [is_cache_type ispn, is_memory_type ispn]
                   (\<lambda>jss. [JString (jss ! 0), JString (jss ! 1), JInt (jint (is_memory_size ispn))]) st
            else Inr st) (\<lambda>st.
     rbind (if dbz_logminer_stream_mode G \<noteq> LOGMINER_MODE_UNDEF
            then set_string V ''setLogminerStreamMode'' ''logminer'' st else Inr st) (\<lambda>st.
       set_int V ''setCdcDelay'' (cdc_start_delay_ms G) st))))"

definition set_extra_dbz_parameters ::
  "vm \<Rightarrow> dbz_settings \<Rightarrow> ExtraConnectionInfo \<Rightarrow> OLRConnectionInfo \<Rightarrow> IspnInfo \<Rightarrow> jni_state \<Rightarrow> jni_state res" where
  "set_extra_dbz_parameters V G extra olr ispn st0 =
     rbind (set_engine_parameters V G st0) (\<lambda>st.
     rbind (set_ssl_parameters V extra st) (\<lambda>st.
       set_oracle_parameters V G olr ispn st))"

section \<open>Operations of the engine\<close>

definition type_int :: "ConnectorType \<Rightarrow> int" where
  "type_int t = (case t of TYPE_UNDEF \<Rightarrow> 0 | TYPE_MYSQL \<Rightarrow> 1 | TYPE_ORACLE \<Rightarrow> 2 | TYPE_SQLSERVER \<Rightarrow> 3 | TYPE_OLR \<Rightarrow> 4
     | TYPE_POSTGRES \<Rightarrow> 5)"

text \<open>The answer is the return value and whether the object is there.\<close>

definition dbz_engine_init :: "vm \<Rightarrow> jni_state \<Rightarrow> (int \<times> jni_state) res" where
  "dbz_engine_init V st =
     rbind (jni_FindClass V ''com/example/DebeziumRunner'' st) (\<lambda>(found, st1).
       if \<not> found then Inr (-1, snd (jni_take_exception st1))
       else no_exception st1
         (Inr (if vm_object V ''com/example/DebeziumRunner'' then (0, st1\<lparr>js_refs := js_refs st1 + 1\<rparr>)
               else (-1, snd (jni_take_exception (st1\<lparr>js_pending := True\<rparr>))))))"

text \<open>
  \<^verbatim>\<open>dbz_engine_start\<close>. The strings of the constructor in the order of their creation; the parameter object is made
  with the arguments in the order of the constructor. A string that could not be made leaves an exception pending, so the
  call of the constructor is undefined.
\<close>

definition start_with_parameters ::
  "vm \<Rightarrow> dbz_settings \<Rightarrow> ConnectionInfo \<Rightarrow> jni_state \<Rightarrow> (bool \<times> jni_state) res" where
  "start_with_parameters V G ci st =
     rbind (set_extra_dbz_parameters V G (ci_extra ci) (ci_olr ci) (ci_ispn ci) st) (\<lambda>st1.
     rbind (jni_GetMethodID V runner_class ''startEngine'' ''(Lcom/example/DebeziumRunner$MyParameters;)V'' st1) (\<lambda>(found, st2).
       if \<not> found then Inr (False, st2)
       else rbind (jni_call_void V (Run_startEngine (js_params st2)) st2) (\<lambda>st3. Inr (jni_take_exception st3))))"

definition start_with_class ::
  "vm \<Rightarrow> dbz_settings \<Rightarrow> ConnectionInfo \<Rightarrow> ConnectorType \<Rightarrow> string \<Rightarrow> jni_state \<Rightarrow> (bool \<times> jni_state) res" where
  "start_with_class V G ci type mode st =
     rbind (jni_GetMethodID V params_class ''<init>''
              (''(Lcom/example/DebeziumRunner;Ljava/lang/String;ILjava/lang/String;ILjava/lang/String;''
               @ ''Ljava/lang/String;Ljava/lang/String;Ljava/lang/String;Ljava/lang/String;''
               @ ''Ljava/lang/String;Ljava/lang/String;Ljava/lang/String;)V'') st) (\<lambda>(found, st1).
       if \<not> found then Inr (False, st1)
       else rbind (new_strings V [ci_hostname ci, ci_user ci, ci_pwd ci, ci_srcdb ci, ci_table ci, ci_snapshottable ci,
                     ci_name ci, mode, ci_dstdb ci, ci_srcschema ci] st1) (\<lambda>(jss, st2).
         no_exception st2
           (if \<not> vm_object V params_class then Inr (False, delete_refs jss (st2\<lparr>js_pending := True\<rparr>))
            else rbind (start_with_parameters V G ci
                   (st2\<lparr>js_params := new_MyParameters (the (jss ! 6)) (type_int type) (the (jss ! 0)) (jint (ci_port ci))
                          (the (jss ! 1)) (the (jss ! 2)) (the (jss ! 3)) (the (jss ! 4)) (the (jss ! 5)) (the (jss ! 7))
                          (the (jss ! 8)) (the (jss ! 9)),
                        js_refs := js_refs st2 + 1\<rparr>)) (\<lambda>(exception, st3).
              Inr (exception, jni_DeleteLocalRef (delete_refs jss st3))))))"

definition dbz_engine_start ::
  "vm \<Rightarrow> dbz_settings \<Rightarrow> ConnectionInfo \<Rightarrow> ConnectorType \<Rightarrow> string \<Rightarrow> jni_state \<Rightarrow> (int \<times> jni_state) res" where
  "dbz_engine_start V G ci type mode st =
     (if \<not> vm_up V then Inr (0, st)
      else rbind (jni_FindClass V params_class st) (\<lambda>(found, st1).
        if \<not> found then Inr (0, st1)
        else rbind (start_with_class V G ci type mode st1) (\<lambda>(exception, st2).
          Inr (if exception then -1 else 0, jni_DeleteLocalRef st2))))"

text \<open>
  The shape the other operations share: the machine must be up, the method is looked up, the strings are made, the method
  is called, an exception is taken, the strings are deleted.
\<close>

definition checked_call ::
  "vm \<Rightarrow> string \<Rightarrow> string \<Rightarrow> string list \<Rightarrow> (string option list \<Rightarrow> runner_call) \<Rightarrow> jni_state \<Rightarrow> (int \<times> jni_state) res" where
  "checked_call V name descriptor ss c st =
     (if \<not> vm_up V then Inr (-1, st)
      else rbind (jni_GetMethodID V runner_class name descriptor st) (\<lambda>(found, st1).
        if \<not> found then Inr (-1, st1)
        else rbind (new_strings V ss st1) (\<lambda>(jss, st2).
          rbind (jni_call_void V (c jss) st2) (\<lambda>st3.
            let (exception, st4) = jni_take_exception st3
            in Inr (if exception then -1 else 0, delete_refs jss st4)))))"

definition dbz_engine_stop :: "vm \<Rightarrow> jni_state \<Rightarrow> (int \<times> jni_state) res" where
  "dbz_engine_stop V = checked_call V ''stopEngine'' ''()V'' [] (\<lambda>_. Run_stopEngine)"

definition dbz_engine_set_offset ::
  "vm \<Rightarrow> ConnectorType \<Rightarrow> string \<Rightarrow> string \<Rightarrow> string \<Rightarrow> jni_state \<Rightarrow> (int \<times> jni_state) res" where
  "dbz_engine_set_offset V type db offset file =
     checked_call V ''setConnectorOffset'' ''(Ljava/lang/String;ILjava/lang/String;Ljava/lang/String;)V'' [offset, db, file]
       (\<lambda>jss. Run_setConnectorOffset (the (jss ! 2)) (type_int type) (the (jss ! 1)) (the (jss ! 0)))"

text \<open>The JNI part of \<^verbatim>\<open>populate_debezium_metadata\<close>; a negative result skips the rest of that function.\<close>

definition dbz_create_offset_file ::
  "vm \<Rightarrow> string \<Rightarrow> ConnectorType \<Rightarrow> string \<Rightarrow> string \<Rightarrow> jni_state \<Rightarrow> (int \<times> jni_state) res" where
  "dbz_create_offset_file V file type db offset =
     checked_call V ''createOffsetFile'' ''(Ljava/lang/String;ILjava/lang/String;Ljava/lang/String;)V'' [offset, db, file]
       (\<lambda>jss. Run_createOffsetFile (the (jss ! 2)) (type_int type) (the (jss ! 1)) (the (jss ! 0)))"

definition dbz_engine_memory_dump :: "vm \<Rightarrow> jni_state \<Rightarrow> jni_state res" where
  "dbz_engine_memory_dump V st =
     (if \<not> vm_up V then Inr st
      else rbind (jni_GetMethodID V runner_class ''jvmMemDump'' ''()V'' st) (\<lambda>(found, st1).
        if \<not> found then Inr st1 else jni_call_void V Run_jvmMemDump st1))"

definition dbz_engine_set_loglevel :: "vm \<Rightarrow> int \<Rightarrow> jni_state \<Rightarrow> (int \<times> jni_state) res" where
  "dbz_engine_set_loglevel V level st =
     (if \<not> vm_up V then Inr (-1, st)
      else rbind (jni_GetMethodID V runner_class ''changeLogLevel'' ''(I)V'' st) (\<lambda>(found, st1).
        if \<not> found then Inr (-1, st1) else rbind (jni_call_void V (Run_changeLogLevel level) st1) (\<lambda>st2. Inr (0, st2))))"

definition dbz_mark_batch_complete :: "vm \<Rightarrow> int \<Rightarrow> jni_state \<Rightarrow> (int \<times> jni_state) res" where
  "dbz_mark_batch_complete V batchid st =
     (if \<not> vm_up V then Inr (-1, st)
      else rbind (if js_markBatchComplete st then Inr (True, st)
                  else jni_GetMethodID V runner_class ''markBatchComplete'' ''(IZII)V'' st) (\<lambda>(found, st1).
        if \<not> found then Inr (-1, st1)
        else rbind (jni_call_void V (Run_markBatchComplete batchid True (-1) (-1)) (st1\<lparr>js_markBatchComplete := True\<rparr>)) (\<lambda>st2.
          let (exception, st3) = jni_take_exception st2 in Inr (if exception then -1 else 0, st3))))"

text \<open>
  \<^verbatim>\<open>dbz_engine_get_offset\<close>, for the connector whose slot is given; the names in the slot are arrays, so the tests for null
  pointers before the call always pass.
\<close>

definition dbz_engine_get_offset :: "vm \<Rightarrow> ActiveConnectors \<Rightarrow> jni_state \<Rightarrow> (string option \<times> jni_state) res" where
  "dbz_engine_get_offset V c st =
     (if \<not> vm_up V then Inr (None, st)
      else rbind (if js_getoffsets st then Inr (True, st)
                  else jni_GetMethodID V runner_class ''getConnectorOffset''
                    ''(ILjava/lang/String;Ljava/lang/String;Ljava/lang/String;)Ljava/lang/String;'' st) (\<lambda>(found, st1).
        if \<not> found then Inr (None, st1)
        else rbind (new_strings V [ci_srcdb (ac_conninfo c), ci_name (ac_conninfo c), ci_dstdb (ac_conninfo c)]
                      (st1\<lparr>js_getoffsets := True\<rparr>)) (\<lambda>(jss, st2).
          rbind (jni_call_object V (Run_getConnectorOffset (type_int (ac_type c)) (the (jss ! 0)) (the (jss ! 1)) (the (jss ! 2))) st2)
            (\<lambda>(result, st3).
              let (exception, st4) = jni_take_exception st3
              in if exception then Inr (None, delete_refs jss st4)
                 else case result of
                        None \<Rightarrow> Inr (None, delete_refs jss st4)
                      | Some s \<Rightarrow> Inr (Some (if vm_string V s \<and> s \<noteq> [] then s else ''no offset''),
                                       jni_DeleteLocalRef (delete_refs jss (st4\<lparr>js_pending := \<not> vm_string V s\<rparr>)))))))"

section \<open>The settings that reach the runner\<close>

text \<open>
  The virtual machine is up, has loaded the two classes as \<^verbatim>\<open>DebeziumRunner.java\<close> declares them, and has memory.
\<close>

definition runner_jar :: "vm \<Rightarrow> bool" where
  "runner_jar V \<longleftrightarrow> vm_up V \<and> vm_class V params_class \<and> vm_object V params_class \<and> (\<forall>s. vm_string V s)
     \<and> list_all (\<lambda>(n, d). vm_method V params_class n d) params_methods
     \<and> list_all (\<lambda>(n, d). vm_method V runner_class n d) runner_methods"

lemmas descriptor_simps = method_descriptor_def String_class_def runner_class_def params_class_def

lemma setters_found:
  assumes "runner_jar V"
  shows "list_all (\<lambda>(n, args). vm_method V params_class n (method_descriptor args (Java_class params_class))) setter_methods"
  using assms by (auto simp: runner_jar_def params_methods_def list_all_iff)

lemma runner_jarD:
  assumes "runner_jar V"
  shows "vm_up V" "vm_class V params_class" "vm_object V params_class" "vm_string V s"
  using assms by (simp_all add: runner_jar_def)

lemma setter_found:
  assumes "runner_jar V" and "(n, args) \<in> set setter_methods"
    and "d = method_descriptor args (Java_class params_class)"
  shows "vm_method V params_class n d"
  using setters_found [OF assms(1)] assms(2,3) by (auto simp: list_all_iff)

lemma runner_method_found:
  assumes "runner_jar V" and "(n, d) \<in> set runner_methods"
  shows "vm_method V runner_class n d"
  using assms by (auto simp: runner_jar_def list_all_iff)

lemma delete_refs_Some [simp]: "delete_refs (map Some ss) st = st\<lparr>js_refs := js_refs st - int (length ss)\<rparr>"
  by (induction ss arbitrary: st) (simp_all add: delete_refs_def jni_DeleteLocalRef_def)

lemma new_strings_ok:
  assumes "\<And>s. vm_string V s" and "\<not> js_pending st"
  shows "new_strings V ss st = Inr (map Some ss, st\<lparr>js_refs := js_refs st + int (length ss)\<rparr>)"
  using assms(2) by (induction ss arbitrary: st)
    (simp_all add: jni_NewStringUTF_def no_exception_def assms(1) add.assoc)

text \<open>
  \<open>sets f k m\<close>: with no exception pending, \<open>m\<close> changes the parameter object by \<open>f\<close> and leaves \<open>k\<close> local references.
\<close>

definition sets :: "(MyParameters \<Rightarrow> MyParameters) \<Rightarrow> int \<Rightarrow> (jni_state \<Rightarrow> jni_state res) \<Rightarrow> bool" where
  "sets f k m \<longleftrightarrow> (\<forall>st. \<not> js_pending st \<longrightarrow>
     m st = Inr (st\<lparr>js_params := f (js_params st), js_refs := js_refs st + k\<rparr>))"

lemma sets_bind: "sets f k m \<Longrightarrow> sets g l n \<Longrightarrow> sets (\<lambda>p. g (f p)) (k + l) (\<lambda>st. rbind (m st) n)"
  by (auto simp: sets_def add.assoc)

lemma sets_if:
  "sets f 1 m \<Longrightarrow> (\<And>p. g p = (if c then f p else p)) \<Longrightarrow> sets g (of_bool c) (\<lambda>st. if c then m st else Inr st)"
  by (auto simp: sets_def)

lemma sets_cong: "sets f k m \<Longrightarrow> f = f' \<Longrightarrow> k = k' \<Longrightarrow> sets f' k' m"
  by simp

lemma sets_apply:
  assumes "runner_jar V" and "(name, types) \<in> set setter_methods"
    and "d = method_descriptor types (Java_class params_class)"
    and "\<And>p. run_setter name (args (map Some ss)) p = Some (f p)"
  shows "sets f 1 (apply_setter V name d ss args)"
  using runner_jarD [OF assms(1)] setter_found [OF assms(1,2,3)] assms(4)
  by (auto simp: sets_def apply_setter_def new_strings_ok jni_GetMethodID_def no_exception_def jni_call_setter_def)

lemmas setter_simps = set_int_def set_string_def run_setter_def setter_methods_def descriptor_simps

lemma sets_int:
  assumes "runner_jar V" and "(name, [Java_int]) \<in> set setter_methods" and "\<And>p. run_setter name [JInt n] p = Some (f p)"
  shows "sets f 1 (set_int V name n)"
  unfolding set_int_def by (rule sets_apply [OF assms(1,2)]) (simp_all add: assms(3) descriptor_simps)

lemma sets_string:
  assumes "runner_jar V" and "(name, [String_class]) \<in> set setter_methods"
    and "\<And>p. run_setter name [JString (Some s)] p = Some (f p)"
  shows "sets f 1 (set_string V name s)"
  unfolding set_string_def by (rule sets_apply [OF assms(1,2)]) (simp_all add: assms(3) descriptor_simps)

lemma sets_given:
  "sets f 1 (set_string V name s) \<Longrightarrow> (\<And>p. g p = (if strcaseeq s ''null'' then p else f p)) \<Longrightarrow>
   sets g (of_bool (\<not> strcaseeq s ''null'')) (set_given V name s)"
  by (auto simp: sets_def set_given_def)

text \<open>The values every setting should have, and the number of references the setters leave.\<close>

definition given :: "string \<Rightarrow> string option" where
  "given s = (if strcaseeq s ''null'' then None else Some s)"

definition connector_parameters :: "dbz_settings \<Rightarrow> ConnectionInfo \<Rightarrow> ConnectorType \<Rightarrow> string \<Rightarrow> MyParameters" where
  "connector_parameters G ci type mode =
     (let ex = ci_extra ci; olr = ci_olr ci; ispn = ci_ispn ci;
          use_olr = (given (ol_host olr) \<noteq> None \<and> ol_port olr \<noteq> 0); use_ispn = (given (is_cache_type ispn) \<noteq> None)
      in \<lparr>connectorName = ci_name ci, mp_connectorType = type_int type, hostname = ci_hostname ci,
          mp_port = int (ci_port ci), user = ci_user ci, password = ci_pwd ci, database = ci_srcdb ci,
          mp_table = ci_table ci, snapshottable = ci_snapshottable ci, snapshotMode = mode, dstdb = ci_dstdb ci,
          srcschema = ci_srcschema ci, batchSize = dbz_batch_size G, queueSize = dbz_queue_size G,
          skippedOperations = Some (dbz_skipped_operations G), connectTimeout = dbz_connect_timeout_ms G,
          queryTimeout = dbz_query_timeout_ms G, snapshotThreadNum = dbz_snapshot_thread_num G,
          snapshotFetchSize = dbz_snapshot_fetch_size G,
          snapshotMinRowToStreamResults = dbz_snapshot_min_row_to_stream_results G,
          incrementalSnapshotChunkSize = dbz_incremental_snapshot_chunk_size G,
          incrementalSnapshotWatermarkingStrategy = Some (dbz_incremental_snapshot_watermarking_strategy G),
          offsetFlushIntervalMs = dbz_offset_flush_interval_ms G,
          captureOnlySelectedTableDDL = dbz_capture_only_selected_table_ddl G, sslmode = given (ex_ssl_mode ex),
          sslKeystore = given (ex_ssl_keystore ex), sslKeystorePass = given (ex_ssl_keystore_pass ex),
          sslTruststore = given (ex_ssl_truststore ex), sslTruststorePass = given (ex_ssl_truststore_pass ex),
          logLevel = dbz_log_level G, olrHost = (if use_olr then Some (ol_host olr) else None),
          olrPort = (if use_olr then int (ol_port olr) else 0),
          olrSource = (if use_olr then Some (ol_source olr) else None),
          ispnCacheType = given (is_cache_type ispn),
          ispnMemoryType = (if use_ispn then Some (is_memory_type ispn) else None),
          ispnMemorySize = (if use_ispn then int (is_memory_size ispn) else 0),
          logminerStreamMode = (if dbz_logminer_stream_mode G = LOGMINER_MODE_UNDEF then None else Some ''logminer''),
          cdcDelay = cdc_start_delay_ms G\<rparr>)"

text \<open>The numbers of the connection information that Java reads as an \<^verbatim>\<open>int\<close> are in its range.\<close>

definition java_numbers :: "ConnectionInfo \<Rightarrow> bool" where
  "java_numbers ci \<longleftrightarrow> ci_port ci < 2 ^ 31 \<and> ol_port (ci_olr ci) < 2 ^ 31 \<and> is_memory_size (ci_ispn ci) < 2 ^ 31"

lemma jint_small: "n < 2 ^ 31 \<Longrightarrow> jint n = int n"
  by (simp add: jint_def)

definition new_parameters :: "ConnectionInfo \<Rightarrow> ConnectorType \<Rightarrow> string \<Rightarrow> MyParameters" where
  "new_parameters ci type mode =
     new_MyParameters (ci_name ci) (type_int type) (ci_hostname ci) (jint (ci_port ci)) (ci_user ci) (ci_pwd ci)
       (ci_srcdb ci) (ci_table ci) (ci_snapshottable ci) mode (ci_dstdb ci) (ci_srcschema ci)"

lemma sets_ints:
  assumes "runner_jar V"
  shows "sets (\<lambda>p. p\<lparr>batchSize := n\<rparr>) 1 (set_int V ''setBatchSize'' n)"
    and "sets (\<lambda>p. p\<lparr>queueSize := n\<rparr>) 1 (set_int V ''setQueueSize'' n)"
    and "sets (\<lambda>p. p\<lparr>connectTimeout := n\<rparr>) 1 (set_int V ''setConnectTimeout'' n)"
    and "sets (\<lambda>p. p\<lparr>queryTimeout := n\<rparr>) 1 (set_int V ''setQueryTimeout'' n)"
    and "sets (\<lambda>p. p\<lparr>snapshotThreadNum := n\<rparr>) 1 (set_int V ''setSnapshotThreadNum'' n)"
    and "sets (\<lambda>p. p\<lparr>snapshotFetchSize := n\<rparr>) 1 (set_int V ''setSnapshotFetchSize'' n)"
    and "sets (\<lambda>p. p\<lparr>snapshotMinRowToStreamResults := n\<rparr>) 1 (set_int V ''setSnapshotMinRowToStreamResults'' n)"
    and "sets (\<lambda>p. p\<lparr>incrementalSnapshotChunkSize := n\<rparr>) 1 (set_int V ''setIncrementalSnapshotChunkSize'' n)"
    and "sets (\<lambda>p. p\<lparr>offsetFlushIntervalMs := n\<rparr>) 1 (set_int V ''setOffsetFlushIntervalMs'' n)"
    and "sets (\<lambda>p. p\<lparr>logLevel := n\<rparr>) 1 (set_int V ''setLogLevel'' n)"
    and "sets (\<lambda>p. p\<lparr>cdcDelay := n\<rparr>) 1 (set_int V ''setCdcDelay'' n)"
  by (rule sets_int [OF assms]; simp add: setter_simps)+

lemma sets_strings:
  assumes "runner_jar V"
  shows "sets (\<lambda>p. p\<lparr>skippedOperations := Some s\<rparr>) 1 (set_string V ''setSkippedOperations'' s)"
    and "sets (\<lambda>p. p\<lparr>incrementalSnapshotWatermarkingStrategy := Some s\<rparr>) 1 (set_string V ''setIncrementalSnapshotWatermarkingStrategy'' s)"
    and "sets (\<lambda>p. p\<lparr>logminerStreamMode := Some s\<rparr>) 1 (set_string V ''setLogminerStreamMode'' s)"
    and "sets (\<lambda>p. p\<lparr>sslmode := Some s\<rparr>) 1 (set_string V ''setSslmode'' s)"
    and "sets (\<lambda>p. p\<lparr>sslKeystore := Some s\<rparr>) 1 (set_string V ''setSslKeystore'' s)"
    and "sets (\<lambda>p. p\<lparr>sslKeystorePass := Some s\<rparr>) 1 (set_string V ''setSslKeystorePass'' s)"
    and "sets (\<lambda>p. p\<lparr>sslTruststore := Some s\<rparr>) 1 (set_string V ''setSslTruststore'' s)"
    and "sets (\<lambda>p. p\<lparr>sslTruststorePass := Some s\<rparr>) 1 (set_string V ''setSslTruststorePass'' s)"
  by (rule sets_string [OF assms]; simp add: setter_simps)+

lemma sets_givens:
  assumes "runner_jar V"
  shows "sets (\<lambda>p. p\<lparr>sslmode := if strcaseeq s ''null'' then sslmode p else Some s\<rparr>) (of_bool (\<not> strcaseeq s ''null''))
        (set_given V ''setSslmode'' s)"
    and "sets (\<lambda>p. p\<lparr>sslKeystore := if strcaseeq s ''null'' then sslKeystore p else Some s\<rparr>) (of_bool (\<not> strcaseeq s ''null''))
        (set_given V ''setSslKeystore'' s)"
    and "sets (\<lambda>p. p\<lparr>sslKeystorePass := if strcaseeq s ''null'' then sslKeystorePass p else Some s\<rparr>) (of_bool (\<not> strcaseeq s ''null''))
        (set_given V ''setSslKeystorePass'' s)"
    and "sets (\<lambda>p. p\<lparr>sslTruststore := if strcaseeq s ''null'' then sslTruststore p else Some s\<rparr>) (of_bool (\<not> strcaseeq s ''null''))
        (set_given V ''setSslTruststore'' s)"
    and "sets (\<lambda>p. p\<lparr>sslTruststorePass := if strcaseeq s ''null'' then sslTruststorePass p else Some s\<rparr>) (of_bool (\<not> strcaseeq s ''null''))
        (set_given V ''setSslTruststorePass'' s)"
  by (rule sets_given, rule sets_strings [OF assms], simp)+

lemma sets_others:
  assumes "runner_jar V"
  shows "sets (\<lambda>p. p\<lparr>captureOnlySelectedTableDDL := b\<rparr>) 1
           (apply_setter V ''setCaptureOnlySelectedTableDDL'' ''(Z)Lcom/example/DebeziumRunner$MyParameters;'' [] (\<lambda>_. [JBool b]))"
    and "sets (\<lambda>p. p\<lparr>olrHost := Some s, olrPort := n, olrSource := Some t\<rparr>) 1
           (apply_setter V ''setOlr'' ''(Ljava/lang/String;ILjava/lang/String;)Lcom/example/DebeziumRunner$MyParameters;''
              [s, t] (\<lambda>jss. [JString (jss ! 0), JInt n, JString (jss ! 1)]))"
    and "sets (\<lambda>p. p\<lparr>ispnCacheType := Some s, ispnMemoryType := Some t, ispnMemorySize := n\<rparr>) 1
           (apply_setter V ''setIspn'' ''(Ljava/lang/String;Ljava/lang/String;I)Lcom/example/DebeziumRunner$MyParameters;''
              [s, t] (\<lambda>jss. [JString (jss ! 0), JString (jss ! 1), JInt n]))"
  by (rule sets_apply [OF assms, of _ "[Java_boolean]"] sets_apply [OF assms, of _ "[String_class, Java_int, String_class]"]
           sets_apply [OF assms, of _ "[String_class, String_class, Java_int]"]; simp add: setter_simps; fail)+

lemma sets_conditional:
  assumes "runner_jar V"
  shows "sets (\<lambda>p. p\<lparr>olrHost := if c then Some s else olrHost p, olrPort := if c then n else olrPort p,
                     olrSource := if c then Some t else olrSource p\<rparr>) (of_bool c)
           (\<lambda>st. if c then apply_setter V ''setOlr'' ''(Ljava/lang/String;ILjava/lang/String;)Lcom/example/DebeziumRunner$MyParameters;''
              [s, t] (\<lambda>jss. [JString (jss ! 0), JInt n, JString (jss ! 1)]) st else Inr st)"
    and "sets (\<lambda>p. p\<lparr>ispnCacheType := if c then Some s else ispnCacheType p,
                     ispnMemoryType := if c then Some t else ispnMemoryType p,
                     ispnMemorySize := if c then n else ispnMemorySize p\<rparr>) (of_bool c)
           (\<lambda>st. if c then apply_setter V ''setIspn'' ''(Ljava/lang/String;Ljava/lang/String;I)Lcom/example/DebeziumRunner$MyParameters;''
              [s, t] (\<lambda>jss. [JString (jss ! 0), JString (jss ! 1), JInt n]) st else Inr st)"
    and "sets (\<lambda>p. p\<lparr>logminerStreamMode := if c then Some s else logminerStreamMode p\<rparr>) (of_bool c)
           (\<lambda>st. if c then set_string V ''setLogminerStreamMode'' s st else Inr st)"
  by (rule sets_if [OF sets_others(2) [OF assms]] sets_if [OF sets_others(3) [OF assms]] sets_if [OF sets_strings(3) [OF assms]]; simp)+

text \<open>
  All settings together. The references left are those of the parameter object that each setter's answer adds.
\<close>

lemma extra_parameters_set:
  assumes jar: "runner_jar V" and num: "java_numbers ci"
  shows "\<exists>f k. sets f k (set_extra_dbz_parameters V G (ci_extra ci) (ci_olr ci) (ci_ispn ci)) \<and> 15 \<le> k
     \<and> f (new_parameters ci type mode) = connector_parameters G ci type mode"
  apply (intro exI conjI)
    apply (unfold set_extra_dbz_parameters_def [abs_def] set_engine_parameters_def [abs_def] set_ssl_parameters_def [abs_def]
      set_oracle_parameters_def [abs_def])
    apply (rule sets_bind sets_conditional [OF jar] sets_ints [OF jar] sets_strings [OF jar] sets_givens [OF jar] sets_others(1) [OF jar])+
   apply simp
  apply (use num in \<open>simp add: connector_parameters_def new_parameters_def new_MyParameters_def given_def java_numbers_def jint_small
    Let_def split del: if_split cong: if_cong\<close>)
  apply auto
  done

lemma init_found: "runner_jar V \<Longrightarrow> vm_method V params_class ''<init>''
   ''(Lcom/example/DebeziumRunner;Ljava/lang/String;ILjava/lang/String;ILjava/lang/String;Ljava/lang/String;Ljava/lang/String;Ljava/lang/String;Ljava/lang/String;Ljava/lang/String;Ljava/lang/String;Ljava/lang/String;)V''"
  by (simp add: runner_jar_def params_methods_def descriptor_simps numeral_eq_Suc)

lemmas runner_found = runner_method_found [unfolded runner_methods_def descriptor_simps, simplified]

text \<open>What a start does: the call with the parameter object, and a count of references that grows.\<close>

lemma start_with_parameters_outcome:
  assumes jar: "runner_jar V" and num: "java_numbers ci" and st: "\<not> js_pending st"
    and new: "js_params st = new_parameters ci type mode"
    and c: "c = Run_startEngine (connector_parameters G ci type mode)"
  shows "\<exists>st'. start_with_parameters V G ci st = Inr (vm_run V (js_calls st) c = Thrown, st')
     \<and> js_calls st' = js_calls st @ [c] \<and> \<not> js_pending st' \<and> js_refs st + 15 \<le> js_refs st'"
proof -
  obtain f k where f: "sets f k (set_extra_dbz_parameters V G (ci_extra ci) (ci_olr ci) (ci_ispn ci))"
    and k: "15 \<le> k" and p: "f (new_parameters ci type mode) = connector_parameters G ci type mode"
    using extra_parameters_set [OF jar num] by blast
  have "set_extra_dbz_parameters V G (ci_extra ci) (ci_olr ci) (ci_ispn ci) st
      = Inr (st\<lparr>js_params := connector_parameters G ci type mode, js_refs := js_refs st + k\<rparr>)"
    using f st p new by (simp add: sets_def)
  then show ?thesis
    using st k runner_found [OF jar]
    by (simp add: start_with_parameters_def jni_GetMethodID_def no_exception_def jni_call_void_def jni_take_exception_def c
          runner_class_def)
qed

lemma start_outcome:
  assumes jar: "runner_jar V" and num: "java_numbers ci" and st: "\<not> js_pending st"
    and c: "c = Run_startEngine (connector_parameters G ci type mode)"
  shows "\<exists>st'. dbz_engine_start V G ci type mode st = Inr (if vm_run V (js_calls st) c = Thrown then -1 else 0, st')
     \<and> js_calls st' = js_calls st @ [c] \<and> \<not> js_pending st' \<and> js_refs st + 15 \<le> js_refs st'"
proof -
  define st1 where "st1 = st\<lparr>js_params := new_parameters ci type mode, js_refs := 12 + js_refs st\<rparr>"
  obtain st2 where st2: "start_with_parameters V G ci st1 = Inr (vm_run V (js_calls st) c = Thrown, st2)"
    "js_calls st2 = js_calls st @ [c]" "\<not> js_pending st2" "js_refs st + 27 \<le> js_refs st2"
    using start_with_parameters_outcome [OF jar num _ _ c, of st1] st by (auto simp: st1_def)
  have "start_with_class V G ci type mode (st\<lparr>js_refs := js_refs st + 1\<rparr>)
      = Inr (vm_run V (js_calls st) c = Thrown, jni_DeleteLocalRef (st2\<lparr>js_refs := js_refs st2 - 10\<rparr>))"
    unfolding start_with_class_def
    using st st2(1) runner_jarD [OF jar] init_found [OF jar]
    by (simp add: jni_GetMethodID_def no_exception_def new_strings_ok st1_def new_parameters_def del: new_strings.simps list.map)
  then show ?thesis
    using st st2(2-4) runner_jarD [OF jar]
    by (simp add: dbz_engine_start_def jni_FindClass_def no_exception_def jni_DeleteLocalRef_def)
qed

lemma checked_call_outcome:
  assumes "runner_jar V" and "(name, d) \<in> set runner_methods" and "\<not> js_pending st" and "k = c (map Some ss)"
  shows "checked_call V name d ss c st
     = Inr (if vm_run V (js_calls st) k = Thrown then -1 else 0, st\<lparr>js_calls := js_calls st @ [k]\<rparr>)"
  using assms(3,4) runner_jarD [OF assms(1)] runner_method_found [OF assms(1,2)]
  by (simp add: checked_call_def jni_GetMethodID_def no_exception_def new_strings_ok jni_call_void_def jni_take_exception_def)

lemmas runner_table = runner_methods_def descriptor_simps

lemma stop_outcome:
  "runner_jar V \<Longrightarrow> \<not> js_pending st \<Longrightarrow> dbz_engine_stop V st
     = Inr (if vm_run V (js_calls st) Run_stopEngine = Thrown then -1 else 0, st\<lparr>js_calls := js_calls st @ [Run_stopEngine]\<rparr>)"
  unfolding dbz_engine_stop_def by (rule checked_call_outcome) (simp_all add: runner_table)

lemma set_offset_outcome:
  assumes "runner_jar V" "\<not> js_pending st" and k: "k = Run_setConnectorOffset file (type_int type) db offset"
  shows "dbz_engine_set_offset V type db offset file st
     = Inr (if vm_run V (js_calls st) k = Thrown then -1 else 0, st\<lparr>js_calls := js_calls st @ [k]\<rparr>)"
  unfolding dbz_engine_set_offset_def by (rule checked_call_outcome [OF assms(1)]) (simp_all add: runner_table assms(2) k)

lemma create_offset_outcome:
  assumes "runner_jar V" "\<not> js_pending st" and k: "k = Run_createOffsetFile file (type_int type) db offset"
  shows "dbz_create_offset_file V file type db offset st
     = Inr (if vm_run V (js_calls st) k = Thrown then -1 else 0, st\<lparr>js_calls := js_calls st @ [k]\<rparr>)"
  unfolding dbz_create_offset_file_def by (rule checked_call_outcome [OF assms(1)]) (simp_all add: runner_table assms(2) k)

lemma mark_complete_outcome:
  assumes "runner_jar V" "\<not> js_pending st" and k: "k = Run_markBatchComplete batchid True (- 1) (- 1)"
  shows "dbz_mark_batch_complete V batchid st
     = Inr (if vm_run V (js_calls st) k = Thrown then -1 else 0,
            st\<lparr>js_calls := js_calls st @ [k], js_markBatchComplete := True\<rparr>)"
  using assms(2) runner_jarD [OF assms(1)] runner_found [OF assms(1)]
  by (cases "js_markBatchComplete st") (simp_all add: dbz_mark_batch_complete_def jni_GetMethodID_def no_exception_def
        jni_call_void_def jni_take_exception_def k runner_class_def)

lemma unchecked_outcome:
  assumes "runner_jar V" "\<not> js_pending st"
  shows "dbz_engine_memory_dump V st = Inr (st\<lparr>js_calls := js_calls st @ [Run_jvmMemDump],
           js_pending := (vm_run V (js_calls st) Run_jvmMemDump = Thrown)\<rparr>)"
    and "dbz_engine_set_loglevel V level st = Inr (0, st\<lparr>js_calls := js_calls st @ [Run_changeLogLevel level],
           js_pending := (vm_run V (js_calls st) (Run_changeLogLevel level) = Thrown)\<rparr>)"
  using assms(2) runner_jarD [OF assms(1)] runner_found [OF assms(1)]
  by (simp_all add: dbz_engine_memory_dump_def dbz_engine_set_loglevel_def jni_GetMethodID_def no_exception_def
        jni_call_void_def runner_class_def)

section \<open>The worker's calls, on the runner\<close>

text \<open>
  The calls that a worker records, carried out by the operations above, and the messages that the runner should receive
  for them. The other calls do not reach the runner.
\<close>

definition run_call :: "vm \<Rightarrow> dbz_settings \<Rightarrow> engine_call \<Rightarrow> jni_state \<Rightarrow> jni_state res" where
  "run_call V G c st =
     (case c of
        Call_start ci type mode \<Rightarrow> rbind (dbz_engine_start V G ci type mode st) (\<lambda>(_, st'). Inr st')
      | Call_stop \<Rightarrow> rbind (dbz_engine_stop V st) (\<lambda>(_, st'). Inr st')
      | Call_set_offset type db offset file \<Rightarrow> rbind (dbz_engine_set_offset V type db offset file st) (\<lambda>(_, st'). Inr st')
      | Call_create_offset file type db offset \<Rightarrow> rbind (dbz_create_offset_file V file type db offset st) (\<lambda>(_, st'). Inr st')
      | Call_memory_dump \<Rightarrow> dbz_engine_memory_dump V st
      | Call_set_loglevel level \<Rightarrow> rbind (dbz_engine_set_loglevel V level st) (\<lambda>(_, st'). Inr st')
      | Call_mark_complete batchid \<Rightarrow> rbind (dbz_mark_batch_complete V batchid st) (\<lambda>(_, st'). Inr st')
      | _ \<Rightarrow> Inr st)"

definition runner_message :: "dbz_settings \<Rightarrow> engine_call \<Rightarrow> runner_call list" where
  "runner_message G c =
     (case c of
        Call_start ci type mode \<Rightarrow> [Run_startEngine (connector_parameters G ci type mode)]
      | Call_stop \<Rightarrow> [Run_stopEngine]
      | Call_set_offset type db offset file \<Rightarrow> [Run_setConnectorOffset file (type_int type) db offset]
      | Call_create_offset file type db offset \<Rightarrow> [Run_createOffsetFile file (type_int type) db offset]
      | Call_memory_dump \<Rightarrow> [Run_jvmMemDump]
      | Call_set_loglevel level \<Rightarrow> [Run_changeLogLevel level]
      | Call_mark_complete batchid \<Rightarrow> [Run_markBatchComplete batchid True (-1) (-1)]
      | _ \<Rightarrow> [])"

definition call_numbers :: "engine_call \<Rightarrow> bool" where
  "call_numbers c = (case c of Call_start ci _ _ \<Rightarrow> java_numbers ci | _ \<Rightarrow> True)"

text \<open>The two methods whose exceptions nobody takes do not throw.\<close>

definition quiet :: "vm \<Rightarrow> bool" where
  "quiet V \<longleftrightarrow> (\<forall>h. vm_run V h Run_jvmMemDump \<noteq> Thrown) \<and> (\<forall>h level. vm_run V h (Run_changeLogLevel level) \<noteq> Thrown)"

lemma run_call_delivers:
  assumes "runner_jar V" "quiet V" "\<not> js_pending st" "call_numbers c"
  shows "\<exists>st'. run_call V G c st = Inr st' \<and> js_calls st' = js_calls st @ runner_message G c \<and> \<not> js_pending st'"
proof (cases c)
  case (Call_start ci type mode)
  then show ?thesis
    using start_outcome [OF assms(1) _ assms(3) refl, of ci G type mode] assms(4)
    by (auto simp: call_numbers_def run_call_def runner_message_def)
qed (use assms(2,3) in \<open>simp_all add: run_call_def runner_message_def quiet_def stop_outcome [OF assms(1)]
       set_offset_outcome [OF assms(1)] create_offset_outcome [OF assms(1)] mark_complete_outcome [OF assms(1)]
       unchecked_outcome [OF assms(1)]\<close>)


definition example_vm :: vm where
  "example_vm = \<lparr>vm_jvm = True, vm_env = True, vm_class = (\<lambda>_. True),
     vm_method = (\<lambda>c n d. (n, d) \<in> set (if c = params_class then params_methods else runner_methods)),
     vm_object = (\<lambda>_. True), vm_string = (\<lambda>_. True), vm_run = (\<lambda>_ _. Returned None)\<rparr>"

text \<open>The default values of the settings.\<close>

definition default_settings :: dbz_settings where
  "default_settings = \<lparr>dbz_batch_size = 2048, dbz_queue_size = 8192, dbz_connect_timeout_ms = 30000,
     dbz_query_timeout_ms = 600000, dbz_skipped_operations = ''t'', dbz_snapshot_thread_num = 2, dbz_snapshot_fetch_size = 0,
     dbz_snapshot_min_row_to_stream_results = 0, dbz_incremental_snapshot_chunk_size = 2048,
     dbz_incremental_snapshot_watermarking_strategy = ''insert_insert'', dbz_offset_flush_interval_ms = 60000,
     dbz_capture_only_selected_table_ddl = True, dbz_log_level = 4, dbz_logminer_stream_mode = LOGMINER_MODE_UNCOMMITTED,
     cdc_start_delay_ms = 0\<rparr>"

definition jni_state0 :: jni_state where
  "jni_state0 = \<lparr>js_pending = False, js_refs = 2, js_params = new_MyParameters [] 0 [] 0 [] [] [] [] [] [] [] [],
     js_calls = [], js_getoffsets = False, js_markBatchComplete = False\<rparr>"

lemma example_vm_jar: "runner_jar example_vm" "quiet example_vm"
  by (simp_all add: runner_jar_def quiet_def example_vm_def vm_up_def list_all_iff params_class_def runner_class_def)


section \<open>Failures\<close>

text \<open>
  When the virtual machine has not been started, every operation but one tells the worker so. \<^verbatim>\<open>dbz_engine_start\<close> returns 0,
  the value that its comment reserves for success, and it does so also when the parameter class is missing.
\<close>

lemma failures_reported:
  assumes "\<not> vm_up V"
  shows "dbz_engine_start V G ci type mode st = Inr (0, st) \<and> dbz_engine_stop V st = Inr (-1, st)
      \<and> dbz_mark_batch_complete V batchid st = Inr (-1, st) \<and> dbz_engine_set_loglevel V level st = Inr (-1, st)
      \<and> dbz_engine_set_offset V type db offset file st = Inr (-1, st)
      \<and> dbz_create_offset_file V file type db offset st = Inr (-1, st) \<and> dbz_engine_get_offset V slot' st = Inr (None, st)"
  using assms by (simp add: dbz_engine_start_def dbz_engine_stop_def dbz_mark_batch_complete_def dbz_engine_set_loglevel_def
        dbz_engine_set_offset_def dbz_create_offset_file_def dbz_engine_get_offset_def checked_call_def)

lemma start_without_class:
  assumes "\<not> vm_class V params_class" "\<not> js_pending st"
  shows "\<exists>st'. dbz_engine_start V G ci type mode st = Inr (0, st') \<and> js_calls st' = js_calls st"
  using assms by (simp add: dbz_engine_start_def jni_FindClass_def no_exception_def)

text \<open>An exception of \<^verbatim>\<open>changeLogLevel\<close> stays pending, and the next operation is undefined.\<close>

lemma loglevel_exception_kept:
  assumes "runner_jar V" "\<not> js_pending st" "vm_run V (js_calls st) (Run_changeLogLevel level) = Thrown"
  shows "\<exists>st' e. dbz_engine_set_loglevel V level st = Inr (0, st') \<and> dbz_engine_stop V st' = Inl e"
  using assms runner_jarD [OF assms(1)]
  by (simp add: unchecked_outcome dbz_engine_stop_def checked_call_def jni_GetMethodID_def no_exception_def)

text \<open>Each start leaves at least fifteen local references to the parameter object behind.\<close>

lemma start_leaves_references:
  assumes "runner_jar V" "\<not> js_pending st" "java_numbers ci" "dbz_engine_start V G ci type mode st = Inr (r, st')"
  shows "js_refs st + 15 \<le> js_refs st'"
  using start_outcome [OF assms(1,3,2) refl, of G type mode] assms(4) by auto

end
