(* ===== verification/Net_IO.thy ===== *)
theory Net_IO
  imports OLR_Client Time_Conv
begin

text \<open>
  Opening, writing to and closing the connection to the Openlog Replicator (\<^verbatim>\<open>src/backend/utils/netio_utils.c\<close>); reading
  from it is in \<open>OLR_Client\<close>. The results of the system calls are arguments. The descriptors that \<^verbatim>\<open>close\<close> was
  called on are listed.
\<close>

section \<open>Time limits\<close>

record timeval =
  tv_sec :: int
  tv_usec :: int

record net_limits =
  g_connect_timeout_ms :: int
  g_read_timeout :: timeval

definition netio_set_timeouts :: "int \<Rightarrow> int \<Rightarrow> net_limits" where
  "netio_set_timeouts connect_timeout read_timeout =
     \<lparr>g_connect_timeout_ms = connect_timeout,
      g_read_timeout = \<lparr>tv_sec = c_div read_timeout 1000, tv_usec = c_mod read_timeout 1000 * 1000\<rparr>\<rparr>"

text \<open>The limit \<^verbatim>\<open>select\<close> receives is the setting, and a valid \<^verbatim>\<open>timeval\<close>.\<close>

lemma read_timeout_is_setting:
  assumes "0 \<le> ms" and "t = g_read_timeout (netio_set_timeouts cms ms)"
  shows "tv_sec t * 1000000 + tv_usec t = ms * 1000" and "0 \<le> tv_usec t" and "tv_usec t < 1000000"
  using assms by (simp_all add: netio_set_timeouts_def c_div_def c_mod_def minus_div_mult_eq_mod)

section \<open>Connecting\<close>

record NetioContext =
  sockfd :: int
  nc_host :: string
  nc_port :: int
  nc_is_connected :: bool
  nc_errcode :: int

datatype connect_result = Connect_ok | Connect_in_progress | Connect_errno

text \<open>
  \<open>sy_addr\<close>: an address was found; \<open>sy_socket\<close>: the descriptor or a negative number; \<open>sy_reuse\<close>, \<open>sy_keepalive\<close>,
  \<open>sy_getfl\<close>, \<open>sy_setfl\<close>: the results of the two calls of \<^verbatim>\<open>setsockopt\<close> and of \<^verbatim>\<open>fcntl\<close>; \<open>sy_poll\<close> that of
  \<^verbatim>\<open>poll\<close> within the time limit; \<open>sy_sockopt\<close> the result of \<^verbatim>\<open>getsockopt\<close> and the error it reports.
\<close>

record syscalls =
  sy_addr :: "string \<Rightarrow> string \<Rightarrow> bool"
  sy_socket :: int
  sy_reuse :: int
  sy_keepalive :: int
  sy_getfl :: int
  sy_setfl :: int
  sy_connect :: connect_result
  sy_poll :: "int \<Rightarrow> int"
  sy_sockopt :: "int \<times> int"

text \<open>\<^verbatim>\<open>connect\<close> and the wait for a connection in progress.\<close>

definition connection_made :: "syscalls \<Rightarrow> net_limits \<Rightarrow> bool" where
  "connection_made S T \<longleftrightarrow>
     (case sy_connect S of
        Connect_ok \<Rightarrow> True
      | Connect_in_progress \<Rightarrow> 0 < sy_poll S (g_connect_timeout_ms T) \<and> sy_sockopt S = (0, 0)
      | Connect_errno \<Rightarrow> False)"

text \<open>The result is the return value, the context and the closed descriptors. After \<^verbatim>\<open>getaddrinfo\<close>, \<^verbatim>\<open>ret\<close> is 0.\<close>

definition netio_connect :: "syscalls \<Rightarrow> net_limits \<Rightarrow> string \<Rightarrow> int \<Rightarrow> NetioContext \<Rightarrow> int \<times> NetioContext \<times> int list" where
  "netio_connect S T host port ctx =
     (if \<not> sy_addr S host (take 15 (show_int port)) then (-1, ctx, [])
      else let ctx1 = ctx\<lparr>sockfd := sy_socket S\<rparr>
           in if sy_socket S < 0 then (0, ctx1, [])
              else if sy_reuse S < 0 then (0, ctx1, [])
              else if sy_keepalive S < 0 then (0, ctx1, [])
              else if sy_getfl S < 0 \<or> sy_setfl S < 0 then (0, ctx1, [])
              else if \<not> connection_made S T then (-1, ctx1, [sy_socket S])
              else (0, ctx1\<lparr>nc_host := take (256 - 1) host, nc_port := port,
                            nc_is_connected := True\<rparr>, []))"

text \<open>\<open>sent\<close> is what \<^verbatim>\<open>send\<close> returns.\<close>

definition netio_write :: "(int \<Rightarrow> byte list \<Rightarrow> int) \<Rightarrow> NetioContext \<Rightarrow> byte list \<Rightarrow> int" where
  "netio_write sent ctx buf = (if \<not> nc_is_connected ctx then -1 else sent (sockfd ctx) buf)"

definition netio_disconnect :: "NetioContext \<Rightarrow> NetioContext \<times> int list" where
  "netio_disconnect ctx =
     (if nc_is_connected ctx then (ctx\<lparr>nc_is_connected := False\<rparr>, [sockfd ctx]) else (ctx, []))"

section \<open>What the caller is told\<close>

text \<open>The calls that prepare the socket succeed.\<close>

definition socket_prepared :: "syscalls \<Rightarrow> bool" where
  "socket_prepared S \<longleftrightarrow> 0 \<le> sy_socket S \<and> 0 \<le> sy_reuse S \<and> 0 \<le> sy_keepalive S \<and> 0 \<le> sy_getfl S \<and> 0 \<le> sy_setfl S"

text \<open>Whether the replicator is reachable, which is what \<open>OLR_Client\<close> takes as an argument.\<close>

definition olr_reachable :: "syscalls \<Rightarrow> net_limits \<Rightarrow> string \<Rightarrow> int \<Rightarrow> bool" where
  "olr_reachable S T host port \<longleftrightarrow> sy_addr S host (take 15 (show_int port)) \<and> connection_made S T"

text \<open>The part of the client's state that is the context, read off it.\<close>

definition with_context :: "NetioContext \<Rightarrow> olr_client \<Rightarrow> olr_client" where
  "with_context ctx c = c\<lparr>is_connected := nc_is_connected ctx\<rparr>"


definition example_syscalls :: syscalls where
  "example_syscalls = \<lparr>sy_addr = (\<lambda>h p. h = ''olr'' \<and> p = ''7070''), sy_socket = 5, sy_reuse = 0, sy_keepalive = 0, sy_getfl = 2,
     sy_setfl = 0, sy_connect = Connect_in_progress, sy_poll = (\<lambda>ms. if 5000 \<le> ms then 1 else 0), sy_sockopt = (0, 0)\<rparr>"

definition netio_context0 :: NetioContext where
  "netio_context0 = \<lparr>sockfd = 0, nc_host = [], nc_port = 0, nc_is_connected = False, nc_errcode = 0\<rparr>"


text \<open>When the socket cannot be prepared, the caller is told 0 although nothing is connected, and the socket stays open.\<close>

lemma unprepared_socket_hidden:
  assumes "\<not> socket_prepared S" and "sy_addr S host (take 15 (show_int port))"
  shows "netio_connect S T host port ctx = (0, ctx\<lparr>sockfd := sy_socket S\<rparr>, [])"
  using assms by (auto simp: netio_connect_def socket_prepared_def Let_def)

end
