(* ===== verification/Ext_Setup.thy ===== *)
theory Ext_Setup
  imports Conn_Shm Datatype_Map
begin

text \<open>
  Loading the extension (\<^verbatim>\<open>_PG_init\<close>, \<^verbatim>\<open>synchdb_start_leader_worker\<close> of \<^verbatim>\<open>src/backend/synchdb/synchdb.c\<close>): the settings it
  declares, the default type mappings, the metadata directory, the launcher and the hook on utility statements; and that hook
  (\<^verbatim>\<open>synchdb_ProcessUtility\<close>), which refuses to drop the extension while connectors run. The numbers of the values of the
  enumerations are those of \<^verbatim>\<open>synchdb.h\<close>.
\<close>

section \<open>Settings\<close>

text \<open>A number with its default and bounds, a truth value or text with its default, a choice with its default and options.\<close>

datatype guc_kind = Guc_int int int int | Guc_bool bool | Guc_string string | Guc_enum int "(string \<times> int) list"

type_synonym guc = "string \<times> guc_kind"

definition error_strategies :: "(string \<times> int) list" where
  "error_strategies = [(''exit'', 1), (''skip'', 2), (''retry'', 3)]"

definition dbz_log_levels :: "(string \<times> int) list" where
  "dbz_log_levels = [(''debug'', 2), (''info'', 3), (''warn'', 4), (''error'', 5), (''all'', 1), (''fatal'', 6), (''off'', 7), (''trace'', 8)]"

definition ora_logminer_stream_mode :: "(string \<times> int) list" where
  "ora_logminer_stream_mode = [(''uncommitted'', 1), (''committed'', 2)]"

definition snapshot_engines :: "(string \<times> int) list" where
  "snapshot_engines = [(''debezium'', 0), (''fdw'', 1)]"

definition letter_casing_strategies :: "(string \<times> int) list" where
  "letter_casing_strategies = [(''asis'', 0), (''lowercase'', 1), (''uppercase'', 2)]"

definition first_settings :: "guc list" where
  "first_settings =
     [(''synchdb.naptime'', Guc_int 10 1 30000),
      (''synchdb.dml_use_spi'', Guc_bool False),
      (''synchdb.dbz_batch_size'', Guc_int 2048 1 65535),
      (''synchdb.dbz_queue_size'', Guc_int 8192 64 65535),
      (''synchdb.dbz_connect_timeout_ms'', Guc_int 30000 1000 3600000),
      (''synchdb.dbz_query_timeout_ms'', Guc_int 600000 1000 3600000),
      (''synchdb.dbz_skipped_oeprations'', Guc_string ''t''),
      (''synchdb.jvm_max_heap_size'', Guc_int 1024 0 65536),
      (''synchdb.dbz_snapshot_thread_num'', Guc_int 2 1 16),
      (''synchdb.dbz_snapshot_fetch_size'', Guc_int 0 0 65535),
      (''synchdb.dbz_snapshot_min_row_to_stream_results'', Guc_int 0 0 65535),
      (''synchdb.dbz_incremental_snapshot_chunk_size'', Guc_int 2048 1 65535),
      (''synchdb.dbz_incremental_snapshot_watermarking_strategy'', Guc_string ''insert_insert''),
      (''synchdb.dbz_offset_flush_interval_ms'', Guc_int 60000 1000 3600000)]"

definition further_settings :: "guc list" where
  "further_settings =
     [(''synchdb.dbz_capture_only_selected_table_ddl'', Guc_bool True),
      (''synchdb.max_connector_workers'', Guc_int 30 1 65535),
      (''synchdb.error_handling_strategy'', Guc_enum 1 error_strategies),
      (''synchdb.dbz_log_level'', Guc_enum 4 dbz_log_levels),
      (''synchdb.log_change_on_error'', Guc_bool True),
      (''synchdb.olr_read_buffer_size'', Guc_int 128 8 512),
      (''synchdb.jvm_max_direct_buffer_size'', Guc_int 1024 0 65536),
      (''synchdb.dbz_logminer_stream_mode'', Guc_enum 1 ora_logminer_stream_mode),
      (''synchdb.olr_connect_timeout_ms'', Guc_int 5000 3000 3600000),
      (''synchdb.olr_read_timeout_ms'', Guc_int 5000 3000 3600000),
      (''synchdb.snapshot_engine'', Guc_enum 0 snapshot_engines),
      (''synchdb.cdc_start_delay_ms'', Guc_int 0 0 65536),
      (''synchdb.fdw_migrate_with_subtx'', Guc_bool True),
      (''synchdb.letter_casing_strategy'', Guc_enum 1 letter_casing_strategies)]"

definition sighup_settings :: "guc list" where
  "sighup_settings = first_settings @ further_settings"

text \<open>The setting that can only be made when the server starts.\<close>

definition postmaster_settings :: "guc list" where
  "postmaster_settings = [(''synchdb.synchdb_auto_launcher'', Guc_bool True)]"

section \<open>Loading the extension\<close>

record background_worker =
  bgw_library_name :: string
  bgw_function_name :: string
  bgw_name :: string
  bgw_type :: string
  bgw_restart :: bool

datatype mkdir_result = Mkdir_ok | Mkdir_exists | Mkdir_failed string

text \<open>
  What loading changes: the declared settings, the converter's tables, the directory, the registered workers, the hook
  and the hook that was there before. \<open>'h\<close> is the type of hooks.
\<close>

record 'h module_state =
  md_settings :: "guc list"
  md_conv :: conv_state
  md_synced :: bool
  md_workers :: "background_worker list"
  md_hook :: "'h option"
  md_prev :: "'h option"

definition synchdb_start_leader_worker :: "'h module_state \<Rightarrow> 'h module_state" where
  "synchdb_start_leader_worker m = m\<lparr>md_workers := md_workers m @
     [\<lparr>bgw_library_name = ''synchdb'', bgw_function_name = ''synchdb_auto_launcher_main'', bgw_name = ''synchdb auto launcher'',
       bgw_type = ''synchdb auto launcher'', bgw_restart = False\<rparr>]\<rparr>"

text \<open>
  \<open>preload\<close>: the library is being loaded by the server at its start; \<open>auto_launcher\<close>: the value of
  \<^verbatim>\<open>synchdb_auto_launcher\<close> after its declaration; \<open>made\<close>: how \<^verbatim>\<open>MakePGDirectory\<close> ends; \<open>hook\<close>: \<^verbatim>\<open>synchdb_ProcessUtility\<close>.
\<close>

definition PG_init :: "bool \<Rightarrow> bool \<Rightarrow> mkdir_result \<Rightarrow> 'h \<Rightarrow> 'h module_state \<Rightarrow> 'h module_state res" where
  "PG_init preload auto_launcher made hook m0 =
     rbind (rfold fc_initFormatConverter [TYPE_MYSQL, TYPE_SQLSERVER, TYPE_ORACLE, TYPE_POSTGRES] (md_conv m0)) (\<lambda>cs.
       let m1 = m0\<lparr>md_settings := md_settings m0 @ sighup_settings @ (if preload then postmaster_settings else []), md_conv := cs\<rparr>;
           m2 = (if made = Mkdir_ok then m1\<lparr>md_synced := True\<rparr> else m1);
           m3 = (if auto_launcher \<and> preload then synchdb_start_leader_worker m2 else m2)
       in case made of
            Mkdir_failed msg \<Rightarrow> Inl (PgError None (''could not create directory \"pg_synchdb\": '' @ msg))
          | _ \<Rightarrow> Inr (m3\<lparr>md_prev := md_hook m3, md_hook := Some hook\<rparr>))"

text \<open>
  Every declared setting is acceptable to the server: its name has the reserved prefix and is declared once, the default of
  a number is within its bounds, and the default of a choice is one of its options. Every number fits a C \<^verbatim>\<open>int\<close>, and so
  does the read buffer in bytes.
\<close>

definition acceptable :: "guc_kind \<Rightarrow> bool" where
  "acceptable k = (case k of
       Guc_int boot lo hi \<Rightarrow> lo \<le> boot \<and> boot \<le> hi \<and> 0 \<le> lo \<and> hi < 2 ^ 31
     | Guc_enum boot options \<Rightarrow> boot \<in> snd ` set options \<and> distinct (map fst options) \<and> distinct (map snd options)
     | _ \<Rightarrow> True)"

lemma settings_acceptable:
  "distinct (map fst (sighup_settings @ postmaster_settings))"
  "list_all (\<lambda>(n, k). take 8 n = ''synchdb.'' \<and> acceptable k) (sighup_settings @ postmaster_settings)"
  by code_simp+

lemma read_buffer_fits:
  assumes "map_of sighup_settings ''synchdb.olr_read_buffer_size'' = Some (Guc_int boot lo hi)" and "mb \<le> hi"
  shows "mb * 1024 * 1024 < 2 ^ 31"
  using assms by (simp add: sighup_settings_def first_settings_def further_settings_def)

section \<open>The hook on utility statements\<close>

datatype object_type = OBJECT_EXTENSION | OBJECT_OTHER

text \<open>An object of a drop statement is a name or a list of names; \<open>'u\<close> are the other statements.\<close>

datatype drop_object = Name_string string | Name_list "string list" | Name_other

datatype 'u utility_stmt = DropStmt object_type "drop_object list" | OtherStmt 'u

definition dropped_name :: "drop_object \<Rightarrow> string option" where
  "dropped_name obj = (case obj of Name_string s \<Rightarrow> Some s | Name_list ns \<Rightarrow> (if length ns = 1 then Some (hd ns) else None) | Name_other \<Rightarrow> None)"

definition check_dropped :: "pg_lib \<Rightarrow> nat \<Rightarrow> string \<Rightarrow> drop_object \<Rightarrow> shm \<Rightarrow> shm res" where
  "check_dropped L workers dbname obj s =
     (if dropped_name obj = Some ''synchdb''
      then let s1 = (if s = None then synchdb_init_shmem workers s else s)
           in case has_running_connectors_for_db L s1 dbname of
                None \<Rightarrow> Inr s1
              | Some running_name \<Rightarrow>
                  (if running_name \<noteq> []
                   then Inl (PgError None (''cannot drop extension \"synchdb\" because connectors are still running in database \"''
                          @ dbname @ ''\"''))
                   else Inl (PgError None ''cannot drop extension \"synchdb\" while connectors are running''))
      else Inr s)"

text \<open>\<open>prev\<close> is the hook found at load time and \<open>standard\<close> is \<^verbatim>\<open>standard_ProcessUtility\<close>; \<open>'s\<close> is the rest of the state.\<close>

definition synchdb_ProcessUtility ::
  "pg_lib \<Rightarrow> nat \<Rightarrow> string \<Rightarrow> ('u utility_stmt \<Rightarrow> shm \<times> 's \<Rightarrow> (shm \<times> 's) res) option \<Rightarrow> ('u utility_stmt \<Rightarrow> shm \<times> 's \<Rightarrow> (shm \<times> 's) res)
   \<Rightarrow> 'u utility_stmt \<Rightarrow> shm \<times> 's \<Rightarrow> (shm \<times> 's) res" where
  "synchdb_ProcessUtility L workers dbname prev standard stmt st =
     rbind (case stmt of
              DropStmt OBJECT_EXTENSION objects \<Rightarrow> rfold (check_dropped L workers dbname) objects (fst st)
            | _ \<Rightarrow> Inr (fst st)) (\<lambda>s.
       case prev of Some hook \<Rightarrow> hook stmt (s, snd st) | None \<Rightarrow> standard stmt (s, snd st))"

text \<open>A connector that runs in a database, and the shared memory as the hook sees it.\<close>

definition runs_in :: "pg_lib \<Rightarrow> string \<Rightarrow> ActiveConnectors \<Rightarrow> bool" where
  "runs_in L dbname c \<longleftrightarrow> ac_pid c \<noteq> InvalidPid \<and> ac_state c \<notin> {STATE_UNDEF, STATE_STOPPED} \<and> ci_dstdb (ac_conninfo c) \<noteq> []
     \<and> map (pg_tolower L) (ci_dstdb (ac_conninfo c)) = map (pg_tolower L) dbname"

definition drops_synchdb :: "'u utility_stmt \<Rightarrow> bool" where
  "drops_synchdb stmt = (case stmt of
       DropStmt OBJECT_EXTENSION objects \<Rightarrow> Name_string ''synchdb'' \<in> set objects \<or> Name_list [''synchdb''] \<in> set objects
     | _ \<Rightarrow> False)"

lemma dropped_name_synchdb: "dropped_name obj = Some ''synchdb'' \<longleftrightarrow> obj \<in> {Name_string ''synchdb'', Name_list [''synchdb'']}"
  by (auto simp: dropped_name_def length_Suc_conv split: drop_object.split)

lemma some_dropped:
  "Some ''synchdb'' \<in> dropped_name ` set objects \<longleftrightarrow> Name_string ''synchdb'' \<in> set objects \<or> Name_list [''synchdb''] \<in> set objects"
proof -
  have "y \<in> dropped_name ` set objects \<longleftrightarrow> (\<exists>obj \<in> set objects. dropped_name obj = y)" for y
    by auto
  then show ?thesis by (simp only: dropped_name_synchdb) blast
qed

lemma has_running_iff:
  "has_running_connectors_for_db L (Some cs) dbname = None \<longleftrightarrow> (\<forall>c \<in> set cs. \<not> runs_in L dbname c)"
  by (auto simp: has_running_connectors_for_db_def first_slot_None runs_in_def all_set_conv_all_nth)

lemma check_dropped_refuses:
  assumes "s = Some cs" and "\<exists>c \<in> set cs. runs_in L dbname c" and "dropped_name obj = Some ''synchdb''"
  shows "\<exists>msg. check_dropped L workers dbname obj s = Inl (PgError None msg)"
proof -
  obtain n where "has_running_connectors_for_db L (Some cs) dbname = Some n"
    using assms(2) has_running_iff [of L cs dbname] by (cases "has_running_connectors_for_db L (Some cs) dbname") auto
  then show ?thesis using assms(1,3) by (simp add: check_dropped_def)
qed

lemma check_dropped_passes:
  assumes "s = Some cs" and "dropped_name obj = Some ''synchdb'' \<longrightarrow> \<not> (\<exists>c \<in> set cs. runs_in L dbname c)"
  shows "check_dropped L workers dbname obj s = Inr s"
  using assms has_running_iff [of L cs dbname] by (auto simp: check_dropped_def)

lemma check_all:
  assumes "s = Some cs" and "\<exists>c \<in> set cs. runs_in L dbname c"
  shows "(Some ''synchdb'' \<in> dropped_name ` set objects \<longrightarrow> (\<exists>msg. rfold (check_dropped L workers dbname) objects s = Inl (PgError None msg)))
    \<and> (Some ''synchdb'' \<notin> dropped_name ` set objects \<longrightarrow> rfold (check_dropped L workers dbname) objects s = Inr s)"
proof (induction objects)
  case (Cons obj objects)
  then show ?case
    using check_dropped_refuses [OF assms, of obj workers] check_dropped_passes [OF assms(1), of obj L dbname workers]
    by (cases "dropped_name obj = Some ''synchdb''") auto
qed simp

lemma check_none:
  assumes "s = Some cs" and "\<not> (\<exists>c \<in> set cs. runs_in L dbname c)"
  shows "rfold (check_dropped L workers dbname) objects s = Inr s"
  using check_dropped_passes [OF assms(1)] assms(2) by (induction objects) simp_all

text \<open>
  C37: no connector is orphaned by dropping the extension. A statement that drops the extension \<^verbatim>\<open>synchdb\<close>, alone or
  among others, is refused with an error exactly when a connector runs in the current database, in any slot, and then
  neither the hook that was installed before nor the standard processing sees the statement. Every other statement, and the
  drop when no connector runs here, is handed on unchanged, to the earlier hook if there is one.
\<close>

theorem drop_extension_guarded:
  assumes "sh = Some cs"
  shows "if drops_synchdb stmt \<and> (\<exists>c \<in> set cs. runs_in L dbname c)
     then \<exists>msg. synchdb_ProcessUtility L workers dbname prev standard stmt (sh, s) = Inl (PgError None msg)
     else synchdb_ProcessUtility L workers dbname prev standard stmt (sh, s) = (case prev of Some hook \<Rightarrow> hook | None \<Rightarrow> standard) stmt (sh, s)"
proof (cases "\<exists>objects. stmt = DropStmt OBJECT_EXTENSION objects")
  case True
  then obtain objects where stmt: "stmt = DropStmt OBJECT_EXTENSION objects" by blast
  show ?thesis
  proof (cases "\<exists>c \<in> set cs. runs_in L dbname c")
    case True
    then show ?thesis using check_all [OF assms True, of objects workers] some_dropped [of objects]
      by (auto simp: stmt synchdb_ProcessUtility_def drops_synchdb_def split: option.split)
  next
    case False
    then show ?thesis using check_none [OF assms False, of workers objects]
      by (auto simp: stmt synchdb_ProcessUtility_def split: option.split)
  qed
next
  case False
  then show ?thesis
    by (auto simp: synchdb_ProcessUtility_def drops_synchdb_def split: option.split utility_stmt.split object_type.split)
qed

definition running_slot :: ActiveConnectors where
  "running_slot = free_slot\<lparr>ac_pid := 100, ac_state := STATE_SYNCING, ac_conninfo := zero_conninfo\<lparr>ci_name := ''c1'', ci_dstdb := ''db''\<rparr>\<rparr>"

theorem drop_extension_guarded_witness:
  "(\<exists>msg. synchdb_ProcessUtility ascii_lib 2 ''db'' None (\<lambda>(_ :: unit utility_stmt) st. Inr st)
       (DropStmt OBJECT_EXTENSION [Name_list [''hstore''], Name_list [''synchdb'']]) (Some [free_slot, running_slot], ()) = Inl (PgError None msg))"
  using drop_extension_guarded [of "Some [free_slot, running_slot]" "[free_slot, running_slot]"
      "DropStmt OBJECT_EXTENSION [Name_list [''hstore''], Name_list [''synchdb'']]" ascii_lib "''db''" 2 None "\<lambda>(_ :: unit utility_stmt) st. Inr st" "()"]
  by (simp add: drops_synchdb_def dropped_name_def runs_in_def running_slot_def free_slot_def zero_conninfo_def InvalidPid_def)

end
