(* ===== verification/Spec2Isabelle.thy ===== *)
theory Spec2Isabelle
  imports SDB_Prelude OLR_Stream Conn_Launch Dbz_Runner Net_IO Ext_Setup
begin

text \<open>
  SynchDB replicates tables of MySQL, SQL Server, Oracle and PostgreSQL into PostgreSQL. It is a PostgreSQL extension in C with four
  layers, all under \<^verbatim>\<open>src/src/backend\<close>: SQL functions and background workers that share an array of connectors
  (\<^verbatim>\<open>synchdb/synchdb.c\<close>); two sources of change events, Debezium in a Java virtual machine and the Openlog Replicator over a
  socket (\<^verbatim>\<open>synchdb.c\<close>, \<^verbatim>\<open>olr/olr_client.c\<close>, \<^verbatim>\<open>utils/netio_utils.c\<close>); parsers of the two event formats and a
  converter to PostgreSQL (\<^verbatim>\<open>converter/debezium_event_handler.c\<close>, \<^verbatim>\<open>converter/olr_event_handler.c\<close>,
  \<^verbatim>\<open>converter/format_converter.c\<close>); and the executor (\<^verbatim>\<open>executor/replication_agent.c\<close>). A worker polls its source, hands each
  event to its format's handler, which parses, converts and executes it, and reports its state in its slot of the array; SQL
  functions write requests into the slot, which the worker serves between polls.

  \<^bold>\<open>Theories.\<close>
  \<^item> \<open>SDB_Prelude\<close>: results of fallible code (\<open>'a res\<close>, an error or a value), monadic folds, the C library on strings, and the record
    \<open>pg_lib\<close> of PostgreSQL functions that the code calls (jsonb, numeric, encodings), which is an argument everywhere; the locales
    \<open>codec\<close>, \<open>rule_table\<close> and \<open>invariant_system\<close>.
  \<^item> \<open>SDB_Types\<close>: the enums and structs of the headers. \<open>Wire_Format\<close>: 32-bit lengths in both byte orders.
  \<^item> \<open>Byte_Conv\<close>, \<open>Time_Conv\<close>, \<open>Name_Conv\<close>, \<open>Datatype_Map\<close>, \<open>Value_Conv\<close>, \<open>DML_Conv\<close>, \<open>DDL_Conv\<close>: \<^verbatim>\<open>format_converter.c\<close> in the order
    in which a value passes through it: base64 payloads, dates and times, identifiers and mapping rules, type tables, column values,
    \<^verbatim>\<open>convert2PGDML\<close>, \<^verbatim>\<open>convert2PGDDL\<close>.
  \<^item> \<open>Stats\<close>, \<open>Dbz_Batch\<close>, \<open>OLR_Client\<close>: counters of a batch, the byte buffer of the Java runner (\<^verbatim>\<open>dbz_engine_get_change\<close>), the
    socket reader, the event framing and the metadata files of the Openlog client.
  \<^item> \<open>Event_Parse\<close>, \<open>Executor\<close>, \<open>Event_Flow\<close>: \<^verbatim>\<open>parseDBZDDL\<close> and \<^verbatim>\<open>parseDBZDML\<close> with the data cache, the insert, update and delete
    handlers, and \<^verbatim>\<open>fc_processDBZChangeEvent\<close>, which composes parsing, conversion and execution.
  \<^item> \<open>OLR_Parse\<close>, \<open>OLR_Flow\<close>, \<open>OLR_Stream\<close>: the same for \<^verbatim>\<open>olr_event_handler.c\<close>, with the position in the redo log, and the stream of
    events over any number of reads.
  \<^item> \<open>Conn_Shm\<close>, \<open>Conn_Worker\<close>, \<open>Conn_System\<close>, \<open>Conn_Invariant\<close>: the shared memory and the SQL functions; the worker's requests, main
    loop, start and end; what a worker may change; and all processes together.
  \<^item> \<open>Conn_Info\<close>, \<open>Conn_Rules\<close>, \<open>Conn_Launch\<close>: the SQL functions that keep connectors, settings and rules in the extension's tables, with the
    statements they run character by character, \<^verbatim>\<open>ra_getConninfoByName\<close> and \<^verbatim>\<open>ra_listObjmaps\<close>, which read them back, the launchers, the dump of
    the schema history and \<^verbatim>\<open>synchdb_translate_datatype\<close>. What a statement means to PostgreSQL is given by a reader of its text and
    a table of rows; a server that follows it is the hypothesis \<open>conn_server\<close> or \<open>rule_server\<close>, with a concrete one in the witnesses.
  \<^item> \<open>Dbz_Runner\<close>, \<open>Net_IO\<close>, \<open>Ext_Setup\<close>: the edges of the program. The JNI operations that carry the worker's calls (\<open>engine_call\<close>) to the Java
    runner, with the class \<^verbatim>\<open>MyParameters\<close>, pending exceptions and local references; the socket calls behind the Openlog client; and
    \<^verbatim>\<open>_PG_init\<close> with its settings and the hook that guards \<^verbatim>\<open>DROP EXTENSION\<close>. Java virtual machine and system calls are arguments.

  \<^bold>\<open>State.\<close> The shared memory is \<open>shm\<close>, \<open>None\<close> before its creation and then the list of slots (\<^verbatim>\<open>ActiveConnectors\<close>). What an event may change is the
  record \<open>flow\<close>: the shared memory, the snapshot phase, the data cache, the Openlog client and the database, whose type is
  a parameter. A worker adds its connection information, rules, socket, files and the calls it made to the Java side. Functions return the new
  state; an error that leaves a function is \<open>Inl\<close> with the message it stored, and \<open>Undefined\<close> marks C undefined behaviour (null
  pointers, buffer overruns, uninitialised reads), so that a theorem about a returned result excludes it. Sizes, counters and flags are
  words of their width; lengths from the wire are 32-bit signed.

  \<^bold>\<open>Interfaces.\<close> \<open>codec\<close> (a decoder inverts an encoder) is interpreted for bytea literals, quoted text, connector types and both length
  formats; \<open>rule_table\<close> for the object and the transform rules; \<open>slot_store\<close> for the array of connectors; \<open>row_parser\<close> (the cache
  stays well formed and positions stay inside the table) for both DML parsers; \<open>event_handler\<close> (the effect of an event does not depend on
  its place in a read) for the Openlog handler; \<open>invariant_system\<close> for the interleavings of all processes.

  \<^bold>\<open>What is shown.\<close>
  \<^item> Events: whatever an event contains, its values stay inside the table's tuple, the data cache stays well formed, only the
    connector's progress changes in the shared memory and the worker is polling again; how each event ends, what is counted, and when a
    snapshot ends. For Openlog the position follows the applied events, and a stream has the same effect however the network cuts it.
  \<^item> Conversion: row images have the members of the JSON objects; SQL text names exactly the columns and keys given; ALTER adds exactly
    the missing and drops exactly the vanished columns; decimals, dates, timestamps, escaped and binary literals denote the
    source's values; DDL and snapshot choose the same types, which hold the source's ranges.
  \<^item> Connectors: a worker keeps to its slot; requests follow a state machine that touches no data; a pause takes effect in one iteration
    and holds; a started connector is found again; names are unique in all interleavings of the SQL functions and workers; a worker
    that ends frees its slot; the position survives a restart.
  \<^item> Tables: what is added for a connector is what a start reads; deleting settings undoes adding them; starts, stops and deletions keep
    the table in step, and the launcher starts the active connectors again; the dump of the schema history ends with every line written.
  \<^item> Edges: the runner receives exactly the calls of the worker with every setting in its place; the reachability that the Openlog client
    assumes is what the network code reports, when the socket can be prepared; the extension cannot be dropped under a running connector.
  \<^item> Defects: where the code does not do this, the theorem states what it does instead (for instance two starts at the same time,
    an initial-only connector, mapping rules with capital letters, a start without a virtual machine).

  \<^bold>\<open>Termination and fuel.\<close> Loops are structural recursion, or \<open>function\<close> with a measure on the unread part of a buffer
  (\<open>olr_events\<close>, \<open>dbz_events\<close>), or \<open>partial_function\<close> with a proof that it returns (\<open>dump_loop\<close>); the code's loops have no fuel. The main loop runs over the list of its iterations, each with what the other processes did
  before it. Stream lengths are bounded by 256 MB per event and 512 MB per read, the largest setting, so that the 32-bit
  offsets of the source do not overflow.

  \<^bold>\<open>Not modelled.\<close> The Debezium engine inside the Java runner and the generated protobuf code (their results are arguments); the Oracle grammar, generated
  code that is loaded at run time (its parse tree is an argument); PostgreSQL itself (jsonb, catalogs, table access and SPI are
  arguments); the PL/pgSQL snapshot scripts; logging, memory contexts and sleeping, which have no effect on the modelled state;
  the tuple descriptors of the two views.
\<close>

end
